(* ===== verification/Prelude.thy ===== *)
theory Prelude
  imports Complex_Main "HOL-Library.Word"
begin

text \<open>
  Shared vocabulary of the development: JavaScript values and the string functions the
  sources use, errors as values, table queries over lists of rows (what the sources ask of
  the Prisma client: \<open>findFirst\<close>, \<open>findMany\<close>, \<open>count\<close>, \<open>updateMany\<close>, \<open>create\<close>), and
  the lemma collections the component theories share.

  Conventions used everywhere:
  \<^item> a string is a \<open>char list\<close>; a character stands for one UTF-16 code unit of the Latin-1
    range, so \<open>length\<close> and \<open>take\<close> count what JavaScript's \<open>length\<close> and \<open>slice\<close> count there;
  \<^item> a \<open>Date\<close> is its \<open>getTime()\<close> value, an \<open>int\<close> number of milliseconds;
  \<^item> \<open>null\<close> and \<open>undefined\<close> fields are \<open>None\<close>;
  \<^item> a function that may throw returns \<open>js_error + 'a\<close>, \<open>Inl\<close> for the exception; a
    handler that also writes the database returns that result together with the new state.
\<close>

section \<open>Lemma collections\<close>

named_theorems table_simps \<open>reading a table after a write\<close>
named_theorems handler_defs \<open>handlers of the services, unfolded together\<close>

section \<open>Identifiers, times and errors\<close>

type_synonym id = string
type_synonym time = int  \<comment> \<open>milliseconds, \<open>Date.prototype.getTime\<close>\<close>

datatype error_code =
    bad_request | validation_failed | unauthorized | forbidden | payment_required
  | not_found | conflict | rate_limited | internal_error | service_unavailable

text \<open>
  The exceptions the sources raise or catch: a plain \<open>Error\<close> with its message, a Node system
  error with its \<open>code\<close>, the \<open>SsrfError\<close> of the network guard (message, code) and the
  \<open>AppError\<close> of the API (code, message).
\<close>

datatype js_error =
    Err string
  | NodeErr string string
  | SsrfErr string string
  | AppErr error_code string

fun err_message :: "js_error \<Rightarrow> string" where
  "err_message (Err m) = m"
| "err_message (NodeErr _ m) = m"
| "err_message (SsrfErr m _) = m"
| "err_message (AppErr _ m) = m"

section \<open>Numbers\<close>

text \<open>A JavaScript number: a double is a rational, an infinity or \<open>NaN\<close>.\<close>

datatype numv = NaN | NegInf | Fin rat | PosInf

fun num_less :: "numv \<Rightarrow> numv \<Rightarrow> bool" where
  "num_less NaN _ = False"
| "num_less _ NaN = False"
| "num_less (Fin a) (Fin b) = (a < b)"
| "num_less NegInf NegInf = False"
| "num_less NegInf _ = True"
| "num_less PosInf _ = False"
| "num_less (Fin _) NegInf = False"
| "num_less (Fin _) PosInf = True"

text \<open>\<open>Math.round (a / b)\<close> for integers, \<open>b > 0\<close>: halves go up.\<close>

definition round_div :: "int \<Rightarrow> int \<Rightarrow> int" where
  "round_div a b = (2 * a + b) div (2 * b)"

lemma round_div_nonneg: "0 \<le> a \<Longrightarrow> 0 < b \<Longrightarrow> 0 \<le> round_div a b"
  by (simp add: round_div_def pos_imp_zdiv_nonneg_iff)

section \<open>Decimal rendering\<close>

definition digit_char :: "nat \<Rightarrow> char" where
  "digit_char n = ''0123456789'' ! n"

fun show_nat :: "nat \<Rightarrow> string" where
  "show_nat n = (if n < 10 then [digit_char n] else show_nat (n div 10) @ [digit_char (n mod 10)])"

declare show_nat.simps [simp del]

definition show_int :: "int \<Rightarrow> string" where
  "show_int i = (if i < 0 then ''-'' @ show_nat (nat (- i)) else show_nat (nat i))"

section \<open>String functions of the language\<close>

definition starts_with :: "string \<Rightarrow> string \<Rightarrow> bool" where
  "starts_with s p = (take (length p) s = p)"

definition ends_with :: "string \<Rightarrow> string \<Rightarrow> bool" where
  "ends_with s p = (length p \<le> length s \<and> drop (length s - length p) s = p)"

fun str_includes :: "string \<Rightarrow> string \<Rightarrow> bool" where
  "str_includes [] p = (p = [])"
| "str_includes (c # s) p = (starts_with (c # s) p \<or> str_includes s p)"

text \<open>\<open>s.split(c)\<close> for a one-character separator: never empty.\<close>

fun split_on :: "char \<Rightarrow> string \<Rightarrow> string list" where
  "split_on c [] = [[]]"
| "split_on c (x # s) =
     (if x = c then [] # split_on c s
      else (case split_on c s of p # ps \<Rightarrow> (x # p) # ps | [] \<Rightarrow> [[x]]))"

fun join :: "string \<Rightarrow> string list \<Rightarrow> string" where
  "join sep [] = []"
| "join sep [x] = x"
| "join sep (x # y # xs) = x @ sep @ join sep (y # xs)"

definition lower_char :: "char \<Rightarrow> char" where
  "lower_char c =
     (let n = of_char c :: nat
      in if (65 \<le> n \<and> n \<le> 90) \<or> (192 \<le> n \<and> n \<le> 222 \<and> n \<noteq> 215) then char_of (n + 32) else c)"

definition upper_char :: "char \<Rightarrow> char" where
  "upper_char c = (let n = of_char c :: nat in if 97 \<le> n \<and> n \<le> 122 then char_of (n - 32) else c)"

definition to_lower :: "string \<Rightarrow> string" where
  "to_lower s = map lower_char s"

text \<open>White space of \<open>String.prototype.trim\<close> in the Latin-1 range.\<close>

definition is_space :: "char \<Rightarrow> bool" where
  "is_space c = (let n = of_char c :: nat in (9 \<le> n \<and> n \<le> 13) \<or> n = 32 \<or> n = 160)"

definition trim :: "string \<Rightarrow> string" where
  "trim s = rev (dropWhile is_space (rev (dropWhile is_space s)))"

definition is_digit :: "char \<Rightarrow> bool" where
  "is_digit c = (let n = of_char c :: nat in 48 \<le> n \<and> n \<le> 57)"

definition is_lower_alpha :: "char \<Rightarrow> bool" where
  "is_lower_alpha c = (let n = of_char c :: nat in 97 \<le> n \<and> n \<le> 122)"

definition is_hex :: "char \<Rightarrow> bool" where
  "is_hex c = (let n = of_char c :: nat
     in (48 \<le> n \<and> n \<le> 57) \<or> (65 \<le> n \<and> n \<le> 70) \<or> (97 \<le> n \<and> n \<le> 102))"

definition digit_val :: "char \<Rightarrow> nat" where
  "digit_val c = of_char c - 48"

definition hex_val :: "char \<Rightarrow> nat" where
  "hex_val c = (let n = of_char c :: nat in
     if n \<le> 57 then n - 48 else if n \<le> 70 then n - 55 else n - 87)"

definition nat_of_digits :: "nat \<Rightarrow> (char \<Rightarrow> nat) \<Rightarrow> string \<Rightarrow> nat" where
  "nat_of_digits b v s = foldl (\<lambda>n c. b * n + v c) 0 s"

subsection \<open>Laws of split, join and str_includes\<close>

lemma split_on_nonempty [simp]: "split_on c s \<noteq> []"
  by (cases s) (auto split: list.splits)

lemma split_on_no_sep: "c \<notin> set s \<Longrightarrow> split_on c s = [s]"
  by (induction s) auto

lemma split_on_parts_no_sep: "p \<in> set (split_on c s) \<Longrightarrow> c \<notin> set p"
  by (induction s arbitrary: p) (auto split: list.splits if_splits)

lemma join_split_on: "join [c] (split_on c s) = s"
proof (induction s)
  case Nil
  then show ?case by simp
next
  case (Cons x s)
  then show ?case
    by (cases "split_on c s" rule: list.exhaust; cases "tl (split_on c s)") (auto split: list.splits)
qed

lemma starts_with_append [simp]: "starts_with (p @ s) p"
  by (simp add: starts_with_def)

lemma starts_with_Nil [simp]: "starts_with s []"
  by (simp add: starts_with_def)

lemma starts_with_length: "starts_with s p \<Longrightarrow> length p \<le> length s"
  by (metis length_take min.cobounded1 min.commute starts_with_def)

lemma starts_with_obtain: "starts_with s p \<Longrightarrow> \<exists>t. s = p @ t"
  unfolding starts_with_def by (metis append_take_drop_id)

lemma str_includes_Nil [simp]: "str_includes s []"
  by (induction s) auto

lemma str_includes_append: "str_includes s p \<Longrightarrow> str_includes (t @ s) p"
  by (induction t) auto

lemma str_includes_iff: "str_includes s p \<longleftrightarrow> (\<exists>a b. s = a @ p @ b)"
proof (induction s)
  case Nil
  then show ?case by simp
next
  case (Cons c s)
  have "starts_with (c # s) p \<longleftrightarrow> (\<exists>b. c # s = p @ b)"
    using starts_with_obtain by auto
  with Cons show ?case by (auto simp: Cons_eq_append_conv)
qed

lemma str_includes_single: "str_includes s [c] \<longleftrightarrow> c \<in> set s"
  by (auto simp: str_includes_iff dest: split_list)

section \<open>Table queries\<close>

text \<open>
  The part of the Prisma client the sources use, over the rows of one table in insertion
  order. \<open>findFirst\<close> without \<open>orderBy\<close> takes the first matching row (the sources only use it
  where the condition identifies one row or existence alone matters); with
  \<open>orderBy: { k: "desc" }\<close> it takes a row with the greatest key.
\<close>

definition find_first :: "('r \<Rightarrow> bool) \<Rightarrow> 'r list \<Rightarrow> 'r option" where
  "find_first P t = List.find P t"

definition find_first_desc :: "('r \<Rightarrow> int) \<Rightarrow> ('r \<Rightarrow> bool) \<Rightarrow> 'r list \<Rightarrow> 'r option" where
  "find_first_desc k P t = List.find P (sort_key (\<lambda>r. - k r) t)"

definition find_first_asc :: "('r \<Rightarrow> int) \<Rightarrow> ('r \<Rightarrow> bool) \<Rightarrow> 'r list \<Rightarrow> 'r option" where
  "find_first_asc k P t = List.find P (sort_key k t)"

definition find_many :: "('r \<Rightarrow> bool) \<Rightarrow> 'r list \<Rightarrow> 'r list" where
  "find_many P t = filter P t"

definition count_rows :: "('r \<Rightarrow> bool) \<Rightarrow> 'r list \<Rightarrow> int" where
  "count_rows P t = int (length (filter P t))"

definition update_rows :: "('r \<Rightarrow> bool) \<Rightarrow> ('r \<Rightarrow> 'r) \<Rightarrow> 'r list \<Rightarrow> 'r list" where
  "update_rows P f t = map (\<lambda>r. if P r then f r else r) t"

definition insert_row :: "'r \<Rightarrow> 'r list \<Rightarrow> 'r list" where
  "insert_row r t = t @ [r]"

definition delete_rows :: "('r \<Rightarrow> bool) \<Rightarrow> 'r list \<Rightarrow> 'r list" where
  "delete_rows P t = filter (\<lambda>r. \<not> P r) t"

lemma find_first_Some_iff:
  "find_first P t = Some r \<Longrightarrow> r \<in> set t \<and> P r"
  by (auto simp: find_first_def find_Some_iff)

lemma find_first_None_iff: "find_first P t = None \<longleftrightarrow> (\<forall>r \<in> set t. \<not> P r)"
  by (auto simp: find_first_def find_None_iff)

lemma find_first_unique:
  assumes "x \<in> set t" "P x" "\<And>y. y \<in> set t \<Longrightarrow> P y \<Longrightarrow> y = x"
  shows "find_first P t = Some x"
proof (cases "find_first P t")
  case None
  from None [unfolded find_first_None_iff, rule_format, OF assms(1)] assms(2)
  show ?thesis by (rule notE)
next
  case (Some y)
  note y = find_first_Some_iff [OF Some]
  from assms(3) [OF y [THEN conjunct1] y [THEN conjunct2]] Some show ?thesis by (simp only:)
qed

lemma find_first_desc_Some:
  "find_first_desc k P t = Some r \<Longrightarrow> r \<in> set t \<and> P r"
proof -
  assume "find_first_desc k P t = Some r"
  then obtain i where "i < length t" "r = sort_key (\<lambda>r. - k r) t ! i" "P r"
    by (auto simp: find_first_desc_def find_Some_iff)
  then have "r \<in> set (sort_key (\<lambda>r. - k r) t)" by (metis length_sort nth_mem)
  with \<open>P r\<close> show ?thesis by simp
qed

lemma find_first_desc_None: "find_first_desc k P t = None \<longleftrightarrow> (\<forall>r \<in> set t. \<not> P r)"
  by (auto simp: find_first_desc_def find_None_iff)

lemma find_first_asc_Some:
  "find_first_asc k P t = Some r \<Longrightarrow> r \<in> set t \<and> P r"
  using find_first_desc_Some [of "\<lambda>r. - k r" P t r]
  by (simp add: find_first_desc_def find_first_asc_def)

lemma find_first_asc_None: "find_first_asc k P t = None \<longleftrightarrow> (\<forall>r \<in> set t. \<not> P r)"
  by (auto simp: find_first_asc_def find_None_iff)

lemma count_rows_nonneg [simp]: "0 \<le> count_rows P t"
  by (simp add: count_rows_def)

lemma count_rows_insert [table_simps]:
  "count_rows P (insert_row r t) = count_rows P t + (if P r then 1 else 0)"
  by (simp add: count_rows_def insert_row_def)

lemma set_insert_row [table_simps]: "set (insert_row r t) = insert r (set t)"
  by (simp add: insert_row_def)

lemma length_update_rows [table_simps]: "length (update_rows P f t) = length t"
  by (simp add: update_rows_def)

lemma set_update_rows: "set (update_rows P f t) = (\<lambda>r. if P r then f r else r) ` set t"
  by (simp add: update_rows_def)

lemma update_rows_none: "\<forall>r \<in> set t. \<not> P r \<Longrightarrow> update_rows P f t = t"
  by (simp add: update_rows_def map_idI)

lemma map_update_rows:
  "(\<And>r. r \<in> set t \<Longrightarrow> P r \<Longrightarrow> g (f r) = g r) \<Longrightarrow> map g (update_rows P f t) = map g t"
  by (auto simp: update_rows_def)

lemma filter_update_rows_same:
  "(\<And>r. r \<in> set t \<Longrightarrow> P r \<Longrightarrow> Q (f r) = Q r) \<Longrightarrow>
   length (filter Q (update_rows P f t)) = length (filter Q t)"
  by (induction t) (auto simp: update_rows_def)

lemma find_first_update_rows:
  "(\<And>r. P r \<Longrightarrow> P (f r)) \<Longrightarrow> find_first P (update_rows P f t) = map_option f (find_first P t)"
  by (induction t) (auto simp: find_first_def update_rows_def)

lemma find_first_update_other:
  "(\<And>r. r \<in> set t \<Longrightarrow> Q r \<Longrightarrow> P (f r) = P r) \<Longrightarrow>
   (\<And>r. r \<in> set t \<Longrightarrow> P r \<Longrightarrow> \<not> Q r) \<Longrightarrow>
   find_first P (update_rows Q f t) = find_first P t"
  by (induction t) (auto simp: find_first_def update_rows_def)

lemma find_first_update_keep:
  "(\<And>r. P (f r) = P r) \<Longrightarrow> find_first P (update_rows Q f t) =
     map_option (\<lambda>r. if Q r then f r else r) (find_first P t)"
  by (induction t) (auto simp: find_first_def update_rows_def)

lemma find_first_insert_row:
  "find_first P (insert_row r t) =
     (case find_first P t of Some x \<Rightarrow> Some x | None \<Rightarrow> if P r then Some r else None)"
  by (induction t) (auto simp: find_first_def insert_row_def)

lemma update_rows_twice:
  "(\<And>r. P r \<Longrightarrow> P (f r)) \<Longrightarrow> update_rows P g (update_rows P f t) = update_rows P (g \<circ> f) t"
  by (auto simp: update_rows_def)

section \<open>Maps with insertion order\<close>

text \<open>\<open>Map.prototype.set\<close>: in place, or at the end.\<close>

fun map_set :: "'k \<Rightarrow> 'v \<Rightarrow> ('k \<times> 'v) list \<Rightarrow> ('k \<times> 'v) list" where
  "map_set k v [] = [(k, v)]"
| "map_set k v ((k', v') # xs) = (if k' = k then (k, v) # xs else (k', v') # map_set k v xs)"

lemma map_of_map_set [simp]: "map_of (map_set k v xs) = (map_of xs)(k \<mapsto> v)"
  by (induction xs) (auto simp: fun_upd_def)

lemma map_set_keys: "fst ` set (map_set k v xs) = insert k (fst ` set xs)"
  using map_of_map_set [of k v xs] by (metis dom_fun_upd dom_map_of_conv_image_fst option.distinct(1))

lemma map_set_distinct: "distinct (map fst xs) \<Longrightarrow> distinct (map fst (map_set k v xs))"
proof (induction xs)
  case (Cons x xs)
  obtain a b where x: "x = (a, b)" by (cases x)
  show ?case
    using Cons map_set_keys [of k v xs] unfolding x by (cases "a = k") (simp_all add: set_map del: map_of_map_set)
qed simp

section \<open>JSON values\<close>

datatype json =
    JNull
  | JBool bool
  | JNum numv
  | JStr string
  | JArr "json list"
  | JObj "(string \<times> json) list"

definition jint :: "int \<Rightarrow> json" where
  "jint n = JNum (Fin (of_int n))"

definition jopt :: "string option \<Rightarrow> json" where
  "jopt v = (case v of None \<Rightarrow> JNull | Some s \<Rightarrow> JStr s)"

end
