(* ===== verification/Schema.thy ===== *)
theory Schema
  imports Prelude
begin

text \<open>
  The data model of the monitoring engine: the enumerations and rows of
  \<^verbatim>\<open>packages/db/prisma/schema.prisma\<close> the engine reads and writes, the in-memory types of
  \<^verbatim>\<open>packages/monitoring/src/types.ts\<close>, the jobs on its queues, and the record \<open>db\<close> that
  collects the tables and queues. Row identifiers the database generates come from the
  supply \<open>db_uuid\<close>, an arbitrary function from a counter: a property that needs two
  generated identifiers to differ says that the supply is injective.
\<close>

section \<open>Enumerations\<close>

datatype monitor_type =
  T_HTTP | T_TCP | T_PING | T_DNS | T_KEYWORD | T_SSL | T_PORT | T_HEARTBEAT | T_GRPC | T_DOMAIN

datatype http_method = GET | HEAD | POST | PUT | PATCH | DELETE | OPTIONS

text \<open>The operator-controlled \<open>MonitorState\<close> of the schema (not the state machine's).\<close>

datatype lifecycle = ACTIVE | PAUSED | DISABLED

datatype monitor_health =
  H_UP | H_DOWN | H_DEGRADED | H_PENDING | H_PAUSED | H_MAINTENANCE | H_RECOVERING

datatype probe_region =
  NA_EAST | NA_WEST | EU_WEST | EU_CENTRAL | AP_SOUTHEAST | AP_NORTHEAST | SA_EAST | AF_SOUTH

datatype assertion_source =
    STATUS_CODE | RESPONSE_TIME | HEADER | BODY_TEXT | BODY_JSON
  | SSL_EXPIRY_DAYS | DNS_RECORD | DOMAIN_EXPIRY_DAYS

datatype assertion_comparator =
    EQUALS | NOT_EQUALS | CONTAINS | NOT_CONTAINS
  | GREATER_THAN | LESS_THAN | MATCHES_REGEX | EXISTS

datatype check_status = C_UP | C_DOWN | C_DEGRADED | C_TIMEOUT | C_ERROR

datatype incident_status = OPEN | ACKNOWLEDGED | RESOLVED

datatype incident_severity = SEV_CRITICAL | SEV_MAJOR | SEV_MINOR | SEV_WARNING

datatype incident_event_type =
    EV_DETECTED | EV_ACKNOWLEDGED | EV_ESCALATED | EV_NOTIFICATION_SENT
  | EV_COMMENT | EV_STATUS_CHANGED | EV_RESOLVED | EV_REOPENED

datatype alert_channel_type =
    EMAIL | SMS | VOICE | SLACK | DISCORD | TELEGRAM | MICROSOFT_TEAMS | WEBHOOK
  | PAGERDUTY | OPSGENIE

datatype notification_status =
  N_PENDING | N_SENDING | N_SENT | N_DELIVERED | N_FAILED | N_BOUNCED

datatype integration_type = I_SLACK | I_DISCORD | I_WEBHOOK | I_TELEGRAM | I_MICROSOFT_TEAMS

datatype integration_status = D_PENDING | D_SENDING | D_SUCCESS | D_FAILED | D_DEAD

datatype rotation_type = DAILY | WEEKLY | BIWEEKLY | CUSTOM

datatype target_type = TG_USER | TG_SCHEDULE | TG_CHANNEL

datatype actor_type = A_user | A_system | A_api_key

datatype alert_kind = Opened | Resolved

fun status_name :: "check_status \<Rightarrow> string" where
  "status_name C_UP = ''UP''"
| "status_name C_DOWN = ''DOWN''"
| "status_name C_DEGRADED = ''DEGRADED''"
| "status_name C_TIMEOUT = ''TIMEOUT''"
| "status_name C_ERROR = ''ERROR''"

fun region_name :: "probe_region \<Rightarrow> string" where
  "region_name NA_EAST = ''NA_EAST''"
| "region_name NA_WEST = ''NA_WEST''"
| "region_name EU_WEST = ''EU_WEST''"
| "region_name EU_CENTRAL = ''EU_CENTRAL''"
| "region_name AP_SOUTHEAST = ''AP_SOUTHEAST''"
| "region_name AP_NORTHEAST = ''AP_NORTHEAST''"
| "region_name SA_EAST = ''SA_EAST''"
| "region_name AF_SOUTH = ''AF_SOUTH''"

fun type_name :: "monitor_type \<Rightarrow> string" where
  "type_name T_HTTP = ''HTTP''"
| "type_name T_TCP = ''TCP''"
| "type_name T_PING = ''PING''"
| "type_name T_DNS = ''DNS''"
| "type_name T_KEYWORD = ''KEYWORD''"
| "type_name T_SSL = ''SSL''"
| "type_name T_PORT = ''PORT''"
| "type_name T_HEARTBEAT = ''HEARTBEAT''"
| "type_name T_GRPC = ''GRPC''"
| "type_name T_DOMAIN = ''DOMAIN''"

fun integration_type_name :: "integration_type \<Rightarrow> string" where
  "integration_type_name I_SLACK = ''SLACK''"
| "integration_type_name I_DISCORD = ''DISCORD''"
| "integration_type_name I_WEBHOOK = ''WEBHOOK''"
| "integration_type_name I_TELEGRAM = ''TELEGRAM''"
| "integration_type_name I_MICROSOFT_TEAMS = ''MICROSOFT_TEAMS''"

fun kind_name :: "alert_kind \<Rightarrow> string" where
  "kind_name Opened = ''opened''"
| "kind_name Resolved = ''resolved''"

lemma region_name_inject [simp]: "region_name a = region_name b \<longleftrightarrow> a = b"
  by (cases a; cases b) simp_all

lemma integration_type_name_inject [simp]:
  "integration_type_name a = integration_type_name b \<longleftrightarrow> a = b"
  by (cases a; cases b) simp_all

section \<open>Checks: the engine's in-memory types\<close>

record assertion_def =
  a_source :: assertion_source
  a_comparator :: assertion_comparator
  a_property :: "string option"
  a_expected :: string

record monitor_snapshot =
  s_id :: id
  s_organizationId :: id
  s_name :: string
  s_type :: monitor_type
  s_url :: "string option"
  s_host :: "string option"
  s_port :: "int option"
  s_httpMethod :: "http_method option"
  s_requestHeaders :: "(string \<times> string) list option"
  s_requestBody :: "string option"
  s_expectedStatus :: "int option"
  s_keyword :: "string option"
  s_keywordInverted :: bool
  s_followRedirects :: bool
  s_verifySsl :: bool
  s_timeoutSeconds :: int
  s_retries :: int
  s_intervalSeconds :: int
  s_failureThreshold :: int
  s_successThreshold :: int
  s_escalationPolicyId :: "id option"
  s_health :: monitor_health
  s_consecutiveFailures :: int
  s_consecutiveSuccesses :: int
  s_lastCheckedAt :: "time option"
  s_assertions :: "assertion_def list"

record cert_info =
  c_validTo :: time
  c_validFrom :: time
  c_daysUntilExpiry :: int
  c_issuer :: "string option"
  c_subject :: "string option"

datatype dns_record_type = DNS_A | DNS_AAAA | DNS_CNAME | DNS_MX | DNS_TXT | DNS_NS | DNS_SOA

record dns_info =
  dn_recordType :: dns_record_type
  dn_values :: "string list"

record domain_info =
  d_expiresAt :: time
  d_daysUntilExpiry :: int
  d_registrar :: "string option"
  d_statuses :: "string list"

record probe_signal =
  ps_reachable :: bool
  ps_responseMs :: int
  ps_statusCode :: "int option"
  ps_headers :: "(string \<rightharpoonup> string) option"
  ps_body :: "string option"
  ps_cert :: "cert_info option"
  ps_dns :: "dns_info option"
  ps_domain :: "domain_info option"
  ps_errorType :: "string option"
  ps_errorMessage :: "string option"

datatype severity = Sev_error | Sev_warn

record validation_result =
  v_ok :: bool
  v_severity :: severity
  v_code :: string
  v_message :: string

text \<open>\<open>Omit<ProbeOutcome, "attempts">\<close>, what one signal is classified as, and the whole outcome.\<close>

record classified_outcome =
  o_status :: check_status
  o_statusCode :: "int option"
  o_responseMs :: "int option"
  o_errorType :: "string option"
  o_errorMessage :: "string option"
  o_cert :: "cert_info option"
  o_dns :: "dns_info option"
  o_domain :: "domain_info option"
  o_validations :: "validation_result list"

record probe_outcome = classified_outcome +
  o_attempts :: int

text \<open>A signal with only \<open>reachable\<close>, \<open>responseMs\<close> and the failure fields.\<close>

definition fail_signal :: "int \<Rightarrow> string \<Rightarrow> string \<Rightarrow> probe_signal" where
  "fail_signal ms ty msg =
     \<lparr>ps_reachable = False, ps_responseMs = ms, ps_statusCode = None, ps_headers = None,
      ps_body = None, ps_cert = None, ps_dns = None, ps_domain = None,
      ps_errorType = Some ty, ps_errorMessage = Some msg\<rparr>"

definition ok_signal :: "int \<Rightarrow> probe_signal" where
  "ok_signal ms =
     \<lparr>ps_reachable = True, ps_responseMs = ms, ps_statusCode = None, ps_headers = None,
      ps_body = None, ps_cert = None, ps_dns = None, ps_domain = None,
      ps_errorType = None, ps_errorMessage = None\<rparr>"

section \<open>Rows\<close>

record monitor_row =
  m_id :: id
  m_organizationId :: id
  m_groupId :: "id option"
  m_name :: string
  m_type :: monitor_type
  m_state :: lifecycle
  m_health :: monitor_health
  m_url :: "string option"
  m_host :: "string option"
  m_port :: "int option"
  m_httpMethod :: "http_method option"
  m_requestHeaders :: "(string \<times> string) list option"
  m_requestBody :: "string option"
  m_expectedStatus :: "int option"
  m_keyword :: "string option"
  m_keywordInverted :: bool
  m_followRedirects :: bool
  m_verifySsl :: bool
  m_intervalSeconds :: int
  m_timeoutSeconds :: int
  m_retries :: int
  m_regions :: "probe_region list"
  m_failureThreshold :: int
  m_successThreshold :: int
  m_escalationPolicyId :: "id option"
  m_consecutiveFailures :: int
  m_consecutiveSuccesses :: int
  m_lastCheckedAt :: "time option"
  m_lastStatusCode :: "int option"
  m_lastResponseMs :: "int option"
  m_lastError :: "string option"
  m_assertions :: "assertion_def list"
  m_createdById :: "id option"
  m_updatedById :: "id option"
  m_deletedById :: "id option"
  m_createdAt :: time
  m_deletedAt :: "time option"

record maintenance_window =
  w_id :: id
  w_organizationId :: id
  w_title :: string
  w_description :: "string option"
  w_startsAt :: time
  w_endsAt :: time
  w_suppressAlerts :: bool
  w_createdById :: "id option"
  w_deletedAt :: "time option"
  w_monitors :: "id list"

record check_result =
  cr_organizationId :: id
  cr_monitorId :: id
  cr_region :: probe_region
  cr_status :: check_status
  cr_statusCode :: "int option"
  cr_responseMs :: "int option"
  cr_errorType :: "string option"
  cr_errorMessage :: "string option"
  cr_checkedAt :: time

record incident =
  i_id :: id
  i_organizationId :: id
  i_monitorId :: "id option"
  i_status :: incident_status
  i_severity :: incident_severity
  i_title :: string
  i_summary :: "string option"
  i_cause :: "string option"
  i_fingerprint :: "string option"
  i_startedAt :: time
  i_acknowledgedAt :: "time option"
  i_acknowledgedById :: "id option"
  i_resolvedAt :: "time option"
  i_durationSec :: "int option"
  i_createdAt :: time

record incident_event =
  ie_incidentId :: id
  ie_type :: incident_event_type
  ie_message :: "string option"
  ie_actorId :: "id option"
  ie_metadata :: "json option"
  ie_createdAt :: time

record audit_event =
  au_organizationId :: "id option"
  au_actorId :: "id option"
  au_actorType :: actor_type
  au_action :: string
  au_resourceType :: string
  au_resourceId :: "id option"
  au_ipAddress :: "string option"
  au_userAgent :: "string option"
  au_metadata :: "json option"

record alert_channel =
  ac_id :: id
  ac_organizationId :: id
  ac_type :: alert_channel_type
  ac_name :: string
  ac_config :: json
  ac_enabled :: bool
  ac_deletedAt :: "time option"

record monitor_channel =
  mc_monitorId :: id
  mc_channelId :: id

record notification_delivery =
  nd_id :: id
  nd_organizationId :: id
  nd_channelId :: id
  nd_incidentId :: "id option"
  nd_status :: notification_status
  nd_attempts :: int
  nd_providerMessageId :: "string option"
  nd_lastError :: "string option"
  nd_sentAt :: "time option"
  nd_deliveredAt :: "time option"

text \<open>The credential columns of the five integration tables.\<close>

datatype credential =
    WebhookUrl string                    \<comment> \<open>Slack, Discord, Microsoft Teams\<close>
  | Endpoint string "string option"      \<comment> \<open>signed webhooks: endpoint, secret\<close>
  | BotToken string string               \<comment> \<open>Telegram: botToken, chatId\<close>

record integration =
  in_id :: id
  in_organizationId :: id
  in_credential :: credential
  in_enabled :: bool
  in_deletedAt :: "time option"

record integration_delivery =
  id_id :: id
  id_organizationId :: id
  id_integrationType :: integration_type
  id_integrationId :: id
  id_event :: string
  id_status :: integration_status
  id_attempts :: int
  id_responseStatus :: "int option"
  id_error :: "string option"
  id_dedupeKey :: "string option"
  id_sentAt :: "time option"

record escalation_target =
  et_type :: target_type
  et_userId :: "id option"
  et_scheduleId :: "id option"
  et_channelId :: "id option"

record escalation_step =
  es_position :: int
  es_delayMinutes :: int
  es_targets :: "escalation_target list"

record escalation_policy =
  ep_id :: id
  ep_organizationId :: id
  ep_name :: string
  ep_description :: "string option"
  ep_repeatCount :: int
  ep_steps :: "escalation_step list"
  ep_createdById :: "id option"
  ep_updatedById :: "id option"
  ep_deletedById :: "id option"
  ep_deletedAt :: "time option"

record participant_ref =
  p_userId :: id
  p_position :: int

record override_ref =
  ov_userId :: id
  ov_startsAt :: time
  ov_endsAt :: time

record oncall_schedule =
  sc_id :: id
  sc_organizationId :: id
  sc_timezone :: string
  sc_rotationType :: rotation_type
  sc_handoffMinute :: int
  sc_participants :: "participant_ref list"
  sc_overrides :: "override_ref list"
  sc_deletedAt :: "time option"

record user_row =
  u_id :: id
  u_email :: string
  u_name :: string

section \<open>Jobs\<close>

record alert_job =
  aj_deliveryId :: id
  aj_incidentId :: id
  aj_channelId :: id
  aj_organizationId :: id
  aj_kind :: alert_kind

record escalation_job =
  ej_incidentId :: id
  ej_organizationId :: id
  ej_monitorId :: "id option"
  ej_policyId :: id
  ej_stepIndex :: nat
  ej_round :: int

text \<open>The provider-agnostic event of \<^verbatim>\<open>notifications/src/integrations/event.ts\<close>.\<close>

record integration_event =
  iv_event :: string
  iv_title :: string
  iv_summary :: "string option"
  iv_organizationName :: "string option"
  iv_monitorName :: "string option"
  iv_status :: "string option"
  iv_severity :: "string option"
  iv_url :: "string option"
  iv_timestamp :: time

record integration_job =
  ij_deliveryId :: id
  ij_integrationType :: integration_type
  ij_integrationId :: id
  ij_organizationId :: id
  ij_event :: integration_event

section \<open>The engine's state\<close>

record db =
  monitors :: "monitor_row list"
  windows :: "maintenance_window list"
  check_results :: "check_result list"
  incidents :: "incident list"
  incident_events :: "incident_event list"
  audit_logs :: "audit_event list"
  channels :: "alert_channel list"
  bindings :: "monitor_channel list"
  deliveries :: "notification_delivery list"
  integrations :: "integration_type \<Rightarrow> integration list"
  int_deliveries :: "integration_delivery list"
  policies :: "escalation_policy list"
  schedules :: "oncall_schedule list"
  users :: "user_row list"
  alert_queue :: "alert_job list"
  escalation_queue :: "(escalation_job \<times> int) list"   \<comment> \<open>job, delay in ms\<close>
  integration_queue :: "(integration_job \<times> id) list"  \<comment> \<open>job, jobId\<close>
  db_uuid :: "nat \<Rightarrow> id"
  db_next :: nat

text \<open>The identifier the next \<open>create\<close> generates, and drawing it.\<close>

definition new_id :: "db \<Rightarrow> id" where
  "new_id w = db_uuid w (db_next w)"

definition draw_id :: "db \<Rightarrow> db" where
  "draw_id w = w\<lparr>db_next := Suc (db_next w)\<rparr>"

lemma draw_id_sel [simp]:
  "monitors (draw_id w) = monitors w" "windows (draw_id w) = windows w"
  "check_results (draw_id w) = check_results w" "incidents (draw_id w) = incidents w"
  "incident_events (draw_id w) = incident_events w" "audit_logs (draw_id w) = audit_logs w"
  "channels (draw_id w) = channels w" "bindings (draw_id w) = bindings w"
  "deliveries (draw_id w) = deliveries w" "integrations (draw_id w) = integrations w"
  "int_deliveries (draw_id w) = int_deliveries w" "policies (draw_id w) = policies w"
  "schedules (draw_id w) = schedules w" "users (draw_id w) = users w"
  "alert_queue (draw_id w) = alert_queue w" "escalation_queue (draw_id w) = escalation_queue w"
  "integration_queue (draw_id w) = integration_queue w" "db_uuid (draw_id w) = db_uuid w"
  "db_next (draw_id w) = Suc (db_next w)"
  by (simp_all add: draw_id_def)

text \<open>
  The database's promise about generated identifiers: \<open>fresh_ids used w\<close> says that the supply
  never repeats and that nothing it will still hand out is among \<open>used\<close>.
\<close>

definition fresh_ids :: "id set \<Rightarrow> db \<Rightarrow> bool" where
  "fresh_ids used w \<longleftrightarrow> inj (db_uuid w) \<and> (\<forall>n \<ge> db_next w. db_uuid w n \<notin> used)"

lemma fresh_ids_new: "fresh_ids used w \<Longrightarrow> new_id w \<notin> used"
  by (simp add: fresh_ids_def new_id_def)

lemma fresh_ids_draw:
  "fresh_ids used w \<Longrightarrow> fresh_ids (insert (new_id w) used) (draw_id w)"
  by (auto simp: fresh_ids_def new_id_def dest: injD)

definition empty_db :: "(nat \<Rightarrow> id) \<Rightarrow> db" where
  "empty_db ids =
     \<lparr>monitors = [], windows = [], check_results = [], incidents = [], incident_events = [],
      audit_logs = [], channels = [], bindings = [], deliveries = [], integrations = (\<lambda>_. []),
      int_deliveries = [], policies = [], schedules = [], users = [], alert_queue = [],
      escalation_queue = [], integration_queue = [], db_uuid = ids, db_next = 0\<rparr>"

section \<open>Appending to the audit log and the incident timeline\<close>

text \<open>\<open>writeAudit\<close> of the pipeline: one row of \<open>audit_logs\<close>.\<close>

definition writeAudit :: "audit_event \<Rightarrow> db \<Rightarrow> db" where
  "writeAudit e w = w\<lparr>audit_logs := insert_row e (audit_logs w)\<rparr>"

text \<open>\<open>prisma.incidentEvent.create\<close>.\<close>

definition create_event :: "incident_event \<Rightarrow> db \<Rightarrow> db" where
  "create_event e w = w\<lparr>incident_events := insert_row e (incident_events w)\<rparr>"

definition system_audit ::
  "id \<Rightarrow> string \<Rightarrow> string \<Rightarrow> id \<Rightarrow> json \<Rightarrow> audit_event" where
  "system_audit org action rtype rid meta =
     \<lparr>au_organizationId = Some org, au_actorId = None, au_actorType = A_system,
      au_action = action, au_resourceType = rtype, au_resourceId = Some rid,
      au_ipAddress = None, au_userAgent = None, au_metadata = Some meta\<rparr>"

lemma writeAudit_sel [simp]:
  "monitors (writeAudit e w) = monitors w" "windows (writeAudit e w) = windows w"
  "check_results (writeAudit e w) = check_results w" "incidents (writeAudit e w) = incidents w"
  "incident_events (writeAudit e w) = incident_events w"
  "audit_logs (writeAudit e w) = audit_logs w @ [e]"
  "channels (writeAudit e w) = channels w" "bindings (writeAudit e w) = bindings w"
  "deliveries (writeAudit e w) = deliveries w" "integrations (writeAudit e w) = integrations w"
  "int_deliveries (writeAudit e w) = int_deliveries w" "policies (writeAudit e w) = policies w"
  "schedules (writeAudit e w) = schedules w" "users (writeAudit e w) = users w"
  "alert_queue (writeAudit e w) = alert_queue w"
  "escalation_queue (writeAudit e w) = escalation_queue w"
  "integration_queue (writeAudit e w) = integration_queue w"
  "db_uuid (writeAudit e w) = db_uuid w" "db_next (writeAudit e w) = db_next w"
  "new_id (writeAudit e w) = new_id w"
  by (simp_all add: writeAudit_def insert_row_def new_id_def)

lemma create_event_sel [simp]:
  "monitors (create_event e w) = monitors w" "windows (create_event e w) = windows w"
  "check_results (create_event e w) = check_results w" "incidents (create_event e w) = incidents w"
  "incident_events (create_event e w) = incident_events w @ [e]"
  "audit_logs (create_event e w) = audit_logs w"
  "channels (create_event e w) = channels w" "bindings (create_event e w) = bindings w"
  "deliveries (create_event e w) = deliveries w" "integrations (create_event e w) = integrations w"
  "int_deliveries (create_event e w) = int_deliveries w" "policies (create_event e w) = policies w"
  "schedules (create_event e w) = schedules w" "users (create_event e w) = users w"
  "alert_queue (create_event e w) = alert_queue w"
  "escalation_queue (create_event e w) = escalation_queue w"
  "integration_queue (create_event e w) = integration_queue w"
  "db_uuid (create_event e w) = db_uuid w" "db_next (create_event e w) = db_next w"
  "new_id (create_event e w) = new_id w"
  by (simp_all add: create_event_def insert_row_def new_id_def)

end
