(* ===== verification/StateMachine.thy ===== *)
theory StateMachine
  imports Schema
begin

text \<open>
  The monitor state machine of \<^verbatim>\<open>packages/monitoring/src/state-machine.ts\<close>: the pure
  \<open>transition\<close> and its helpers, its runs over a sequence of checks, and the counting
  specification the confirmation thresholds are meant to implement.
\<close>

section \<open>The machine\<close>

datatype monitor_state = S_PENDING | S_UP | S_DOWN | S_RECOVERING | S_MAINTENANCE

datatype incident_action = Act_open | Act_resolve

record transition_input =
  ti_current :: monitor_health
  ti_success :: bool
  ti_priorConsecutiveFailures :: int
  ti_priorConsecutiveSuccesses :: int
  ti_failureThreshold :: int
  ti_successThreshold :: int
  ti_inMaintenance :: bool

record transition_result =
  tr_state :: monitor_state
  tr_consecutiveFailures :: int
  tr_consecutiveSuccesses :: int
  tr_incident :: "incident_action option"
  tr_changed :: bool

definition normalize :: "monitor_health \<Rightarrow> monitor_state" where
  "normalize current =
     (case current of
        H_DOWN \<Rightarrow> S_DOWN
      | H_RECOVERING \<Rightarrow> S_RECOVERING
      | H_PENDING \<Rightarrow> S_PENDING
      | H_MAINTENANCE \<Rightarrow> S_MAINTENANCE
      | _ \<Rightarrow> S_UP)"

definition incidentAction :: "monitor_state \<Rightarrow> monitor_state \<Rightarrow> incident_action option" where
  "incidentAction prev next =
     (if next = S_DOWN \<and> prev \<noteq> S_DOWN \<and> prev \<noteq> S_RECOVERING then Some Act_open
      else if next = S_UP \<and> (prev = S_DOWN \<or> prev = S_RECOVERING \<or> prev = S_MAINTENANCE)
      then Some Act_resolve
      else None)"

definition transition :: "transition_input \<Rightarrow> transition_result" where
  "transition inp =
     (let prev = normalize (ti_current inp);
          failure = (\<not> ti_success inp);
          consecutiveFailures = (if failure then ti_priorConsecutiveFailures inp + 1 else 0);
          consecutiveSuccesses =
            (if ti_success inp then ti_priorConsecutiveSuccesses inp + 1 else 0);
          failureConfirmed = (consecutiveFailures \<ge> ti_failureThreshold inp);
          successConfirmed = (consecutiveSuccesses \<ge> ti_successThreshold inp);
          next =
            (if ti_inMaintenance inp then S_MAINTENANCE
             else (case prev of
                S_PENDING \<Rightarrow>
                  (if ti_success inp then S_UP else if failureConfirmed then S_DOWN else S_PENDING)
              | S_DOWN \<Rightarrow>
                  (if \<not> ti_success inp then S_DOWN
                   else if successConfirmed then S_UP else S_RECOVERING)
              | S_RECOVERING \<Rightarrow>
                  (if \<not> ti_success inp then S_DOWN
                   else if successConfirmed then S_UP else S_RECOVERING)
              | S_MAINTENANCE \<Rightarrow>
                  (if ti_success inp then S_UP else if failureConfirmed then S_DOWN else S_UP)
              | S_UP \<Rightarrow>
                  (if ti_success inp then S_UP else if failureConfirmed then S_DOWN else S_UP)))
      in \<lparr>tr_state = next, tr_consecutiveFailures = consecutiveFailures,
          tr_consecutiveSuccesses = consecutiveSuccesses,
          tr_incident = incidentAction prev next, tr_changed = (next \<noteq> prev)\<rparr>)"

text \<open>The state is stored in the \<open>health\<close> column: \<open>MonitorState\<close> is a subset of \<open>MonitorHealth\<close>.\<close>

fun state_health :: "monitor_state \<Rightarrow> monitor_health" where
  "state_health S_PENDING = H_PENDING"
| "state_health S_UP = H_UP"
| "state_health S_DOWN = H_DOWN"
| "state_health S_RECOVERING = H_RECOVERING"
| "state_health S_MAINTENANCE = H_MAINTENANCE"

lemma normalize_state_health [simp]: "normalize (state_health s) = s"
  by (cases s) (simp_all add: normalize_def)

section \<open>One step\<close>

lemma transition_counters [simp]:
  "tr_consecutiveFailures (transition inp) =
     (if ti_success inp then 0 else ti_priorConsecutiveFailures inp + 1)"
  "tr_consecutiveSuccesses (transition inp) =
     (if ti_success inp then ti_priorConsecutiveSuccesses inp + 1 else 0)"
  by (simp_all add: transition_def Let_def)

lemma transition_incident:
  "tr_incident (transition inp) =
     incidentAction (normalize (ti_current inp)) (tr_state (transition inp))"
  "tr_changed (transition inp) = (tr_state (transition inp) \<noteq> normalize (ti_current inp))"
  by (simp_all add: transition_def Let_def)

lemma transition_maintenance [simp]:
  "ti_inMaintenance inp \<Longrightarrow> tr_state (transition inp) = S_MAINTENANCE"
  "ti_inMaintenance inp \<Longrightarrow> tr_incident (transition inp) = None"
  by (simp_all add: transition_def incidentAction_def Let_def)

lemma transition_success_state:
  "\<lbrakk>\<not> ti_inMaintenance inp; ti_success inp; normalize (ti_current inp) \<notin> {S_DOWN, S_RECOVERING}\<rbrakk>
   \<Longrightarrow> tr_state (transition inp) = S_UP"
  by (cases "normalize (ti_current inp)") (auto simp: transition_def Let_def)

lemma transition_open_iff:
  "tr_incident (transition inp) = Some Act_open \<longleftrightarrow>
     \<not> ti_inMaintenance inp \<and> \<not> ti_success inp
     \<and> normalize (ti_current inp) \<notin> {S_DOWN, S_RECOVERING}
     \<and> ti_failureThreshold inp \<le> ti_priorConsecutiveFailures inp + 1"
  by (cases "normalize (ti_current inp)")
     (auto simp: transition_def incidentAction_def Let_def)

lemma transition_resolve_iff:
  "tr_incident (transition inp) = Some Act_resolve \<longleftrightarrow>
     \<not> ti_inMaintenance inp
     \<and> (normalize (ti_current inp) \<in> {S_DOWN, S_RECOVERING} \<and> ti_success inp
          \<and> ti_successThreshold inp \<le> ti_priorConsecutiveSuccesses inp + 1
        \<or> normalize (ti_current inp) = S_MAINTENANCE
          \<and> (ti_success inp \<or> ti_priorConsecutiveFailures inp + 1 < ti_failureThreshold inp))"
  by (cases "normalize (ti_current inp)")
     (auto simp: transition_def incidentAction_def Let_def)

section \<open>Runs\<close>

text \<open>
  What the pipeline persists between two checks: the health column and the two counters. A
  check is \<open>(success, inMaintenance)\<close>; \<open>step\<close> is one check of a monitor with thresholds \<open>ft\<close>
  and \<open>st\<close>, \<open>run\<close> a sequence of them, and \<open>run_actions\<close> the incident actions it implies.
\<close>

record machine =
  mc_health :: monitor_health
  mc_fails :: int
  mc_succs :: int

definition machine_input :: "int \<Rightarrow> int \<Rightarrow> machine \<Rightarrow> bool \<times> bool \<Rightarrow> transition_input" where
  "machine_input ft st m c =
     \<lparr>ti_current = mc_health m, ti_success = fst c,
      ti_priorConsecutiveFailures = mc_fails m, ti_priorConsecutiveSuccesses = mc_succs m,
      ti_failureThreshold = ft, ti_successThreshold = st, ti_inMaintenance = snd c\<rparr>"

definition machine_step :: "int \<Rightarrow> int \<Rightarrow> machine \<Rightarrow> bool \<times> bool \<Rightarrow> machine" where
  "machine_step ft st m c =
     (let r = transition (machine_input ft st m c)
      in \<lparr>mc_health = state_health (tr_state r), mc_fails = tr_consecutiveFailures r,
          mc_succs = tr_consecutiveSuccesses r\<rparr>)"

fun machine_run :: "int \<Rightarrow> int \<Rightarrow> machine \<Rightarrow> (bool \<times> bool) list \<Rightarrow> machine" where
  "machine_run ft st m [] = m"
| "machine_run ft st m (c # cs) = machine_run ft st (machine_step ft st m c) cs"

fun machine_actions ::
  "int \<Rightarrow> int \<Rightarrow> machine \<Rightarrow> (bool \<times> bool) list \<Rightarrow> incident_action list" where
  "machine_actions ft st m [] = []"
| "machine_actions ft st m (c # cs) =
     (case tr_incident (transition (machine_input ft st m c)) of
        None \<Rightarrow> machine_actions ft st (machine_step ft st m c) cs
      | Some a \<Rightarrow> a # machine_actions ft st (machine_step ft st m c) cs)"

lemma machine_run_append:
  "machine_run ft st m (xs @ ys) = machine_run ft st (machine_run ft st m xs) ys"
  by (induction xs arbitrary: m) auto

lemma machine_step_sel [simp]:
  "mc_fails (machine_step ft st m (s, mt)) = (if s then 0 else mc_fails m + 1)"
  "mc_succs (machine_step ft st m (s, mt)) = (if s then mc_succs m + 1 else 0)"
  "mc_health (machine_step ft st m (s, mt)) =
     state_health (tr_state (transition (machine_input ft st m (s, mt))))"
  by (simp_all add: machine_step_def machine_input_def Let_def)

subsection \<open>Confirmed failures and confirmed recoveries\<close>

definition fails :: "nat \<Rightarrow> (bool \<times> bool) list" where
  "fails n = replicate n (False, False)"

definition succs :: "nat \<Rightarrow> (bool \<times> bool) list" where
  "succs n = replicate n (True, False)"

lemma run_fails_from_up:
  assumes "normalize (mc_health m) = S_UP \<or> normalize (mc_health m) = S_DOWN"
    and "normalize (mc_health m) = S_DOWN \<longrightarrow> ft \<le> mc_fails m"
    and "normalize (mc_health m) = S_UP \<and> 0 < mc_fails m \<longrightarrow> mc_fails m < ft"
    and "0 \<le> mc_fails m" and "0 < n"
  shows "mc_health (machine_run ft st m (fails n)) =
           (if ft \<le> mc_fails m + int n then H_DOWN else H_UP)"
  using assms
proof (induction n arbitrary: m)
  case 0
  then show ?case by simp
next
  case (Suc n)
  let ?m = "machine_step ft st m (False, False)"
  have h: "mc_health ?m = (if ft \<le> mc_fails m + 1 then H_DOWN else H_UP)"
    using Suc.prems(1,2)
    by (auto simp: transition_def machine_input_def Let_def)
  have f: "mc_fails ?m = mc_fails m + 1" by simp
  show ?case
  proof (cases "n = 0")
    case True
    with h show ?thesis by (simp add: fails_def)
  next
    case False
    have "mc_health (machine_run ft st ?m (fails n)) =
            (if ft \<le> mc_fails ?m + int n then H_DOWN else H_UP)"
    proof (rule Suc.IH)
      show "normalize (mc_health ?m) = S_UP \<or> normalize (mc_health ?m) = S_DOWN"
        by (simp only: h) (simp add: normalize_def)
      show "normalize (mc_health ?m) = S_DOWN \<longrightarrow> ft \<le> mc_fails ?m"
        by (simp only: h f) (simp add: normalize_def)
      show "normalize (mc_health ?m) = S_UP \<and> 0 < mc_fails ?m \<longrightarrow> mc_fails ?m < ft"
        by (simp only: h f) (simp add: normalize_def)
    qed (use Suc.prems False in auto)
    then show ?thesis by (simp add: fails_def f add.assoc)
  qed
qed

lemma run_succs_from_down:
  assumes "normalize (mc_health m) \<in> {S_DOWN, S_RECOVERING}" and "mc_succs m < st" and "0 < n"
    and "mc_succs m + int n \<le> st"
  shows "mc_health (machine_run ft st m (succs n)) =
           (if mc_succs m + int n = st then H_UP else H_RECOVERING)"
  using assms
proof (induction n arbitrary: m)
  case 0
  then show ?case by simp
next
  case (Suc n)
  let ?m = "machine_step ft st m (True, False)"
  have h: "mc_health ?m = (if st \<le> mc_succs m + 1 then H_UP else H_RECOVERING)"
    using Suc.prems(1) by (auto simp: transition_def machine_input_def Let_def)
  show ?case
  proof (cases "n = 0")
    case True
    with h Suc.prems show ?thesis by (auto simp: succs_def)
  next
    case False
    have "mc_health (machine_run ft st ?m (succs n)) =
            (if mc_succs ?m + int n = st then H_UP else H_RECOVERING)"
    proof (rule Suc.IH)
      show "normalize (mc_health ?m) \<in> {S_DOWN, S_RECOVERING}"
        using Suc.prems(4) False by (simp only: h) (simp add: normalize_def)
    qed (use Suc.prems False in auto)
    then show ?thesis by (simp add: succs_def add.assoc)
  qed
qed

end
