(* ===== verification/Assertions.thy ===== *)
theory Assertions
  imports Schema
begin

text \<open>
  Validation of a reachable probe signal, from \<^verbatim>\<open>packages/monitoring/src/assertions.ts\<close>: the
  comparators, the observed value an assertion compares against, and the list of violations.
  What the sources leave to the host (\<open>JSON.parse\<close>, \<open>JSON.stringify\<close>, the regular-expression
  engine, the conversions between strings and non-integral numbers) is the record \<open>js_host\<close>, a
  parameter about which nothing is assumed.
\<close>

section \<open>The host\<close>

record js_host =
  json_parse :: "string \<Rightarrow> json option"            \<comment> \<open>None: JSON.parse throws\<close>
  json_stringify :: "json \<Rightarrow> string"
  regex_test :: "string \<Rightarrow> string \<Rightarrow> bool option"  \<comment> \<open>pattern, subject; None: invalid pattern\<close>
  to_number :: "string \<Rightarrow> numv"
  fraction_text :: "numv \<Rightarrow> string"

definition DEFAULT_SSL_WARN_DAYS :: int where "DEFAULT_SSL_WARN_DAYS = 14"
definition DEFAULT_DOMAIN_WARN_DAYS :: int where "DEFAULT_DOMAIN_WARN_DAYS = 30"

section \<open>Comparators\<close>

datatype actual = Undefined | Null | AStr string | ANum numv

text \<open>\<open>String(n)\<close>: integers below \<open>10\<^sup>2\<^sup>1\<close> in decimal, anything else as the host renders it.\<close>

definition num_string :: "js_host \<Rightarrow> numv \<Rightarrow> string" where
  "num_string h n =
     (case n of
        Fin r \<Rightarrow> (if r = of_int \<lfloor>r\<rfloor> \<and> \<bar>\<lfloor>r\<rfloor>\<bar> < 10 ^ 21 then show_int \<lfloor>r\<rfloor> else fraction_text h n)
      | _ \<Rightarrow> fraction_text h n)"

fun actual_string :: "js_host \<Rightarrow> actual \<Rightarrow> string" where
  "actual_string h Undefined = ''undefined''"
| "actual_string h Null = ''null''"
| "actual_string h (AStr s) = s"
| "actual_string h (ANum n) = num_string h n"

fun actual_number :: "js_host \<Rightarrow> actual \<Rightarrow> numv" where
  "actual_number h Undefined = NaN"
| "actual_number h Null = Fin 0"
| "actual_number h (AStr s) = to_number h s"
| "actual_number h (ANum n) = n"

definition int_actual :: "int option \<Rightarrow> actual" where
  "int_actual v = (case v of None \<Rightarrow> Undefined | Some n \<Rightarrow> ANum (Fin (of_int n)))"

definition str_actual :: "string option \<Rightarrow> actual" where
  "str_actual v = (case v of None \<Rightarrow> Undefined | Some s \<Rightarrow> AStr s)"

definition applyComparator :: "js_host \<Rightarrow> actual \<Rightarrow> assertion_comparator \<Rightarrow> string \<Rightarrow> bool" where
  "applyComparator h actual comparator expected =
     (let exists = (actual \<noteq> Undefined \<and> actual \<noteq> Null \<and> actual \<noteq> AStr '''')
      in case comparator of
           EXISTS \<Rightarrow> exists
         | EQUALS \<Rightarrow> exists \<and> actual_string h actual = expected
         | NOT_EQUALS \<Rightarrow> actual_string h actual \<noteq> expected
         | CONTAINS \<Rightarrow> exists \<and> str_includes (actual_string h actual) expected
         | NOT_CONTAINS \<Rightarrow>
             \<not> str_includes
                 (if actual = Undefined \<or> actual = Null then '''' else actual_string h actual)
                 expected
         | GREATER_THAN \<Rightarrow> exists \<and> num_less (to_number h expected) (actual_number h actual)
         | LESS_THAN \<Rightarrow> exists \<and> num_less (actual_number h actual) (to_number h expected)
         | MATCHES_REGEX \<Rightarrow>
             exists \<and> (case regex_test h expected (actual_string h actual) of
                         None \<Rightarrow> False | Some b \<Rightarrow> b))"

section \<open>Observed values\<close>

text \<open>
  Own properties of a parsed JSON value: a key of an object, an index or \<open>length\<close> of an array.
  \<open>None\<close> is \<open>undefined\<close>. (Inherited members of \<open>Object.prototype\<close> are functions, for which
  \<open>readJsonPath\<close> answers \<open>undefined\<close> as well; the inherited accessor \<open>__proto__\<close> is not
  modelled.)
\<close>

fun get_property :: "json \<Rightarrow> string \<Rightarrow> json option" where
  "get_property (JObj kvs) seg = map_of kvs seg"
| "get_property (JArr xs) seg =
     (if seg = ''length'' then Some (jint (int (length xs)))
      else (case List.find (\<lambda>i. show_nat i = seg) [0..<length xs] of
              None \<Rightarrow> None | Some i \<Rightarrow> Some (xs ! i)))"
| "get_property _ seg = None"

text \<open>The loop over the path: \<open>None\<close> in and out is \<open>undefined\<close>, a non-object stops it.\<close>

fun walk_path :: "json option \<Rightarrow> string list \<Rightarrow> json option" where
  "walk_path node [] = node"
| "walk_path node (seg # segs) =
     (case node of
        Some (JObj kvs) \<Rightarrow> walk_path (get_property (JObj kvs) seg) segs
      | Some (JArr xs) \<Rightarrow> walk_path (get_property (JArr xs) seg) segs
      | _ \<Rightarrow> None)"

definition readJsonPath :: "js_host \<Rightarrow> string option \<Rightarrow> string \<Rightarrow> actual" where
  "readJsonPath h body path =
     (case body of
        None \<Rightarrow> Undefined
      | Some b \<Rightarrow>
          if b = '''' then Undefined
          else (case json_parse h b of
                  None \<Rightarrow> Undefined
                | Some node \<Rightarrow>
                    (case walk_path (Some node) (split_on (CHR ''.'') path) of
                       None \<Rightarrow> Undefined
                     | Some JNull \<Rightarrow> Undefined
                     | Some (JStr s) \<Rightarrow> AStr s
                     | Some (JNum n) \<Rightarrow> ANum n
                     | Some v \<Rightarrow> AStr (json_stringify h v))))"

definition truthy_property :: "string option \<Rightarrow> string option" where
  "truthy_property p = (case p of Some s \<Rightarrow> (if s = '''' then None else Some s) | None \<Rightarrow> None)"

definition resolveActual :: "js_host \<Rightarrow> assertion_def \<Rightarrow> probe_signal \<Rightarrow> actual" where
  "resolveActual h def signal =
     (case a_source def of
        STATUS_CODE \<Rightarrow> int_actual (ps_statusCode signal)
      | RESPONSE_TIME \<Rightarrow> int_actual (Some (ps_responseMs signal))
      | HEADER \<Rightarrow>
          (case truthy_property (a_property def) of
             None \<Rightarrow> Undefined
           | Some p \<Rightarrow>
               (case ps_headers signal of
                  None \<Rightarrow> Undefined
                | Some hs \<Rightarrow> str_actual (hs (to_lower p))))
      | BODY_TEXT \<Rightarrow> str_actual (ps_body signal)
      | BODY_JSON \<Rightarrow>
          (case truthy_property (a_property def) of
             None \<Rightarrow> Undefined
           | Some p \<Rightarrow> readJsonPath h (ps_body signal) p)
      | SSL_EXPIRY_DAYS \<Rightarrow> int_actual (map_option c_daysUntilExpiry (ps_cert signal))
      | DOMAIN_EXPIRY_DAYS \<Rightarrow> int_actual (map_option d_daysUntilExpiry (ps_domain signal))
      | DNS_RECORD \<Rightarrow> str_actual (map_option (\<lambda>d. join '', '' (dn_values d)) (ps_dns signal)))"

section \<open>Violations\<close>

fun source_name :: "assertion_source \<Rightarrow> string" where
  "source_name STATUS_CODE = ''STATUS_CODE''"
| "source_name RESPONSE_TIME = ''RESPONSE_TIME''"
| "source_name HEADER = ''HEADER''"
| "source_name BODY_TEXT = ''BODY_TEXT''"
| "source_name BODY_JSON = ''BODY_JSON''"
| "source_name SSL_EXPIRY_DAYS = ''SSL_EXPIRY_DAYS''"
| "source_name DNS_RECORD = ''DNS_RECORD''"
| "source_name DOMAIN_EXPIRY_DAYS = ''DOMAIN_EXPIRY_DAYS''"

fun comparator_name :: "assertion_comparator \<Rightarrow> string" where
  "comparator_name EQUALS = ''EQUALS''"
| "comparator_name NOT_EQUALS = ''NOT_EQUALS''"
| "comparator_name CONTAINS = ''CONTAINS''"
| "comparator_name NOT_CONTAINS = ''NOT_CONTAINS''"
| "comparator_name GREATER_THAN = ''GREATER_THAN''"
| "comparator_name LESS_THAN = ''LESS_THAN''"
| "comparator_name MATCHES_REGEX = ''MATCHES_REGEX''"
| "comparator_name EXISTS = ''EXISTS''"

definition violation :: "severity \<Rightarrow> string \<Rightarrow> string \<Rightarrow> validation_result" where
  "violation sev code msg =
     \<lparr>v_ok = False, v_severity = sev, v_code = code, v_message = msg\<rparr>"

text \<open>The five blocks of \<open>evaluateValidations\<close>, in the order the code runs them.\<close>

definition status_violations :: "monitor_snapshot \<Rightarrow> probe_signal \<Rightarrow> validation_result list" where
  "status_violations monitor signal =
     (case (s_expectedStatus monitor, ps_statusCode signal) of
        (Some e, Some got) \<Rightarrow>
          (if got \<noteq> e
           then [violation Sev_error ''status_mismatch''
                   (''Expected status '' @ show_int e @ '', got '' @ show_int got @ ''.'')]
           else [])
      | _ \<Rightarrow> [])"

definition keyword_violations :: "monitor_snapshot \<Rightarrow> probe_signal \<Rightarrow> validation_result list" where
  "keyword_violations monitor signal =
     (case truthy_property (s_keyword monitor) of
        None \<Rightarrow> []
      | Some kw \<Rightarrow>
          (let present = str_includes (case ps_body signal of None \<Rightarrow> '''' | Some b \<Rightarrow> b) kw;
               satisfied = (if s_keywordInverted monitor then \<not> present else present)
           in if \<not> satisfied
              then [violation Sev_error ''keyword''
                      (if s_keywordInverted monitor
                       then ''Forbidden keyword \"'' @ kw @ ''\" was present.''
                       else ''Required keyword \"'' @ kw @ ''\" was missing.'')]
              else []))"

definition ssl_violations :: "monitor_snapshot \<Rightarrow> probe_signal \<Rightarrow> validation_result list" where
  "ssl_violations monitor signal =
     (case ps_cert signal of
        None \<Rightarrow> []
      | Some cert \<Rightarrow>
          if list_ex (\<lambda>a. a_source a = SSL_EXPIRY_DAYS) (s_assertions monitor) then []
          else (let days = c_daysUntilExpiry cert
                in if days \<le> 0
                   then [violation Sev_error ''ssl_expired''
                           (''TLS certificate expired '' @ show_int \<bar>days\<bar> @ '' day(s) ago.'')]
                   else if days < DEFAULT_SSL_WARN_DAYS
                   then [violation Sev_warn ''ssl_expiring''
                           (''TLS certificate expires in '' @ show_int days @ '' day(s).'')]
                   else []))"

definition domain_violations :: "monitor_snapshot \<Rightarrow> probe_signal \<Rightarrow> validation_result list" where
  "domain_violations monitor signal =
     (case ps_domain signal of
        None \<Rightarrow> []
      | Some di \<Rightarrow>
          if list_ex (\<lambda>a. a_source a = DOMAIN_EXPIRY_DAYS) (s_assertions monitor) then []
          else (let days = d_daysUntilExpiry di
                in if days \<le> 0
                   then [violation Sev_error ''domain_expired''
                           (''Domain registration expired '' @ show_int \<bar>days\<bar> @ '' day(s) ago.'')]
                   else if days < DEFAULT_DOMAIN_WARN_DAYS
                   then [violation Sev_warn ''domain_expiring''
                           (''Domain registration expires in '' @ show_int days @ '' day(s).'')]
                   else []))"

definition soft_source :: "assertion_source \<Rightarrow> bool" where
  "soft_source s = (s = RESPONSE_TIME \<or> s = SSL_EXPIRY_DAYS \<or> s = DOMAIN_EXPIRY_DAYS)"

definition assertion_violation :: "js_host \<Rightarrow> assertion_def \<Rightarrow> actual \<Rightarrow> validation_result" where
  "assertion_violation h def actual =
     violation (if soft_source (a_source def) then Sev_warn else Sev_error)
       (''assert_'' @ to_lower (source_name (a_source def)))
       (''Assertion failed: '' @ source_name (a_source def) @ '' ''
         @ comparator_name (a_comparator def) @ '' '' @ a_expected def @ '' (actual: ''
         @ (if actual = Undefined \<or> actual = Null then ''n/a'' else actual_string h actual)
         @ '').'')"

fun assertion_violations ::
  "js_host \<Rightarrow> probe_signal \<Rightarrow> assertion_def list \<Rightarrow> validation_result list" where
  "assertion_violations h signal [] = []"
| "assertion_violations h signal (def # defs) =
     (let actual = resolveActual h def signal
      in if applyComparator h actual (a_comparator def) (a_expected def)
         then assertion_violations h signal defs
         else assertion_violation h def actual # assertion_violations h signal defs)"

definition evaluateValidations ::
  "js_host \<Rightarrow> monitor_snapshot \<Rightarrow> probe_signal \<Rightarrow> validation_result list" where
  "evaluateValidations h monitor signal =
     status_violations monitor signal @ keyword_violations monitor signal
     @ ssl_violations monitor signal @ domain_violations monitor signal
     @ assertion_violations h signal (s_assertions monitor)"

section \<open>What a violation means\<close>

lemmas violation_defs =
  status_violations_def keyword_violations_def ssl_violations_def domain_violations_def

text \<open>Whether one custom assertion holds of a signal.\<close>

definition holds :: "js_host \<Rightarrow> probe_signal \<Rightarrow> assertion_def \<Rightarrow> bool" where
  "holds h signal d = applyComparator h (resolveActual h d signal) (a_comparator d) (a_expected d)"

text \<open>The reference: the conditions under which a check must count as failed, or as degraded.\<close>

definition hard_failure :: "js_host \<Rightarrow> monitor_snapshot \<Rightarrow> probe_signal \<Rightarrow> bool" where
  "hard_failure h m s \<longleftrightarrow>
     (\<exists>e c. s_expectedStatus m = Some e \<and> ps_statusCode s = Some c \<and> c \<noteq> e)
     \<or> (\<exists>kw. s_keyword m = Some kw \<and> kw \<noteq> ''''
          \<and> (str_includes (case ps_body s of None \<Rightarrow> '''' | Some b \<Rightarrow> b) kw = s_keywordInverted m))
     \<or> (\<exists>c. ps_cert s = Some c \<and> c_daysUntilExpiry c \<le> 0
          \<and> SSL_EXPIRY_DAYS \<notin> a_source ` set (s_assertions m))
     \<or> (\<exists>d. ps_domain s = Some d \<and> d_daysUntilExpiry d \<le> 0
          \<and> DOMAIN_EXPIRY_DAYS \<notin> a_source ` set (s_assertions m))
     \<or> (\<exists>d \<in> set (s_assertions m). \<not> soft_source (a_source d) \<and> \<not> holds h s d)"

definition soft_failure :: "js_host \<Rightarrow> monitor_snapshot \<Rightarrow> probe_signal \<Rightarrow> bool" where
  "soft_failure h m s \<longleftrightarrow>
     (\<exists>c. ps_cert s = Some c \<and> 0 < c_daysUntilExpiry c
          \<and> c_daysUntilExpiry c < DEFAULT_SSL_WARN_DAYS
          \<and> SSL_EXPIRY_DAYS \<notin> a_source ` set (s_assertions m))
     \<or> (\<exists>d. ps_domain s = Some d \<and> 0 < d_daysUntilExpiry d
          \<and> d_daysUntilExpiry d < DEFAULT_DOMAIN_WARN_DAYS
          \<and> DOMAIN_EXPIRY_DAYS \<notin> a_source ` set (s_assertions m))
     \<or> (\<exists>d \<in> set (s_assertions m). soft_source (a_source d) \<and> \<not> holds h s d)"

lemma list_ex_source: "list_ex (\<lambda>a. a_source a = x) ds \<longleftrightarrow> x \<in> a_source ` set ds"
  by (auto simp: list_ex_iff)

definition has_sev :: "severity \<Rightarrow> validation_result list \<Rightarrow> bool" where
  "has_sev sev vs \<longleftrightarrow> (\<exists>v \<in> set vs. v_severity v = sev)"

lemma has_sev_append [simp]: "has_sev sev (xs @ ys) \<longleftrightarrow> has_sev sev xs \<or> has_sev sev ys"
  by (auto simp: has_sev_def)

lemma has_sev_basic [simp]:
  "\<not> has_sev sev []" "has_sev sev (v # vs) \<longleftrightarrow> v_severity v = sev \<or> has_sev sev vs"
  by (auto simp: has_sev_def)

lemma v_severity_violation [simp]: "v_severity (violation sev c m) = sev"
  by (simp add: violation_def)

lemma has_sev_status:
  "has_sev sev (status_violations m s) \<longleftrightarrow>
     sev = Sev_error \<and> (\<exists>e c. s_expectedStatus m = Some e \<and> ps_statusCode s = Some c \<and> c \<noteq> e)"
  by (auto simp: status_violations_def split: option.splits)

lemma has_sev_keyword:
  "has_sev sev (keyword_violations m s) \<longleftrightarrow>
     sev = Sev_error \<and> (\<exists>kw. s_keyword m = Some kw \<and> kw \<noteq> ''''
          \<and> (str_includes (case ps_body s of None \<Rightarrow> '''' | Some b \<Rightarrow> b) kw = s_keywordInverted m))"
  by (auto simp: keyword_violations_def truthy_property_def Let_def split: option.splits)

lemma has_sev_ssl:
  "has_sev sev (ssl_violations m s) \<longleftrightarrow>
     (\<exists>c. ps_cert s = Some c \<and> SSL_EXPIRY_DAYS \<notin> a_source ` set (s_assertions m)
        \<and> (if sev = Sev_error then c_daysUntilExpiry c \<le> 0
           else 0 < c_daysUntilExpiry c \<and> c_daysUntilExpiry c < DEFAULT_SSL_WARN_DAYS))"
  by (cases sev) (auto simp: ssl_violations_def list_ex_source Let_def split: option.splits)

lemma has_sev_domain:
  "has_sev sev (domain_violations m s) \<longleftrightarrow>
     (\<exists>d. ps_domain s = Some d \<and> DOMAIN_EXPIRY_DAYS \<notin> a_source ` set (s_assertions m)
        \<and> (if sev = Sev_error then d_daysUntilExpiry d \<le> 0
           else 0 < d_daysUntilExpiry d \<and> d_daysUntilExpiry d < DEFAULT_DOMAIN_WARN_DAYS))"
  by (cases sev) (auto simp: domain_violations_def list_ex_source Let_def split: option.splits)

lemma v_severity_assertion [simp]:
  "v_severity (assertion_violation h d act) =
     (if soft_source (a_source d) then Sev_warn else Sev_error)"
  by (simp add: assertion_violation_def)

lemma has_sev_assertions:
  "has_sev sev (assertion_violations h s ds) \<longleftrightarrow>
     (\<exists>d \<in> set ds. \<not> holds h s d \<and> (sev = Sev_warn) = soft_source (a_source d))"
  by (induction ds; cases sev) (auto simp: Let_def holds_def)

lemmas has_sev_parts =
  has_sev_status has_sev_keyword has_sev_ssl has_sev_domain has_sev_assertions

lemma evaluateValidations_error:
  "has_sev Sev_error (evaluateValidations h m s) \<longleftrightarrow> hard_failure h m s"
  unfolding evaluateValidations_def hard_failure_def
  by (simp add: has_sev_parts) blast

lemma evaluateValidations_warn:
  "has_sev Sev_warn (evaluateValidations h m s) \<longleftrightarrow> soft_failure h m s"
  unfolding evaluateValidations_def soft_failure_def
  by (simp add: has_sev_parts) blast

end
