(* ===== verification/Execute.thy ===== *)
theory Execute
  imports Assertions
begin

text \<open>
  One full check, from \<^verbatim>\<open>packages/monitoring/src/execute.ts\<close>: classification of a signal and
  the retry loop. The probe is a parameter: \<open>probe k\<close> is what its \<open>k\<close>-th invocation does, a
  signal or an exception. The back-off sleep and the abort timer have no effect on the result
  other than through the probe.
\<close>

section \<open>Classification\<close>

definition statusForUnreachable :: "string option \<Rightarrow> check_status" where
  "statusForUnreachable errorType =
     (if errorType = Some ''timeout'' then C_TIMEOUT
      else if errorType = Some ''config'' \<or> errorType = Some ''error'' then C_ERROR
      else C_DOWN)"

definition classifySignal ::
  "js_host \<Rightarrow> monitor_snapshot \<Rightarrow> probe_signal \<Rightarrow> classified_outcome" where
  "classifySignal h monitor signal =
     (if \<not> ps_reachable signal then
        \<lparr>o_status = statusForUnreachable (ps_errorType signal), o_statusCode = None,
         o_responseMs = Some (ps_responseMs signal), o_errorType = ps_errorType signal,
         o_errorMessage = ps_errorMessage signal, o_cert = None, o_dns = None, o_domain = None,
         o_validations = []\<rparr>
      else
        (let validations = evaluateValidations h monitor signal;
             hasError = list_ex (\<lambda>v. v_severity v = Sev_error) validations;
             hasWarn = list_ex (\<lambda>v. v_severity v = Sev_warn) validations;
             status = (if hasError then C_DOWN else if hasWarn then C_DEGRADED else C_UP)
         in \<lparr>o_status = status, o_statusCode = ps_statusCode signal,
             o_responseMs = Some (ps_responseMs signal),
             o_errorType = (if hasError then Some ''assert'' else None),
             o_errorMessage =
               (if hasError
                then map_option v_message (List.find (\<lambda>v. v_severity v = Sev_error) validations)
                else None),
             o_cert = ps_cert signal, o_dns = ps_dns signal, o_domain = ps_domain signal,
             o_validations = validations\<rparr>))"

definition isSuccess :: "check_status \<Rightarrow> bool" where
  "isSuccess status = (status = C_UP \<or> status = C_DEGRADED)"

lemma list_ex_has_sev: "list_ex (\<lambda>v. v_severity v = sev) vs \<longleftrightarrow> has_sev sev vs"
  by (auto simp: list_ex_iff has_sev_def)

lemma classifySignal_reachable:
  "ps_reachable s \<Longrightarrow>
   o_status (classifySignal h m s) =
     (if hard_failure h m s then C_DOWN else if soft_failure h m s then C_DEGRADED else C_UP)"
  by (simp add: classifySignal_def Let_def list_ex_has_sev evaluateValidations_error
        evaluateValidations_warn)

lemma classifySignal_unreachable:
  "\<not> ps_reachable s \<Longrightarrow> \<not> isSuccess (o_status (classifySignal h m s))"
  by (simp add: classifySignal_def isSuccess_def statusForUnreachable_def)

lemma classifySignal_success_iff:
  "isSuccess (o_status (classifySignal h m s)) \<longleftrightarrow> ps_reachable s \<and> \<not> hard_failure h m s"
  by (cases "ps_reachable s")
     (simp_all add: classifySignal_reachable classifySignal_unreachable, simp add: isSuccess_def)

text \<open>A failing reachable check names its first error.\<close>

lemma classifySignal_message:
  assumes "ps_reachable s" "hard_failure h m s"
  shows "\<exists>v \<in> set (evaluateValidations h m s). v_severity v = Sev_error
           \<and> o_errorMessage (classifySignal h m s) = Some (v_message v)"
proof -
  let ?vs = "evaluateValidations h m s"
  have e: "has_sev Sev_error ?vs" using assms(2) by (simp add: evaluateValidations_error)
  then have "List.find (\<lambda>v. v_severity v = Sev_error) ?vs \<noteq> None"
    by (auto simp: find_None_iff has_sev_def)
  then obtain v where v: "List.find (\<lambda>v. v_severity v = Sev_error) ?vs = Some v" by blast
  then have "v \<in> set ?vs" "v_severity v = Sev_error" by (auto simp: find_Some_iff)
  with v e assms show ?thesis
    by (auto simp: classifySignal_def Let_def list_ex_has_sev)
qed

section \<open>The retry loop\<close>

type_synonym probe = "nat \<Rightarrow> monitor_snapshot \<Rightarrow> time \<Rightarrow> js_error + probe_signal"

function execute_loop ::
  "js_host \<Rightarrow> probe \<Rightarrow> monitor_snapshot \<Rightarrow> time \<Rightarrow> int \<Rightarrow> classified_outcome option \<Rightarrow> int
   \<Rightarrow> js_error + classified_outcome option \<times> int" where
  "execute_loop h probe monitor now attempt outcome attempts =
     (if attempt \<le> s_retries monitor then
        (case probe (nat attempt) monitor now of
           Inl e \<Rightarrow> Inl e
         | Inr signal \<Rightarrow>
             (let attempts' = attempt + 1;
                  outcome' = classifySignal h monitor signal
              in if isSuccess (o_status outcome') then Inr (Some outcome', attempts')
                 else execute_loop h probe monitor now (attempt + 1) (Some outcome') attempts'))
      else Inr (outcome, attempts))"
  by pat_completeness auto
termination
  by (relation "measure (\<lambda>(h, probe, monitor, now, attempt, outcome, attempts).
        nat (s_retries monitor + 1 - attempt))") auto

declare execute_loop.simps [simp del]

definition with_attempts :: "classified_outcome \<Rightarrow> int \<Rightarrow> probe_outcome" where
  "with_attempts c n = classified_outcome.extend c (probe_outcome.fields n)"

text \<open>
  \<open>None\<close> is the object without a status the code returns when the loop body never ran, which
  needs a negative \<open>retries\<close>.
\<close>

definition executeCheck ::
  "js_host \<Rightarrow> monitor_snapshot \<Rightarrow> probe \<Rightarrow> time \<Rightarrow> js_error + probe_outcome option" where
  "executeCheck h monitor probe now =
     (case execute_loop h probe monitor now 0 None 0 of
        Inl e \<Rightarrow> Inl e
      | Inr (outcome, attempts) \<Rightarrow>
          Inr (map_option (\<lambda>c. with_attempts c attempts) outcome))"

lemma with_attempts_sel [simp]:
  "o_status (with_attempts c n) = o_status c" "o_attempts (with_attempts c n) = n"
  "o_statusCode (with_attempts c n) = o_statusCode c"
  "o_errorType (with_attempts c n) = o_errorType c"
  "o_errorMessage (with_attempts c n) = o_errorMessage c"
  by (simp_all add: with_attempts_def classified_outcome.defs probe_outcome.defs)

text \<open>Attempt \<open>k\<close> of the check: the signal it yields, and whether it is accepted.\<close>

definition good_attempt :: "js_host \<Rightarrow> monitor_snapshot \<Rightarrow> probe_signal \<Rightarrow> bool" where
  "good_attempt h m s \<longleftrightarrow> ps_reachable s \<and> \<not> hard_failure h m s"

lemma execute_loop_spec:
  assumes "\<And>k. int k \<le> s_retries m \<Longrightarrow> probe k m now = Inr (sig k)" and "0 \<le> a"
    and "a \<le> s_retries m"
  shows "\<exists>k. a \<le> int k \<and> int k \<le> s_retries m
           \<and> execute_loop h probe m now a oc n = Inr (Some (classifySignal h m (sig k)), int k + 1)
           \<and> (\<forall>j. a \<le> int j \<and> int j < int k \<longrightarrow> \<not> good_attempt h m (sig j))
           \<and> (good_attempt h m (sig k) \<or> int k = s_retries m)"
  using assms
proof (induction h probe m now a oc n rule: execute_loop.induct)
  case (1 h probe m now a oc n)
  let ?k = "nat a"
  have p: "probe ?k m now = Inr (sig ?k)" using "1.prems" by simp
  show ?case
  proof (cases "good_attempt h m (sig ?k)")
    case True
    then have "execute_loop h probe m now a oc n = Inr (Some (classifySignal h m (sig ?k)), a + 1)"
      using p "1.prems"
      by (subst execute_loop.simps) (simp add: Let_def classifySignal_success_iff good_attempt_def)
    with True "1.prems" show ?thesis by (intro exI [of _ ?k]) auto
  next
    case False
    then have f: "\<not> isSuccess (o_status (classifySignal h m (sig ?k)))"
      by (simp add: classifySignal_success_iff good_attempt_def)
    have step: "execute_loop h probe m now a oc n =
        execute_loop h probe m now (a + 1) (Some (classifySignal h m (sig ?k))) (a + 1)"
      using p f "1.prems" by (subst execute_loop.simps) (simp add: Let_def)
    show ?thesis
    proof (cases "a = s_retries m")
      case True
      then have "execute_loop h probe m now a oc n =
          Inr (Some (classifySignal h m (sig ?k)), a + 1)"
        unfolding step by (subst execute_loop.simps) simp
      with True "1.prems" show ?thesis by (intro exI [of _ ?k]) auto
    next
      case less: False
      have "\<exists>k. a + 1 \<le> int k \<and> int k \<le> s_retries m
           \<and> execute_loop h probe m now (a + 1) (Some (classifySignal h m (sig ?k))) (a + 1)
               = Inr (Some (classifySignal h m (sig k)), int k + 1)
           \<and> (\<forall>j. a + 1 \<le> int j \<and> int j < int k \<longrightarrow> \<not> good_attempt h m (sig j))
           \<and> (good_attempt h m (sig k) \<or> int k = s_retries m)"
        by (rule "1.IH") (use p f "1.prems" less in auto)
      then obtain k where k: "a + 1 \<le> int k" "int k \<le> s_retries m"
        "execute_loop h probe m now (a + 1) (Some (classifySignal h m (sig ?k))) (a + 1)
           = Inr (Some (classifySignal h m (sig k)), int k + 1)"
        "\<forall>j. a + 1 \<le> int j \<and> int j < int k \<longrightarrow> \<not> good_attempt h m (sig j)"
        "good_attempt h m (sig k) \<or> int k = s_retries m" by blast
      have "\<forall>j. a \<le> int j \<and> int j < int k \<longrightarrow> \<not> good_attempt h m (sig j)"
      proof (intro allI impI)
        fix j assume j: "a \<le> int j \<and> int j < int k"
        show "\<not> good_attempt h m (sig j)"
        proof (cases "int j = a")
          case True
          then have "j = ?k" by simp
          with False show ?thesis by simp
        next
          case False
          with j k(4) show ?thesis by auto
        qed
      qed
      with k show ?thesis unfolding step by (intro exI [of _ k]) auto
    qed
  qed
qed

end
