(* ===== verification/Alerting.thy ===== *)
theory Alerting
  imports Schema
begin

text \<open>
  Alert fan-out and delivery, from \<^verbatim>\<open>packages/monitoring/src/flapping.ts\<close> and
  \<^verbatim>\<open>packages/monitoring/src/alerting\<close>: flapping detection, the dispatcher that records one
  delivery and enqueues one job per channel, the processor that sends one delivery, and the
  integration-backed transports. The locale \<open>fan_out\<close> is the interface the result pipeline and
  the escalation engine rely on: a dispatcher may add deliveries and jobs, and touches nothing
  the engine decides on.
\<close>

section \<open>Flapping\<close>

definition FLAP_WINDOW_MS :: int where "FLAP_WINDOW_MS = 30 * 60 * 1000"
definition FLAP_THRESHOLD :: int where "FLAP_THRESHOLD = 3"

definition detectFlapping :: "db \<Rightarrow> id \<Rightarrow> time \<Rightarrow> int \<Rightarrow> int \<Rightarrow> bool" where
  "detectFlapping w monitorId now windowMs threshold =
     (let since = now - windowMs;
          recent = count_rows (\<lambda>i. i_monitorId i = Some monitorId \<and> since \<le> i_startedAt i)
                     (incidents w)
      in threshold \<le> recent)"

section \<open>The interface of a dispatcher\<close>

text \<open>What the engine's decisions read and write, and a dispatcher must leave alone.\<close>

record core =
  k_monitors :: "monitor_row list"
  k_windows :: "maintenance_window list"
  k_checks :: "check_result list"
  k_incidents :: "incident list"
  k_events :: "incident_event list"
  k_audit :: "audit_event list"

definition core_of :: "db \<Rightarrow> core" where
  "core_of w =
     \<lparr>k_monitors = monitors w, k_windows = windows w, k_checks = check_results w,
      k_incidents = incidents w, k_events = incident_events w, k_audit = audit_logs w\<rparr>"

lemma core_of_eq_iff:
  "core_of w = core_of w' \<longleftrightarrow>
     monitors w = monitors w' \<and> windows w = windows w' \<and> check_results w = check_results w'
     \<and> incidents w = incidents w' \<and> incident_events w = incident_events w'
     \<and> audit_logs w = audit_logs w'"
  by (simp add: core_of_def)

lemma core_of_draw [simp]: "core_of (draw_id w) = core_of w"
  by (simp add: core_of_def)

text \<open>Identifiers may be drawn meanwhile: \<open>w'\<close> is further along the same supply.\<close>

definition supply_le :: "db \<Rightarrow> db \<Rightarrow> bool" where
  "supply_le w w' \<longleftrightarrow> db_uuid w' = db_uuid w \<and> db_next w \<le> db_next w'"

lemma supply_le_refl [simp]: "supply_le w w"
  by (simp add: supply_le_def)

lemma supply_le_trans: "supply_le u v \<Longrightarrow> supply_le v w \<Longrightarrow> supply_le u w"
  by (simp add: supply_le_def)

lemma fresh_ids_supply: "fresh_ids used w \<Longrightarrow> supply_le w w' \<Longrightarrow> fresh_ids used w'"
  by (simp add: fresh_ids_def supply_le_def)

locale fan_out =
  fixes dispatch :: "'ctx \<Rightarrow> db \<Rightarrow> (js_error + 'r) \<times> db"
  assumes keeps_core: "core_of (snd (dispatch c w)) = core_of w"
    and keeps_supply: "supply_le w (snd (dispatch c w))"
begin

lemma keeps_incidents: "dispatch c w = (r, w') \<Longrightarrow> incidents w' = incidents w"
  using keeps_core [of c w] by (simp add: core_of_eq_iff)

lemma keeps_monitors: "dispatch c w = (r, w') \<Longrightarrow> monitors w' = monitors w"
  using keeps_core [of c w] by (simp add: core_of_eq_iff)

lemma keeps_log:
  "dispatch c w = (r, w') \<Longrightarrow>
   check_results w' = check_results w \<and> incident_events w' = incident_events w
   \<and> audit_logs w' = audit_logs w \<and> windows w' = windows w"
  using keeps_core [of c w] by (simp add: core_of_eq_iff)

end

section \<open>The dispatcher\<close>

record alert_context =
  ax_incidentId :: id
  ax_organizationId :: id
  ax_monitorId :: id
  ax_kind :: alert_kind

record channel_dispatch_context =
  cx_incidentId :: id
  cx_organizationId :: id
  cx_channelIds :: "id list"
  cx_kind :: alert_kind

text \<open>The body both loops share: one \<open>NotificationDelivery\<close> row, one job.\<close>

definition record_delivery :: "id \<Rightarrow> id \<Rightarrow> id \<Rightarrow> alert_kind \<Rightarrow> db \<Rightarrow> db" where
  "record_delivery org incidentId channelId kind w =
     (let deliveryId = new_id w;
          w1 = (draw_id w)\<lparr>deliveries := insert_row
                 \<lparr>nd_id = deliveryId, nd_organizationId = org, nd_channelId = channelId,
                  nd_incidentId = Some incidentId, nd_status = N_PENDING, nd_attempts = 0,
                  nd_providerMessageId = None, nd_lastError = None, nd_sentAt = None,
                  nd_deliveredAt = None\<rparr> (deliveries w)\<rparr>
      in w1\<lparr>alert_queue := insert_row
             \<lparr>aj_deliveryId = deliveryId, aj_incidentId = incidentId, aj_channelId = channelId,
              aj_organizationId = org, aj_kind = kind\<rparr> (alert_queue w1)\<rparr>)"

definition live_channel :: "db \<Rightarrow> id \<Rightarrow> bool" where
  "live_channel w channelId =
     list_ex (\<lambda>c. ac_id c = channelId \<and> ac_enabled c \<and> ac_deletedAt c = None) (channels w)"

fun dispatch_bindings :: "alert_context \<Rightarrow> id list \<Rightarrow> db \<Rightarrow> int \<Rightarrow> int \<times> db" where
  "dispatch_bindings c [] w enqueued = (enqueued, w)"
| "dispatch_bindings c (channelId # rest) w enqueued =
     dispatch_bindings c rest
       (record_delivery (ax_organizationId c) (ax_incidentId c) channelId (ax_kind c) w)
       (enqueued + 1)"

definition dispatch :: "alert_context \<Rightarrow> db \<Rightarrow> (js_error + int) \<times> db" where
  "dispatch c w =
     (let bs = find_many (\<lambda>b. mc_monitorId b = ax_monitorId c \<and> live_channel w (mc_channelId b))
                 (bindings w);
          (n, w') = dispatch_bindings c (map mc_channelId bs) w 0
      in (Inr n, w'))"

fun dispatch_channels :: "channel_dispatch_context \<Rightarrow> id list \<Rightarrow> db \<Rightarrow> int \<Rightarrow> int \<times> db" where
  "dispatch_channels c [] w enqueued = (enqueued, w)"
| "dispatch_channels c (channelId # rest) w enqueued =
     (case find_first (\<lambda>ch. ac_id ch = channelId \<and> ac_organizationId ch = cx_organizationId c
                          \<and> ac_enabled ch \<and> ac_deletedAt ch = None) (channels w) of
        None \<Rightarrow> dispatch_channels c rest w enqueued
      | Some _ \<Rightarrow>
          dispatch_channels c rest
            (record_delivery (cx_organizationId c) (cx_incidentId c) channelId (cx_kind c) w)
            (enqueued + 1))"

definition dispatchToChannels :: "channel_dispatch_context \<Rightarrow> db \<Rightarrow> (js_error + int) \<times> db" where
  "dispatchToChannels c w =
     (let (n, w') = dispatch_channels c (cx_channelIds c) w 0 in (Inr n, w'))"

subsection \<open>What recording one delivery does\<close>

lemma record_delivery_core [simp]: "core_of (record_delivery org inc ch k w) = core_of w"
  by (simp add: record_delivery_def core_of_def Let_def)

lemma record_delivery_sel [simp]:
  "channels (record_delivery org inc ch k w) = channels w"
  "bindings (record_delivery org inc ch k w) = bindings w"
  "integrations (record_delivery org inc ch k w) = integrations w"
  "int_deliveries (record_delivery org inc ch k w) = int_deliveries w"
  "integration_queue (record_delivery org inc ch k w) = integration_queue w"
  "escalation_queue (record_delivery org inc ch k w) = escalation_queue w"
  "policies (record_delivery org inc ch k w) = policies w"
  "schedules (record_delivery org inc ch k w) = schedules w"
  "users (record_delivery org inc ch k w) = users w"
  "incidents (record_delivery org inc ch k w) = incidents w"
  "db_uuid (record_delivery org inc ch k w) = db_uuid w"
  "db_next (record_delivery org inc ch k w) = Suc (db_next w)"
  by (simp_all add: record_delivery_def Let_def)

lemma record_delivery_rows:
  "deliveries (record_delivery org inc ch k w) = deliveries w @
     [\<lparr>nd_id = new_id w, nd_organizationId = org, nd_channelId = ch, nd_incidentId = Some inc,
       nd_status = N_PENDING, nd_attempts = 0, nd_providerMessageId = None, nd_lastError = None,
       nd_sentAt = None, nd_deliveredAt = None\<rparr>]"
  "alert_queue (record_delivery org inc ch k w) = alert_queue w @
     [\<lparr>aj_deliveryId = new_id w, aj_incidentId = inc, aj_channelId = ch, aj_organizationId = org,
       aj_kind = k\<rparr>]"
  by (simp_all add: record_delivery_def Let_def insert_row_def)

lemma dispatch_bindings_core: "core_of (snd (dispatch_bindings c chs w n)) = core_of w"
  by (induction chs arbitrary: w n) auto

lemma dispatch_channels_core: "core_of (snd (dispatch_channels c chs w n)) = core_of w"
  by (induction chs arbitrary: w n) (auto split: option.splits)

text \<open>
  The escalation engine asks more of the port it pages channels through: it always answers a
  count, and leaves the policies and the engine's own queue alone.
\<close>

locale channel_fan_out = fan_out dispatch
  for dispatch :: "channel_dispatch_context \<Rightarrow> db \<Rightarrow> (js_error + int) \<times> db" +
  assumes answers: "\<exists>n. fst (dispatch c w) = Inr n"
    and keeps_escalation: "policies (snd (dispatch c w)) = policies w
      \<and> escalation_queue (snd (dispatch c w)) = escalation_queue w"
begin

lemma dispatch_ok:
  "\<exists>n w'. dispatch c w = (Inr n, w') \<and> core_of w' = core_of w \<and> policies w' = policies w
      \<and> escalation_queue w' = escalation_queue w"
  using keeps_core [of c w] keeps_escalation [of c w] answers [of c w]
  by (cases "dispatch c w") auto

end

lemma dispatch_bindings_supply: "supply_le w (snd (dispatch_bindings c chs w n))"
proof (induction chs arbitrary: w n)
  case (Cons ch chs)
  let ?w = "record_delivery (ax_organizationId c) (ax_incidentId c) ch (ax_kind c) w"
  have "supply_le w ?w" by (simp add: supply_le_def)
  with Cons [of ?w "n + 1"] show ?case by (auto intro: supply_le_trans)
qed simp

lemma dispatch_channels_supply: "supply_le w (snd (dispatch_channels c chs w n))"
proof (induction chs arbitrary: w n)
  case (Cons ch chs)
  let ?w = "record_delivery (cx_organizationId c) (cx_incidentId c) ch (cx_kind c) w"
  have "supply_le w ?w" by (simp add: supply_le_def)
  with Cons [of ?w "n + 1"] Cons [of w n] show ?case
    by (auto intro: supply_le_trans split: option.split)
qed simp

lemma dispatch_channels_escalation:
  "policies (snd (dispatch_channels c chs w n)) = policies w
     \<and> escalation_queue (snd (dispatch_channels c chs w n)) = escalation_queue w"
  by (induction chs arbitrary: w n) (auto split: option.splits)

interpretation alerts: fan_out dispatch
  by unfold_locales
     (simp_all add: dispatch_def Let_def split_def dispatch_bindings_core dispatch_bindings_supply)

interpretation channel_alerts: channel_fan_out dispatchToChannels
  by unfold_locales
     (simp_all add: dispatchToChannels_def Let_def split_def dispatch_channels_core
        dispatch_channels_escalation dispatch_channels_supply)

subsection \<open>Who is alerted\<close>

text \<open>
  \<open>appended w w'\<close>: the deliveries and alert jobs of \<open>w'\<close> that \<open>w\<close> does not have. Each dispatch
  appends the same number of both, one per channel, in order.
\<close>

definition new_jobs :: "db \<Rightarrow> db \<Rightarrow> alert_job list" where
  "new_jobs w w' = drop (length (alert_queue w)) (alert_queue w')"

definition new_deliveries :: "db \<Rightarrow> db \<Rightarrow> notification_delivery list" where
  "new_deliveries w w' = drop (length (deliveries w)) (deliveries w')"

lemma dispatch_bindings_queue:
  assumes "dispatch_bindings c chs w n = (n', w')"
  shows "n' = n + int (length chs)
    \<and> (\<exists>js. alert_queue w' = alert_queue w @ js \<and> map aj_channelId js = chs
         \<and> (\<forall>j \<in> set js. aj_incidentId j = ax_incidentId c \<and> aj_organizationId j = ax_organizationId c
              \<and> aj_kind j = ax_kind c))
    \<and> (\<exists>ds. deliveries w' = deliveries w @ ds \<and> map nd_channelId ds = chs
         \<and> (\<forall>d \<in> set ds. nd_status d = N_PENDING \<and> nd_organizationId d = ax_organizationId c))
    \<and> channels w' = channels w \<and> bindings w' = bindings w"
  using assms
proof (induction chs arbitrary: w n)
  case Nil
  then show ?case by simp
next
  case (Cons ch chs)
  let ?w = "record_delivery (ax_organizationId c) (ax_incidentId c) ch (ax_kind c) w"
  have "dispatch_bindings c chs ?w (n + 1) = (n', w')" using Cons.prems by simp
  from Cons.IH [OF this] obtain js ds where
    "n' = n + 1 + int (length chs)"
    and js: "alert_queue w' = alert_queue ?w @ js" "map aj_channelId js = chs"
      "\<forall>j \<in> set js. aj_incidentId j = ax_incidentId c \<and> aj_organizationId j = ax_organizationId c
              \<and> aj_kind j = ax_kind c"
    and ds: "deliveries w' = deliveries ?w @ ds" "map nd_channelId ds = chs"
      "\<forall>d \<in> set ds. nd_status d = N_PENDING \<and> nd_organizationId d = ax_organizationId c"
    and "channels w' = channels w" "bindings w' = bindings w" by auto
  then show ?case
    by (intro conjI exI [of _ "last (alert_queue ?w) # js"] exI [of _ "last (deliveries ?w) # ds"])
       (auto simp: record_delivery_rows)
qed

lemma dispatch_channels_queue:
  assumes "dispatch_channels c chs w n = (n', w')"
  shows "\<exists>js. alert_queue w' = alert_queue w @ js \<and> n' = n + int (length js)
    \<and> map aj_channelId js =
        filter (\<lambda>ch. \<exists>r \<in> set (channels w). ac_id r = ch \<and> ac_organizationId r = cx_organizationId c
                  \<and> ac_enabled r \<and> ac_deletedAt r = None) chs
    \<and> (\<forall>j \<in> set js. aj_incidentId j = cx_incidentId c \<and> aj_organizationId j = cx_organizationId c
         \<and> aj_kind j = cx_kind c)"
  using assms
proof (induction chs arbitrary: w n)
  case Nil
  then show ?case by simp
next
  case (Cons ch chs)
  let ?P = "\<lambda>r. ac_id r = ch \<and> ac_organizationId r = cx_organizationId c \<and> ac_enabled r
              \<and> ac_deletedAt r = None"
  show ?case
  proof (cases "find_first ?P (channels w)")
    case None
    then have "dispatch_channels c chs w n = (n', w')" using Cons.prems by simp
    with Cons.IH None show ?thesis by (fastforce simp: find_first_None_iff)
  next
    case (Some r)
    let ?w = "record_delivery (cx_organizationId c) (cx_incidentId c) ch (cx_kind c) w"
    have "dispatch_channels c chs ?w (n + 1) = (n', w')" using Cons.prems Some by simp
    from Cons.IH [OF this] obtain js where
      js: "alert_queue w' = alert_queue ?w @ js" "n' = n + 1 + int (length js)"
      "map aj_channelId js =
        filter (\<lambda>ch. \<exists>r \<in> set (channels w). ac_id r = ch \<and> ac_organizationId r = cx_organizationId c
                  \<and> ac_enabled r \<and> ac_deletedAt r = None) chs"
      "\<forall>j \<in> set js. aj_incidentId j = cx_incidentId c \<and> aj_organizationId j = cx_organizationId c
         \<and> aj_kind j = cx_kind c" by auto
    from find_first_Some_iff [OF Some] have "\<exists>r \<in> set (channels w). ?P r" by blast
    with js show ?thesis
      by (intro exI [of _ "last (alert_queue ?w) # js"]) (auto simp: record_delivery_rows)
  qed
qed

section \<open>The delivery processor\<close>

record alert_payload =
  pl_kind :: alert_kind
  pl_incidentId :: id
  pl_monitorName :: string
  pl_title :: string
  pl_severity :: incident_severity
  pl_summary :: "string option"
  pl_occurredAt :: time

text \<open>
  A transport sends one payload over one channel: it answers the provider's message id or
  throws. The map of transports is partial: a channel type without one has nothing to send with.
\<close>

type_synonym alert_transport = "alert_channel \<Rightarrow> alert_payload \<Rightarrow> js_error + string option"
type_synonym transports = "alert_channel_type \<Rightarrow> alert_transport option"

datatype alert_skip = no_delivery | already_delivered | no_transport
datatype alert_job_result = AlertSkipped alert_skip | AlertDelivered

fun channel_type_name :: "alert_channel_type \<Rightarrow> string" where
  "channel_type_name EMAIL = ''EMAIL''"
| "channel_type_name SMS = ''SMS''"
| "channel_type_name VOICE = ''VOICE''"
| "channel_type_name SLACK = ''SLACK''"
| "channel_type_name DISCORD = ''DISCORD''"
| "channel_type_name TELEGRAM = ''TELEGRAM''"
| "channel_type_name MICROSOFT_TEAMS = ''MICROSOFT_TEAMS''"
| "channel_type_name WEBHOOK = ''WEBHOOK''"
| "channel_type_name PAGERDUTY = ''PAGERDUTY''"
| "channel_type_name OPSGENIE = ''OPSGENIE''"

definition update_delivery ::
  "id \<Rightarrow> (notification_delivery \<Rightarrow> notification_delivery) \<Rightarrow> db \<Rightarrow> db" where
  "update_delivery did f w = w\<lparr>deliveries := update_rows (\<lambda>d. nd_id d = did) f (deliveries w)\<rparr>"

text \<open>The message of an exception the processor stores: at most 500 characters.\<close>

definition no_transport_error :: "alert_channel_type \<Rightarrow> string" where
  "no_transport_error t =
     ''No transport configured for channel type '' @ channel_type_name t @ '' - nothing was sent.''"

text \<open>
  One job. \<open>now\<close> is the clock when sending starts, \<open>later\<close> when the provider has answered. The
  relation \<open>channel\<close> is required by the schema, so a delivery without its channel row is the
  error Prisma raises for an inconsistent query result.
\<close>

definition alert_payload_for :: "alert_job \<Rightarrow> incident \<Rightarrow> time \<Rightarrow> db \<Rightarrow> alert_payload" where
  "alert_payload_for job inc now w =
     \<lparr>pl_kind = aj_kind job, pl_incidentId = aj_incidentId job,
      pl_monitorName =
        (case i_monitorId inc of
           None \<Rightarrow> ''monitor''
         | Some mid \<Rightarrow>
             (case find_first (\<lambda>m. m_id m = mid) (monitors w) of
                None \<Rightarrow> ''monitor'' | Some m \<Rightarrow> m_name m)),
      pl_title = i_title inc, pl_severity = i_severity inc, pl_summary = i_summary inc,
      pl_occurredAt = now\<rparr>"

definition notification_sent :: "alert_job \<Rightarrow> alert_channel \<Rightarrow> time \<Rightarrow> incident_event" where
  "notification_sent job channel now =
     \<lparr>ie_incidentId = aj_incidentId job, ie_type = EV_NOTIFICATION_SENT,
      ie_message = Some (''Alert ('' @ kind_name (aj_kind job) @ '') sent via '' @ ac_name channel @ ''.''),
      ie_actorId = None,
      ie_metadata = Some (JObj
        [(''channelId'', JStr (ac_id channel)),
         (''channelType'', JStr (channel_type_name (ac_type channel))),
         (''deliveryId'', JStr (aj_deliveryId job))]),
      ie_createdAt = now\<rparr>"

definition alert_processor ::
  "transports \<Rightarrow> alert_job \<Rightarrow> time \<Rightarrow> time \<Rightarrow> db \<Rightarrow> (js_error + alert_job_result) \<times> db" where
  "alert_processor transports job now later w =
     (let deliveryId = aj_deliveryId job in
      case find_first (\<lambda>d. nd_id d = deliveryId) (deliveries w) of
        None \<Rightarrow> (Inr (AlertSkipped no_delivery), w)
      | Some delivery \<Rightarrow>
          (case find_first (\<lambda>i. nd_incidentId delivery = Some (i_id i)) (incidents w) of
             None \<Rightarrow> (Inr (AlertSkipped no_delivery), w)
           | Some inc \<Rightarrow>
               if nd_status delivery = N_DELIVERED \<or> nd_status delivery = N_SENT
               then (Inr (AlertSkipped already_delivered), w)
               else
                 (case find_first (\<lambda>c. ac_id c = nd_channelId delivery) (channels w) of
                    None \<Rightarrow> (Inl (Err ''Inconsistent query result''), w)
                  | Some channel \<Rightarrow>
                      (case transports (ac_type channel) of
                         None \<Rightarrow>
                           (Inr (AlertSkipped no_transport),
                            update_delivery deliveryId
                              (\<lambda>d. d\<lparr>nd_status := N_FAILED,
                                      nd_lastError := Some (no_transport_error (ac_type channel))\<rparr>) w)
                       | Some transport \<Rightarrow>
                           (let w1 = update_delivery deliveryId
                                       (\<lambda>d. d\<lparr>nd_status := N_SENDING,
                                               nd_attempts := nd_attempts d + 1,
                                               nd_sentAt := Some now\<rparr>) w
                            in case transport channel (alert_payload_for job inc now w) of
                                 Inr providerMessageId \<Rightarrow>
                                   (Inr AlertDelivered,
                                    create_event (notification_sent job channel later)
                                      (update_delivery deliveryId
                                        (\<lambda>d. d\<lparr>nd_status := N_DELIVERED, nd_deliveredAt := Some later,
                                                nd_providerMessageId := providerMessageId\<rparr>) w1))
                               | Inl e \<Rightarrow>
                                   (Inl e,
                                    update_delivery deliveryId
                                      (\<lambda>d. d\<lparr>nd_status := N_FAILED,
                                              nd_lastError := Some (take 500 (err_message e))\<rparr>)
                                      w1))))))"

lemma update_delivery_sel [simp]:
  "incidents (update_delivery i f w) = incidents w"
  "incident_events (update_delivery i f w) = incident_events w"
  "channels (update_delivery i f w) = channels w"
  "monitors (update_delivery i f w) = monitors w"
  "deliveries (update_delivery i f w) = update_rows (\<lambda>d. nd_id d = i) f (deliveries w)"
  by (simp_all add: update_delivery_def)

text \<open>The queue's retry policy: \<open>attempts: 5\<close>, the transport's outcome possibly different each time.\<close>

definition ALERT_ATTEMPTS :: nat where "ALERT_ATTEMPTS = 5"

fun alert_retries ::
  "(nat \<Rightarrow> transports) \<Rightarrow> alert_job \<Rightarrow> time \<Rightarrow> nat \<Rightarrow> nat \<Rightarrow> db \<Rightarrow> (js_error + alert_job_result) \<times> db"
where
  "alert_retries tr job now k 0 w = (Inl (Err ''attempts exhausted''), w)"
| "alert_retries tr job now k (Suc n) w =
     (case alert_processor (tr k) job now now w of
        (Inr r, w') \<Rightarrow> (Inr r, w')
      | (Inl e, w') \<Rightarrow> (if n = 0 then (Inl e, w') else alert_retries tr job now (Suc k) n w'))"

subsection \<open>What one job does\<close>

text \<open>A job reads one delivery; \<open>sendable\<close> says that it gets as far as looking for a transport.\<close>

definition sendable ::
  "alert_job \<Rightarrow> db \<Rightarrow> notification_delivery \<Rightarrow> incident \<Rightarrow> alert_channel \<Rightarrow> bool" where
  "sendable job w d i ch \<longleftrightarrow>
     find_first (\<lambda>d. nd_id d = aj_deliveryId job) (deliveries w) = Some d
     \<and> find_first (\<lambda>i. nd_incidentId d = Some (i_id i)) (incidents w) = Some i
     \<and> nd_status d \<notin> {N_DELIVERED, N_SENT}
     \<and> find_first (\<lambda>c. ac_id c = nd_channelId d) (channels w) = Some ch"

lemma alert_processor_not_sendable:
  assumes "\<not> (\<exists>d i ch. sendable job w d i ch)"
  shows "\<exists>r. alert_processor tr job now later w = (r, w) \<and> r \<noteq> Inr AlertDelivered"
  using assms by (auto simp: alert_processor_def sendable_def Let_def split: option.splits)

text \<open>The three writes of one job, each folded into one update.\<close>

definition mark_unsent :: "alert_channel \<Rightarrow> notification_delivery \<Rightarrow> notification_delivery" where
  "mark_unsent ch d = d\<lparr>nd_status := N_FAILED, nd_lastError := Some (no_transport_error (ac_type ch))\<rparr>"

definition mark_failed :: "time \<Rightarrow> js_error \<Rightarrow> notification_delivery \<Rightarrow> notification_delivery" where
  "mark_failed now e d =
     d\<lparr>nd_attempts := nd_attempts d + 1, nd_sentAt := Some now, nd_status := N_FAILED,
       nd_lastError := Some (take 500 (err_message e))\<rparr>"

definition mark_sent ::
  "time \<Rightarrow> time \<Rightarrow> string option \<Rightarrow> notification_delivery \<Rightarrow> notification_delivery" where
  "mark_sent now later m d =
     d\<lparr>nd_attempts := nd_attempts d + 1, nd_sentAt := Some now, nd_status := N_DELIVERED,
       nd_deliveredAt := Some later, nd_providerMessageId := m\<rparr>"

lemma mark_sel [simp]:
  "nd_id (mark_unsent ch d) = nd_id d" "nd_id (mark_failed now e d) = nd_id d"
  "nd_id (mark_sent now later m d) = nd_id d"
  "nd_incidentId (mark_sent now later m d) = nd_incidentId d"
  "nd_status (mark_unsent ch d) = N_FAILED" "nd_status (mark_failed now e d) = N_FAILED"
  "nd_status (mark_sent now later m d) = N_DELIVERED"
  by (simp_all add: mark_unsent_def mark_failed_def mark_sent_def)

lemma update_delivery_twice:
  "(\<And>d. nd_id (f d) = nd_id d) \<Longrightarrow>
   update_delivery k g (update_delivery k f w) = update_delivery k (g \<circ> f) w"
  by (simp add: update_delivery_def update_rows_twice)

lemma alert_processor_sendable:
  assumes "sendable job w d i ch"
  shows "alert_processor tr job now later w =
     (case tr (ac_type ch) of
        None \<Rightarrow> (Inr (AlertSkipped no_transport), update_delivery (aj_deliveryId job) (mark_unsent ch) w)
      | Some t \<Rightarrow>
          (case t ch (alert_payload_for job i now w) of
             Inl e \<Rightarrow> (Inl e, update_delivery (aj_deliveryId job) (mark_failed now e) w)
           | Inr m \<Rightarrow>
               (Inr AlertDelivered, create_event (notification_sent job ch later)
                  (update_delivery (aj_deliveryId job) (mark_sent now later m) w))))"
proof -
  have fs: "find_first (\<lambda>d. nd_id d = aj_deliveryId job) (deliveries w) = Some d"
    "find_first (\<lambda>i. nd_incidentId d = Some (i_id i)) (incidents w) = Some i"
    "\<not> (nd_status d = N_DELIVERED \<or> nd_status d = N_SENT)"
    "find_first (\<lambda>c. ac_id c = nd_channelId d) (channels w) = Some ch"
    using assms by (simp_all add: sendable_def)
  have sent: "update_delivery k (\<lambda>d. d\<lparr>nd_status := N_DELIVERED, nd_deliveredAt := Some later,
                                                nd_providerMessageId := m\<rparr>)
      (update_delivery k (\<lambda>d. d\<lparr>nd_status := N_SENDING, nd_attempts := nd_attempts d + 1,
                                nd_sentAt := Some now\<rparr>) w) =
      update_delivery k (mark_sent now later m) w" for k m
    by (subst update_delivery_twice) (simp_all add: mark_sent_def [abs_def] o_def)
  have failed: "update_delivery k (\<lambda>d. d\<lparr>nd_status := N_FAILED,
                                              nd_lastError := Some (take 500 (err_message e))\<rparr>)
      (update_delivery k (\<lambda>d. d\<lparr>nd_status := N_SENDING, nd_attempts := nd_attempts d + 1,
                                nd_sentAt := Some now\<rparr>) w) =
      update_delivery k (mark_failed now e) w" for k e
    by (subst update_delivery_twice) (simp_all add: mark_failed_def [abs_def] o_def)
  show ?thesis
    unfolding alert_processor_def Let_def sent failed
    by (simp only: fs option.case if_False mark_unsent_def [abs_def])
qed

text \<open>The two verdicts a caller can rely on.\<close>

lemma alert_processor_delivered_iff:
  "(\<exists>w'. alert_processor tr job now later w = (Inr AlertDelivered, w')) \<longleftrightarrow>
   (\<exists>d i ch t m. sendable job w d i ch \<and> tr (ac_type ch) = Some t
      \<and> t ch (alert_payload_for job i now w) = Inr m)"
proof (cases "\<exists>d i ch. sendable job w d i ch")
  case False
  with alert_processor_not_sendable [OF False, of tr now later] show ?thesis by auto
next
  case True
  then obtain d i ch where s: "sendable job w d i ch" by blast
  have u: "d' = d \<and> i' = i \<and> ch' = ch" if "sendable job w d' i' ch'" for d' i' ch'
    using s that by (auto simp: sendable_def)
  have "(\<exists>d i ch t m. sendable job w d i ch \<and> tr (ac_type ch) = Some t
           \<and> t ch (alert_payload_for job i now w) = Inr m) \<longleftrightarrow>
        (\<exists>t m. tr (ac_type ch) = Some t \<and> t ch (alert_payload_for job i now w) = Inr m)"
    using s u by blast
  then show ?thesis
    by (auto simp: alert_processor_sendable [OF s] split: option.splits sum.splits)
qed

text \<open>
  The timeline entry and the delivery status tell the same story: a job that ends
  \<open>AlertDelivered\<close> writes exactly one \<open>NOTIFICATION_SENT\<close> entry and leaves its delivery
  \<open>DELIVERED\<close>; any other job writes none.
\<close>

definition sent_events :: "db \<Rightarrow> int" where
  "sent_events w = count_rows (\<lambda>e. ie_type e = EV_NOTIFICATION_SENT) (incident_events w)"

lemma sent_events_simps [simp]:
  "sent_events (update_delivery k f w) = sent_events w"
  "sent_events (create_event (notification_sent job ch now) w) = sent_events w + 1"
  by (simp_all add: sent_events_def notification_sent_def count_rows_def)

lemma alert_processor_events:
  assumes "alert_processor tr job now later w = (r, w')"
  shows "sent_events w' = sent_events w + (if r = Inr AlertDelivered then 1 else 0)"
proof (cases "\<exists>d i ch. sendable job w d i ch")
  case False
  from alert_processor_not_sendable [OF False, of tr now later] assms show ?thesis by auto
next
  case True
  then obtain d i ch where "sendable job w d i ch" by blast
  from alert_processor_sendable [OF this, of tr now later] assms show ?thesis
    by (auto split: option.splits sum.splits)
qed

lemma alert_processor_delivered_state:
  assumes "alert_processor tr job now later w = (Inr AlertDelivered, w')"
  shows "\<exists>d i. find_first (\<lambda>d. nd_id d = aj_deliveryId job) (deliveries w') = Some d
     \<and> nd_status d = N_DELIVERED
     \<and> find_first (\<lambda>i. nd_incidentId d = Some (i_id i)) (incidents w') = Some i"
proof -
  obtain d i ch t m where s: "sendable job w d i ch" "tr (ac_type ch) = Some t"
    "t ch (alert_payload_for job i now w) = Inr m"
    using alert_processor_delivered_iff [of tr job now later w] assms by blast
  with alert_processor_sendable [OF s(1), of tr now later] assms
  have w': "w' = create_event (notification_sent job ch later)
              (update_delivery (aj_deliveryId job) (mark_sent now later m) w)" by simp
  have "find_first (\<lambda>d. nd_id d = aj_deliveryId job) (deliveries w') = Some (mark_sent now later m d)"
    using s(1) by (simp add: w' find_first_update_rows sendable_def)
  moreover have "find_first (\<lambda>x. nd_incidentId (mark_sent now later m d) = Some (i_id x)) (incidents w')
      = Some i"
    using s(1) by (simp add: w' sendable_def)
  ultimately show ?thesis
    by (intro exI [of _ "mark_sent now later m d"] exI [of _ i]) simp
qed

lemma alert_processor_after_delivery:
  assumes "alert_processor tr job now later w = (Inr AlertDelivered, w')"
    and "aj_deliveryId job' = aj_deliveryId job"
  shows "alert_processor tr' job' now' later' w' = (Inr (AlertSkipped already_delivered), w')"
  using alert_processor_delivered_state [OF assms(1)] assms(2)
  by (auto simp: alert_processor_def Let_def)

lemma alert_retries_delivered:
  "alert_retries tr job now k n w = (Inr AlertDelivered, w') \<Longrightarrow>
   \<exists>j v. alert_processor (tr j) job now now v = (Inr AlertDelivered, w')"
  by (induction n arbitrary: k w) (auto split: prod.splits sum.splits if_splits)

text \<open>However often the queue runs a job, at most one message goes out and is recorded.\<close>

lemma alert_retries_events:
  assumes "alert_retries tr job now k n w = (r, w')"
  shows "sent_events w' = sent_events w + (if r = Inr AlertDelivered then 1 else 0)"
  using assms
proof (induction n arbitrary: k w)
  case 0
  then show ?case by auto
next
  case (Suc n)
  obtain r1 w1 where p: "alert_processor (tr k) job now now w = (r1, w1)" by fastforce
  note e = alert_processor_events [OF p]
  show ?case
  proof (cases r1)
    case (Inr x)
    with Suc.prems p e show ?thesis by auto
  next
    case (Inl x)
    with Suc.prems p e Suc.IH [of "Suc k" w1] show ?thesis by (auto split: if_splits)
  qed
qed

end
