(* ===== verification/Ssrf.thy ===== *)
theory Ssrf
  imports Prelude
begin

text \<open>
  The network guard of \<^verbatim>\<open>packages/notifications/src/security/ssrf.ts\<close>: classification of IPv4
  and IPv6 literals, the synchronous URL check, the resolving check and the connect-time
  lookup. \<open>parse_url\<close> (the URL constructor of the runtime) and the name resolver are
  parameters; \<open>isIP\<close> of \<open>node:net\<close> is modelled. Bit operations are on \<open>32 word\<close>: JavaScript's
  \<open><<\<close>, \<open>|\<close>, \<open>&\<close> and \<open>>>> 0\<close> compute modulo \<open>2^32\<close>, and \<open>===\<close> compares the same bit patterns.
\<close>

section \<open>IPv4\<close>

unbundle bit_operations_syntax

definition is_octet_text :: "string \<Rightarrow> bool" where
  "is_octet_text part = (1 \<le> length part \<and> length part \<le> 3 \<and> list_all is_digit part)"

fun ipv4_octets :: "32 word \<Rightarrow> string list \<Rightarrow> 32 word option" where
  "ipv4_octets n [] = Some n"
| "ipv4_octets n (part # parts) =
     (if \<not> is_octet_text part then None
      else let octet = nat_of_digits 10 digit_val part
           in if octet > 255 then None
              else ipv4_octets (push_bit 8 n OR of_nat octet) parts)"

definition ipv4ToInt :: "string \<Rightarrow> 32 word option" where
  "ipv4ToInt ip =
     (let parts = split_on (CHR ''.'') ip
      in if length parts \<noteq> 4 then None else ipv4_octets 0 parts)"

definition inCidr4 :: "32 word \<Rightarrow> string \<Rightarrow> nat \<Rightarrow> bool" where
  "inCidr4 ipInt base bits =
     (case ipv4ToInt base of
        None \<Rightarrow> False
      | Some baseInt \<Rightarrow>
          let mask = (if bits = 0 then 0 else push_bit (32 - bits) 0xffffffff :: 32 word)
          in ipInt AND mask = baseInt AND mask)"

definition BLOCKED_V4 :: "(string \<times> nat) list" where
  "BLOCKED_V4 =
     [(''0.0.0.0'', 8), (''10.0.0.0'', 8), (''100.64.0.0'', 10), (''127.0.0.0'', 8),
      (''169.254.0.0'', 16), (''172.16.0.0'', 12), (''192.0.0.0'', 24), (''192.0.2.0'', 24),
      (''192.168.0.0'', 16), (''198.18.0.0'', 15), (''198.51.100.0'', 24),
      (''203.0.113.0'', 24), (''224.0.0.0'', 4), (''240.0.0.0'', 4)]"

definition isBlockedIpv4 :: "string \<Rightarrow> bool" where
  "isBlockedIpv4 ip =
     (case ipv4ToInt ip of
        None \<Rightarrow> True
      | Some n \<Rightarrow> list_ex (\<lambda>(base, bits). inCidr4 n base bits) BLOCKED_V4)"

section \<open>IPv6\<close>

text \<open>\<open>Number.prototype.toString(16)\<close> of a 16-bit value.\<close>

definition hex_char :: "nat \<Rightarrow> char" where
  "hex_char n = ''0123456789abcdef'' ! n"

fun show_hex :: "nat \<Rightarrow> string" where
  "show_hex n = (if n < 16 then [hex_char n] else show_hex (n div 16) @ [hex_char (n mod 16)])"

declare show_hex.simps [simp del]

text \<open>
  \<open>slice(0, lastIndexOf(":") + 1)\<close> and \<open>slice(lastIndexOf(":") + 1)\<close>: everything up to and
  including the last colon, and the rest.
\<close>

definition upto_last_colon :: "string \<Rightarrow> string" where
  "upto_last_colon s = rev (dropWhile (\<lambda>c. c \<noteq> CHR '':'') (rev s))"

definition after_last_colon :: "string \<Rightarrow> string" where
  "after_last_colon s = rev (takeWhile (\<lambda>c. c \<noteq> CHR '':'') (rev s))"

definition normalizeEmbeddedV4 :: "string \<Rightarrow> string option" where
  "normalizeEmbeddedV4 input =
     (if \<not> str_includes input ''.'' then Some input
      else (case ipv4ToInt (after_last_colon input) of
              None \<Rightarrow> None
            | Some v4 \<Rightarrow>
                (let hi = show_hex (unat (drop_bit 16 v4 AND 0xffff));
                     lo = show_hex (unat (v4 AND 0xffff))
                 in Some (upto_last_colon input @ hi @ '':'' @ lo))))"

text \<open>\<open>s.split("::")\<close>: separators are taken from the left and do not overlap.\<close>

fun split_double_colon :: "string \<Rightarrow> string list" where
  "split_double_colon [] = [[]]"
| "split_double_colon [c] = [[c]]"
| "split_double_colon (c # d # s) =
     (if c = CHR '':'' \<and> d = CHR '':'' then [] # split_double_colon s
      else (case split_double_colon (d # s) of p # ps \<Rightarrow> (c # p) # ps | [] \<Rightarrow> [[c]]))"

definition is_group_text :: "string \<Rightarrow> bool" where
  "is_group_text g = (1 \<le> length g \<and> length g \<le> 4 \<and> list_all is_hex g)"

definition group_value :: "string \<Rightarrow> nat" where
  "group_value g = nat_of_digits 16 hex_val g"

definition toGroups :: "string \<Rightarrow> nat list option" where
  "toGroups str =
     (if str = '''' then Some []
      else (let gs = split_on (CHR '':'') str
            in if list_all is_group_text gs then Some (map group_value gs) else None))"

definition parseIpv6 :: "string \<Rightarrow> nat list option" where
  "parseIpv6 input =
     (let stripped = hd (split_on (CHR ''%'') input) in
      case normalizeEmbeddedV4 stripped of
        None \<Rightarrow> None
      | Some normal \<Rightarrow>
          (case split_double_colon normal of
             [whole] \<Rightarrow>
               (case toGroups normal of
                  None \<Rightarrow> None
                | Some groups \<Rightarrow> if length groups = 8 then Some groups else None)
           | [h, t] \<Rightarrow>
               (case (toGroups h, toGroups t) of
                  (Some front, Some back) \<Rightarrow>
                    (let missing = 8 - int (length front) - int (length back)
                     in if missing < 1 then None
                        else Some (front @ replicate (nat missing) 0 @ back))
                | _ \<Rightarrow> None)
           | _ \<Rightarrow> None))"

definition groupsToV4 :: "nat \<Rightarrow> nat \<Rightarrow> string" where
  "groupsToV4 g6 g7 =
     (let b = (\<lambda>n. show_nat n)
      in b ((g6 div 256) mod 256) @ ''.'' @ b (g6 mod 256) @ ''.''
         @ b ((g7 div 256) mod 256) @ ''.'' @ b (g7 mod 256))"

definition blocked_groups :: "nat list \<Rightarrow> bool" where
  "blocked_groups g =
     (if list_all (\<lambda>x. x = 0) g then True
      else if list_all (\<lambda>x. x = 0) (take 7 g) \<and> g ! 7 = 1 then True
      else if list_all (\<lambda>x. x = 0) (take 5 g) \<and> g ! 5 = 0xffff
      then isBlockedIpv4 (groupsToV4 (g ! 6) (g ! 7))
      else if list_all (\<lambda>x. x = 0) (take 6 g) \<and> (g ! 6 \<noteq> 0 \<or> g ! 7 \<noteq> 0)
      then isBlockedIpv4 (groupsToV4 (g ! 6) (g ! 7))
      else let first = g ! 0
           in (0xfc00 \<le> first \<and> first \<le> 0xfdff)
              \<or> (0xfe80 \<le> first \<and> first \<le> 0xfebf)
              \<or> (first div 256) mod 256 = 0xff)"

definition isBlockedIpv6 :: "string \<Rightarrow> bool" where
  "isBlockedIpv6 ip = (case parseIpv6 ip of None \<Rightarrow> True | Some g \<Rightarrow> blocked_groups g)"

section \<open>\<open>isIP\<close> of \<open>node:net\<close>\<close>

text \<open>
  IPv4: four decimal octets without leading zeros. IPv6: eight groups of one to four hex
  digits, the last two possibly written as an IPv4 address, one run of groups possibly
  written \<open>::\<close>, and a zone of at least one of \<open>[0-9a-zA-Z.:-]\<close> after \<open>%\<close>.
\<close>

definition is_ipv4_octet :: "string \<Rightarrow> bool" where
  "is_ipv4_octet p =
     (is_octet_text p \<and> nat_of_digits 10 digit_val p \<le> 255 \<and> (length p = 1 \<or> hd p \<noteq> CHR ''0''))"

definition isIPv4 :: "string \<Rightarrow> bool" where
  "isIPv4 s = (length (split_on (CHR ''.'') s) = 4 \<and> list_all is_ipv4_octet (split_on (CHR ''.'') s))"

definition is_zone_char :: "char \<Rightarrow> bool" where
  "is_zone_char c = (is_digit c \<or> is_lower_alpha (lower_char c) \<or> c \<in> {CHR ''.'', CHR '':'', CHR ''-''})"

definition isIPv6 :: "string \<Rightarrow> bool" where
  "isIPv6 s =
     ((case split_on (CHR ''%'') s of
         [_] \<Rightarrow> True
       | [_, zone] \<Rightarrow> zone \<noteq> '''' \<and> list_all is_zone_char zone
       | _ \<Rightarrow> False)
      \<and> (let a = hd (split_on (CHR ''%'') s)
         in (str_includes a ''.'' \<longrightarrow> isIPv4 (after_last_colon a) \<and> upto_last_colon a \<noteq> '''')
            \<and> parseIpv6 a \<noteq> None))"

definition isIP :: "string \<Rightarrow> nat" where
  "isIP s = (if isIPv4 s then 4 else if isIPv6 s then 6 else 0)"

definition isBlockedIp :: "string \<Rightarrow> bool" where
  "isBlockedIp ip =
     (let kind = isIP ip
      in if kind = 4 then isBlockedIpv4 ip else if kind = 6 then isBlockedIpv6 ip else True)"

section \<open>URLs\<close>

record url =
  url_href :: string
  url_protocol :: string
  url_username :: string
  url_password :: string
  url_hostname :: string
  url_port :: string

text \<open>\<open>new URL(raw)\<close>: \<open>None\<close> is the \<open>TypeError\<close>.\<close>

type_synonym url_parser = "string \<Rightarrow> url option"

definition BLOCKED_HOSTNAMES :: "string list" where
  "BLOCKED_HOSTNAMES =
     [''localhost'', ''metadata.google.internal'', ''metadata.goog'', ''metadata.azure.com'']"

text \<open>The option wins over the environment flag.\<close>

definition allowPrivateNetworks :: "bool \<Rightarrow> bool option \<Rightarrow> bool" where
  "allowPrivateNetworks env opts = (case opts of Some b \<Rightarrow> b | None \<Rightarrow> env)"

definition strip_brackets :: "string \<Rightarrow> string" where
  "strip_brackets h =
     (let a = (if h \<noteq> '''' \<and> hd h = CHR ''['' then tl h else h)
      in if a \<noteq> '''' \<and> last a = CHR '']'' then butlast a else a)"

definition normalizeHost :: "string \<Rightarrow> string" where
  "normalizeHost hostname =
     (let a = strip_brackets hostname;
          b = (if a \<noteq> '''' \<and> last a = CHR ''.'' then butlast a else a)
      in to_lower b)"

definition validateUrl :: "url_parser \<Rightarrow> bool \<Rightarrow> string \<Rightarrow> js_error + url" where
  "validateUrl parse_url allow raw =
     (case parse_url raw of
        None \<Rightarrow> Inl (SsrfErr (''Invalid URL: '' @ raw) ''ssrf_invalid_url'')
      | Some u \<Rightarrow>
          if url_protocol u \<noteq> ''http:'' \<and> url_protocol u \<noteq> ''https:''
          then Inl (SsrfErr (''Blocked protocol \"'' @ url_protocol u @ ''\"'') ''ssrf_protocol'')
          else if url_username u \<noteq> '''' \<or> url_password u \<noteq> ''''
          then Inl (SsrfErr ''Embedded URL credentials are not allowed'' ''ssrf_credentials'')
          else
            (let host = normalizeHost (url_hostname u)
             in if host = '''' then Inl (SsrfErr ''URL has no hostname'' ''ssrf_invalid_url'')
                else if \<not> allow \<and> (host \<in> set BLOCKED_HOSTNAMES \<or> host = ''localhost''
                                   \<or> ends_with host ''.localhost'')
                then Inl (SsrfErr (''Blocked hostname \"'' @ host @ ''\"'') ''ssrf_blocked_host'')
                else if \<not> allow \<and> isIP host \<noteq> 0 \<and> isBlockedIp host
                then Inl (SsrfErr (''Blocked IP address \"'' @ host @ ''\"'') ''ssrf_blocked'')
                else Inr u))"

section \<open>Resolution\<close>

text \<open>\<open>dns.lookup\<close> with \<open>all: true\<close>: the addresses, or its error.\<close>

type_synonym resolver = "string \<Rightarrow> js_error + string list"

definition assertSafeUrl :: "url_parser \<Rightarrow> resolver \<Rightarrow> bool \<Rightarrow> string \<Rightarrow> js_error + url" where
  "assertSafeUrl parse_url lookupAll allow raw =
     (case validateUrl parse_url allow raw of
        Inl e \<Rightarrow> Inl e
      | Inr u \<Rightarrow>
          if allow then Inr u
          else
            (let host = normalizeHost (url_hostname u)
             in if isIP host \<noteq> 0
                then (if isBlockedIp host
                      then Inl (SsrfErr (''Blocked IP address \"'' @ host @ ''\"'') ''ssrf_blocked'')
                      else Inr u)
                else (case lookupAll host of
                        Inl e \<Rightarrow>
                          Inl (SsrfErr (''Could not resolve \"'' @ host @ ''\": '' @ err_message e)
                            ''ssrf_dns_error'')
                      | Inr addresses \<Rightarrow>
                          if addresses = []
                          then Inl (SsrfErr (''No address resolved for \"'' @ host @ ''\"'')
                                     ''ssrf_no_address'')
                          else (case find_first isBlockedIp addresses of
                                  Some a \<Rightarrow>
                                    Inl (SsrfErr (''\"'' @ host @ ''\" resolves to blocked address '' @ a)
                                      ''ssrf_blocked'')
                                | None \<Rightarrow> Inr u))))"

text \<open>
  The connect-time lookup. Its callback receives an error, the list of addresses (\<open>all\<close>) or one
  address. With private networks allowed it is the system's lookup itself.
\<close>

datatype lookup_answer = Addresses "string list" | Address string

definition system_lookup :: "resolver \<Rightarrow> bool \<Rightarrow> string \<Rightarrow> js_error + lookup_answer" where
  "system_lookup dns all hostname =
     (case dns hostname of
        Inl e \<Rightarrow> Inl e
      | Inr as \<Rightarrow>
          if all then Inr (Addresses as)
          else (case as of [] \<Rightarrow> Inl (NodeErr ''ENOTFOUND'' ''getaddrinfo ENOTFOUND'')
                | a # _ \<Rightarrow> Inr (Address a)))"

definition createSecureLookup ::
  "resolver \<Rightarrow> bool \<Rightarrow> bool \<Rightarrow> string \<Rightarrow> js_error + lookup_answer" where
  "createSecureLookup dns allow all hostname =
     (if allow then system_lookup dns all hostname
      else (case dns hostname of
              Inl e \<Rightarrow> Inl e
            | Inr addresses \<Rightarrow>
                if addresses = []
                then Inl (SsrfErr (''No address for \"'' @ hostname @ ''\"'') ''ssrf_no_address'')
                else (case find_first isBlockedIp addresses of
                        Some a \<Rightarrow>
                          Inl (SsrfErr (''Blocked address '' @ a @ '' for \"'' @ hostname @ ''\"'')
                            ''ssrf_blocked'')
                      | None \<Rightarrow>
                          if all then Inr (Addresses addresses) else Inr (Address (hd addresses)))))"

fun answer_addresses :: "lookup_answer \<Rightarrow> string list" where
  "answer_addresses (Addresses as) = as"
| "answer_addresses (Address a) = [a]"

section \<open>Laws\<close>

lemma lookup_answers_safe:
  assumes "createSecureLookup dns False all hostname = Inr ans" and "a \<in> set (answer_addresses ans)"
  shows "\<not> isBlockedIp a"
  using assms
  by (auto simp: createSecureLookup_def find_first_None_iff split: sum.splits option.splits if_splits)

lemma lookup_answers_resolved:
  assumes "createSecureLookup dns False all hostname = Inr ans"
  shows "\<exists>as. dns hostname = Inr as \<and> as \<noteq> [] \<and> set (answer_addresses ans) \<subseteq> set as"
  using assms
  by (auto simp: createSecureLookup_def split: sum.splits option.splits if_splits)

lemma validateUrl_Inr:
  assumes "validateUrl p allow raw = Inr u"
  shows "p raw = Some u" "url_protocol u \<in> {''http:'', ''https:''}"
    "url_username u = ''''" "url_password u = ''''" "normalizeHost (url_hostname u) \<noteq> ''''"
    "\<not> allow \<Longrightarrow> normalizeHost (url_hostname u) \<notin> set BLOCKED_HOSTNAMES"
    "\<not> allow \<Longrightarrow> isIP (normalizeHost (url_hostname u)) \<noteq> 0 \<Longrightarrow>
       \<not> isBlockedIp (normalizeHost (url_hostname u))"
  using assms by (auto simp: validateUrl_def Let_def split: option.splits if_splits)

subsection \<open>Decimal octets\<close>

lemma digit_char_digit: "n < 10 \<Longrightarrow> is_digit (digit_char n) \<and> digit_val (digit_char n) = n"
proof -
  assume "n < 10"
  then have "n \<in> {0, 1, 2, 3, 4, 5, 6, 7, 8, 9}" by auto
  then show ?thesis by (auto simp: digit_char_def is_digit_def digit_val_def)
qed

lemma nat_of_digits_snoc [simp]: "nat_of_digits b v (s @ [c]) = b * nat_of_digits b v s + v c"
  by (simp add: nat_of_digits_def)

lemma show_nat_octet:
  assumes "n < 1000"
  shows "is_octet_text (show_nat n) \<and> nat_of_digits 10 digit_val (show_nat n) = n"
proof -
  have u: "show_nat m = (if m < 10 then [digit_char m] else show_nat (m div 10) @ [digit_char (m mod 10)])"
    for m by (rule show_nat.simps)
  have one: "is_octet_text [digit_char m] \<and> nat_of_digits 10 digit_val [digit_char m] = m" if "m < 10" for m
    using digit_char_digit [OF that] by (simp add: is_octet_text_def nat_of_digits_def)
  have two: "show_nat m = [digit_char (m div 10), digit_char (m mod 10)]" if "10 \<le> m" "m < 100" for m
    using that by (subst u) (simp add: u [of "m div 10"] less_mult_imp_div_less)
  consider "n < 10" | "10 \<le> n" "n < 100" | "100 \<le> n" by linarith
  then show ?thesis
  proof cases
    case 1
    then show ?thesis using one by (subst (1 2) u) simp
  next
    case 2
    then have "n div 10 < 10" "n mod 10 < 10" by auto
    note d = digit_char_digit [OF this(1)] digit_char_digit [OF this(2)]
    show ?thesis using d by (simp add: two [OF 2] is_octet_text_def nat_of_digits_def)
  next
    case 3
    then have n: "10 \<le> n div 10" "n div 10 < 100" using assms by auto
    then have lt: "n div 10 div 10 < 10" "n div 10 mod 10 < 10" "n mod 10 < 10" by auto
    note d = digit_char_digit [OF lt(1)] digit_char_digit [OF lt(2)] digit_char_digit [OF lt(3)]
    have "show_nat n = [digit_char (n div 10 div 10), digit_char (n div 10 mod 10), digit_char (n mod 10)]"
      using 3 two [OF n] by (subst u) simp
    moreover have "10 * (10 * (n div 10 div 10) + n div 10 mod 10) + n mod 10 = n" by simp
    ultimately show ?thesis using d by (simp add: is_octet_text_def nat_of_digits_def)
  qed
qed

subsection \<open>What the IPv4 ranges are\<close>

definition dotted :: "nat \<Rightarrow> nat \<Rightarrow> nat \<Rightarrow> nat \<Rightarrow> string" where
  "dotted a b c d = show_nat a @ ''.'' @ show_nat b @ ''.'' @ show_nat c @ ''.'' @ show_nat d"

lemma split_on_append:
  "c \<notin> set p \<Longrightarrow> split_on c (p @ c # s) = p # split_on c s"
  by (induction p) auto

lemma octet_no_dot: "is_octet_text p \<Longrightarrow> CHR ''.'' \<notin> set p"
  by (auto simp: is_octet_text_def list_all_iff is_digit_def)

lemma split_dotted:
  assumes "a < 1000" "b < 1000" "c < 1000" "d < 1000"
  shows "split_on (CHR ''.'') (dotted a b c d) = [show_nat a, show_nat b, show_nat c, show_nat d]"
  using assms
  by (simp add: dotted_def split_on_append split_on_no_sep octet_no_dot show_nat_octet)

definition quad :: "nat \<Rightarrow> nat \<Rightarrow> nat \<Rightarrow> nat \<Rightarrow> nat" where
  "quad a b c d = ((a * 256 + b) * 256 + c) * 256 + d"

lemma push_octet:
  assumes "m < 256 ^ 3" "k < 256"
  shows "push_bit 8 (of_nat m) OR of_nat k = (of_nat (m * 256 + k) :: 32 word)"
proof -
  have "push_bit 8 (of_nat m) AND of_nat k = (0 :: 32 word)"
  proof (rule bit_word_eqI)
    fix n assume "n < LENGTH(32)"
    have "\<not> bit k n" if "8 \<le> n"
    proof -
      have "k < 2 ^ n" using assms(2) that power_increasing [of 8 n "2 :: nat"] by simp
      then show ?thesis by (simp add: bit_iff_odd)
    qed
    then show "bit (push_bit 8 (of_nat m) AND of_nat k :: 32 word) n = bit (0 :: 32 word) n"
      by (auto simp: bit_simps)
  qed
  then have "push_bit 8 (of_nat m) OR of_nat k = push_bit 8 (of_nat m) + (of_nat k :: 32 word)"
    by (simp add: disjunctive_add_eq_or [symmetric])
  also have "\<dots> = of_nat (m * 256 + k)"
    by (simp add: push_bit_eq_mult)
  finally show ?thesis .
qed

lemma ipv4ToInt_dotted:
  assumes "a < 256" "b < 256" "c < 256" "d < 256"
  shows "ipv4ToInt (dotted a b c d) = Some (of_nat (quad a b c d))"
proof -
  have le: "a * 256 + b < 256 ^ 3" "(a * 256 + b) * 256 + c < 256 ^ 3" "a < 256 ^ 3" "(0 :: nat) < 256 ^ 3"
    using assms by simp_all
  note p = push_octet [OF le(4) assms(1)] push_octet [OF le(3) assms(2)]
    push_octet [OF le(1) assms(3)] push_octet [OF le(2) assms(4)]
  have "ipv4_octets (of_nat 0) [show_nat a, show_nat b, show_nat c, show_nat d]
      = Some (of_nat (quad a b c d))"
    using assms p by (simp add: Let_def show_nat_octet quad_def del: of_nat_0 of_nat_add of_nat_mult)
  then show ?thesis
    using assms by (simp add: ipv4ToInt_def split_dotted Let_def)
qed

lemma mask_eq_iff:
  "(n :: 32 word) AND push_bit k (- 1) = m AND push_bit k (- 1) \<longleftrightarrow>
     unat n div 2 ^ k = unat m div 2 ^ k"
proof -
  have "n AND push_bit k (- 1) = m AND push_bit k (- 1) \<longleftrightarrow> drop_bit k n = drop_bit k m"
  proof
    assume eq: "n AND push_bit k (- 1) = m AND push_bit k (- 1)"
    show "drop_bit k n = drop_bit k m"
    proof (rule bit_word_eqI)
      fix i assume i: "i < LENGTH(32)"
      have "bit (n AND push_bit k (- 1)) (k + i) = bit (m AND push_bit k (- 1)) (k + i)"
        by (simp only: eq)
      then show "bit (drop_bit k n) i = bit (drop_bit k m) i"
        by (cases "k + i < 32") (auto simp: bit_simps not_less dest: bit_imp_le_length)
    qed
  next
    assume eq: "drop_bit k n = drop_bit k m"
    show "n AND push_bit k (- 1) = m AND push_bit k (- 1)"
    proof (rule bit_word_eqI)
      fix i assume i: "i < LENGTH(32)"
      have "bit n i = bit m i" if "k \<le> i"
      proof -
        have "bit (drop_bit k n) (i - k) = bit (drop_bit k m) (i - k)" by (simp only: eq)
        with that show ?thesis by (simp add: bit_drop_bit_eq)
      qed
      then show "bit (n AND push_bit k (- 1)) i = bit (m AND push_bit k (- 1)) i"
        by (auto simp: bit_simps)
    qed
  qed
  also have "\<dots> \<longleftrightarrow> unat n div 2 ^ k = unat m div 2 ^ k"
  proof -
    have "unat x mod 4294967296 = unat x" for x :: "32 word"
      using unsigned_less [of x, where 'a = nat] by simp
    then show ?thesis
      by (simp only: word_unat_eq_iff unsigned_drop_bit_eq) (simp add: drop_bit_eq_div take_bit_eq_mod)
  qed
  finally show ?thesis .
qed

lemma inCidr4_iff:
  assumes "0 < bits" "bits \<le> 32"
  shows "inCidr4 n base bits \<longleftrightarrow>
     (\<exists>m. ipv4ToInt base = Some m \<and> unat n div 2 ^ (32 - bits) = unat m div 2 ^ (32 - bits))"
proof -
  have ones: "(0xffffffff :: 32 word) = - 1" by simp
  have "inCidr4 n base bits \<longleftrightarrow> (case ipv4ToInt base of None \<Rightarrow> False
      | Some m \<Rightarrow> n AND push_bit (32 - bits) (- 1) = m AND push_bit (32 - bits) (- 1))"
    using assms(1) unfolding inCidr4_def Let_def ones by (cases "ipv4ToInt base") simp_all
  also have "\<dots> \<longleftrightarrow> (\<exists>m. ipv4ToInt base = Some m
      \<and> unat n div 2 ^ (32 - bits) = unat m div 2 ^ (32 - bits))"
    unfolding mask_eq_iff by (cases "ipv4ToInt base") simp_all
  finally show ?thesis .
qed

text \<open>
  The IPv4 classification, on octets: the union of the fourteen reserved ranges.
\<close>

lemma blocked_v4_bases:
  "ipv4ToInt ''0.0.0.0'' = Some 0" "ipv4ToInt ''10.0.0.0'' = Some 0x0A000000"
  "ipv4ToInt ''100.64.0.0'' = Some 0x64400000" "ipv4ToInt ''127.0.0.0'' = Some 0x7F000000"
  "ipv4ToInt ''169.254.0.0'' = Some 0xA9FE0000" "ipv4ToInt ''172.16.0.0'' = Some 0xAC100000"
  "ipv4ToInt ''192.0.0.0'' = Some 0xC0000000" "ipv4ToInt ''192.0.2.0'' = Some 0xC0000200"
  "ipv4ToInt ''192.168.0.0'' = Some 0xC0A80000" "ipv4ToInt ''198.18.0.0'' = Some 0xC6120000"
  "ipv4ToInt ''198.51.100.0'' = Some 0xC6336400" "ipv4ToInt ''203.0.113.0'' = Some 0xCB007100"
  "ipv4ToInt ''224.0.0.0'' = Some 0xE0000000" "ipv4ToInt ''240.0.0.0'' = Some 0xF0000000"
  by code_simp+

definition reserved_v4 :: "nat \<Rightarrow> nat \<Rightarrow> nat \<Rightarrow> bool" where
  "reserved_v4 a b c \<longleftrightarrow>
     a = 0 \<or> a = 10 \<or> a = 127 \<or> 224 \<le> a
     \<or> a = 100 \<and> 64 \<le> b \<and> b < 128
     \<or> a = 169 \<and> b = 254
     \<or> a = 172 \<and> 16 \<le> b \<and> b < 32
     \<or> a = 192 \<and> (b = 168 \<or> b = 0 \<and> (c = 0 \<or> c = 2))
     \<or> a = 198 \<and> (b = 18 \<or> b = 19 \<or> b = 51 \<and> c = 100)
     \<or> a = 203 \<and> b = 0 \<and> c = 113"

lemma blocked_v4_unat:
  "list_ex (\<lambda>(base, bits). inCidr4 n base bits) BLOCKED_V4 \<longleftrightarrow>
     (let u = unat n in
      u div 16777216 = 0 \<or> u div 16777216 = 10 \<or> u div 4194304 = 401 \<or> u div 16777216 = 127
      \<or> u div 65536 = 43518 \<or> u div 1048576 = 2753 \<or> u div 256 = 12582912
      \<or> u div 256 = 12582914 \<or> u div 65536 = 49320 \<or> u div 131072 = 25353
      \<or> u div 256 = 12989284 \<or> u div 256 = 13303921 \<or> u div 268435456 = 14
      \<or> u div 268435456 = 15)"
  by (simp add: BLOCKED_V4_def inCidr4_iff blocked_v4_bases Let_def)

lemma div_shift: "0 < m \<Longrightarrow> (a * (k * m) + b) div m = a * k + b div m" for a b k m :: nat
  by (metis add.commute div_mult_self1 mult.assoc neq0_conv)

lemma pair_eq_iff: "b < m \<Longrightarrow> a * m + b = k \<longleftrightarrow> a = k div m \<and> b = k mod m" for a b k m :: nat
  by auto

lemma div_eq_range: "0 < m \<Longrightarrow> b div m = k \<longleftrightarrow> k * m \<le> b \<and> b < k * m + m" for b k m :: nat
  using div_times_less_eq_dividend [of b m] dividend_less_div_times [of m b]
  by (auto simp: mult.commute add.commute intro!: div_nat_eqI)

lemma quad_div:
  assumes "b < 256" "c < 256" "d < 256"
  shows "quad a b c d div 256 = (a * 256 + b) * 256 + c"
    "quad a b c d div 65536 = a * 256 + b" "quad a b c d div 131072 = a * 128 + b div 2"
    "quad a b c d div 1048576 = a * 16 + b div 16" "quad a b c d div 4194304 = a * 4 + b div 64"
    "quad a b c d div 16777216 = a" "quad a b c d div 268435456 = a div 16"
proof -
  show q8: "quad a b c d div 256 = (a * 256 + b) * 256 + c"
    using assms(3) by (simp add: quad_def)
  have "quad a b c d div 65536 = quad a b c d div 256 div 256"
    by (simp add: div_mult2_eq [symmetric])
  also have "\<dots> = ((a * 256 + b) * 256 + c) div 256" by (simp only: q8)
  also have "\<dots> = a * 256 + b" using assms(2) by simp
  finally show q16: "quad a b c d div 65536 = a * 256 + b" .
  have "quad a b c d div 131072 = quad a b c d div 65536 div 2"
    "quad a b c d div 1048576 = quad a b c d div 65536 div 16"
    "quad a b c d div 4194304 = quad a b c d div 65536 div 64"
    "quad a b c d div 16777216 = quad a b c d div 65536 div 256"
    "quad a b c d div 268435456 = quad a b c d div 65536 div 256 div 16"
    by (simp_all add: div_mult2_eq [symmetric])
  moreover have "(a * 256 + b) div 256 = a" using assms(1) by simp
  moreover note div_shift [of 2 a 128 b, simplified] div_shift [of 16 a 16 b, simplified]
    div_shift [of 64 a 4 b, simplified]
  ultimately show "quad a b c d div 131072 = a * 128 + b div 2"
    "quad a b c d div 1048576 = a * 16 + b div 16" "quad a b c d div 4194304 = a * 4 + b div 64"
    "quad a b c d div 16777216 = a" "quad a b c d div 268435456 = a div 16"
    by (simp_all only: q16)
qed

lemma isBlockedIpv4_reserved:
  assumes "a < 256" "b < 256" "c < 256" "d < 256"
  shows "isBlockedIpv4 (dotted a b c d) \<longleftrightarrow> reserved_v4 a b c"
proof -
  have q: "quad a b c d < 2 ^ 32" using assms by (simp add: quad_def)
  have "isBlockedIpv4 (dotted a b c d) \<longleftrightarrow>
      list_ex (\<lambda>(base, bits). inCidr4 (of_nat (quad a b c d)) base bits) BLOCKED_V4"
    by (simp add: isBlockedIpv4_def ipv4ToInt_dotted assms)
  moreover have "unat (of_nat (quad a b c d) :: 32 word) = quad a b c d"
    using q by (simp add: unat_of_nat)
  moreover have "b div 2 < 128" "b div 16 < 16" "b div 64 < 4" using assms(2) by auto
  note e = pair_eq_iff [OF this(1)] pair_eq_iff [OF this(2)] pair_eq_iff [OF this(3)]
    pair_eq_iff [OF assms(2)] pair_eq_iff [OF assms(3)]
  have "b div 64 = 1 \<longleftrightarrow> 64 \<le> b \<and> b < 128" "b div 16 = 1 \<longleftrightarrow> 16 \<le> b \<and> b < 32"
    "b div 2 = 9 \<longleftrightarrow> b = 18 \<or> b = 19" "a div 16 = 14 \<or> a div 16 = 15 \<longleftrightarrow> 224 \<le> a"
    using assms(1) by (simp_all only: div_eq_range [OF zero_less_numeral]) linarith+
  then have f: "a * 4 + b div 64 = 401 \<longleftrightarrow> a = 100 \<and> 64 \<le> b \<and> b < 128"
    "a * 256 + b = 43518 \<longleftrightarrow> a = 169 \<and> b = 254"
    "a * 16 + b div 16 = 2753 \<longleftrightarrow> a = 172 \<and> 16 \<le> b \<and> b < 32"
    "a * 256 + b = 49320 \<longleftrightarrow> a = 192 \<and> b = 168"
    "a * 128 + b div 2 = 25353 \<longleftrightarrow> a = 198 \<and> (b = 18 \<or> b = 19)"
    "(a * 256 + b) * 256 + c = 12582912 \<longleftrightarrow> a = 192 \<and> b = 0 \<and> c = 0"
    "(a * 256 + b) * 256 + c = 12582914 \<longleftrightarrow> a = 192 \<and> b = 0 \<and> c = 2"
    "(a * 256 + b) * 256 + c = 12989284 \<longleftrightarrow> a = 198 \<and> b = 51 \<and> c = 100"
    "(a * 256 + b) * 256 + c = 13303921 \<longleftrightarrow> a = 203 \<and> b = 0 \<and> c = 113"
    "a div 16 = 14 \<or> a div 16 = 15 \<longleftrightarrow> 224 \<le> a"
    by (simp_all only: e) simp_all
  ultimately have "isBlockedIpv4 (dotted a b c d) \<longleftrightarrow> (let u = quad a b c d in
      u div 16777216 = 0 \<or> u div 16777216 = 10 \<or> u div 4194304 = 401 \<or> u div 16777216 = 127
      \<or> u div 65536 = 43518 \<or> u div 1048576 = 2753 \<or> u div 256 = 12582912
      \<or> u div 256 = 12582914 \<or> u div 65536 = 49320 \<or> u div 131072 = 25353
      \<or> u div 256 = 12989284 \<or> u div 256 = 13303921 \<or> u div 268435456 = 14
      \<or> u div 268435456 = 15)"
    by (simp only: blocked_v4_unat)
  also have "\<dots> \<longleftrightarrow> reserved_v4 a b c"
    unfolding Let_def quad_div [OF assms(2-4)] f(1-9) reserved_v4_def
    using f(10) by auto
  finally show ?thesis .
qed

subsection \<open>IPv4-mapped IPv6 addresses\<close>

lemma hex_char_hex: "n < 16 \<Longrightarrow> is_hex (hex_char n) \<and> hex_val (hex_char n) = n"
proof -
  assume n: "n < 16"
  have "list_all (\<lambda>n. is_hex (hex_char n) \<and> hex_val (hex_char n) = n) [0..<16]" by code_simp
  with n show ?thesis by (simp add: list_all_iff)
qed

lemma show_hex_length:
  assumes "n < 16 ^ Suc k"
  shows "1 \<le> length (show_hex n) \<and> length (show_hex n) \<le> Suc k"
  using assms
proof (induction k arbitrary: n)
  case 0
  then show ?case by (subst (1 2) show_hex.simps) simp
next
  case (Suc k)
  then have "n div 16 < 16 ^ Suc k" by (simp add: less_mult_imp_div_less)
  from Suc.IH [OF this] show ?case by (subst (1 2) show_hex.simps) simp
qed

lemma show_hex_value: "list_all is_hex (show_hex n) \<and> group_value (show_hex n) = n"
proof (induction n rule: less_induct)
  case (less n)
  show ?case
  proof (cases "n < 16")
    case True
    then show ?thesis using hex_char_hex [OF True]
      by (subst (1 2) show_hex.simps) (simp add: group_value_def nat_of_digits_def)
  next
    case False
    then have "n div 16 < n" by simp
    from less.IH [OF this] have ih: "list_all is_hex (show_hex (n div 16))"
      "nat_of_digits 16 hex_val (show_hex (n div 16)) = n div 16"
      by (simp_all add: group_value_def)
    have "show_hex n = show_hex (n div 16) @ [hex_char (n mod 16)]"
      using False by (subst show_hex.simps) simp
    moreover have "is_hex (hex_char (n mod 16))" "hex_val (hex_char (n mod 16)) = n mod 16"
      using hex_char_hex [of "n mod 16"] by simp_all
    ultimately show ?thesis using ih by (simp add: group_value_def)
  qed
qed

lemma show_hex_group: "n < 65536 \<Longrightarrow> is_group_text (show_hex n)"
  using show_hex_length [of n 3] show_hex_value [of n] by (simp add: is_group_text_def)

lemma hex_no_colon: "list_all is_hex p \<Longrightarrow> CHR '':'' \<notin> set p"
  by (auto simp: list_all_iff is_hex_def Let_def)

lemma split_double_colon_none: "CHR '':'' \<notin> set p \<Longrightarrow> split_double_colon p = [p]"
  by (induction p rule: split_double_colon.induct) auto

lemma split_double_colon_single:
  "\<lbrakk>CHR '':'' \<notin> set p; CHR '':'' \<notin> set q; q \<noteq> []\<rbrakk> \<Longrightarrow>
   split_double_colon (p @ CHR '':'' # q) = [p @ CHR '':'' # q]"
proof (induction p)
  case Nil
  then obtain x q' where "q = x # q'" "x \<noteq> CHR '':''" by (cases q) auto
  with Nil split_double_colon_none [of q] show ?case by simp
next
  case (Cons c p)
  then have "split_double_colon (p @ CHR '':'' # q) = [p @ CHR '':'' # q]" by simp
  with Cons.prems show ?case by (cases p) auto
qed

lemma split_mapped:
  assumes "CHR '':'' \<notin> set p" "CHR '':'' \<notin> set q" "p \<noteq> []" "q \<noteq> []"
  shows "split_double_colon (''::ffff:'' @ p @ '':'' @ q) = [[], ''ffff:'' @ p @ '':'' @ q]"
proof -
  obtain x p' where p: "p = x # p'" "x \<noteq> CHR '':''" using assms by (cases p) auto
  have "split_double_colon (p @ CHR '':'' # q) = [p @ CHR '':'' # q]"
    by (rule split_double_colon_single) (use assms in auto)
  with p show ?thesis by simp
qed

lemma toGroups_three:
  assumes "is_group_text p" "is_group_text q"
  shows "toGroups (''ffff:'' @ p @ '':'' @ q) = Some [0xffff, group_value p, group_value q]"
proof -
  have nc: "CHR '':'' \<notin> set p" "CHR '':'' \<notin> set q"
    using assms by (auto simp: is_group_text_def dest: hex_no_colon)
  have "split_on (CHR '':'') (p @ CHR '':'' # q) = [p, q]"
    using nc by (simp add: split_on_append split_on_no_sep)
  then have "split_on (CHR '':'') (''ffff:'' @ p @ '':'' @ q) = [''ffff'', p, q]"
    using split_on_append [of "CHR '':''" "''ffff''" "p @ CHR '':'' # q"] by simp
  moreover have "is_group_text ''ffff''" "group_value ''ffff'' = 0xffff"
    by (simp_all add: is_group_text_def group_value_def nat_of_digits_def is_hex_def hex_val_def)
  moreover have "''ffff:'' @ p @ '':'' @ q \<noteq> []" by simp
  ultimately show ?thesis
    using assms unfolding toGroups_def Let_def by (simp only: if_False list.pred_inject simp_thms if_True list.map)
qed

lemma dotted_chars:
  assumes "a < 1000" "b < 1000" "c < 1000" "d < 1000" "x \<in> set (dotted a b c d)"
  shows "is_digit x \<or> x = CHR ''.''"
  using assms show_nat_octet [of a] show_nat_octet [of b] show_nat_octet [of c] show_nat_octet [of d]
  by (auto simp: dotted_def is_octet_text_def list_all_iff)

lemma last_colon_mapped:
  assumes "CHR '':'' \<notin> set q"
  shows "after_last_colon (p @ CHR '':'' # q) = q" "upto_last_colon (p @ CHR '':'' # q) = p @ [CHR '':'']"
proof -
  have "takeWhile (\<lambda>c. c \<noteq> CHR '':'') (rev q @ CHR '':'' # rev p) = rev q"
    "dropWhile (\<lambda>c. c \<noteq> CHR '':'') (rev q @ CHR '':'' # rev p) = CHR '':'' # rev p"
    using assms by (auto simp: takeWhile_append dropWhile_append)
  then show "after_last_colon (p @ CHR '':'' # q) = q"
    "upto_last_colon (p @ CHR '':'' # q) = p @ [CHR '':'']"
    by (simp_all add: after_last_colon_def upto_last_colon_def)
qed

lemma quad_halves:
  assumes "a < 256" "b < 256" "c < 256" "d < 256"
  shows "unat (drop_bit 16 (of_nat (quad a b c d)) AND 0xffff :: 32 word) = a * 256 + b"
    "unat (of_nat (quad a b c d) AND 0xffff :: 32 word) = c * 256 + d"
proof -
  have q: "quad a b c d < 4294967296" using assms by (simp add: quad_def)
  have m: "(0xffff :: 32 word) = mask 16" by code_simp
  have "unat (drop_bit 16 (of_nat (quad a b c d) :: 32 word)) = quad a b c d div 65536"
    by (simp only: unsigned_drop_bit_eq)
       (use q in \<open>simp add: drop_bit_eq_div take_bit_eq_mod unat_of_nat\<close>)
  moreover have "a * 256 + b < 65536" using assms by simp
  ultimately show "unat (drop_bit 16 (of_nat (quad a b c d)) AND 0xffff :: 32 word) = a * 256 + b"
    using quad_div [OF assms(2-4)]
    by (simp only: m take_bit_eq_mask [symmetric] unsigned_take_bit_eq) (simp add: take_bit_eq_mod)
  have "quad a b c d = (a * 256 + b) * 65536 + (c * 256 + d)" by (simp add: quad_def)
  moreover have "c * 256 + d < 65536" using assms by simp
  ultimately have "quad a b c d mod 65536 = c * 256 + d" by (metis mod_less mod_mult_self3)
  then show "unat (of_nat (quad a b c d) AND 0xffff :: 32 word) = c * 256 + d"
    using q by (simp only: m take_bit_eq_mask [symmetric] unsigned_take_bit_eq)
      (simp add: take_bit_eq_mod unat_of_nat)
qed

lemma parse_mapped:
  assumes "a < 256" "b < 256" "c < 256" "d < 256"
  shows "parseIpv6 (''::ffff:'' @ dotted a b c d) =
           Some [0, 0, 0, 0, 0, 0xffff, a * 256 + b, c * 256 + d]"
proof -
  let ?s = "''::ffff:'' @ dotted a b c d" and ?hi = "show_hex (a * 256 + b)" and ?lo = "show_hex (c * 256 + d)"
  have lt: "a * 256 + b < 65536" "c * 256 + d < 65536" "a < 1000" "b < 1000" "c < 1000" "d < 1000"
    using assms by simp_all
  note dc = dotted_chars [OF lt(3-6)]
  have "CHR ''%'' \<notin> set (dotted a b c d)" "CHR '':'' \<notin> set (dotted a b c d)"
    using dc [of "CHR ''%''"] dc [of "CHR '':''"] by (auto simp: is_digit_def)
  then have pc: "CHR ''%'' \<notin> set ?s" and co: "CHR '':'' \<notin> set (dotted a b c d)" by auto
  have dot: "str_includes ?s ''.''"
    unfolding str_includes_single dotted_def set_append by simp
  have lc: "after_last_colon ?s = dotted a b c d" "upto_last_colon ?s = ''::ffff:''"
    using last_colon_mapped [OF co, of "''::ffff''"] by simp_all
  have norm: "normalizeEmbeddedV4 ?s = Some (''::ffff:'' @ ?hi @ '':'' @ ?lo)"
    unfolding normalizeEmbeddedV4_def Let_def lc ipv4ToInt_dotted [OF assms]
    by (simp only: dot option.case not_True_eq_False if_False quad_halves [OF assms])
  have g: "is_group_text ?hi" "is_group_text ?lo" using show_hex_group lt by simp_all
  then have nc: "CHR '':'' \<notin> set ?hi" "CHR '':'' \<notin> set ?lo" "?hi \<noteq> []" "?lo \<noteq> []"
    by (auto simp: is_group_text_def dest: hex_no_colon)
  have "hd (split_on (CHR ''%'') ?s) = ?s" unfolding split_on_no_sep [OF pc] by simp
  moreover have "replicate (nat (8 - int (length ([] :: nat list)) - int (length [z, x, y]))) 0
      = [0, 0, 0, 0, 0 :: nat]" for x y z :: nat
    by (simp add: eval_nat_numeral)
  moreover have "toGroups [] = Some []" by (simp add: toGroups_def)
  ultimately show ?thesis
    unfolding parseIpv6_def Let_def
    by (simp only: norm option.case split_mapped [OF nc] list.case toGroups_three [OF g] prod.case
          show_hex_value) simp
qed

lemma isBlockedIpv6_mapped:
  assumes "a < 256" "b < 256" "c < 256" "d < 256"
  shows "isBlockedIpv6 (''::ffff:'' @ dotted a b c d) \<longleftrightarrow> isBlockedIpv4 (dotted a b c d)"
proof -
  have "groupsToV4 (a * 256 + b) (c * 256 + d) = dotted a b c d"
    using assms by (simp add: groupsToV4_def dotted_def)
  then show ?thesis
    using parse_mapped [OF assms] by (simp add: isBlockedIpv6_def blocked_groups_def)
qed

end
