(* ===== verification/Notify.thy ===== *)
theory Notify
  imports Schema Ssrf
begin

text \<open>
  Outbound deliveries, from \<^verbatim>\<open>packages/notifications/src\<close>: the HTTP sender
  (\<^verbatim>\<open>integrations/http.ts\<close>), the message builders and notifiers of the five providers, the
  webhook signature and the scrubbing of Telegram tokens. The network, \<open>JSON.stringify\<close>, the
  HMAC, the ISO rendering of a date and the emoji of a style (which are not single code units)
  are fields of the record \<open>host\<close>.
\<close>

section \<open>Sending\<close>

record delivery_result =
  dr_ok :: bool
  dr_status :: int
  dr_error :: "string option"

datatype http_exchange = Responded int string | Timed_out | Net_failed string

text \<open>An injected \<open>fetch\<close>: status, \<open>ok\<close> and the body text (or none when reading it fails).\<close>

datatype fetch_answer = Fetched int bool "string option" | Fetch_threw string

record http_request =
  rq_url :: string
  rq_body :: string
  rq_headers :: "(string \<times> string) list"

record host =
  h_parse_url :: url_parser
  h_allow_private :: bool
  h_fetch :: "(http_request \<Rightarrow> fetch_answer) option"
  h_exchange :: "http_request \<Rightarrow> http_exchange"
  h_stringify :: "json \<Rightarrow> string"
  h_hmac :: "string \<Rightarrow> string \<Rightarrow> string"
  h_iso :: "time \<Rightarrow> string"
  h_emoji :: "string \<Rightarrow> string"

definition failure_text :: "string \<Rightarrow> int \<Rightarrow> string" where
  "failure_text body status =
     (let t = take 500 body in if t = '''' then ''HTTP '' @ show_int status else t)"

definition postRaw ::
  "host \<Rightarrow> string \<Rightarrow> string \<Rightarrow> (string \<times> string) list \<Rightarrow> js_error + delivery_result" where
  "postRaw h url body headers =
     (let req = \<lparr>rq_url = url, rq_body = body,
                 rq_headers = (''content-type'', ''application/json'') # headers\<rparr> in
      case validateUrl (h_parse_url h) (h_allow_private h) url of
        Inl (SsrfErr m _) \<Rightarrow> Inr \<lparr>dr_ok = False, dr_status = 0, dr_error = Some m\<rparr>
      | Inl e \<Rightarrow> Inl e
      | Inr parsed \<Rightarrow>
          (case h_fetch h of
             Some fetch \<Rightarrow>
               (case fetch req of
                  Fetched status ok body \<Rightarrow>
                    if ok then Inr \<lparr>dr_ok = True, dr_status = status, dr_error = None\<rparr>
                    else Inr \<lparr>dr_ok = False, dr_status = status,
                              dr_error = Some (failure_text (case body of None \<Rightarrow> '''' | Some t \<Rightarrow> t) status)\<rparr>
                | Fetch_threw m \<Rightarrow> Inr \<lparr>dr_ok = False, dr_status = 0, dr_error = Some m\<rparr>)
           | None \<Rightarrow>
               (case h_exchange h req of
                  Responded status body \<Rightarrow>
                    if 200 \<le> status \<and> status < 300
                    then Inr \<lparr>dr_ok = True, dr_status = status, dr_error = None\<rparr>
                    else Inr \<lparr>dr_ok = False, dr_status = status,
                              dr_error = Some (failure_text body status)\<rparr>
                | Timed_out \<Rightarrow> Inr \<lparr>dr_ok = False, dr_status = 0, dr_error = Some ''Request timed out''\<rparr>
                | Net_failed m \<Rightarrow> Inr \<lparr>dr_ok = False, dr_status = 0, dr_error = Some m\<rparr>)))"

definition postJson :: "host \<Rightarrow> string \<Rightarrow> json \<Rightarrow> js_error + delivery_result" where
  "postJson h url body = postRaw h url (h_stringify h body) []"

lemma validateUrl_ssrf: "validateUrl p allow raw = Inl e \<Longrightarrow> \<exists>m c. e = SsrfErr m c"
  by (auto simp: validateUrl_def Let_def split: option.splits if_splits)

lemma postRaw_total: "\<exists>r. postRaw h url body headers = Inr r \<and> dr_ok r = (dr_error r = None)"
  by (cases "validateUrl (h_parse_url h) (h_allow_private h) url")
     (auto simp: postRaw_def Let_def dest!: validateUrl_ssrf
        split: option.splits fetch_answer.splits http_exchange.splits)

lemma postRaw_guarded:
  assumes "validateUrl (h_parse_url h) (h_allow_private h) url = Inl e"
  shows "postRaw h url body headers =
           Inr \<lparr>dr_ok = False, dr_status = 0, dr_error = Some (err_message e)\<rparr>"
  using assms validateUrl_ssrf [OF assms] by (auto simp: postRaw_def Let_def)

section \<open>Event styles\<close>

record event_style =
  st_hex :: string
  st_decimal :: nat
  st_slackColor :: string
  st_emoji :: string
  st_label :: string

definition RED :: string where "RED = ''FF5C5C''"
definition GREEN :: string where "GREEN = ''2FD180''"
definition AMBER :: string where "AMBER = ''FFB224''"
definition BLUE :: string where "BLUE = ''4C9AFF''"
definition GREY :: string where "GREY = ''94A1B8''"

definition eventStyle :: "host \<Rightarrow> string \<Rightarrow> event_style" where
  "eventStyle h event =
     (let (hex, slack, label) =
            (if event = ''incident.opened'' then (RED, ''danger'', ''Incident opened'')
             else if event = ''incident.acknowledged'' then (AMBER, ''warning'', ''Incident acknowledged'')
             else if event = ''incident.updated'' then (AMBER, ''warning'', ''Incident updated'')
             else if event = ''incident.resolved'' then (GREEN, ''good'', ''Incident resolved'')
             else if event = ''maintenance.created'' then (BLUE, BLUE, ''Maintenance scheduled'')
             else if event = ''maintenance.updated'' then (BLUE, BLUE, ''Maintenance updated'')
             else (GREY, GREY, ''Test notification''))
      in \<lparr>st_hex = hex, st_decimal = nat_of_digits 16 hex_val hex, st_slackColor = slack,
          st_emoji = h_emoji h event, st_label = label\<rparr>)"

section \<open>Message builders\<close>

text \<open>A truthy optional string, and a field JSON leaves out when it is \<open>undefined\<close>.\<close>

definition truthy :: "string option \<Rightarrow> string option" where
  "truthy v = (case v of Some s \<Rightarrow> if s = '''' then None else Some s | None \<Rightarrow> None)"

definition opt_list :: "string option \<Rightarrow> (string \<Rightarrow> 'a) \<Rightarrow> 'a list" where
  "opt_list v f = (case truthy v of None \<Rightarrow> [] | Some s \<Rightarrow> [f s])"

definition opt_field :: "string \<Rightarrow> string option \<Rightarrow> (string \<times> json) list" where
  "opt_field k v = (case v of None \<Rightarrow> [] | Some s \<Rightarrow> [(k, JStr s)])"

definition middle_dot :: string where "middle_dot = [CHR '' '', CHR 0xB7, CHR '' '']"

definition newline :: string where "newline = [CHR 0x0A]"

definition WebhookMessageBuilder_build :: "host \<Rightarrow> integration_event \<Rightarrow> json" where
  "WebhookMessageBuilder_build h event =
     JObj [(''event'', JStr (iv_event event)), (''timestamp'', JStr (h_iso h (iv_timestamp event))),
           (''data'', JObj ([(''title'', JStr (iv_title event))]
              @ opt_field ''summary'' (iv_summary event)
              @ opt_field ''monitorName'' (iv_monitorName event)
              @ opt_field ''organizationName'' (iv_organizationName event)
              @ opt_field ''status'' (iv_status event)
              @ opt_field ''severity'' (iv_severity event)
              @ opt_field ''url'' (iv_url event)))]"

definition mrkdwn :: "string \<Rightarrow> json" where
  "mrkdwn t = JObj [(''type'', JStr ''mrkdwn''), (''text'', JStr t)]"

definition SlackMessageBuilder_build :: "host \<Rightarrow> integration_event \<Rightarrow> json" where
  "SlackMessageBuilder_build h event =
     (let style = eventStyle h (iv_event event);
          headline = st_emoji style @ '' '' @ iv_title event;
          field = (\<lambda>name v. mrkdwn (''*'' @ name @ '':*'' @ newline @ v));
          fields = opt_list (iv_status event) (field ''Status'')
            @ opt_list (iv_severity event) (field ''Severity'')
            @ opt_list (iv_monitorName event) (field ''Monitor'')
            @ opt_list (iv_organizationName event) (field ''Org'');
          section_of = (\<lambda>t. JObj [(''type'', JStr ''section''), (''text'', mrkdwn t)]);
          blocks = [section_of (''*'' @ headline @ ''*'')]
            @ opt_list (iv_summary event) section_of
            @ (if fields = [] then []
               else [JObj [(''type'', JStr ''section''), (''fields'', JArr fields)]])
            @ opt_list (iv_url event) (\<lambda>u.
                JObj [(''type'', JStr ''actions''),
                      (''elements'', JArr [JObj [(''type'', JStr ''button''),
                         (''text'', JObj [(''type'', JStr ''plain_text''), (''text'', JStr ''View details'')]),
                         (''url'', JStr u)]])])
            @ [JObj [(''type'', JStr ''context''),
                     (''elements'', JArr [mrkdwn (st_label style @ middle_dot
                        @ h_iso h (iv_timestamp event))])]]
      in JObj [(''text'', JStr headline),
               (''attachments'', JArr [JObj [(''color'', JStr (st_slackColor style)),
                  (''blocks'', JArr blocks), (''fallback'', JStr headline)]])])"

definition DiscordMessageBuilder_build :: "host \<Rightarrow> integration_event \<Rightarrow> json" where
  "DiscordMessageBuilder_build h event =
     (let style = eventStyle h (iv_event event);
          field = (\<lambda>name v. JObj [(''name'', JStr name), (''value'', JStr v), (''inline'', JBool True)]);
          fields = opt_list (iv_status event) (field ''Status'')
            @ opt_list (iv_severity event) (field ''Severity'')
            @ opt_list (iv_monitorName event) (field ''Monitor'')
            @ opt_list (iv_organizationName event) (field ''Organization'')
      in JObj [(''content'', JStr (st_emoji style @ '' '' @ iv_title event)),
               (''embeds'', JArr [JObj ([(''title'', JStr (iv_title event))]
                  @ opt_field ''description'' (iv_summary event)
                  @ [(''color'', jint (int (st_decimal style)))]
                  @ opt_field ''url'' (iv_url event)
                  @ [(''fields'', JArr fields),
                     (''footer'', JObj [(''text'', JStr (''UptimeFlow'' @ middle_dot @ st_label style))]),
                     (''timestamp'', JStr (h_iso h (iv_timestamp event)))])])])"

subsection \<open>Telegram\<close>

text \<open>\<open>s.replace(/c/g, r)\<close> for one character.\<close>

definition replace_char :: "char \<Rightarrow> string \<Rightarrow> string \<Rightarrow> string" where
  "replace_char c r s = concat (map (\<lambda>x. if x = c then r else [x]) s)"

definition escapeHtml :: "string \<Rightarrow> string" where
  "escapeHtml value =
     replace_char (CHR ''>'') ''&gt;''
       (replace_char (CHR ''<'') ''&lt;'' (replace_char (CHR ''&'') ''&amp;'' value))"

definition telegram_lines :: "host \<Rightarrow> integration_event \<Rightarrow> string list" where
  "telegram_lines h event =
     (let style = eventStyle h (iv_event event);
          fact = (\<lambda>name v. ''<b>'' @ name @ '':</b> '' @ escapeHtml v);
          facts = opt_list (iv_status event) (fact ''Status'')
            @ opt_list (iv_severity event) (fact ''Severity'')
            @ opt_list (iv_monitorName event) (fact ''Monitor'')
            @ opt_list (iv_organizationName event) (fact ''Org'')
      in [st_emoji style @ '' <b>'' @ escapeHtml (iv_title event) @ ''</b>'']
         @ (case truthy (iv_summary event) of None \<Rightarrow> [] | Some s \<Rightarrow> ['''', escapeHtml s])
         @ (if facts = [] then [] else '''' # facts)
         @ (case truthy (iv_url event) of
              None \<Rightarrow> []
            | Some u \<Rightarrow> ['''', ''<a href='' @ [CHR 0x22] @ escapeHtml u @ [CHR 0x22] @ ''>View details</a>''])
         @ ['''', ''<i>'' @ escapeHtml (st_label style) @ middle_dot
                 @ escapeHtml (h_iso h (iv_timestamp event)) @ ''</i>''])"

definition TelegramMessageBuilder_build :: "host \<Rightarrow> string \<Rightarrow> integration_event \<Rightarrow> json" where
  "TelegramMessageBuilder_build h chatId event =
     JObj [(''chat_id'', JStr chatId), (''text'', JStr (join newline (telegram_lines h event))),
           (''parse_mode'', JStr ''HTML''), (''disable_web_page_preview'', JBool True)]"

subsection \<open>Microsoft Teams\<close>

definition CARD_COLOR :: "string \<Rightarrow> string" where
  "CARD_COLOR event =
     (if event = ''incident.opened'' then ''Attention''
      else if event = ''incident.acknowledged'' then ''Warning''
      else if event = ''incident.updated'' then ''Warning''
      else if event = ''incident.resolved'' then ''Good''
      else if event = ''maintenance.created'' then ''Accent''
      else if event = ''maintenance.updated'' then ''Accent''
      else ''Default'')"

definition MsTeamsMessageBuilder_build :: "host \<Rightarrow> integration_event \<Rightarrow> json" where
  "MsTeamsMessageBuilder_build h event =
     (let style = eventStyle h (iv_event event);
          fact = (\<lambda>name v. JObj [(''title'', JStr name), (''value'', JStr v)]);
          facts = opt_list (iv_status event) (fact ''Status'')
            @ opt_list (iv_severity event) (fact ''Severity'')
            @ opt_list (iv_monitorName event) (fact ''Monitor'')
            @ opt_list (iv_organizationName event) (fact ''Organization'');
          body = [JObj [(''type'', JStr ''TextBlock''),
                        (''text'', JStr (st_emoji style @ '' '' @ iv_title event)),
                        (''weight'', JStr ''Bolder''), (''size'', JStr ''Medium''), (''wrap'', JBool True),
                        (''color'', JStr (CARD_COLOR (iv_event event)))]]
            @ opt_list (iv_summary event) (\<lambda>s.
                JObj [(''type'', JStr ''TextBlock''), (''text'', JStr s), (''wrap'', JBool True),
                      (''spacing'', JStr ''Small'')])
            @ (if facts = [] then [] else [JObj [(''type'', JStr ''FactSet''), (''facts'', JArr facts)]])
            @ [JObj [(''type'', JStr ''TextBlock''),
                     (''text'', JStr (st_label style @ middle_dot @ h_iso h (iv_timestamp event))),
                     (''wrap'', JBool True), (''isSubtle'', JBool True), (''size'', JStr ''Small''),
                     (''spacing'', JStr ''Small'')]];
          content = [(''$schema'', JStr ''http://adaptivecards.io/schemas/adaptive-card.json''),
                     (''type'', JStr ''AdaptiveCard''), (''version'', JStr ''1.4''), (''body'', JArr body)]
            @ opt_list (iv_url event) (\<lambda>u. (''actions'',
                JArr [JObj [(''type'', JStr ''Action.OpenUrl''), (''title'', JStr ''View details''),
                            (''url'', JStr u)]]))
      in JObj [(''type'', JStr ''message''),
               (''attachments'', JArr [JObj
                  [(''contentType'', JStr ''application/vnd.microsoft.card.adaptive''),
                   (''contentUrl'', JNull), (''content'', JObj content)]])])"

section \<open>Webhook signatures\<close>

definition signPayload :: "host \<Rightarrow> string \<Rightarrow> string \<Rightarrow> string \<Rightarrow> string" where
  "signPayload h secret timestamp body =
     ''sha256='' @ h_hmac h secret (timestamp @ ''.'' @ body)"

text \<open>\<open>timingSafeEqual\<close> compares two buffers of equal length byte by byte.\<close>

definition timing_safe_equal :: "string \<Rightarrow> string \<Rightarrow> bool" where
  "timing_safe_equal a b = list_all2 (=) a b"

definition verifySignature :: "host \<Rightarrow> string \<Rightarrow> string \<Rightarrow> string \<Rightarrow> string \<Rightarrow> bool" where
  "verifySignature h secret timestamp body signature =
     (let expected = signPayload h secret timestamp body
      in length expected = length signature \<and> timing_safe_equal expected signature)"

lemma verifySignature_iff:
  "verifySignature h secret timestamp body sig \<longleftrightarrow> sig = signPayload h secret timestamp body"
  by (auto simp: verifySignature_def timing_safe_equal_def Let_def list.rel_eq)

section \<open>Scrubbing Telegram tokens\<close>

text \<open>
  The regular expression \<open>/\bbot(\d+):[A-Za-z0-9_-]+/g\<close>: \<open>word_char\<close> decides the word boundary
  before \<open>bot\<close>, the digits and the token are taken greedily. \<open>token_at\<close> answers the digits
  and the rest after a match at the start of its argument. No match starts right after another:
  what follows a token is not a token character, so not a \<open>b\<close> either.
\<close>

definition word_char :: "char \<Rightarrow> bool" where
  "word_char c =
     (let n = of_char c :: nat
      in is_digit c \<or> is_lower_alpha c \<or> (65 \<le> n \<and> n \<le> 90) \<or> c = CHR ''_'')"

definition token_char :: "char \<Rightarrow> bool" where
  "token_char c = (word_char c \<or> c = CHR ''-'')"

definition token_at :: "string \<Rightarrow> (string \<times> string) option" where
  "token_at s =
     (if \<not> starts_with s ''bot'' then None
      else let s1 = drop 3 s;
               ds = takeWhile is_digit s1;
               s2 = dropWhile is_digit s1
           in if ds = [] then None
              else (case s2 of
                      c # s3 \<Rightarrow>
                        if c = CHR '':'' \<and> takeWhile token_char s3 \<noteq> []
                        then Some (ds, dropWhile token_char s3) else None
                    | [] \<Rightarrow> None))"

lemma token_at_length: "token_at s = Some (ds, rest) \<Longrightarrow> length rest < length s"
proof -
  assume a: "token_at s = Some (ds, rest)"
  define s1 where "s1 = drop 3 s"
  from a obtain c s3 where s2: "dropWhile is_digit s1 = c # s3" and r: "rest = dropWhile token_char s3"
    by (auto simp: token_at_def Let_def s1_def split: if_splits list.splits)
  have "length rest \<le> length s3" by (simp add: r length_dropWhile_le)
  also have "\<dots> < length (dropWhile is_digit s1)" by (simp add: s2)
  also have "\<dots> \<le> length s1" by (rule length_dropWhile_le)
  also have "\<dots> \<le> length s" by (simp add: s1_def)
  finally show ?thesis .
qed

definition REDACTED :: string where
  "REDACTED = CHR 0xAB # ''redacted'' @ [CHR 0xBB]"

function redact_from :: "bool \<Rightarrow> string \<Rightarrow> string" where
  "redact_from boundary [] = []"
| "redact_from boundary (c # s) =
     (case (if boundary then token_at (c # s) else None) of
        Some (ds, rest) \<Rightarrow> ''bot'' @ ds @ '':'' @ REDACTED @ redact_from False rest
      | None \<Rightarrow> c # redact_from (\<not> word_char c) s)"
  by pat_completeness auto
termination
  by (relation "measure (\<lambda>(_, s). length s)")
     (auto dest!: token_at_length split: if_splits)

definition redactToken :: "string \<Rightarrow> string" where
  "redactToken text = redact_from True text"

section \<open>Notifiers\<close>

definition TELEGRAM_API :: string where "TELEGRAM_API = ''https://api.telegram.org''"

definition SlackNotifier_send :: "host \<Rightarrow> string \<Rightarrow> integration_event \<Rightarrow> js_error + delivery_result" where
  "SlackNotifier_send h webhookUrl event = postJson h webhookUrl (SlackMessageBuilder_build h event)"

definition DiscordNotifier_send :: "host \<Rightarrow> string \<Rightarrow> integration_event \<Rightarrow> js_error + delivery_result" where
  "DiscordNotifier_send h webhookUrl event = postJson h webhookUrl (DiscordMessageBuilder_build h event)"

definition MsTeamsNotifier_send :: "host \<Rightarrow> string \<Rightarrow> integration_event \<Rightarrow> js_error + delivery_result" where
  "MsTeamsNotifier_send h webhookUrl event = postJson h webhookUrl (MsTeamsMessageBuilder_build h event)"

definition TelegramNotifier_send ::
  "host \<Rightarrow> string \<Rightarrow> string \<Rightarrow> integration_event \<Rightarrow> js_error + delivery_result" where
  "TelegramNotifier_send h botToken chatId event =
     (case postJson h (TELEGRAM_API @ ''/bot'' @ botToken @ ''/sendMessage'')
             (TelegramMessageBuilder_build h chatId event) of
        Inl e \<Rightarrow> Inl e
      | Inr r \<Rightarrow>
          (case truthy (dr_error r) of
             Some e \<Rightarrow> Inr (r\<lparr>dr_error := Some (redactToken e)\<rparr>)
           | None \<Rightarrow> Inr r))"

definition WebhookNotifier_send ::
  "host \<Rightarrow> string \<Rightarrow> string \<Rightarrow> integration_event \<Rightarrow> js_error + delivery_result" where
  "WebhookNotifier_send h endpoint secret event =
     (let body = h_stringify h (WebhookMessageBuilder_build h event);
          ts = h_iso h (iv_timestamp event)
      in postRaw h endpoint body
           [(''X-UptimeFlow-Event'', iv_event event), (''X-UptimeFlow-Timestamp'', ts),
            (''X-UptimeFlow-Signature'', signPayload h secret ts body)])"

lemma notifiers_total:
  "\<exists>r. SlackNotifier_send h u ev = Inr r" "\<exists>r. DiscordNotifier_send h u ev = Inr r"
  "\<exists>r. MsTeamsNotifier_send h u ev = Inr r" "\<exists>r. WebhookNotifier_send h u s ev = Inr r"
  using postRaw_total
  by (simp_all add: SlackNotifier_send_def DiscordNotifier_send_def MsTeamsNotifier_send_def
        WebhookNotifier_send_def postJson_def Let_def) blast+

lemma telegram_total: "\<exists>r. TelegramNotifier_send h t c ev = Inr r"
  using postRaw_total [of h "TELEGRAM_API @ ''/bot'' @ t @ ''/sendMessage''"]
  by (auto simp: TelegramNotifier_send_def postJson_def split: sum.splits option.splits)
     (metis sum.distinct(1))

section \<open>Escaping\<close>

definition html_entity :: "char \<Rightarrow> string" where
  "html_entity c =
     (if c = CHR ''&'' then ''&amp;'' else if c = CHR ''<'' then ''&lt;''
      else if c = CHR ''>'' then ''&gt;'' else [c])"

lemma replace_char_concat: "replace_char c r (concat xss) = concat (map (replace_char c r) xss)"
  by (induction xss) (auto simp: replace_char_def)

text \<open>The three passes are one: the entities a pass writes contain nothing a later pass replaces.\<close>

lemma escapeHtml_entities: "escapeHtml value = concat (map html_entity value)"
proof -
  have "escapeHtml value = concat (map (\<lambda>c. replace_char (CHR ''>'') ''&gt;''
      (replace_char (CHR ''<'') ''&lt;'' (if c = CHR ''&'' then ''&amp;'' else [c]))) value)"
    unfolding escapeHtml_def replace_char_def [of "CHR ''&''"] replace_char_concat by (simp add: o_def)
  also have "(\<lambda>c. replace_char (CHR ''>'') ''&gt;''
      (replace_char (CHR ''<'') ''&lt;'' (if c = CHR ''&'' then ''&amp;'' else [c]))) = html_entity"
    by (rule ext) (simp add: html_entity_def replace_char_def)
  finally show ?thesis .
qed

text \<open>What Telegram's HTML mode reads back.\<close>

fun unescape :: "string \<Rightarrow> string" where
  "unescape [] = []"
| "unescape (c # s) =
     (if starts_with (c # s) ''&amp;'' then CHR ''&'' # unescape (drop 4 s)
      else if starts_with (c # s) ''&lt;'' then CHR ''<'' # unescape (drop 3 s)
      else if starts_with (c # s) ''&gt;'' then CHR ''>'' # unescape (drop 3 s)
      else c # unescape s)"

lemma unescape_entity: "unescape (html_entity c @ s) = c # unescape s"
  by (simp add: html_entity_def starts_with_def)

lemma unescape_escapeHtml: "unescape (escapeHtml s) = s"
  unfolding escapeHtml_entities by (induction s) (simp_all only: list.map concat.simps unescape_entity unescape.simps)

lemma escapeHtml_no_tags: "CHR ''<'' \<notin> set (escapeHtml s) \<and> CHR ''>'' \<notin> set (escapeHtml s)"
  unfolding escapeHtml_entities by (auto simp: html_entity_def split: if_splits)

end
