(* ===== verification/Integrations.thy ===== *)
theory Integrations
  imports Alerting Notify
begin

text \<open>
  Organization-level integrations, from \<^verbatim>\<open>packages/monitoring/src/integrations\<close>: the dispatcher
  that records one delivery per enabled integration under a unique dedupe key, and the
  processor that sends one delivery, retries it and dead-letters it on the last attempt.
\<close>

section \<open>The dispatcher\<close>

record incident_dispatch_context =
  nx_incidentId :: id
  nx_organizationId :: id
  nx_monitorId :: id
  nx_monitorName :: string
  nx_kind :: alert_kind

record event_dispatch_context =
  vx_organizationId :: id
  vx_eventName :: string
  vx_dedupeBase :: string
  vx_event :: integration_event

record test_dispatch_context =
  tx_organizationId :: id
  tx_integrationType :: integration_type
  tx_integrationId :: id
  tx_event :: integration_event

definition enabled_ids :: "db \<Rightarrow> id \<Rightarrow> integration_type \<Rightarrow> (integration_type \<times> id) list" where
  "enabled_ids w org t =
     map (\<lambda>r. (t, in_id r))
       (find_many (\<lambda>r. in_organizationId r = org \<and> in_enabled r \<and> in_deletedAt r = None) (integrations w t))"

definition targetsFor :: "id \<Rightarrow> db \<Rightarrow> (integration_type \<times> id) list" where
  "targetsFor organizationId w =
     enabled_ids w organizationId I_SLACK @ enabled_ids w organizationId I_DISCORD
     @ enabled_ids w organizationId I_WEBHOOK @ enabled_ids w organizationId I_TELEGRAM
     @ enabled_ids w organizationId I_MICROSOFT_TEAMS"

definition dedupe_key :: "string \<Rightarrow> integration_type \<times> id \<Rightarrow> string" where
  "dedupe_key base target = base @ '':'' @ integration_type_name (fst target) @ '':'' @ snd target"

text \<open>
  \<open>integrationDelivery.create\<close>: the column \<open>dedupeKey\<close> is unique, so a second row with the same
  key is refused.
\<close>

definition create_int_delivery ::
  "id \<Rightarrow> integration_type \<times> id \<Rightarrow> string \<Rightarrow> string option \<Rightarrow> db \<Rightarrow> (id \<times> db) option" where
  "create_int_delivery org target eventName key w =
     (if key \<noteq> None \<and> (\<exists>d \<in> set (int_deliveries w). id_dedupeKey d = key) then None
      else Some (new_id w, (draw_id w)\<lparr>int_deliveries := insert_row
             \<lparr>id_id = new_id w, id_organizationId = org, id_integrationType = fst target,
              id_integrationId = snd target, id_event = eventName, id_status = D_PENDING,
              id_attempts = 0, id_responseStatus = None, id_error = None, id_dedupeKey = key,
              id_sentAt = None\<rparr> (int_deliveries w)\<rparr>))"

definition enqueue_integration ::
  "id \<Rightarrow> id \<Rightarrow> integration_type \<times> id \<Rightarrow> integration_event \<Rightarrow> db \<Rightarrow> db" where
  "enqueue_integration deliveryId org target event w =
     w\<lparr>integration_queue := insert_row
        (\<lparr>ij_deliveryId = deliveryId, ij_integrationType = fst target, ij_integrationId = snd target,
          ij_organizationId = org, ij_event = event\<rparr>, deliveryId) (integration_queue w)\<rparr>"

fun fan_targets ::
  "id \<Rightarrow> string \<Rightarrow> string \<Rightarrow> integration_event \<Rightarrow> (integration_type \<times> id) list \<Rightarrow> db \<Rightarrow> int \<Rightarrow> int \<times> db"
where
  "fan_targets org eventName base event [] w enqueued = (enqueued, w)"
| "fan_targets org eventName base event (target # rest) w enqueued =
     (case create_int_delivery org target eventName (Some (dedupe_key base target)) w of
        None \<Rightarrow> fan_targets org eventName base event rest w enqueued
      | Some (deliveryId, w1) \<Rightarrow>
          fan_targets org eventName base event rest
            (enqueue_integration deliveryId org target event w1) (enqueued + 1))"

definition fanOut :: "id \<Rightarrow> string \<Rightarrow> string \<Rightarrow> integration_event \<Rightarrow> db \<Rightarrow> (js_error + int) \<times> db" where
  "fanOut org eventName base event w =
     (let (n, w') = fan_targets org eventName base event (targetsFor org w) w 0 in (Inr n, w'))"

definition dispatchEvent :: "event_dispatch_context \<Rightarrow> db \<Rightarrow> (js_error + int) \<times> db" where
  "dispatchEvent c w = fanOut (vx_organizationId c) (vx_eventName c) (vx_dedupeBase c) (vx_event c) w"

definition dispatchTest :: "test_dispatch_context \<Rightarrow> db \<Rightarrow> (js_error + id) \<times> db" where
  "dispatchTest c w =
     (case create_int_delivery (tx_organizationId c) (tx_integrationType c, tx_integrationId c) ''test'' None w of
        None \<Rightarrow> (Inl (Err ''Unique constraint failed''), w)
      | Some (deliveryId, w1) \<Rightarrow>
          (Inr deliveryId,
           enqueue_integration deliveryId (tx_organizationId c)
             (tx_integrationType c, tx_integrationId c) (tx_event c) w1))"

definition drop_slash :: "string \<Rightarrow> string" where
  "drop_slash s = (if s \<noteq> '''' \<and> last s = CHR ''/'' then butlast s else s)"

definition incident_event_for ::
  "string \<Rightarrow> time \<Rightarrow> incident_dispatch_context \<Rightarrow> integration_event" where
  "incident_event_for webUrl now c =
     (let opened = (nx_kind c = Opened)
      in \<lparr>iv_event = (if opened then ''incident.opened'' else ''incident.resolved''),
          iv_title = (if opened then nx_monitorName c @ '' is down''
                      else nx_monitorName c @ '' has recovered''),
          iv_summary = None, iv_organizationName = None, iv_monitorName = Some (nx_monitorName c),
          iv_status = Some (if opened then ''DOWN'' else ''RESOLVED''), iv_severity = None,
          iv_url = Some (drop_slash webUrl @ ''/dashboard/incidents/'' @ nx_incidentId c),
          iv_timestamp = now\<rparr>)"

definition dispatchIncident ::
  "string \<Rightarrow> time \<Rightarrow> incident_dispatch_context \<Rightarrow> db \<Rightarrow> (js_error + int) \<times> db" where
  "dispatchIncident webUrl now c w =
     fanOut (nx_organizationId c) (''incident.'' @ kind_name (nx_kind c))
       (''incident:'' @ nx_incidentId c @ '':'' @ kind_name (nx_kind c))
       (incident_event_for webUrl now c) w"

subsection \<open>The engine's tables are left alone\<close>

lemma create_int_delivery_core:
  "create_int_delivery org t ev key w = Some (i, w') \<Longrightarrow> core_of w' = core_of w"
  by (auto simp: create_int_delivery_def core_of_def split: if_splits)

lemma enqueue_integration_sel [simp]:
  "core_of (enqueue_integration i org t ev w) = core_of w"
  "int_deliveries (enqueue_integration i org t ev w) = int_deliveries w"
  "integrations (enqueue_integration i org t ev w) = integrations w"
  "alert_queue (enqueue_integration i org t ev w) = alert_queue w"
  "deliveries (enqueue_integration i org t ev w) = deliveries w"
  "length (integration_queue (enqueue_integration i org t ev w)) = Suc (length (integration_queue w))"
  by (simp_all add: enqueue_integration_def core_of_def insert_row_def)

lemma fan_targets_core: "core_of (snd (fan_targets org ev base event ts w n)) = core_of w"
  by (induction ts arbitrary: w n) (auto dest: create_int_delivery_core split: option.splits)

lemma create_int_delivery_supply:
  "create_int_delivery org t ev key w = Some (i, w') \<Longrightarrow> supply_le w (enqueue_integration i org t event w')"
  by (auto simp: create_int_delivery_def enqueue_integration_def supply_le_def draw_id_def split: if_splits)

lemma fan_targets_supply: "supply_le w (snd (fan_targets org ev base event ts w n))"
proof (induction ts arbitrary: w n)
  case (Cons t ts)
  show ?case
  proof (cases "create_int_delivery org t ev (Some (dedupe_key base t)) w")
    case None
    with Cons show ?thesis by simp
  next
    case (Some p)
    then obtain i w1 where p: "create_int_delivery org t ev (Some (dedupe_key base t)) w = Some (i, w1)"
      by (cases p) auto
    from create_int_delivery_supply [OF p] Cons p show ?thesis by (auto intro: supply_le_trans)
  qed
qed simp

lemma fanOut_core:
  "core_of (snd (fanOut org ev base event w)) = core_of w" "supply_le w (snd (fanOut org ev base event w))"
  by (simp_all add: fanOut_def Let_def split_def fan_targets_core fan_targets_supply)

interpretation incident_integrations: fan_out "dispatchIncident webUrl now" for webUrl now
  by unfold_locales (simp_all add: dispatchIncident_def fanOut_core)

interpretation event_integrations: fan_out dispatchEvent
  by unfold_locales (simp_all add: dispatchEvent_def fanOut_core)

subsection \<open>Replaying an event sends nothing\<close>

text \<open>\<open>keys w\<close>: the dedupe keys already taken.\<close>

definition keys :: "db \<Rightarrow> string set" where
  "keys w = {k. \<exists>d \<in> set (int_deliveries w). id_dedupeKey d = Some k}"

lemma create_int_delivery_keys:
  "create_int_delivery org t ev (Some k) w = Some (i, w') \<Longrightarrow>
     k \<notin> keys w \<and> keys w' = insert k (keys w)
     \<and> integrations w' = integrations w \<and> integration_queue w' = integration_queue w
     \<and> length (int_deliveries w') = Suc (length (int_deliveries w))"
  by (auto simp: create_int_delivery_def keys_def insert_row_def split: if_splits)

lemma create_int_delivery_None: "create_int_delivery org t ev (Some k) w = None \<longleftrightarrow> k \<in> keys w"
  by (auto simp: create_int_delivery_def keys_def)

lemma enqueue_integration_keys [simp]: "keys (enqueue_integration i org t ev w) = keys w"
  by (simp add: keys_def)

lemma fan_targets_keys:
  assumes "fan_targets org ev base event ts w n = (n', w')"
  shows "keys w' = keys w \<union> dedupe_key base ` set ts \<and> integrations w' = integrations w
    \<and> int (length (int_deliveries w')) = int (length (int_deliveries w)) + (n' - n)
    \<and> int (length (integration_queue w')) = int (length (integration_queue w)) + (n' - n) \<and> n \<le> n'"
  using assms
proof (induction ts arbitrary: w n)
  case Nil
  then show ?case by simp
next
  case (Cons t ts)
  show ?case
  proof (cases "create_int_delivery org t ev (Some (dedupe_key base t)) w")
    case None
    then have "dedupe_key base t \<in> keys w" by (simp only: create_int_delivery_None)
    with Cons None show ?thesis by auto
  next
    case (Some p)
    obtain i w1 where p: "p = (i, w1)" by fastforce
    note k = create_int_delivery_keys [OF Some [unfolded p]]
    from Cons.prems Some p
    have "fan_targets org ev base event ts (enqueue_integration i org t event w1) (n + 1) = (n', w')" by simp
    from Cons.IH [OF this] k show ?thesis by auto
  qed
qed

lemma fan_targets_replayed:
  "dedupe_key base ` set ts \<subseteq> keys w \<Longrightarrow> fan_targets org ev base event ts w n = (n, w)"
  by (induction ts) (auto simp: create_int_delivery_None [THEN iffD2])

lemma fanOut_replayed:
  assumes "fanOut org ev base event w = (r, w')"
  shows "fanOut org ev' base event' w' = (Inr 0, w')"
proof -
  obtain n where f: "fan_targets org ev base event (targetsFor org w) w 0 = (n, w')"
    using assms by (auto simp: fanOut_def split: prod.splits)
  note k = fan_targets_keys [OF f]
  then have "targetsFor org w' = targetsFor org w" by (simp add: targetsFor_def enabled_ids_def)
  with k fan_targets_replayed show ?thesis by (simp add: fanOut_def)
qed

section \<open>The processor\<close>

record int_processor_result =
  ip_delivered :: bool
  ip_status :: int
  ip_skipped :: bool

text \<open>\<open>SendOutcome\<close>: a delivery result, possibly skipped.\<close>

datatype send_outcome = Sent delivery_result | Skipped string

definition live_integration :: "db \<Rightarrow> integration_type \<Rightarrow> id \<Rightarrow> id \<Rightarrow> integration option" where
  "live_integration w t integrationId org =
     find_first (\<lambda>r. in_id r = integrationId \<and> in_organizationId r = org \<and> in_deletedAt r = None)
       (integrations w t)"

definition send_integration ::
  "host \<Rightarrow> integration_type \<Rightarrow> id \<Rightarrow> id \<Rightarrow> integration_event \<Rightarrow> db \<Rightarrow> js_error + send_outcome" where
  "send_integration h t integrationId org event w =
     (case live_integration w t integrationId org of
        None \<Rightarrow> Inr (Skipped ''integration not found or disabled'')
      | Some cfg \<Rightarrow>
          map_sum (\<lambda>e. e) Sent
            (case in_credential cfg of
               WebhookUrl u \<Rightarrow>
                 (if t = I_SLACK then SlackNotifier_send h u event
                  else if t = I_DISCORD then DiscordNotifier_send h u event
                  else MsTeamsNotifier_send h u event)
             | Endpoint u secret \<Rightarrow>
                 WebhookNotifier_send h u (case secret of None \<Rightarrow> '''' | Some s \<Rightarrow> s) event
             | BotToken token chat \<Rightarrow> TelegramNotifier_send h token chat event))"

definition update_int_delivery ::
  "id \<Rightarrow> (integration_delivery \<Rightarrow> integration_delivery) \<Rightarrow> db \<Rightarrow> db" where
  "update_int_delivery did f w = w\<lparr>int_deliveries := update_rows (\<lambda>d. id_id d = did) f (int_deliveries w)\<rparr>"

text \<open>
  One attempt: \<open>attemptsMade\<close> attempts came before, of \<open>maxAttempts\<close> in all. Updating a row that is
  not there is Prisma's "record not found" error.
\<close>

definition integration_processor ::
  "host \<Rightarrow> integration_job \<Rightarrow> int \<Rightarrow> int \<Rightarrow> time \<Rightarrow> db \<Rightarrow> (js_error + int_processor_result) \<times> db" where
  "integration_processor h job attemptsMade maxAttempts now w =
     (let deliveryId = ij_deliveryId job; attempt = attemptsMade + 1
      in if \<not> (\<exists>d \<in> set (int_deliveries w). id_id d = deliveryId)
         then (Inl (Err ''No record was found for an update.''), w)
         else
           (let w1 = update_int_delivery deliveryId
                       (\<lambda>d. d\<lparr>id_status := D_SENDING, id_attempts := attempt\<rparr>) w
            in case send_integration h (ij_integrationType job) (ij_integrationId job)
                      (ij_organizationId job) (ij_event job) w1 of
                 Inl e \<Rightarrow> (Inl e, w1)
               | Inr (Skipped reason) \<Rightarrow>
                   (Inr \<lparr>ip_delivered = False, ip_status = 0, ip_skipped = True\<rparr>,
                    update_int_delivery deliveryId
                      (\<lambda>d. d\<lparr>id_status := D_FAILED, id_error := Some reason\<rparr>) w1)
               | Inr (Sent outcome) \<Rightarrow>
                   if dr_ok outcome
                   then (Inr \<lparr>ip_delivered = True, ip_status = dr_status outcome, ip_skipped = False\<rparr>,
                         update_int_delivery deliveryId
                           (\<lambda>d. d\<lparr>id_status := D_SUCCESS, id_responseStatus := Some (dr_status outcome),
                                   id_sentAt := Some now, id_error := None\<rparr>) w1)
                   else
                     (let isFinal = (attempt \<ge> maxAttempts);
                          errorText = (case dr_error outcome of None \<Rightarrow> ''delivery failed'' | Some e \<Rightarrow> e)
                      in (Inl (Err (''integration delivery failed (''
                            @ integration_type_name (ij_integrationType job) @ '' status=''
                            @ show_int (dr_status outcome) @ ''): ''
                            @ (case dr_error outcome of None \<Rightarrow> ''undefined'' | Some e \<Rightarrow> e))),
                          update_int_delivery deliveryId
                            (\<lambda>d. d\<lparr>id_status := (if isFinal then D_DEAD else D_FAILED),
                                    id_responseStatus := (if dr_status outcome = 0 then None
                                                          else Some (dr_status outcome)),
                                    id_error := Some errorText\<rparr>) w1))))"

definition INTEGRATION_ATTEMPTS :: int where "INTEGRATION_ATTEMPTS = 5"

text \<open>
  The queue runs a job until it returns or its attempts are used up; \<open>hs k\<close> is the outside world
  during attempt \<open>k\<close>.
\<close>

fun integration_retries ::
  "(int \<Rightarrow> host) \<Rightarrow> integration_job \<Rightarrow> time \<Rightarrow> nat \<Rightarrow> int \<Rightarrow> int \<Rightarrow> db
   \<Rightarrow> (js_error + int_processor_result) \<times> db"
where
  "integration_retries hs job now 0 made budget w = (Inl (Err ''attempts exhausted''), w)"
| "integration_retries hs job now (Suc n) made budget w =
     (case integration_processor (hs made) job made budget now w of
        (Inr r, w') \<Rightarrow> (Inr r, w')
      | (Inl e, w') \<Rightarrow>
          (if n = 0 then (Inl e, w') else integration_retries hs job now n (made + 1) budget w'))"

subsection \<open>Where a delivery ends\<close>

definition delivery_status :: "db \<Rightarrow> id \<Rightarrow> integration_status option" where
  "delivery_status w i = map_option id_status (find_first (\<lambda>d. id_id d = i) (int_deliveries w))"

lemma update_int_delivery_status:
  assumes "\<And>d. id_id (f d) = id_id d" and "\<And>d. id_status (f d) = s"
    and "\<exists>d \<in> set (int_deliveries w). id_id d = i"
  shows "delivery_status (update_int_delivery i f w) i = Some s"
    "\<exists>d \<in> set (int_deliveries (update_int_delivery i f w)). id_id d = i"
proof -
  obtain d where "find_first (\<lambda>d. id_id d = i) (int_deliveries w) = Some d"
    using assms(3) find_first_None_iff [of "\<lambda>d. id_id d = i" "int_deliveries w"] by fastforce
  with assms show "delivery_status (update_int_delivery i f w) i = Some s"
    by (simp add: delivery_status_def update_int_delivery_def find_first_update_rows)
  show "\<exists>d \<in> set (int_deliveries (update_int_delivery i f w)). id_id d = i"
    using assms by (auto simp: update_int_delivery_def set_update_rows)
qed

lemma send_integration_total: "\<exists>r. send_integration h t i org ev w = Inr r"
  using notifiers_total telegram_total
  by (auto simp: send_integration_def split: option.splits credential.splits) (metis map_sum.simps(2))+

definition settled :: "(js_error + int_processor_result) \<Rightarrow> int \<Rightarrow> int \<Rightarrow> integration_status" where
  "settled r attempt budget =
     (case r of
        Inl _ \<Rightarrow> if attempt \<ge> budget then D_DEAD else D_FAILED
      | Inr x \<Rightarrow> if ip_delivered x then D_SUCCESS else D_FAILED)"

lemma integration_processor_status:
  assumes "\<exists>d \<in> set (int_deliveries w). id_id d = ij_deliveryId job"
    and "integration_processor h job made budget now w = (r, w')"
  shows "delivery_status w' (ij_deliveryId job) = Some (settled r (made + 1) budget)
    \<and> (\<exists>d \<in> set (int_deliveries w'). id_id d = ij_deliveryId job)
    \<and> (\<forall>x. r = Inr x \<longrightarrow> ip_skipped x = (\<not> ip_delivered x))"
proof -
  define w1 where "w1 = update_int_delivery (ij_deliveryId job)
      (\<lambda>d. d\<lparr>id_status := D_SENDING, id_attempts := made + 1\<rparr>) w"
  have e1: "\<exists>d \<in> set (int_deliveries w1). id_id d = ij_deliveryId job"
    unfolding w1_def by (rule update_int_delivery_status [where s = D_SENDING]) (use assms(1) in auto)
  obtain out where out: "send_integration h (ij_integrationType job) (ij_integrationId job)
      (ij_organizationId job) (ij_event job) w1 = Inr out"
    using send_integration_total by blast
  note p = assms(2) [unfolded integration_processor_def Let_def, folded w1_def]
  show ?thesis
  proof (cases out)
    case (Skipped x)
    from p assms(1) out Skipped show ?thesis
      by (auto simp: settled_def intro!: update_int_delivery_status e1)
  next
    case (Sent dr)
    show ?thesis
    proof (cases "dr_ok dr")
      case True
      from p assms(1) out Sent True show ?thesis
        by (auto simp: settled_def intro!: update_int_delivery_status e1)
    next
      case False
      from p assms(1) out Sent False show ?thesis
        by (auto simp: settled_def intro!: update_int_delivery_status e1)
    qed
  qed
qed

lemma integration_retries_status:
  assumes "\<exists>d \<in> set (int_deliveries w). id_id d = ij_deliveryId job"
    and "integration_retries hs job now n made budget w = (r, w')"
    and "0 < n" "made + int n = budget"
  shows "delivery_status w' (ij_deliveryId job) =
           Some (case r of Inl _ \<Rightarrow> D_DEAD | Inr x \<Rightarrow> if ip_delivered x then D_SUCCESS else D_FAILED)"
  using assms
proof (induction n arbitrary: made w)
  case 0
  then show ?case by simp
next
  case (Suc n)
  obtain r1 w1 where p: "integration_processor (hs made) job made budget now w = (r1, w1)" by fastforce
  note s = integration_processor_status [OF Suc.prems(1) p]
  show ?case
  proof (cases r1)
    case (Inr x)
    with Suc.prems(2) p s show ?thesis by (auto simp: settled_def)
  next
    case (Inl e)
    show ?thesis
    proof (cases "n = 0")
      case True
      with Suc.prems p Inl s show ?thesis by (auto simp: settled_def)
    next
      case False
      with Suc.prems p Inl have "integration_retries hs job now n (made + 1) budget w1 = (r, w')" by simp
      then show ?thesis using s False Suc.prems(4) by (intro Suc.IH) auto
    qed
  qed
qed

end
