(* ===== verification/OnCall.thy ===== *)
theory OnCall
  imports Schema
begin

text \<open>
  On-call resolution, from \<^verbatim>\<open>packages/monitoring/src/oncall/resolve.ts\<close>. The offset of a time
  zone at an instant comes from \<open>Intl\<close> and is the parameter \<open>tzOffsetMs\<close>; \<open>%\<close> is JavaScript's
  remainder, which takes the sign of the dividend.
\<close>

fun PERIOD_DAYS :: "rotation_type \<Rightarrow> int" where
  "PERIOD_DAYS DAILY = 1"
| "PERIOD_DAYS WEEKLY = 7"
| "PERIOD_DAYS BIWEEKLY = 14"
| "PERIOD_DAYS CUSTOM = 7"

definition DAY_MS :: int where "DAY_MS = 86400000"

record schedule_for_resolve =
  so_timezone :: string
  so_rotationType :: rotation_type
  so_handoffMinute :: int
  so_participants :: "participant_ref list"
  so_overrides :: "override_ref list"

datatype oncall_source = OC_override | OC_rotation | OC_empty

record oncall_result =
  oc_primaryUserId :: "id option"
  oc_secondaryUserId :: "id option"
  oc_source :: oncall_source

definition js_rem :: "int \<Rightarrow> int \<Rightarrow> int" where
  "js_rem a b = (if a < 0 then - ((- a) mod b) else a mod b)"

lemma js_rem_mod: "0 < b \<Longrightarrow> js_rem (js_rem a b + b) b = a mod b"
proof -
  assume b: "0 < b"
  show ?thesis
  proof (cases "a < 0")
    case True
    have m: "0 \<le> (- a) mod b" "(- a) mod b < b" using b by simp_all
    have "js_rem (js_rem a b + b) b = (- ((- a) mod b) + b) mod b"
      using True m by (simp add: js_rem_def)
    also have "\<dots> = (- ((- a) mod b)) mod b" by simp
    also have "\<dots> = a mod b" using mod_minus_eq [of "- a" b] by simp
    finally show ?thesis .
  next
    case False
    then show ?thesis using b by (simp add: js_rem_def add_nonneg_nonneg)
  qed
qed

definition rotationIndex :: "(time \<Rightarrow> string \<Rightarrow> int) \<Rightarrow> schedule_for_resolve \<Rightarrow> time \<Rightarrow> int" where
  "rotationIndex tzOffsetMs schedule now =
     (let n = int (length (so_participants schedule))
      in if n = 0 then - 1
         else (let periodMs = PERIOD_DAYS (so_rotationType schedule) * DAY_MS;
                   localMs = now + tzOffsetMs now (so_timezone schedule);
                   shifted = localMs - so_handoffMinute schedule * 60000;
                   periods = shifted div periodMs
               in js_rem (js_rem periods n + n) n))"

definition resolveOnCall :: "(time \<Rightarrow> string \<Rightarrow> int) \<Rightarrow> schedule_for_resolve \<Rightarrow> time \<Rightarrow> oncall_result" where
  "resolveOnCall tzOffsetMs schedule now =
     (let sorted = sort_key p_position (so_participants schedule);
          override = find_first (\<lambda>o'. ov_startsAt o' \<le> now \<and> now \<le> ov_endsAt o') (so_overrides schedule)
      in if sorted = [] \<and> override = None
         then \<lparr>oc_primaryUserId = None, oc_secondaryUserId = None, oc_source = OC_empty\<rparr>
         else
           (let n = int (length sorted);
                idx = (if n > 0 then rotationIndex tzOffsetMs (schedule\<lparr>so_participants := sorted\<rparr>) now
                       else - 1);
                rotationPrimary = (if idx \<ge> 0 then Some (p_userId (sorted ! nat idx)) else None);
                rotationSecondary =
                  (if idx \<ge> 0 \<and> n > 1 then Some (p_userId (sorted ! nat ((idx + 1) mod n))) else None)
            in case override of
                 Some o' \<Rightarrow>
                   (let secondary =
                          (case rotationPrimary of
                             Some p \<Rightarrow> if p \<noteq> '''' \<and> p \<noteq> ov_userId o' then Some p else rotationSecondary
                           | None \<Rightarrow> rotationSecondary)
                    in \<lparr>oc_primaryUserId = Some (ov_userId o'), oc_secondaryUserId = secondary,
                        oc_source = OC_override\<rparr>)
               | None \<Rightarrow>
                   \<lparr>oc_primaryUserId = rotationPrimary, oc_secondaryUserId = rotationSecondary,
                    oc_source = OC_rotation\<rparr>))"

definition whoIsOnCall ::
  "(time \<Rightarrow> string \<Rightarrow> int) \<Rightarrow> id \<Rightarrow> time \<Rightarrow> db \<Rightarrow> oncall_result option" where
  "whoIsOnCall tzOffsetMs scheduleId now w =
     (case find_first (\<lambda>s. sc_id s = scheduleId \<and> sc_deletedAt s = None) (schedules w) of
        None \<Rightarrow> None
      | Some s \<Rightarrow>
          Some (resolveOnCall tzOffsetMs
            \<lparr>so_timezone = sc_timezone s, so_rotationType = sc_rotationType s,
             so_handoffMinute = sc_handoffMinute s, so_participants = sc_participants s,
             so_overrides = find_many (\<lambda>o'. ov_startsAt o' \<le> now \<and> ov_endsAt o' \<ge> now) (sc_overrides s)\<rparr>
            now))"

section \<open>The rotation\<close>

lemma PERIOD_DAYS_pos [simp]: "0 < PERIOD_DAYS r"
  by (cases r) simp_all

lemma rotationIndex_mod:
  assumes "so_participants s \<noteq> []"
  shows "rotationIndex tz s now =
     ((now + tz now (so_timezone s) - so_handoffMinute s * 60000)
        div (PERIOD_DAYS (so_rotationType s) * DAY_MS)) mod int (length (so_participants s))"
  using assms by (simp add: rotationIndex_def Let_def js_rem_mod)

lemma rotationIndex_range:
  assumes "so_participants s \<noteq> []"
  shows "0 \<le> rotationIndex tz s now \<and> rotationIndex tz s now < int (length (so_participants s))"
  using assms by (simp add: rotationIndex_mod)

text \<open>
  One period later the next participant is on call, as long as the zone's offset is the same at
  both instants.
\<close>

lemma rotationIndex_advance:
  assumes "so_participants s \<noteq> []"
    and "tz (now + int k * (PERIOD_DAYS (so_rotationType s) * DAY_MS)) (so_timezone s) =
         tz now (so_timezone s)"
  shows "rotationIndex tz s (now + int k * (PERIOD_DAYS (so_rotationType s) * DAY_MS)) =
         (rotationIndex tz s now + int k) mod int (length (so_participants s))"
proof -
  let ?p = "PERIOD_DAYS (so_rotationType s) * DAY_MS"
  let ?x = "now + tz now (so_timezone s) - so_handoffMinute s * 60000"
  have p: "?p \<noteq> 0" by (cases "so_rotationType s") (simp_all add: DAY_MS_def)
  have e: "now + int k * ?p + tz (now + int k * ?p) (so_timezone s) - so_handoffMinute s * 60000
        = ?x + int k * ?p" using assms(2) by simp
  have d: "(?x + int k * ?p) div ?p = ?x div ?p + int k" using p by simp
  show ?thesis
    unfolding rotationIndex_mod [OF assms(1)] e d by (rule mod_add_left_eq [symmetric])
qed

text \<open>Over one whole turn of \<open>n\<close> periods every slot comes up once.\<close>

lemma rotation_turn:
  assumes "so_participants s \<noteq> []"
    and "\<And>k. k < length (so_participants s) \<Longrightarrow>
           tz (now + int k * (PERIOD_DAYS (so_rotationType s) * DAY_MS)) (so_timezone s) =
           tz now (so_timezone s)"
    and "j < length (so_participants s)"
  shows "\<exists>k < length (so_participants s).
           rotationIndex tz s (now + int k * (PERIOD_DAYS (so_rotationType s) * DAY_MS)) = int j"
proof -
  let ?n = "int (length (so_participants s))"
  let ?i = "rotationIndex tz s now"
  have n: "0 < ?n" using assms(1) by simp
  define k where "k = nat ((int j - ?i) mod ?n)"
  have k: "int k = (int j - ?i) mod ?n" using n by (simp add: k_def)
  then have "int k < ?n" using n by simp
  then have lt: "k < length (so_participants s)" by simp
  have "(?i + int k) mod ?n = (?i + (int j - ?i)) mod ?n"
    by (simp only: k mod_add_right_eq)
  also have "\<dots> = int j" using assms(3) by simp
  finally have "(?i + int k) mod ?n = int j" .
  moreover have "rotationIndex tz s (now + int k * (PERIOD_DAYS (so_rotationType s) * DAY_MS)) =
      (?i + int k) mod ?n"
    by (rule rotationIndex_advance) (use assms(1) assms(2) [OF lt] in auto)
  ultimately show ?thesis using lt by (intro exI [of _ k]) simp
qed

section \<open>Primary and secondary\<close>

text \<open>The rotation part of the answer: the current slot and the next one.\<close>

definition slot :: "(time \<Rightarrow> string \<Rightarrow> int) \<Rightarrow> schedule_for_resolve \<Rightarrow> time \<Rightarrow> int \<Rightarrow> id option" where
  "slot tz s now k =
     (let sorted = sort_key p_position (so_participants s); n = int (length sorted)
      in if sorted = [] \<or> n \<le> k then None
         else Some (p_userId (sorted ! nat ((rotationIndex tz (s\<lparr>so_participants := sorted\<rparr>) now + k) mod n))))"

lemma slot_member: "slot tz s now k = Some u \<Longrightarrow> u \<in> p_userId ` set (so_participants s)"
proof -
  let ?sorted = "sort_key p_position (so_participants s)"
  assume a: "slot tz s now k = Some u"
  then have ne: "?sorted \<noteq> []" by (auto simp: slot_def Let_def split: if_splits)
  define i where "i = nat ((rotationIndex tz (s\<lparr>so_participants := ?sorted\<rparr>) now + k) mod int (length ?sorted))"
  have "int (length ?sorted) > 0" using ne by (metis length_greater_0_conv of_nat_0_less_iff)
  then have "i < length ?sorted" unfolding i_def by (metis nat_less_iff pos_mod_bound pos_mod_sign)
  then have "?sorted ! i \<in> set (so_participants s)" by (metis nth_mem set_sort)
  moreover have "u = p_userId (?sorted ! i)"
    using a ne by (simp add: slot_def i_def Let_def split: if_splits)
  ultimately show ?thesis by simp
qed

lemma sorted_eq_Nil: "sort_key p_position (so_participants s) = [] \<longleftrightarrow> so_participants s = []"
  by (metis set_empty set_sort)

lemma slot_0_None: "slot tz s now 0 = None \<longleftrightarrow> so_participants s = []"
  by (simp add: slot_def Let_def sorted_eq_Nil)

lemma slot_1_None: "so_participants s = [] \<Longrightarrow> slot tz s now 1 = None"
  by (simp add: slot_def Let_def)

definition active_override :: "schedule_for_resolve \<Rightarrow> time \<Rightarrow> override_ref option" where
  "active_override s now =
     find_first (\<lambda>o'. ov_startsAt o' \<le> now \<and> now \<le> ov_endsAt o') (so_overrides s)"

lemma resolveOnCall_slots:
  "resolveOnCall tz s now =
     (case active_override s now of
        Some o' \<Rightarrow>
          \<lparr>oc_primaryUserId = Some (ov_userId o'),
           oc_secondaryUserId =
             (case slot tz s now 0 of
                Some p \<Rightarrow> if p \<noteq> '''' \<and> p \<noteq> ov_userId o' then Some p else slot tz s now 1
              | None \<Rightarrow> slot tz s now 1),
           oc_source = OC_override\<rparr>
      | None \<Rightarrow>
          \<lparr>oc_primaryUserId = slot tz s now 0, oc_secondaryUserId = slot tz s now 1,
           oc_source = (if so_participants s = [] then OC_empty else OC_rotation)\<rparr>)"
proof (cases "so_participants s = []")
  case True
  then show ?thesis
    by (cases "active_override s now")
       (simp_all add: resolveOnCall_def active_override_def slot_def Let_def)
next
  case False
  let ?sorted = "sort_key p_position (so_participants s)"
  let ?i = "rotationIndex tz (s\<lparr>so_participants := ?sorted\<rparr>) now"
  have ne: "?sorted \<noteq> []" using False by (simp add: sorted_eq_Nil)
  have i: "0 \<le> ?i" "?i < int (length ?sorted)"
    using rotationIndex_range [of "s\<lparr>so_participants := ?sorted\<rparr>" tz now] ne by simp_all
  have s0: "slot tz s now 0 = Some (p_userId (?sorted ! nat ?i))"
    using i ne by (simp add: slot_def Let_def)
  have s1: "slot tz s now 1 = (if ?i \<ge> 0 \<and> int (length ?sorted) > 1
      then Some (p_userId (?sorted ! nat ((?i + 1) mod int (length ?sorted)))) else None)"
    using i ne by (simp add: slot_def Let_def)
  show ?thesis
    unfolding resolveOnCall_def Let_def s0 s1 active_override_def
    using False ne i(1) by (simp split: option.split)
qed

text \<open>
  Nobody is on call exactly when there is neither a participant nor an active override; an
  active override is always the primary; everyone named is a participant or the override's user.
\<close>

lemma resolveOnCall_members:
  assumes "resolveOnCall tz s now = r"
  shows "(oc_primaryUserId r = None \<longleftrightarrow> so_participants s = [] \<and> active_override s now = None)
    \<and> (\<forall>u. oc_primaryUserId r = Some u \<longrightarrow>
            (case active_override s now of Some o' \<Rightarrow> u = ov_userId o'
             | None \<Rightarrow> u \<in> p_userId ` set (so_participants s)))
    \<and> (\<forall>u. oc_secondaryUserId r = Some u \<longrightarrow> u \<in> p_userId ` set (so_participants s))"
  using assms [symmetric] slot_0_None [of tz s now] slot_1_None [of s tz now]
  by (auto simp: resolveOnCall_slots dest!: slot_member split: option.splits if_splits)

text \<open>With distinct participants the backup is never the primary responder.\<close>

lemma slot_distinct:
  assumes "distinct (map p_userId (so_participants s))" "slot tz s now 0 = Some u"
    "slot tz s now 1 = Some v"
  shows "u \<noteq> v"
proof -
  let ?sorted = "sort_key p_position (so_participants s)"
  let ?i = "rotationIndex tz (s\<lparr>so_participants := ?sorted\<rparr>) now" and ?n = "int (length ?sorted)"
  from assms(3) have n: "1 < ?n" and ne: "?sorted \<noteq> []"
    by (auto simp: slot_def Let_def split: if_splits)
  have "0 \<le> ?i" "?i < ?n"
    using rotationIndex_range [of "s\<lparr>so_participants := ?sorted\<rparr>" tz now] ne by simp_all
  moreover have "(?i + 1) mod ?n \<noteq> ?i mod ?n"
  proof
    assume "(?i + 1) mod ?n = ?i mod ?n"
    then have "?n dvd 1" by (metis add_diff_cancel_left' mod_eq_dvd_iff)
    with n show False by simp
  qed
  moreover have "0 < ?n" using n by linarith
  note pos_mod_sign [OF this, of "?i + 1"] pos_mod_bound [OF this, of "?i + 1"]
  ultimately have ij: "nat (?i mod ?n) \<noteq> nat ((?i + 1) mod ?n)" "nat (?i mod ?n) < length ?sorted"
    "nat ((?i + 1) mod ?n) < length ?sorted" by (auto simp: nat_less_iff)
  have d: "distinct (map p_userId ?sorted)"
    using assms(1) by (simp add: distinct_map)
  have "map p_userId ?sorted ! nat (?i mod ?n) \<noteq> map p_userId ?sorted ! nat ((?i + 1) mod ?n)"
    using ij nth_eq_iff_index_eq [OF d] by (metis length_map)
  with assms(2,3) ij ne show ?thesis by (auto simp: slot_def Let_def split: if_splits)
qed

lemma resolveOnCall_distinct:
  assumes "distinct (map p_userId (so_participants s))"
    and "oc_primaryUserId (resolveOnCall tz s now) = Some u"
    and "oc_secondaryUserId (resolveOnCall tz s now) = Some v"
    and "'''' \<notin> p_userId ` set (so_participants s)"
  shows "u \<noteq> v"
proof (cases "active_override s now")
  case None
  with assms slot_distinct show ?thesis by (simp add: resolveOnCall_slots)
next
  case (Some o')
  with assms(2-4) slot_distinct [OF assms(1), of tz now] slot_0_None [of tz s now] slot_1_None [of s tz now]
  show ?thesis
    by (auto simp: resolveOnCall_slots dest: slot_member split: option.splits if_splits)
qed

end
