(* ===== verification/Escalation.thy ===== *)
theory Escalation
  imports Alerting OnCall
begin

text \<open>
  Escalation, from \<^verbatim>\<open>packages/monitoring/src/escalation\<close> and
  \<^verbatim>\<open>apps/worker/src/responder-notifier.ts\<close>: the starter, one step's targets and pages, the
  worker that fires a step and queues its successor, and the notifier that pages a person by
  email. The alert dispatcher and the notifier are ports: arguments of the definitions.
\<close>

section \<open>Starting\<close>

record escalation_context =
  ec_incidentId :: id
  ec_organizationId :: id
  ec_monitorId :: "id option"
  ec_policyId :: id

definition minutesToMs :: "int \<Rightarrow> int" where
  "minutesToMs m = max 0 m * 60000"

definition ordered_steps :: "escalation_policy \<Rightarrow> escalation_step list" where
  "ordered_steps p = sort_key es_position (ep_steps p)"

definition enqueue_escalation :: "escalation_job \<Rightarrow> int \<Rightarrow> db \<Rightarrow> db" where
  "enqueue_escalation j delay w = w\<lparr>escalation_queue := insert_row (j, delay) (escalation_queue w)\<rparr>"

text \<open>\<open>escalationStep.findFirst\<close> reads the steps table: the policy may be soft-deleted.\<close>

definition start :: "escalation_context \<Rightarrow> db \<Rightarrow> (js_error + bool) \<times> db" where
  "start c w =
     (case find_first (\<lambda>p. ep_id p = ec_policyId c) (policies w) of
        None \<Rightarrow> (Inr False, w)
      | Some p \<Rightarrow>
          (case ordered_steps p of
             [] \<Rightarrow> (Inr False, w)
           | first # _ \<Rightarrow>
               (Inr True, enqueue_escalation
                  \<lparr>ej_incidentId = ec_incidentId c, ej_organizationId = ec_organizationId c,
                   ej_monitorId = ec_monitorId c, ej_policyId = ec_policyId c,
                   ej_stepIndex = 0, ej_round = 0\<rparr>
                  (minutesToMs (es_delayMinutes first)) w)))"

section \<open>One step\<close>

record responder_ref =
  rr_userId :: id
  rr_via :: string
  rr_secondaryUserId :: "id option"

record escalation_incident_context =
  ei_title :: string
  ei_summary :: "string option"
  ei_severity :: "incident_severity"
  ei_monitorName :: "string option"

record responder_page =
  pg_incidentId :: id
  pg_organizationId :: id
  pg_userId :: id
  pg_email :: string
  pg_userName :: string
  pg_via :: string
  pg_step :: int
  pg_incidentTitle :: string
  pg_severity :: incident_severity
  pg_summary :: "string option"
  pg_monitorName :: "string option"

fun oncall_source_name :: "oncall_source \<Rightarrow> string" where
  "oncall_source_name OC_override = ''override''"
| "oncall_source_name OC_rotation = ''rotation''"
| "oncall_source_name OC_empty = ''empty''"

text \<open>A user seen twice in one step is one person.\<close>

definition addResponder :: "responder_ref \<Rightarrow> responder_ref list \<Rightarrow> responder_ref list" where
  "addResponder ref rs = (if rr_userId ref \<in> rr_userId ` set rs then rs else rs @ [ref])"

definition present :: "id option \<Rightarrow> id option" where
  "present v = (case v of Some s \<Rightarrow> if s = '''' then None else Some s | None \<Rightarrow> None)"

fun collect_targets ::
  "(time \<Rightarrow> string \<Rightarrow> int) \<Rightarrow> time \<Rightarrow> db \<Rightarrow> escalation_target list \<Rightarrow> id list \<Rightarrow> responder_ref list
   \<Rightarrow> id list \<times> responder_ref list"
where
  "collect_targets tz now w [] channelIds responders = (channelIds, responders)"
| "collect_targets tz now w (target # rest) channelIds responders =
     (if et_type target = TG_CHANNEL \<and> present (et_channelId target) \<noteq> None
      then collect_targets tz now w rest (channelIds @ [the (et_channelId target)]) responders
      else if et_type target = TG_USER \<and> present (et_userId target) \<noteq> None
      then collect_targets tz now w rest channelIds
             (addResponder \<lparr>rr_userId = the (et_userId target), rr_via = ''user'',
                            rr_secondaryUserId = None\<rparr> responders)
      else if et_type target = TG_SCHEDULE \<and> present (et_scheduleId target) \<noteq> None
      then (case whoIsOnCall tz (the (et_scheduleId target)) now w of
              None \<Rightarrow> collect_targets tz now w rest channelIds responders
            | Some onCall \<Rightarrow>
                (case present (oc_primaryUserId onCall) of
                   None \<Rightarrow> collect_targets tz now w rest channelIds responders
                 | Some u \<Rightarrow>
                     collect_targets tz now w rest channelIds
                       (addResponder \<lparr>rr_userId = u,
                                      rr_via = ''schedule:'' @ oncall_source_name (oc_source onCall),
                                      rr_secondaryUserId = oc_secondaryUserId onCall\<rparr> responders)))
      else collect_targets tz now w rest channelIds responders)"

text \<open>
  Paging: \<open>page\<close> delivers one page, or answers the exception; \<open>None\<close> is a worker without a
  notifier. The pages run concurrently in the code; their outcomes are collected here in the
  order of the responders.
\<close>

type_synonym notifier = "responder_page \<Rightarrow> js_error option"

definition page_for ::
  "id \<Rightarrow> id \<Rightarrow> escalation_incident_context \<Rightarrow> int \<Rightarrow> responder_ref \<Rightarrow> user_row \<Rightarrow> responder_page" where
  "page_for incidentId org inc position ref user =
     \<lparr>pg_incidentId = incidentId, pg_organizationId = org, pg_userId = u_id user,
      pg_email = u_email user, pg_userName = u_name user, pg_via = rr_via ref, pg_step = position,
      pg_incidentTitle = ei_title inc, pg_severity = ei_severity inc, pg_summary = ei_summary inc,
      pg_monitorName = ei_monitorName inc\<rparr>"

definition page_responder ::
  "notifier \<Rightarrow> id \<Rightarrow> id \<Rightarrow> escalation_incident_context \<Rightarrow> int \<Rightarrow> db \<Rightarrow> responder_ref \<Rightarrow> string option" where
  "page_responder page incidentId org inc position w ref =
     (case find_first (\<lambda>u. u_id u = rr_userId ref) (users w) of
        None \<Rightarrow> Some ''user not found or has no email''
      | Some user \<Rightarrow>
          if u_email user = '''' then Some ''user not found or has no email''
          else (case page (page_for incidentId org inc position ref user) of
                  None \<Rightarrow> None
                | Some e \<Rightarrow> Some (take 200 (err_message e))))"

definition page_outcomes ::
  "notifier option \<Rightarrow> id \<Rightarrow> id \<Rightarrow> escalation_incident_context \<Rightarrow> int \<Rightarrow> db \<Rightarrow> responder_ref list
   \<Rightarrow> (id \<times> string option) list" where
  "page_outcomes responders incidentId org inc position w refs =
     map (\<lambda>ref. (rr_userId ref,
                 case responders of
                   None \<Rightarrow> Some ''no responder notifier configured''
                 | Some page \<Rightarrow> page_responder page incidentId org inc position w ref)) refs"

definition paged_users :: "(id \<times> string option) list \<Rightarrow> id list" where
  "paged_users outcomes = map fst (filter (\<lambda>(_, e). e = None) outcomes)"

definition failed_pages :: "(id \<times> string option) list \<Rightarrow> (id \<times> string) list" where
  "failed_pages outcomes =
     concat (map (\<lambda>(u, e). case e of None \<Rightarrow> [] | Some r \<Rightarrow> [(u, r)]) outcomes)"

record step_result =
  sr_responders :: "id list"
  sr_respondersPaged :: int
  sr_respondersFailed :: int
  sr_channelsPaged :: int
  sr_metadata :: json

definition step_metadata ::
  "int \<Rightarrow> responder_ref list \<Rightarrow> id list \<Rightarrow> id list \<Rightarrow> (id \<times> string) list \<Rightarrow> json" where
  "step_metadata position refs channelIds paged failed =
     JObj [(''step'', jint position),
           (''responders'', JArr (map (\<lambda>r. JObj [(''userId'', JStr (rr_userId r)),
               (''via'', JStr (rr_via r)), (''secondaryUserId'', jopt (rr_secondaryUserId r))]) refs)),
           (''channelIds'', JArr (map JStr channelIds)),
           (''pagedUserIds'', JArr (map JStr paged)),
           (''failedPages'', JArr (map (\<lambda>(u, r). JObj [(''userId'', JStr u), (''reason'', JStr r)]) failed))]"

definition step_message :: "int \<Rightarrow> int \<Rightarrow> int \<Rightarrow> int \<Rightarrow> string" where
  "step_message position paged channelsPaged failed =
     ''Escalation step '' @ show_int position @ '': paged '' @ show_int paged
     @ '' responder(s) and '' @ show_int channelsPaged @ '' channel(s)''
     @ (if failed > 0 then '', '' @ show_int failed @ '' page(s) failed'' else '''') @ ''.''"

type_synonym channel_dispatch = "channel_dispatch_context \<Rightarrow> db \<Rightarrow> (js_error + int) \<times> db"

definition executeStep ::
  "(time \<Rightarrow> string \<Rightarrow> int) \<Rightarrow> channel_dispatch \<Rightarrow> notifier option \<Rightarrow> id \<Rightarrow> id
   \<Rightarrow> escalation_incident_context \<Rightarrow> escalation_step \<Rightarrow> time \<Rightarrow> db \<Rightarrow> (js_error + step_result) \<times> db" where
  "executeStep tz alerts responders incidentId org inc step now w =
     (let (channelIds, refs) = collect_targets tz now w (es_targets step) [] [];
          outcomes = page_outcomes responders incidentId org inc (es_position step) w refs;
          paged = paged_users outcomes;
          failed = failed_pages outcomes;
          (r, w1) = (if channelIds = [] then (Inr 0, w)
                     else alerts \<lparr>cx_incidentId = incidentId, cx_organizationId = org,
                                  cx_channelIds = channelIds, cx_kind = Opened\<rparr> w)
      in case r of
           Inl e \<Rightarrow> (Inl e, w1)
         | Inr channelsPaged \<Rightarrow>
             (let metadata = step_metadata (es_position step) refs channelIds paged failed
              in (Inr \<lparr>sr_responders = map rr_userId refs, sr_respondersPaged = int (length paged),
                       sr_respondersFailed = int (length failed), sr_channelsPaged = channelsPaged,
                       sr_metadata = metadata\<rparr>,
                  writeAudit (system_audit org ''incident.escalated'' ''incident'' incidentId metadata)
                    (create_event
                       \<lparr>ie_incidentId = incidentId, ie_type = EV_ESCALATED,
                        ie_message = Some (step_message (es_position step) (int (length paged))
                          channelsPaged (int (length failed))),
                        ie_actorId = None, ie_metadata = Some metadata, ie_createdAt = now\<rparr> w1))))"

section \<open>The worker\<close>

datatype escalation_job_result =
    Skip_no_incident | Skip_stopped | Skip_no_policy | Skip_exhausted
  | Repeated int
  | Fired int step_result bool

definition escalation_processor ::
  "(time \<Rightarrow> string \<Rightarrow> int) \<Rightarrow> channel_dispatch \<Rightarrow> notifier option \<Rightarrow> escalation_job \<Rightarrow> time \<Rightarrow> db
   \<Rightarrow> (js_error + escalation_job_result) \<times> db" where
  "escalation_processor tz alerts responders job now w =
     (case find_first (\<lambda>i. i_id i = ej_incidentId job) (incidents w) of
        None \<Rightarrow> (Inr Skip_no_incident, w)
      | Some inc \<Rightarrow>
          if i_status inc \<noteq> OPEN then (Inr Skip_stopped, w)
          else
            (case find_first (\<lambda>p. ep_id p = ej_policyId job \<and> ep_deletedAt p = None) (policies w) of
               None \<Rightarrow> (Inr Skip_no_policy, w)
             | Some policy \<Rightarrow>
                 if ep_steps policy = [] then (Inr Skip_no_policy, w)
                 else
                   (let steps = ordered_steps policy;
                        k = ej_stepIndex job;
                        again = (\<lambda>w. enqueue_escalation (job\<lparr>ej_stepIndex := 0, ej_round := ej_round job + 1\<rparr>)
                                        (minutesToMs (es_delayMinutes (hd steps))) w)
                    in if length steps \<le> k
                       then (if ej_round job < ep_repeatCount policy
                             then (Inr (Repeated (ej_round job + 1)), again w)
                             else (Inr Skip_exhausted, w))
                       else
                         (case executeStep tz alerts responders (ej_incidentId job) (ej_organizationId job)
                                 \<lparr>ei_title = i_title inc, ei_summary = i_summary inc,
                                  ei_severity = i_severity inc,
                                  ei_monitorName = map_option m_name
                                    (find_first (\<lambda>m. i_monitorId inc = Some (m_id m)) (monitors w))\<rparr>
                                 (steps ! k) now w of
                            (Inl e, w1) \<Rightarrow> (Inl e, w1)
                          | (Inr fired, w1) \<Rightarrow>
                              if k + 1 < length steps
                              then (Inr (Fired (es_position (steps ! k)) fired True),
                                    enqueue_escalation (job\<lparr>ej_stepIndex := k + 1\<rparr>)
                                      (minutesToMs (es_delayMinutes (steps ! (k + 1)))) w1)
                              else if ej_round job < ep_repeatCount policy
                              then (Inr (Fired (es_position (steps ! k)) fired True), again w1)
                              else (Inr (Fired (es_position (steps ! k)) fired False), w1)))))"

section \<open>Who is paged\<close>

lemma addResponder_distinct:
  "distinct (map rr_userId rs) \<Longrightarrow> distinct (map rr_userId (addResponder r rs))"
  by (auto simp: addResponder_def)

lemma collect_targets_distinct:
  "distinct (map rr_userId rs) \<Longrightarrow> distinct (map rr_userId (snd (collect_targets tz now w ts chs rs)))"
  by (induction ts arbitrary: chs rs) (auto simp: addResponder_distinct split: option.split)

lemma page_outcomes_split:
  "length (paged_users outcomes) + length (failed_pages outcomes) = length outcomes"
  by (induction outcomes) (auto simp: paged_users_def failed_pages_def split: option.splits)

section \<open>Running a policy to its end\<close>

text \<open>
  \<open>chase n job w\<close> runs \<open>job\<close> and the successors it queues, at most \<open>n\<close> jobs, and answers the
  positions of the steps that fired, in order; \<open>None\<close> is a chain that is not over by then.
\<close>

fun chase ::
  "(time \<Rightarrow> string \<Rightarrow> int) \<Rightarrow> channel_dispatch \<Rightarrow> notifier option \<Rightarrow> nat \<Rightarrow> escalation_job \<Rightarrow> time \<Rightarrow> db
   \<Rightarrow> int list option"
where
  "chase tz alerts responders 0 job now w = None"
| "chase tz alerts responders (Suc n) job now w =
     (case escalation_processor tz alerts responders job now w of
        (Inl e, _) \<Rightarrow> None
      | (Inr r, w') \<Rightarrow>
          (let fired = (case r of Fired p _ _ \<Rightarrow> [p] | _ \<Rightarrow> [])
           in if length (escalation_queue w) < length (escalation_queue w')
              then map_option (\<lambda>ps. fired @ ps)
                     (chase tz alerts responders n (fst (last (escalation_queue w'))) now w')
              else Some fired))"

text \<open>\<open>pageable job w p\<close>: the incident is open and \<open>p\<close> is the live policy the job runs.\<close>

definition pageable :: "escalation_job \<Rightarrow> db \<Rightarrow> escalation_policy \<Rightarrow> bool" where
  "pageable job w p \<longleftrightarrow>
     (\<exists>inc. find_first (\<lambda>i. i_id i = ej_incidentId job) (incidents w) = Some inc \<and> i_status inc = OPEN)
     \<and> find_first (\<lambda>p. ep_id p = ej_policyId job \<and> ep_deletedAt p = None) (policies w) = Some p
     \<and> ep_steps p \<noteq> []"

lemma ordered_steps_Nil [simp]: "ordered_steps p = [] \<longleftrightarrow> ep_steps p = []"
  unfolding ordered_steps_def by (metis set_empty set_sort)

lemma enqueue_escalation_sel [simp]:
  "escalation_queue (enqueue_escalation j d w) = escalation_queue w @ [(j, d)]"
  "incidents (enqueue_escalation j d w) = incidents w"
  "policies (enqueue_escalation j d w) = policies w"
  by (simp_all add: enqueue_escalation_def insert_row_def)

lemma escalation_halts:
  assumes "find_first (\<lambda>i. i_id i = ej_incidentId job) (incidents w) = Some inc" "i_status inc \<noteq> OPEN"
  shows "escalation_processor tz alerts responders job now w = (Inr Skip_stopped, w)"
  using assms by (simp add: escalation_processor_def)

context channel_fan_out
begin

lemma executeStep_ok:
  "\<exists>r w'. executeStep tz dispatch rs i org inc step now w = (Inr r, w')
     \<and> incidents w' = incidents w \<and> monitors w' = monitors w \<and> policies w' = policies w
     \<and> escalation_queue w' = escalation_queue w
     \<and> length (incident_events w') = Suc (length (incident_events w))
     \<and> length (audit_logs w') = Suc (length (audit_logs w))"
proof -
  obtain chs refs where c: "collect_targets tz now w (es_targets step) [] [] = (chs, refs)" by fastforce
  obtain n w1 where d: "dispatch \<lparr>cx_incidentId = i, cx_organizationId = org, cx_channelIds = chs,
      cx_kind = Opened\<rparr> w = (Inr n, w1)" "core_of w1 = core_of w" "policies w1 = policies w"
      "escalation_queue w1 = escalation_queue w"
    using dispatch_ok by meson
  show ?thesis
  proof (cases "chs = []")
    case True
    with c show ?thesis by (simp add: executeStep_def Let_def)
  next
    case False
    with c d show ?thesis by (simp add: executeStep_def core_of_eq_iff Let_def)
  qed
qed

text \<open>One job of a pageable chain fires its step and queues exactly the right successor.\<close>

lemma processor_step:
  assumes "pageable job w p" "ej_stepIndex job < length (ordered_steps p)"
  shows "\<exists>r b w'. escalation_processor tz dispatch rs job now w =
      (Inr (Fired (es_position (ordered_steps p ! ej_stepIndex job)) r b), w')
    \<and> incidents w' = incidents w \<and> policies w' = policies w
    \<and> escalation_queue w' = escalation_queue w @
        (if Suc (ej_stepIndex job) < length (ordered_steps p)
         then [(job\<lparr>ej_stepIndex := Suc (ej_stepIndex job)\<rparr>,
                minutesToMs (es_delayMinutes (ordered_steps p ! Suc (ej_stepIndex job))))]
         else if ej_round job < ep_repeatCount p
         then [(job\<lparr>ej_stepIndex := 0, ej_round := ej_round job + 1\<rparr>,
                minutesToMs (es_delayMinutes (hd (ordered_steps p))))]
         else [])"
proof -
  obtain inc where inc: "find_first (\<lambda>i. i_id i = ej_incidentId job) (incidents w) = Some inc"
    "i_status inc = OPEN"
    and p: "find_first (\<lambda>p. ep_id p = ej_policyId job \<and> ep_deletedAt p = None) (policies w) = Some p"
      "ep_steps p \<noteq> []"
    using assms(1) by (auto simp: pageable_def)
  obtain r w1 where x: "executeStep tz dispatch rs (ej_incidentId job) (ej_organizationId job)
      \<lparr>ei_title = i_title inc, ei_summary = i_summary inc, ei_severity = i_severity inc,
       ei_monitorName = map_option m_name
         (find_first (\<lambda>m. i_monitorId inc = Some (m_id m)) (monitors w))\<rparr>
      (ordered_steps p ! ej_stepIndex job) now w = (Inr r, w1)"
    "incidents w1 = incidents w" "policies w1 = policies w" "escalation_queue w1 = escalation_queue w"
    using executeStep_ok by meson
  show ?thesis
    using assms(2) x p by (auto simp: escalation_processor_def inc Let_def)
qed

lemma chase_complete:
  assumes "pageable job w p" "ej_stepIndex job < length (ordered_steps p)"
    and "ej_round job \<le> ep_repeatCount p"
    and "length (ordered_steps p) - ej_stepIndex job
           + nat (ep_repeatCount p - ej_round job) * length (ordered_steps p) \<le> n"
  shows "chase tz dispatch rs n job now w =
           Some (drop (ej_stepIndex job) (map es_position (ordered_steps p))
             @ concat (replicate (nat (ep_repeatCount p - ej_round job)) (map es_position (ordered_steps p))))"
  using assms
proof (induction n arbitrary: job w)
  case 0
  then show ?case by simp
next
  case (Suc n)
  let ?s = "ordered_steps p" and ?k = "ej_stepIndex job" and ?m = "nat (ep_repeatCount p - ej_round job)"
  let ?ps = "map es_position ?s"
  from processor_step [OF Suc.prems(1,2)] obtain r b w' where
    s: "escalation_processor tz dispatch rs job now w = (Inr (Fired (es_position (?s ! ?k)) r b), w')"
    and k: "incidents w' = incidents w" "policies w' = policies w"
    and q: "escalation_queue w' = escalation_queue w @
        (if Suc ?k < length ?s
         then [(job\<lparr>ej_stepIndex := Suc ?k\<rparr>, minutesToMs (es_delayMinutes (?s ! Suc ?k)))]
         else if ej_round job < ep_repeatCount p
         then [(job\<lparr>ej_stepIndex := 0, ej_round := ej_round job + 1\<rparr>,
                minutesToMs (es_delayMinutes (hd ?s)))]
         else [])" by meson
  have d: "drop ?k ?ps = es_position (?s ! ?k) # drop (Suc ?k) ?ps"
    using Suc.prems(2) by (metis Cons_nth_drop_Suc length_map nth_map)
  consider (more) "Suc ?k < length ?s" | (turn) "Suc ?k = length ?s" "ej_round job < ep_repeatCount p"
    | (over) "Suc ?k = length ?s" "ej_round job = ep_repeatCount p"
    using Suc.prems(2,3) by linarith
  then show ?case
  proof cases
    case more
    let ?j = "job\<lparr>ej_stepIndex := Suc ?k\<rparr>"
    have "chase tz dispatch rs n ?j now w' =
        Some (drop (ej_stepIndex ?j) ?ps @ concat (replicate (nat (ep_repeatCount p - ej_round ?j)) ?ps))"
      by (rule Suc.IH) (use Suc.prems more k in \<open>auto simp: pageable_def\<close>)
    then show ?thesis using s q more d by simp
  next
    case turn
    let ?j = "job\<lparr>ej_stepIndex := 0, ej_round := ej_round job + 1\<rparr>"
    have m: "?m = Suc (nat (ep_repeatCount p - ej_round ?j))" using turn by simp
    have "chase tz dispatch rs n ?j now w' =
        Some (drop (ej_stepIndex ?j) ?ps @ concat (replicate (nat (ep_repeatCount p - ej_round ?j)) ?ps))"
      by (rule Suc.IH) (use Suc.prems turn k m in \<open>auto simp: pageable_def\<close>)
    then show ?thesis using s q turn d m by simp
  next
    case over
    then show ?thesis using s q d by simp
  qed
qed

end

section \<open>Paging by email\<close>

text \<open>
  \<open>emailResponderNotifier\<close> adds a job to the shared email queue under an id of its own. A queue
  that already knows the id ignores the job (BullMQ's documented behaviour); completed jobs stay
  known for an hour, failed ones for a week.
\<close>

record email_job =
  ej_to :: string
  ej_incidentTitle :: string
  ej_severity :: string
  ej_description :: string
  ej_statusPageUrl :: string

type_synonym email_queue = "(string \<times> email_job) list"

definition queue_add :: "string \<Rightarrow> email_job \<Rightarrow> email_queue \<Rightarrow> email_queue" where
  "queue_add jobId job q = (if jobId \<in> fst ` set q then q else q @ [(jobId, job)])"

definition page_job_id :: "responder_page \<Rightarrow> string" where
  "page_job_id n = ''escalation-page:'' @ pg_incidentId n @ '':'' @ show_int (pg_step n) @ '':'' @ pg_userId n"

fun severity_text :: "incident_severity \<Rightarrow> string" where
  "severity_text SEV_CRITICAL = ''CRITICAL''"
| "severity_text SEV_MAJOR = ''MAJOR''"
| "severity_text SEV_MINOR = ''MINOR''"
| "severity_text SEV_WARNING = ''WARNING''"

definition emailResponderNotifier :: "string \<Rightarrow> responder_page \<Rightarrow> email_queue \<Rightarrow> email_queue" where
  "emailResponderNotifier webUrl n q =
     queue_add (page_job_id n)
       \<lparr>ej_to = pg_email n, ej_incidentTitle = pg_incidentTitle n,
        ej_severity = severity_text (pg_severity n),
        ej_description = (case pg_summary n of Some s \<Rightarrow> s
          | None \<Rightarrow> (case pg_monitorName n of Some m \<Rightarrow> m | None \<Rightarrow> ''A monitor'')
                     @ '' is down. You are on the escalation path for this incident.''),
        ej_statusPageUrl = (if webUrl \<noteq> '''' \<and> last webUrl = CHR ''/'' then butlast webUrl else webUrl)
          @ ''/dashboard/incidents/'' @ pg_incidentId n\<rparr> q"

text \<open>A page carries no round: the same step of a later round pages nobody anew.\<close>

lemma page_again:
  assumes "page_job_id n = page_job_id n'"
  shows "emailResponderNotifier url n' (emailResponderNotifier url n q) = emailResponderNotifier url n q"
  using assms by (auto simp: emailResponderNotifier_def queue_add_def)

end
