(* ===== verification/Pipeline.thy ===== *)
theory Pipeline
  imports StateMachine Execute Alerting Integrations Escalation
begin

text \<open>
  The result pipeline, from \<^verbatim>\<open>packages/monitoring/src/pipeline.ts\<close> and
  \<^verbatim>\<open>packages/monitoring/src/processor.ts\<close>: what one check outcome does to the check log, the
  monitor row, the incident, its timeline, the audit log and the three fan-outs, the heartbeat
  entry point and the check worker. The fan-outs are ports (optional arguments, as in
  \<open>ProcessOptions\<close>); the locale \<open>safe_ports\<close> states what is asked of them and
  \<open>worker_options\<close> are the ones the worker wires up.
\<close>

section \<open>Options and results\<close>

record process_options =
  po_region :: probe_region
  po_isHeartbeatPing :: bool
  po_alerts :: "(alert_context \<Rightarrow> db \<Rightarrow> (js_error + int) \<times> db) option"
  po_integrations :: "(incident_dispatch_context \<Rightarrow> db \<Rightarrow> (js_error + int) \<times> db) option"
  po_escalation :: "(escalation_context \<Rightarrow> db \<Rightarrow> (js_error + bool) \<times> db) option"

datatype pipeline_transition = Down | Recovered

record process_result =
  pr_checkStatus :: check_status
  pr_previousHealth :: monitor_health
  pr_newHealth :: monitor_health
  pr_transition :: "pipeline_transition option"
  pr_inMaintenance :: bool
  pr_flapping :: bool
  pr_incidentId :: "id option"
  pr_alertsEnqueued :: int

definition toSnapshot :: "monitor_row \<Rightarrow> monitor_snapshot" where
  "toSnapshot row =
     \<lparr>s_id = m_id row, s_organizationId = m_organizationId row, s_name = m_name row,
      s_type = m_type row, s_url = m_url row, s_host = m_host row, s_port = m_port row,
      s_httpMethod = m_httpMethod row, s_requestHeaders = m_requestHeaders row,
      s_requestBody = m_requestBody row, s_expectedStatus = m_expectedStatus row,
      s_keyword = m_keyword row, s_keywordInverted = m_keywordInverted row,
      s_followRedirects = m_followRedirects row, s_verifySsl = m_verifySsl row,
      s_timeoutSeconds = m_timeoutSeconds row, s_retries = m_retries row,
      s_intervalSeconds = m_intervalSeconds row, s_failureThreshold = m_failureThreshold row,
      s_successThreshold = m_successThreshold row, s_escalationPolicyId = m_escalationPolicyId row,
      s_health = m_health row, s_consecutiveFailures = m_consecutiveFailures row,
      s_consecutiveSuccesses = m_consecutiveSuccesses row, s_lastCheckedAt = m_lastCheckedAt row,
      s_assertions = m_assertions row\<rparr>"

section \<open>Reading and writing\<close>

definition isSuccessStatus :: "check_status \<Rightarrow> bool" where
  "isSuccessStatus s = (s = C_UP \<or> s = C_DEGRADED)"

definition MAX_ERR :: nat where "MAX_ERR = 500"

definition isInMaintenance :: "id \<Rightarrow> time \<Rightarrow> db \<Rightarrow> bool" where
  "isInMaintenance monitorId now w =
     (find_first (\<lambda>x. w_suppressAlerts x \<and> w_startsAt x \<le> now \<and> w_endsAt x \<ge> now
                    \<and> monitorId \<in> set (w_monitors x)) (windows w) \<noteq> None)"

definition addEvent :: "id \<Rightarrow> incident_event_type \<Rightarrow> string \<Rightarrow> time \<Rightarrow> json option \<Rightarrow> db \<Rightarrow> db" where
  "addEvent incidentId type message now metadata w =
     create_event \<lparr>ie_incidentId = incidentId, ie_type = type, ie_message = Some message,
                   ie_actorId = None, ie_metadata = metadata, ie_createdAt = now\<rparr> w"

definition down_fingerprint :: "id \<Rightarrow> string" where
  "down_fingerprint monitorId = monitorId @ '':down''"

definition down_incident :: "id \<Rightarrow> monitor_snapshot \<Rightarrow> probe_outcome \<Rightarrow> time \<Rightarrow> incident" where
  "down_incident i monitor outcome now =
     \<lparr>i_id = i, i_organizationId = s_organizationId monitor, i_monitorId = Some (s_id monitor),
      i_status = OPEN, i_severity = SEV_MAJOR, i_title = s_name monitor @ '' is down'',
      i_summary = Some (case o_errorMessage outcome of Some m \<Rightarrow> take MAX_ERR m
                        | None \<Rightarrow> type_name (s_type monitor) @ '' check failed''),
      i_cause = o_errorType outcome, i_fingerprint = Some (down_fingerprint (s_id monitor)),
      i_startedAt = now, i_acknowledgedAt = None, i_acknowledgedById = None, i_resolvedAt = None,
      i_durationSec = None, i_createdAt = now\<rparr>"

definition detected_event :: "id \<Rightarrow> probe_outcome \<Rightarrow> time \<Rightarrow> incident_event" where
  "detected_event i outcome now =
     \<lparr>ie_incidentId = i, ie_type = EV_DETECTED,
      ie_message = map_option (take MAX_ERR) (o_errorMessage outcome), ie_actorId = None,
      ie_metadata = Some (JObj [(''errorType'', jopt (o_errorType outcome)),
                                (''status'', JStr (status_name (o_status outcome)))]),
      ie_createdAt = now\<rparr>"

text \<open>The create is refused when the unique pair \<open>(monitorId, fingerprint)\<close> is taken.\<close>

definition openIncident ::
  "monitor_snapshot \<Rightarrow> probe_outcome \<Rightarrow> time \<Rightarrow> db \<Rightarrow> id option \<times> db" where
  "openIncident monitor outcome now w =
     (if \<exists>i \<in> set (incidents w). i_monitorId i = Some (s_id monitor)
            \<and> i_fingerprint i = Some (down_fingerprint (s_id monitor))
      then (None, w)
      else (let i = new_id w
            in (Some i, create_event (detected_event i outcome now)
                  ((draw_id w)\<lparr>incidents := insert_row (down_incident i monitor outcome now) (incidents w)\<rparr>))))"

definition dispatchIntegration :: "process_options \<Rightarrow> incident_dispatch_context \<Rightarrow> db \<Rightarrow> db" where
  "dispatchIntegration opts c w =
     (case po_integrations opts of None \<Rightarrow> w | Some f \<Rightarrow> snd (f c w))"

definition open_incident_of :: "id \<Rightarrow> db \<Rightarrow> incident option" where
  "open_incident_of monitorId w =
     find_first_desc i_startedAt (\<lambda>i. i_monitorId i = Some monitorId \<and> i_status i \<noteq> RESOLVED)
       (incidents w)"

definition findOpenIncidentId :: "id \<Rightarrow> db \<Rightarrow> id option" where
  "findOpenIncidentId monitorId w = map_option i_id (open_incident_of monitorId w)"

definition durationSec :: "time \<Rightarrow> time \<Rightarrow> int" where
  "durationSec startedAt now = max 0 (round_div (now - startedAt) 1000)"

definition resolve_row :: "time \<Rightarrow> int \<Rightarrow> incident \<Rightarrow> incident" where
  "resolve_row now d i =
     i\<lparr>i_status := RESOLVED, i_resolvedAt := Some now, i_durationSec := Some d, i_fingerprint := None\<rparr>"

definition resolveIncident :: "id \<Rightarrow> time \<Rightarrow> db \<Rightarrow> id option \<times> db" where
  "resolveIncident monitorId now w =
     (case open_incident_of monitorId w of
        None \<Rightarrow> (None, w)
      | Some inc \<Rightarrow>
          (let d = durationSec (i_startedAt inc) now
           in (Some (i_id inc),
               addEvent (i_id inc) EV_RESOLVED (''Recovered after '' @ show_int d @ ''s.'') now None
                 (w\<lparr>incidents := update_rows (\<lambda>i. i_id i = i_id inc) (resolve_row now d) (incidents w)\<rparr>))))"

section \<open>One check outcome\<close>

definition decide :: "monitor_snapshot \<Rightarrow> check_status \<Rightarrow> bool \<Rightarrow> transition_result" where
  "decide monitor status inMaintenance =
     transition
       \<lparr>ti_current = s_health monitor, ti_success = isSuccessStatus status,
        ti_priorConsecutiveFailures = s_consecutiveFailures monitor,
        ti_priorConsecutiveSuccesses = s_consecutiveSuccesses monitor,
        ti_failureThreshold = s_failureThreshold monitor,
        ti_successThreshold = s_successThreshold monitor, ti_inMaintenance = inMaintenance\<rparr>"

definition check_row :: "monitor_snapshot \<Rightarrow> probe_outcome \<Rightarrow> probe_region \<Rightarrow> time \<Rightarrow> check_result" where
  "check_row monitor outcome region now =
     \<lparr>cr_organizationId = s_organizationId monitor, cr_monitorId = s_id monitor, cr_region = region,
      cr_status = o_status outcome, cr_statusCode = o_statusCode outcome,
      cr_responseMs = o_responseMs outcome, cr_errorType = o_errorType outcome,
      cr_errorMessage = map_option (take MAX_ERR) (o_errorMessage outcome), cr_checkedAt = now\<rparr>"

definition monitor_update ::
  "monitor_snapshot \<Rightarrow> probe_outcome \<Rightarrow> transition_result \<Rightarrow> bool \<Rightarrow> time \<Rightarrow> monitor_row \<Rightarrow> monitor_row" where
  "monitor_update monitor outcome decision isPing now m =
     m\<lparr>m_health := state_health (tr_state decision),
       m_consecutiveFailures := tr_consecutiveFailures decision,
       m_consecutiveSuccesses := tr_consecutiveSuccesses decision,
       m_lastStatusCode := o_statusCode outcome, m_lastResponseMs := o_responseMs outcome,
       m_lastError := (if \<not> isSuccessStatus (o_status outcome)
                       then map_option (take MAX_ERR) (o_errorMessage outcome) else None),
       m_lastCheckedAt := (if s_type monitor \<noteq> T_HEARTBEAT \<or> isPing then Some now
                           else m_lastCheckedAt m)\<rparr>"

definition record_check ::
  "monitor_snapshot \<Rightarrow> probe_outcome \<Rightarrow> process_options \<Rightarrow> transition_result \<Rightarrow> time \<Rightarrow> db \<Rightarrow> (js_error + unit) \<times> db" where
  "record_check monitor outcome opts decision now w =
     (let w1 = w\<lparr>check_results := insert_row (check_row monitor outcome (po_region opts) now) (check_results w)\<rparr>
      in if \<not> (\<exists>m \<in> set (monitors w). m_id m = s_id monitor)
         then (Inl (Err ''No record was found for an update.''), w1)
         else (Inr (), w1\<lparr>monitors := update_rows (\<lambda>m. m_id m = s_id monitor)
                 (monitor_update monitor outcome decision (po_isHeartbeatPing opts) now) (monitors w1)\<rparr>))"

definition dispatch_alert :: "process_options \<Rightarrow> alert_context \<Rightarrow> db \<Rightarrow> (js_error + int) \<times> db" where
  "dispatch_alert opts c w = (case po_alerts opts of None \<Rightarrow> (Inr 0, w) | Some f \<Rightarrow> f c w)"

definition start_escalation ::
  "process_options \<Rightarrow> monitor_snapshot \<Rightarrow> id \<Rightarrow> db \<Rightarrow> (js_error + bool) \<times> db" where
  "start_escalation opts monitor incidentId w =
     (case (present (s_escalationPolicyId monitor), po_escalation opts) of
        (Some policyId, Some f) \<Rightarrow>
          f \<lparr>ec_incidentId = incidentId, ec_organizationId = s_organizationId monitor,
                 ec_monitorId = Some (s_id monitor), ec_policyId = policyId\<rparr> w
      | _ \<Rightarrow> (Inr False, w))"

definition incident_context :: "monitor_snapshot \<Rightarrow> id \<Rightarrow> alert_kind \<Rightarrow> incident_dispatch_context" where
  "incident_context monitor incidentId kind =
     \<lparr>nx_incidentId = incidentId, nx_organizationId = s_organizationId monitor,
      nx_monitorId = s_id monitor, nx_monitorName = s_name monitor, nx_kind = kind\<rparr>"

definition alert_ctx :: "monitor_snapshot \<Rightarrow> id \<Rightarrow> alert_kind \<Rightarrow> alert_context" where
  "alert_ctx monitor incidentId kind =
     \<lparr>ax_incidentId = incidentId, ax_organizationId = s_organizationId monitor,
      ax_monitorId = s_id monitor, ax_kind = kind\<rparr>"

definition result_of ::
  "monitor_snapshot \<Rightarrow> probe_outcome \<Rightarrow> transition_result \<Rightarrow> bool \<Rightarrow> pipeline_transition option \<Rightarrow> bool
   \<Rightarrow> id option \<Rightarrow> int \<Rightarrow> process_result" where
  "result_of monitor outcome decision inMaintenance tr flapping incidentId n =
     \<lparr>pr_checkStatus = o_status outcome, pr_previousHealth = s_health monitor,
      pr_newHealth = state_health (tr_state decision), pr_transition = tr,
      pr_inMaintenance = inMaintenance, pr_flapping = flapping, pr_incidentId = incidentId,
      pr_alertsEnqueued = n\<rparr>"

text \<open>The branch of a newly opened incident: deduplicated when flapping, fanned out otherwise.\<close>

definition announce_open ::
  "monitor_snapshot \<Rightarrow> probe_outcome \<Rightarrow> process_options \<Rightarrow> bool \<Rightarrow> id \<Rightarrow> time \<Rightarrow> db \<Rightarrow> (js_error + int) \<times> db" where
  "announce_open monitor outcome opts flapping incidentId now w =
     (if flapping
      then (Inr 0,
            writeAudit (system_audit (s_organizationId monitor) ''monitor.flapping'' ''monitor'' (s_id monitor)
                (JObj [(''incidentId'', JStr incidentId), (''region'', JStr (region_name (po_region opts)))]))
              (addEvent incidentId EV_STATUS_CHANGED ''Flapping detected - alert suppressed.'' now
                (Some (JObj [(''flapping'', JBool True)])) w))
      else
        (let w1 = writeAudit (system_audit (s_organizationId monitor) ''incident.opened'' ''incident'' incidentId
                (JObj [(''monitorId'', JStr (s_id monitor)), (''region'', JStr (region_name (po_region opts))),
                       (''errorType'', jopt (o_errorType outcome))])) w
         in case dispatch_alert opts (alert_ctx monitor incidentId Opened) w1 of
              (Inl e, w2) \<Rightarrow> (Inl e, w2)
            | (Inr n, w2) \<Rightarrow>
                (case start_escalation opts monitor incidentId w2 of
                   (Inl e, w3) \<Rightarrow> (Inl e, w3)
                 | (Inr _, w3) \<Rightarrow>
                     (Inr n, dispatchIntegration opts (incident_context monitor incidentId Opened) w3))))"

definition announce_resolved ::
  "monitor_snapshot \<Rightarrow> process_options \<Rightarrow> id \<Rightarrow> db \<Rightarrow> (js_error + int) \<times> db" where
  "announce_resolved monitor opts incidentId w =
     (let w1 = writeAudit (system_audit (s_organizationId monitor) ''incident.resolved'' ''incident'' incidentId
             (JObj [(''monitorId'', JStr (s_id monitor)), (''region'', JStr (region_name (po_region opts)))])) w
      in case dispatch_alert opts (alert_ctx monitor incidentId Resolved) w1 of
           (Inl e, w2) \<Rightarrow> (Inl e, w2)
         | (Inr n, w2) \<Rightarrow> (Inr n, dispatchIntegration opts (incident_context monitor incidentId Resolved) w2))"

definition processCheckResult ::
  "monitor_snapshot \<Rightarrow> probe_outcome \<Rightarrow> process_options \<Rightarrow> time \<Rightarrow> db \<Rightarrow> (js_error + process_result) \<times> db" where
  "processCheckResult monitor outcome opts now w =
     (let inMaintenance = isInMaintenance (s_id monitor) now w;
          decision = decide monitor (o_status outcome) inMaintenance;
          result = result_of monitor outcome decision inMaintenance
      in case record_check monitor outcome opts decision now w of
           (Inl e, w1) \<Rightarrow> (Inl e, w1)
         | (Inr _, w1) \<Rightarrow>
             (case tr_incident decision of
                Some Act_open \<Rightarrow>
                  (let flapping = detectFlapping w1 (s_id monitor) now FLAP_WINDOW_MS FLAP_THRESHOLD
                   in case openIncident monitor outcome now w1 of
                        (None, w2) \<Rightarrow> (Inr (result None flapping None 0), w2)
                      | (Some incidentId, w2) \<Rightarrow>
                          (case announce_open monitor outcome opts flapping incidentId now w2 of
                             (Inl e, w3) \<Rightarrow> (Inl e, w3)
                           | (Inr n, w3) \<Rightarrow> (Inr (result (Some Down) flapping (Some incidentId) n), w3)))
              | Some Act_resolve \<Rightarrow>
                  (case resolveIncident (s_id monitor) now w1 of
                     (None, w2) \<Rightarrow> (Inr (result None False None 0), w2)
                   | (Some incidentId, w2) \<Rightarrow>
                       (case announce_resolved monitor opts incidentId w2 of
                          (Inl e, w3) \<Rightarrow> (Inl e, w3)
                        | (Inr n, w3) \<Rightarrow> (Inr (result (Some Recovered) False (Some incidentId) n), w3)))
              | None \<Rightarrow>
                  (if tr_changed decision \<and> tr_state decision = S_DOWN
                   then (case findOpenIncidentId (s_id monitor) w1 of
                           None \<Rightarrow> (Inr (result None False None 0), w1)
                         | Some incidentId \<Rightarrow>
                             (Inr (result None False (Some incidentId) 0),
                              addEvent incidentId EV_STATUS_CHANGED ''Still failing during recovery.'' now None w1))
                   else (Inr (result None False None 0), w1))))"

section \<open>Heartbeats\<close>

definition DEFAULT_REGION :: probe_region where "DEFAULT_REGION = NA_EAST"

definition heartbeat_outcome :: probe_outcome where
  "heartbeat_outcome =
     with_attempts
       \<lparr>o_status = C_UP, o_statusCode = None, o_responseMs = Some 0, o_errorType = None,
        o_errorMessage = None, o_cert = None, o_dns = None, o_domain = None, o_validations = []\<rparr> 1"

definition recordHeartbeat ::
  "id \<Rightarrow> probe_region option \<Rightarrow> (alert_context \<Rightarrow> db \<Rightarrow> (js_error + int) \<times> db) option \<Rightarrow> time \<Rightarrow> db
   \<Rightarrow> (js_error + process_result option) \<times> db" where
  "recordHeartbeat monitorId region alerts now w =
     (case find_first (\<lambda>m. m_id m = monitorId \<and> m_type m = T_HEARTBEAT \<and> m_deletedAt m = None) (monitors w) of
        None \<Rightarrow> (Inr None, w)
      | Some row \<Rightarrow>
          map_prod (map_sum (\<lambda>e. e) Some) (\<lambda>w. w)
            (processCheckResult (toSnapshot row) heartbeat_outcome
               \<lparr>po_region = (case region of None \<Rightarrow> DEFAULT_REGION | Some r \<Rightarrow> r),
                po_isHeartbeatPing = True, po_alerts = alerts, po_integrations = None,
                po_escalation = None\<rparr> now w))"

section \<open>The check worker\<close>

record check_job =
  cj_monitorId :: id
  cj_organizationId :: id
  cj_region :: probe_region

datatype check_skip = not_found_skip | inactive | unsupported_type
datatype check_job_result =
    CheckSkipped check_skip
  | CheckDone check_status "pipeline_transition option"

text \<open>
  \<open>probes\<close> is the registry; \<open>checkedAt\<close> and \<open>now\<close> are the clock when the probe starts and when its
  result is processed. An outcome without a status (negative \<open>retries\<close>) is refused by the check
  log's non-null column.
\<close>

definition check_processor ::
  "js_host \<Rightarrow> (monitor_type \<Rightarrow> probe option) \<Rightarrow> process_options \<Rightarrow> check_job \<Rightarrow> time \<Rightarrow> time \<Rightarrow> db
   \<Rightarrow> (js_error + check_job_result) \<times> db" where
  "check_processor h probes opts job checkedAt now w =
     (case find_first (\<lambda>m. m_id m = cj_monitorId job \<and> m_deletedAt m = None) (monitors w) of
        None \<Rightarrow> (Inr (CheckSkipped not_found_skip), w)
      | Some row \<Rightarrow>
          if m_state row \<noteq> ACTIVE then (Inr (CheckSkipped inactive), w)
          else
            (case probes (m_type row) of
               None \<Rightarrow> (Inr (CheckSkipped unsupported_type), w)
             | Some probe \<Rightarrow>
                 (let monitor = toSnapshot row
                  in case executeCheck h monitor probe checkedAt of
                       Inl e \<Rightarrow> (Inl e, w)
                     | Inr None \<Rightarrow> (Inl (Err ''Argument `status` is missing.''), w)
                     | Inr (Some outcome) \<Rightarrow>
                         (case processCheckResult monitor outcome
                                 (opts\<lparr>po_region := cj_region job, po_isHeartbeatPing := False\<rparr>) now w of
                            (Inl e, w') \<Rightarrow> (Inl e, w')
                          | (Inr r, w') \<Rightarrow> (Inr (CheckDone (o_status outcome) (pr_transition r)), w')))))"

text \<open>The ports of \<^verbatim>\<open>apps/worker/src/index.ts\<close>.\<close>

definition worker_options :: "string \<Rightarrow> time \<Rightarrow> probe_region \<Rightarrow> process_options" where
  "worker_options webUrl now region =
     \<lparr>po_region = region, po_isHeartbeatPing = False, po_alerts = Some dispatch,
      po_integrations = Some (dispatchIncident webUrl now), po_escalation = Some start\<rparr>"

section \<open>Safe ports\<close>

text \<open>
  What the pipeline relies on: whatever a port answers, the engine's tables are as before.
\<close>

locale safe_ports =
  fixes opts :: process_options
  assumes alerts_safe: "po_alerts opts = Some f \<Longrightarrow> fan_out f"
    and integrations_safe: "po_integrations opts = Some g \<Longrightarrow> fan_out g"
    and escalation_safe: "po_escalation opts = Some s \<Longrightarrow> fan_out s"
begin

lemma dispatch_alert_core:
  "core_of (snd (dispatch_alert opts c w)) = core_of w" "supply_le w (snd (dispatch_alert opts c w))"
  using alerts_safe by (auto simp: dispatch_alert_def fan_out_def split: option.split)

lemma dispatchIntegration_core:
  "core_of (dispatchIntegration opts c w) = core_of w" "supply_le w (dispatchIntegration opts c w)"
  using integrations_safe by (auto simp: dispatchIntegration_def fan_out_def split: option.split)

lemma start_escalation_core:
  "core_of (snd (start_escalation opts m i w)) = core_of w" "supply_le w (snd (start_escalation opts m i w))"
  using escalation_safe by (auto simp: start_escalation_def fan_out_def split: option.split)

text \<open>After opening or resolving, only the audit log and the timeline grow.\<close>

lemma announce_open_core:
  assumes "announce_open m out opts fl i now w = (r, w')"
  shows "incidents w' = incidents w \<and> monitors w' = monitors w \<and> check_results w' = check_results w
    \<and> windows w' = windows w
    \<and> audit_logs w' = audit_logs w @ [if fl
          then system_audit (s_organizationId m) ''monitor.flapping'' ''monitor'' (s_id m)
                (JObj [(''incidentId'', JStr i), (''region'', JStr (region_name (po_region opts)))])
          else system_audit (s_organizationId m) ''incident.opened'' ''incident'' i
                (JObj [(''monitorId'', JStr (s_id m)), (''region'', JStr (region_name (po_region opts))),
                       (''errorType'', jopt (o_errorType out))])]
    \<and> (\<exists>evs. incident_events w' = incident_events w @ evs) \<and> supply_le w w'"
proof (cases fl)
  case True
  with assms show ?thesis by (auto simp: announce_open_def addEvent_def supply_le_def)
next
  case False
  let ?w1 = "writeAudit (system_audit (s_organizationId m) ''incident.opened'' ''incident'' i
                (JObj [(''monitorId'', JStr (s_id m)), (''region'', JStr (region_name (po_region opts))),
                       (''errorType'', jopt (o_errorType out))])) w"
  obtain ra w2 where a: "dispatch_alert opts (alert_ctx m i Opened) ?w1 = (ra, w2)" by fastforce
  obtain rs w3 where s: "start_escalation opts m i w2 = (rs, w3)" by fastforce
  have c: "core_of w2 = core_of ?w1" "core_of w3 = core_of w2"
    "core_of (dispatchIntegration opts (incident_context m i Opened) w3) = core_of w3"
    using dispatch_alert_core [where c = "alert_ctx m i Opened" and w = ?w1] start_escalation_core [where m = m and i = i and w = w2]
      dispatchIntegration_core a s by simp_all
  then have "core_of w' = core_of ?w1"
    using assms False a s by (auto simp: announce_open_def Let_def split: sum.splits)
  moreover have "supply_le ?w1 w2" "supply_le w2 w3"
    "supply_le w3 (dispatchIntegration opts (incident_context m i Opened) w3)"
    using dispatch_alert_core [where c = "alert_ctx m i Opened" and w = ?w1] start_escalation_core [where m = m and i = i and w = w2]
      dispatchIntegration_core a s by simp_all
  then have "supply_le ?w1 w'"
    using assms False a s
    by (auto simp: announce_open_def Let_def intro: supply_le_trans split: sum.splits)
  ultimately show ?thesis using False by (simp add: core_of_eq_iff supply_le_def)
qed

lemma announce_resolved_core:
  assumes "announce_resolved m opts i w = (r, w')"
  shows "incidents w' = incidents w \<and> monitors w' = monitors w \<and> check_results w' = check_results w
    \<and> windows w' = windows w
    \<and> audit_logs w' = audit_logs w @ [system_audit (s_organizationId m) ''incident.resolved'' ''incident'' i
             (JObj [(''monitorId'', JStr (s_id m)), (''region'', JStr (region_name (po_region opts)))])]
    \<and> incident_events w' = incident_events w \<and> supply_le w w'"
proof -
  let ?w1 = "writeAudit (system_audit (s_organizationId m) ''incident.resolved'' ''incident'' i
             (JObj [(''monitorId'', JStr (s_id m)), (''region'', JStr (region_name (po_region opts)))])) w"
  obtain ra w2 where a: "dispatch_alert opts (alert_ctx m i Resolved) ?w1 = (ra, w2)" by fastforce
  have "core_of w2 = core_of ?w1"
    "core_of (dispatchIntegration opts (incident_context m i Resolved) w2) = core_of w2"
    using dispatch_alert_core [where c = "alert_ctx m i Resolved" and w = ?w1] dispatchIntegration_core a by simp_all
  then have "core_of w' = core_of ?w1"
    using assms a by (auto simp: announce_resolved_def Let_def split: sum.splits)
  moreover have "supply_le ?w1 w2" "supply_le w2 (dispatchIntegration opts (incident_context m i Resolved) w2)"
    using dispatch_alert_core [where c = "alert_ctx m i Resolved" and w = ?w1] dispatchIntegration_core a by simp_all
  then have "supply_le ?w1 w'"
    using assms a by (auto simp: announce_resolved_def Let_def intro: supply_le_trans split: sum.splits)
  ultimately show ?thesis by (simp add: core_of_eq_iff supply_le_def)
qed

text \<open>
  What one outcome does to the incidents, the monitors and the check log, as a function of the
  decision alone.
\<close>

lemma processCheckResult_core:
  assumes "processCheckResult m out opts now w = (r, w')"
    and "\<exists>x \<in> set (monitors w). m_id x = s_id m"
  defines "d \<equiv> decide m (o_status out) (isInMaintenance (s_id m) now w)"
  shows "check_results w' = check_results w @ [check_row m out (po_region opts) now]
    \<and> monitors w' = update_rows (\<lambda>x. m_id x = s_id m)
         (monitor_update m out d (po_isHeartbeatPing opts) now) (monitors w)
    \<and> incidents w' =
        (case tr_incident d of
           Some Act_open \<Rightarrow> incidents (snd (openIncident m out now w))
         | Some Act_resolve \<Rightarrow> incidents (snd (resolveIncident (s_id m) now w))
         | None \<Rightarrow> incidents w)
    \<and> windows w' = windows w
    \<and> (\<exists>as. audit_logs w' = audit_logs w @ as) \<and> (\<exists>evs. incident_events w' = incident_events w @ evs)
    \<and> supply_le (if tr_incident d = Some Act_open then snd (openIncident m out now w) else w) w'"
proof -
  define w1 where "w1 = w\<lparr>check_results := insert_row (check_row m out (po_region opts) now) (check_results w),
    monitors := update_rows (\<lambda>x. m_id x = s_id m)
       (monitor_update m out d (po_isHeartbeatPing opts) now) (monitors w)\<rparr>"
  have rc: "record_check m out opts d now w = (Inr (), w1)"
    using assms(2) by (simp add: record_check_def w1_def Let_def)
  have w1: "check_results w1 = check_results w @ [check_row m out (po_region opts) now]"
    "monitors w1 = update_rows (\<lambda>x. m_id x = s_id m)
       (monitor_update m out d (po_isHeartbeatPing opts) now) (monitors w)"
    "incidents w1 = incidents w" "windows w1 = windows w" "audit_logs w1 = audit_logs w"
    "incident_events w1 = incident_events w" "new_id w1 = new_id w" "db_uuid w1 = db_uuid w"
    "db_next w1 = db_next w"
    by (simp_all add: w1_def insert_row_def new_id_def)
  note p = assms(1) [unfolded processCheckResult_def Let_def, folded d_def, unfolded rc, simplified]
  show ?thesis
  proof (cases "tr_incident d")
    case None
    with p w1 show ?thesis by (auto simp: addEvent_def supply_le_def split: if_splits option.splits)
  next
    case (Some act)
    show ?thesis
    proof (cases act)
      case Act_open
      obtain o' w2 where o': "openIncident m out now w1 = (o', w2)" by fastforce
      then have w2: "check_results w2 = check_results w1" "monitors w2 = monitors w1"
        "incidents w2 = incidents (snd (openIncident m out now w))" "windows w2 = windows w1"
        "audit_logs w2 = audit_logs w1" "\<exists>evs. incident_events w2 = incident_events w1 @ evs"
        "supply_le (snd (openIncident m out now w)) w2"
        using w1 by (auto simp: openIncident_def Let_def supply_le_def split: if_splits)
      show ?thesis
      proof (cases o')
        case None
        with p o' w1 w2 Some Act_open show ?thesis by auto
      next
        case (Some i)
        obtain ra w3 where a: "announce_open m out opts
            (detectFlapping w1 (s_id m) now FLAP_WINDOW_MS FLAP_THRESHOLD) i now w2 = (ra, w3)" by fastforce
        have "w' = w3" using p o' a Some Act_open \<open>tr_incident d = Some act\<close> by (auto split: sum.splits)
        with announce_open_core [OF a] w1 w2 Act_open \<open>tr_incident d = Some act\<close> show ?thesis
          by (auto intro: supply_le_trans)
      qed
    next
      case Act_resolve
      obtain o' w2 where o': "resolveIncident (s_id m) now w1 = (o', w2)" by fastforce
      then have w2: "check_results w2 = check_results w1" "monitors w2 = monitors w1"
        "incidents w2 = incidents (snd (resolveIncident (s_id m) now w))" "windows w2 = windows w1"
        "audit_logs w2 = audit_logs w1" "\<exists>evs. incident_events w2 = incident_events w1 @ evs"
        "supply_le w w2"
        using w1 by (auto simp: resolveIncident_def open_incident_of_def addEvent_def Let_def supply_le_def
            split: option.splits)
      show ?thesis
      proof (cases o')
        case None
        with p o' w1 w2 Some Act_resolve show ?thesis by auto
      next
        case (Some i)
        obtain ra w3 where a: "announce_resolved m opts i w2 = (ra, w3)" by fastforce
        have "w' = w3" using p o' a Some Act_resolve \<open>tr_incident d = Some act\<close> by (auto split: sum.splits)
        with announce_resolved_core [OF a] w1 w2 Act_resolve \<open>tr_incident d = Some act\<close> show ?thesis
          by (auto intro: supply_le_trans)
      qed
    qed
  qed
qed

lemma processCheckResult_missing:
  assumes "\<not> (\<exists>x \<in> set (monitors w). m_id x = s_id m)"
  shows "processCheckResult m out opts now w =
    (Inl (Err ''No record was found for an update.''),
     w\<lparr>check_results := insert_row (check_row m out (po_region opts) now) (check_results w)\<rparr>)"
  using assms by (simp add: processCheckResult_def record_check_def Let_def)

end

lemma start_core: "core_of (snd (start c w)) = core_of w" "supply_le w (snd (start c w))"
  by (auto simp: start_def core_of_def supply_le_def enqueue_escalation_def split: option.splits list.splits)

interpretation escalations: fan_out start
  by unfold_locales (rule start_core)+

interpretation worker: safe_ports "worker_options webUrl now region" for webUrl now region
  by unfold_locales
     (auto simp: worker_options_def alerts.keeps_core incident_integrations.keeps_core
        escalations.keeps_core alerts.keeps_supply incident_integrations.keeps_supply
        escalations.keeps_supply)

end
