(* ===== verification/Pagination.thy ===== *)
theory Pagination
  imports Prelude "HOL-Library.Char_ord" "HOL-Library.List_Lexorder" "HOL-Library.Product_Lexorder"
begin

text \<open>
  Keyset pagination, from \<^verbatim>\<open>packages/shared/src/pagination.ts\<close> and
  \<^verbatim>\<open>apps/api/src/services/cursor.ts\<close>: opaque cursors, the page built from \<open>limit + 1\<close> rows and
  the keyset conditions. \<open>base64url\<close> is modelled on bytes (a cursor is ASCII, so its UTF-8 bytes
  are its characters); \<open>JSON.stringify\<close>, \<open>JSON.parse\<close>, \<open>toISOString\<close> and the \<open>Date\<close> constructor are
  the record \<open>codec_host\<close>, and \<open>codec_ok\<close> states that each pair inverts.
\<close>

section \<open>base64url\<close>

definition b64_alphabet :: string where
  "b64_alphabet = ''ABCDEFGHIJKLMNOPQRSTUVWXYZabcdefghijklmnopqrstuvwxyz0123456789-_''"

definition b64_char :: "nat \<Rightarrow> char" where
  "b64_char n = b64_alphabet ! n"

fun index_of :: "'a \<Rightarrow> 'a list \<Rightarrow> nat option" where
  "index_of x [] = None"
| "index_of x (y # ys) = (if x = y then Some 0 else map_option Suc (index_of x ys))"

definition b64_value :: "char \<Rightarrow> nat option" where
  "b64_value c = index_of c b64_alphabet"

fun b64_groups :: "nat list \<Rightarrow> nat list" where
  "b64_groups (a # b # c # bs) =
     (a div 4) # ((a mod 4) * 16 + b div 16) # ((b mod 16) * 4 + c div 64) # (c mod 64) # b64_groups bs"
| "b64_groups [a, b] = [a div 4, (a mod 4) * 16 + b div 16, (b mod 16) * 4]"
| "b64_groups [a] = [a div 4, (a mod 4) * 16]"
| "b64_groups [] = []"

fun b64_bytes :: "nat list \<Rightarrow> nat list" where
  "b64_bytes (p # q # r # s # vs) =
     (p * 4 + q div 16) # ((q mod 16) * 16 + r div 4) # ((r mod 4) * 64 + s) # b64_bytes vs"
| "b64_bytes [p, q, r] = [p * 4 + q div 16, (q mod 16) * 16 + r div 4]"
| "b64_bytes [p, q] = [p * 4 + q div 16]"
| "b64_bytes _ = []"

definition base64url_encode :: "string \<Rightarrow> string" where
  "base64url_encode s = map b64_char (b64_groups (map of_char s))"

text \<open>\<open>Buffer.from(raw, "base64url")\<close> skips characters outside the alphabet.\<close>

definition base64url_decode :: "string \<Rightarrow> string" where
  "base64url_decode raw = map char_of (b64_bytes (List.map_filter b64_value raw))"

lemma index_of_nth: "distinct xs \<Longrightarrow> n < length xs \<Longrightarrow> index_of (xs ! n) xs = Some n"
  by (induction xs arbitrary: n) (auto simp: nth_Cons split: nat.splits)

lemma b64_value_char: "n < 64 \<Longrightarrow> b64_value (b64_char n) = Some n"
proof -
  assume "n < 64"
  moreover have "length b64_alphabet = 64" "distinct b64_alphabet"
    by (simp_all add: b64_alphabet_def)
  ultimately show ?thesis by (simp add: b64_value_def b64_char_def index_of_nth)
qed

lemma b64_groups_range: "\<forall>b \<in> set bs. b < 256 \<Longrightarrow> \<forall>v \<in> set (b64_groups bs). v < 64"
proof (induction bs rule: b64_groups.induct)
  case (1 a b c bs)
  then have "(a mod 4) * 16 + b div 16 < 64" "(b mod 16) * 4 + c div 64 < 64" "a div 4 < 64"
    by auto
  with 1 show ?case by simp
next
  case (2 a b)
  then have "(a mod 4) * 16 + b div 16 < 64" "(b mod 16) * 4 < 64" "a div 4 < 64" by auto
  then show ?case by simp
next
  case (3 a)
  then have "(a mod 4) * 16 < 64" "a div 4 < 64" by auto
  then show ?case by simp
qed simp

lemma split_low: "y < m \<Longrightarrow> (x * m + y) div m = x" "y < m \<Longrightarrow> (x * m + y) mod m = y" for x y m :: nat
  by auto

lemma b64_bytes_groups: "\<forall>b \<in> set bs. b < 256 \<Longrightarrow> b64_bytes (b64_groups bs) = bs"
proof (induction bs rule: b64_groups.induct)
  case (1 a b c bs)
  then have lt: "b div 16 < 16" "c div 64 < 4" by auto
  have "a div 4 * 4 + a mod 4 = a" "b div 16 * 16 + b mod 16 = b" "c div 64 * 64 + c mod 64 = c"
    by simp_all
  with 1 show ?case
    by (simp only: b64_groups.simps b64_bytes.simps split_low [OF lt(1)] split_low [OF lt(2)]) simp
next
  case (2 a b)
  then have lt: "b div 16 < 16" by auto
  show ?case
    by (simp only: b64_groups.simps b64_bytes.simps split_low [OF lt(1)]) simp
next
  case (3 a)
  then show ?case by simp
qed simp

lemma map_filter_map_Some: "(\<And>x. x \<in> set xs \<Longrightarrow> f (g x) = Some x) \<Longrightarrow> List.map_filter f (map g xs) = xs"
  by (induction xs) (auto simp: List.map_filter_simps)

lemma base64url_roundtrip: "base64url_decode (base64url_encode s) = s"
proof -
  have r: "\<forall>b \<in> set (map of_char s). b < (256 :: nat)" by (auto simp: nat_of_char_less_256)
  have "List.map_filter b64_value (base64url_encode s) = b64_groups (map of_char s)"
    unfolding base64url_encode_def
    by (rule map_filter_map_Some) (use b64_groups_range [OF r] b64_value_char in auto)
  then show ?thesis
    using b64_bytes_groups [OF r] by (simp add: base64url_decode_def o_def)
qed

section \<open>Cursors\<close>

record cursor =
  cu_id :: id
  cu_createdAt :: string

record codec_host =
  ch_stringify :: "json \<Rightarrow> string"
  ch_parse :: "string \<Rightarrow> json option"
  ch_iso :: "time \<Rightarrow> string"
  ch_date :: "string \<Rightarrow> time"

definition encodeCursor :: "codec_host \<Rightarrow> cursor \<Rightarrow> string" where
  "encodeCursor h c =
     base64url_encode (ch_stringify h (JObj [(''id'', JStr (cu_id c)), (''createdAt'', JStr (cu_createdAt c))]))"

definition cursor_of_json :: "json \<Rightarrow> cursor option" where
  "cursor_of_json j =
     (case j of
        JObj kvs \<Rightarrow>
          (case (map_of kvs ''id'', map_of kvs ''createdAt'') of
             (Some (JStr i), Some (JStr t)) \<Rightarrow>
               if 1 \<le> length i \<and> 1 \<le> length t then Some \<lparr>cu_id = i, cu_createdAt = t\<rparr> else None
           | _ \<Rightarrow> None)
      | _ \<Rightarrow> None)"

definition decodeCursor :: "codec_host \<Rightarrow> string \<Rightarrow> cursor option" where
  "decodeCursor h raw =
     (case ch_parse h (base64url_decode raw) of None \<Rightarrow> None | Some j \<Rightarrow> cursor_of_json j)"

definition parseCursor :: "codec_host \<Rightarrow> string option \<Rightarrow> js_error + cursor option" where
  "parseCursor h raw =
     (case raw of
        None \<Rightarrow> Inr None
      | Some r \<Rightarrow>
          if r = '''' then Inr None
          else (case decodeCursor h r of
                  None \<Rightarrow> Inl (AppErr bad_request ''Invalid pagination cursor.'')
                | Some c \<Rightarrow> Inr (Some c)))"

definition afterCursorAsc :: "codec_host \<Rightarrow> cursor \<Rightarrow> time \<Rightarrow> id \<Rightarrow> bool" where
  "afterCursorAsc h c createdAt i =
     (let t = ch_date h (cu_createdAt c) in createdAt > t \<or> (createdAt = t \<and> i > cu_id c))"

definition afterCursorDesc :: "codec_host \<Rightarrow> cursor \<Rightarrow> time \<Rightarrow> id \<Rightarrow> bool" where
  "afterCursorDesc h c createdAt i =
     (let t = ch_date h (cu_createdAt c) in createdAt < t \<or> (createdAt = t \<and> i < cu_id c))"

section \<open>Pages\<close>

record 'r page =
  pg_items :: "'r list"
  pg_nextCursor :: "string option"

definition buildPage ::
  "codec_host \<Rightarrow> ('r \<Rightarrow> id) \<Rightarrow> ('r \<Rightarrow> time) \<Rightarrow> 'r list \<Rightarrow> nat \<Rightarrow> 'r page" where
  "buildPage h rid createdAt rows limit =
     (let hasMore = length rows > limit;
          items = (if hasMore then take limit rows else rows)
      in \<lparr>pg_items = items,
          pg_nextCursor =
            (if hasMore \<and> items \<noteq> []
             then Some (encodeCursor h \<lparr>cu_id = rid (last items), cu_createdAt = ch_iso h (createdAt (last items))\<rparr>)
             else None)\<rparr>)"

text \<open>
  A list endpoint: the rows that satisfy \<open>P\<close> and lie after the cursor, newest first, one more
  than a page.
\<close>

definition row_key :: "('r \<Rightarrow> id) \<Rightarrow> ('r \<Rightarrow> time) \<Rightarrow> 'r \<Rightarrow> time \<times> id" where
  "row_key rid createdAt r = (createdAt r, rid r)"

definition newest_first :: "('r \<Rightarrow> id) \<Rightarrow> ('r \<Rightarrow> time) \<Rightarrow> 'r list \<Rightarrow> 'r list" where
  "newest_first rid createdAt rows = rev (sort_key (row_key rid createdAt) rows)"

lemma newest_first_length [simp]: "length (newest_first rid createdAt rows) = length rows"
  by (simp add: newest_first_def)

definition list_page ::
  "codec_host \<Rightarrow> ('r \<Rightarrow> id) \<Rightarrow> ('r \<Rightarrow> time) \<Rightarrow> ('r \<Rightarrow> bool) \<Rightarrow> nat \<Rightarrow> 'r list \<Rightarrow> string option
   \<Rightarrow> js_error + 'r page" where
  "list_page h rid createdAt P limit rows raw =
     (case parseCursor h raw of
        Inl e \<Rightarrow> Inl e
      | Inr cursor \<Rightarrow>
          (let found = take (limit + 1) (newest_first rid createdAt
                 (filter (\<lambda>r. P r \<and> (case cursor of None \<Rightarrow> True
                                      | Some c \<Rightarrow> afterCursorDesc h c (createdAt r) (rid r))) rows))
           in Inr (buildPage h rid createdAt found limit)))"

text \<open>A client that follows \<open>nextCursor\<close> until it is null, for at most \<open>n\<close> requests.\<close>

fun follow ::
  "codec_host \<Rightarrow> ('r \<Rightarrow> id) \<Rightarrow> ('r \<Rightarrow> time) \<Rightarrow> ('r \<Rightarrow> bool) \<Rightarrow> nat \<Rightarrow> 'r list \<Rightarrow> nat \<Rightarrow> string option
   \<Rightarrow> (js_error + 'r list) option" where
  "follow h rid createdAt P limit rows 0 raw = None"
| "follow h rid createdAt P limit rows (Suc n) raw =
     (case list_page h rid createdAt P limit rows raw of
        Inl e \<Rightarrow> Some (Inl e)
      | Inr p \<Rightarrow>
          (case pg_nextCursor p of
             None \<Rightarrow> Some (Inr (pg_items p))
           | Some c \<Rightarrow>
               map_option (map_sum (\<lambda>e. e) (\<lambda>rest. pg_items p @ rest))
                 (follow h rid createdAt P limit rows n (Some c))))"

text \<open>
  What is used of the runtime: a JSON object of strings parses back, and so does the ISO text of
  a valid \<open>Date\<close>, one within 8.64e15 ms of the epoch.
\<close>

definition valid_date :: "time \<Rightarrow> bool" where
  "valid_date t \<longleftrightarrow> \<bar>t\<bar> \<le> 8640000000000000"

definition cursor_json :: "cursor \<Rightarrow> json" where
  "cursor_json c = JObj [(''id'', JStr (cu_id c)), (''createdAt'', JStr (cu_createdAt c))]"

definition codec_ok :: "codec_host \<Rightarrow> bool" where
  "codec_ok h \<longleftrightarrow>
     (\<forall>c. ch_parse h (ch_stringify h (cursor_json c)) = Some (cursor_json c)
        \<and> ch_stringify h (cursor_json c) \<noteq> '''')
     \<and> (\<forall>t. valid_date t \<longrightarrow> ch_date h (ch_iso h t) = t \<and> ch_iso h t \<noteq> '''')"

subsection \<open>Cursors round-trip\<close>

lemma decode_encode:
  assumes "codec_ok h" "cu_id c \<noteq> ''''" "cu_createdAt c \<noteq> ''''"
  shows "decodeCursor h (encodeCursor h c) = Some c"
proof -
  have "1 \<le> length (cu_id c)" "1 \<le> length (cu_createdAt c)"
    using assms(2,3) by (simp_all add: Suc_le_eq)
  then show ?thesis
    using assms(1)
    by (simp add: decodeCursor_def encodeCursor_def cursor_json_def [symmetric] base64url_roundtrip codec_ok_def)
       (simp add: cursor_json_def cursor_of_json_def)
qed

lemma encodeCursor_nonempty: "codec_ok h \<Longrightarrow> encodeCursor h c \<noteq> ''''"
proof
  assume "codec_ok h" "encodeCursor h c = ''''"
  then have "base64url_decode (encodeCursor h c) = ''''"
    by (simp add: base64url_decode_def List.map_filter_simps)
  with \<open>codec_ok h\<close> show False
    unfolding encodeCursor_def cursor_json_def [symmetric] base64url_roundtrip codec_ok_def by blast
qed

subsection \<open>Following the cursors lists every row once\<close>

lemma key_order:
  "afterCursorDesc h \<lparr>cu_id = rid y, cu_createdAt = ch_iso h (ct y)\<rparr> (ct r) (rid r) \<longleftrightarrow>
     row_key rid ct r < row_key rid ct y" if "codec_ok h" "valid_date (ct y)"
  using that by (auto simp: afterCursorDesc_def row_key_def codec_ok_def Let_def less_prod_def)

lemma newest_first_filter:
  "newest_first rid ct (filter Q rows) = filter Q (newest_first rid ct rows)"
  unfolding newest_first_def filter_sort [symmetric] rev_filter ..

lemma newest_first_sorted:
  assumes "distinct (map (row_key rid ct) rows)"
  shows "sorted_wrt (\<lambda>x y. row_key rid ct y < row_key rid ct x) (newest_first rid ct rows)"
proof -
  let ?k = "row_key rid ct"
  have "distinct (map ?k (sort_key ?k rows))" using assms by (simp add: distinct_map)
  moreover have "sorted (map ?k (sort_key ?k rows))" by simp
  ultimately have "sorted_wrt (<) (map ?k (sort_key ?k rows))"
    by (simp add: strict_sorted_iff)
  then show ?thesis by (simp add: newest_first_def sorted_wrt_map sorted_wrt_rev)
qed

lemma filter_below:
  assumes "sorted_wrt (\<lambda>x y. k y < k x) xs" "n < length xs"
  shows "filter (\<lambda>r. k r < (k (xs ! n) :: 'k :: linorder)) xs = drop (Suc n) xs"
  using assms
proof (induction xs arbitrary: n)
  case Nil
  then show ?case by simp
next
  case (Cons x xs)
  show ?case
  proof (cases n)
    case 0
    with Cons.prems show ?thesis by (auto simp: filter_id_conv)
  next
    case (Suc m)
    then have "k (xs ! m) < k x" using Cons.prems by auto
    then have "\<not> k x < k (xs ! m)" by simp
    with Suc Cons show ?thesis by simp
  qed
qed

lemma list_page_at:
  assumes ok: "codec_ok h" and lim: "1 \<le> limit"
    and s: "S = newest_first rid ct (filter P rows)"
    and d: "distinct (map (row_key rid ct) (filter P rows))"
    and ne: "\<forall>r \<in> set rows. rid r \<noteq> '''' \<and> valid_date (ct r)"
    and raw: "raw = (if p = 0 then None else
        Some (encodeCursor h \<lparr>cu_id = rid (S ! (p - 1)), cu_createdAt = ch_iso h (ct (S ! (p - 1)))\<rparr>))"
    and p: "p = 0 \<or> p \<le> length S"
  shows "list_page h rid ct P limit rows raw =
    Inr \<lparr>pg_items = take limit (drop p S),
         pg_nextCursor = (if p + limit < length S
            then Some (encodeCursor h \<lparr>cu_id = rid (S ! (p + limit - 1)),
                                       cu_createdAt = ch_iso h (ct (S ! (p + limit - 1)))\<rparr>)
            else None)\<rparr>"
proof -
  have sorted: "sorted_wrt (\<lambda>x y. row_key rid ct y < row_key rid ct x) S"
    unfolding s by (rule newest_first_sorted [OF d])
  have sub: "set S \<subseteq> set rows" by (auto simp: s newest_first_def)
  have found: "\<exists>cur. parseCursor h raw = Inr cur \<and>
      newest_first rid ct (filter (\<lambda>r. P r \<and> (case cur of None \<Rightarrow> True
          | Some c \<Rightarrow> afterCursorDesc h c (ct r) (rid r))) rows) = drop p S"
  proof (cases "p = 0")
    case True
    then show ?thesis using raw by (simp add: parseCursor_def s)
  next
    case False
    let ?y = "S ! (p - 1)"
    let ?c = "\<lparr>cu_id = rid ?y, cu_createdAt = ch_iso h (ct ?y)\<rparr>"
    have lt: "p - 1 < length S" using False p by auto
    then have y: "rid ?y \<noteq> ''''" "valid_date (ct ?y)" using sub ne nth_mem by blast+
    then have "ch_iso h (ct ?y) \<noteq> ''''" using ok by (simp add: codec_ok_def)
    with y(1) have "parseCursor h raw = Inr (Some ?c)"
      using raw False decode_encode [OF ok, of ?c] encodeCursor_nonempty [OF ok, of ?c]
      by (simp add: parseCursor_def)
    moreover have "filter (\<lambda>r. P r \<and> afterCursorDesc h ?c (ct r) (rid r)) rows =
        filter (\<lambda>r. row_key rid ct r < row_key rid ct ?y) (filter P rows)"
      by (simp only: key_order [where ct = ct and rid = rid, OF ok y(2)] filter_filter)
    moreover have "newest_first rid ct (filter (\<lambda>r. row_key rid ct r < row_key rid ct ?y) (filter P rows))
        = drop p S"
      using filter_below [OF sorted lt] False
      by (simp only: newest_first_filter [of rid ct "\<lambda>r. row_key rid ct r < row_key rid ct ?y" "filter P rows"]
            s [symmetric]) simp
    ultimately show ?thesis by simp
  qed
  then obtain cur where c: "parseCursor h raw = Inr cur"
    "newest_first rid ct (filter (\<lambda>r. P r \<and> (case cur of None \<Rightarrow> True
          | Some c \<Rightarrow> afterCursorDesc h c (ct r) (rid r))) rows) = drop p S" by blast
  show ?thesis
  proof (cases "p + limit < length S")
    case True
    have "take limit (take (limit + 1) (drop p S)) = take limit (drop p S)" by simp
    moreover have "last (take limit (drop p S)) = S ! (p + limit - 1)"
      using True lim by (simp add: last_conv_nth)
    moreover have "take limit (drop p S) \<noteq> []" using True lim by simp
    ultimately show ?thesis
      using True by (simp add: list_page_def c buildPage_def Let_def)
  next
    case False
    then have "take (limit + 1) (drop p S) = drop p S" "take limit (drop p S) = drop p S" by simp_all
    with False show ?thesis by (simp add: list_page_def c buildPage_def Let_def)
  qed
qed

lemma follow_from:
  assumes ok: "codec_ok h" and lim: "1 \<le> limit"
    and s: "S = newest_first rid ct (filter P rows)"
    and d: "distinct (map (row_key rid ct) (filter P rows))"
    and ne: "\<forall>r \<in> set rows. rid r \<noteq> '''' \<and> valid_date (ct r)"
  shows "\<lbrakk>raw = (if p = 0 then None else
        Some (encodeCursor h \<lparr>cu_id = rid (S ! (p - 1)), cu_createdAt = ch_iso h (ct (S ! (p - 1)))\<rparr>));
      p = 0 \<or> p \<le> length S; length S - p < n\<rbrakk>
    \<Longrightarrow> follow h rid ct P limit rows n raw = Some (Inr (drop p S))"
proof (induction n arbitrary: p raw)
  case 0
  then show ?case by simp
next
  case (Suc n)
  note pg = list_page_at [OF ok lim s d ne Suc.prems(1,2)]
  show ?case
  proof (cases "p + limit < length S")
    case True
    let ?raw = "Some (encodeCursor h \<lparr>cu_id = rid (S ! (p + limit - 1)),
        cu_createdAt = ch_iso h (ct (S ! (p + limit - 1)))\<rparr>)"
    have "follow h rid ct P limit rows n ?raw = Some (Inr (drop (p + limit) S))"
      by (rule Suc.IH) (use True lim Suc.prems in auto)
    moreover have "take limit (drop p S) @ drop (p + limit) S = drop p S"
      by (metis add.commute append_take_drop_id drop_drop)
    ultimately show ?thesis using pg True by simp
  next
    case False
    with pg show ?thesis by simp
  qed
qed

end
