(* ===== verification/IncidentService.thy ===== *)
theory IncidentService
  imports Pipeline Pagination
begin

text \<open>
  Human incident management, from \<^verbatim>\<open>apps/api/src/services/incident.service.ts\<close>, and the
  incident life cycle as a whole: the relation \<open>engine_step\<close> interleaves checks, heartbeats,
  alert and escalation jobs and the actions of people in any order, and \<open>incident_inv\<close> holds in
  every state it reaches. A check may run on a stale snapshot: the worker loads the monitor,
  probes it, and only then processes the result.
\<close>

section \<open>The service\<close>

record incident_actor =
  act_userId :: "id option"
  act_actorType :: actor_type
  act_ipAddress :: "string option"
  act_userAgent :: "string option"

record incident_list_item =
  il_id :: id
  il_status :: incident_status
  il_severity :: incident_severity
  il_title :: string
  il_summary :: "string option"
  il_monitorId :: "id option"
  il_monitorName :: "string option"
  il_startedAt :: time
  il_acknowledgedAt :: "time option"
  il_resolvedAt :: "time option"
  il_durationSec :: "int option"
  il_createdAt :: time

record incident_detail =
  idt_item :: incident_list_item
  idt_cause :: "string option"
  idt_acknowledgedById :: "id option"
  idt_events :: "incident_event list"

record incident_list_query =
  iq_status :: "incident_status option"
  iq_monitorId :: "id option"
  iq_limit :: nat
  iq_cursor :: "string option"

definition toListItem :: "db \<Rightarrow> incident \<Rightarrow> incident_list_item" where
  "toListItem w row =
     \<lparr>il_id = i_id row, il_status = i_status row, il_severity = i_severity row,
      il_title = i_title row, il_summary = i_summary row, il_monitorId = i_monitorId row,
      il_monitorName = map_option m_name (find_first (\<lambda>m. i_monitorId row = Some (m_id m)) (monitors w)),
      il_startedAt = i_startedAt row, il_acknowledgedAt = i_acknowledgedAt row,
      il_resolvedAt = i_resolvedAt row, il_durationSec = i_durationSec row,
      il_createdAt = i_createdAt row\<rparr>"

definition find_incident :: "id \<Rightarrow> id \<Rightarrow> db \<Rightarrow> incident option" where
  "find_incident organizationId incidentId w =
     find_first (\<lambda>i. i_id i = incidentId \<and> i_organizationId i = organizationId) (incidents w)"

definition loadDetail :: "id \<Rightarrow> id \<Rightarrow> db \<Rightarrow> incident_detail option" where
  "loadDetail organizationId incidentId w =
     (case find_incident organizationId incidentId w of
        None \<Rightarrow> None
      | Some row \<Rightarrow>
          Some \<lparr>idt_item = toListItem w row, idt_cause = i_cause row,
                idt_acknowledgedById = i_acknowledgedById row,
                idt_events = sort_key ie_createdAt
                  (find_many (\<lambda>e. ie_incidentId e = i_id row) (incident_events w))\<rparr>)"

text \<open>The rows a query is about, whatever page of them it asks for.\<close>

definition listed :: "id \<Rightarrow> incident_list_query \<Rightarrow> incident \<Rightarrow> bool" where
  "listed organizationId query i \<longleftrightarrow>
     i_organizationId i = organizationId
     \<and> (case iq_status query of None \<Rightarrow> True | Some s \<Rightarrow> i_status i = s)
     \<and> (case iq_monitorId query of None \<Rightarrow> True | Some m \<Rightarrow> m = '''' \<or> i_monitorId i = Some m)"

definition incident_list ::
  "codec_host \<Rightarrow> id \<Rightarrow> incident_list_query \<Rightarrow> db \<Rightarrow> js_error + incident_list_item page" where
  "incident_list h organizationId query w =
     map_sum (\<lambda>e. e) (\<lambda>p. \<lparr>pg_items = map (toListItem w) (pg_items p), pg_nextCursor = pg_nextCursor p\<rparr>)
       (list_page h i_id i_createdAt (listed organizationId query) (iq_limit query) (incidents w)
          (iq_cursor query))"

text \<open>A client that asks page after page, for at most \<open>n\<close> requests.\<close>

fun incident_pages ::
  "codec_host \<Rightarrow> id \<Rightarrow> incident_list_query \<Rightarrow> db \<Rightarrow> nat \<Rightarrow> string option
   \<Rightarrow> (js_error + incident_list_item list) option" where
  "incident_pages h organizationId query w 0 cursor = None"
| "incident_pages h organizationId query w (Suc n) cursor =
     (case incident_list h organizationId (query\<lparr>iq_cursor := cursor\<rparr>) w of
        Inl e \<Rightarrow> Some (Inl e)
      | Inr p \<Rightarrow>
          (case pg_nextCursor p of
             None \<Rightarrow> Some (Inr (pg_items p))
           | Some c \<Rightarrow>
               map_option (map_sum (\<lambda>e. e) (\<lambda>rest. pg_items p @ rest))
                 (incident_pages h organizationId query w n (Some c))))"

lemma listed_cursor [simp]: "listed org (q\<lparr>iq_cursor := c\<rparr>) = listed org q"
  by (simp add: listed_def fun_eq_iff)

lemma incident_pages_follow:
  "incident_pages h org q w n cursor =
     map_option (map_sum (\<lambda>e. e) (map (toListItem w)))
       (follow h i_id i_createdAt (listed org q) (iq_limit q) (incidents w) n cursor)"
proof (induction n arbitrary: cursor)
  case (Suc n)
  show ?case
  proof (cases "list_page h i_id i_createdAt (listed org q) (iq_limit q) (incidents w) cursor")
    case (Inr p)
    have "map_sum (\<lambda>e. e) ((@) (map (toListItem w) (pg_items p))) (map_sum (\<lambda>e. e) (map (toListItem w)) r)
        = map_sum (\<lambda>e. e) (map (toListItem w)) (map_sum (\<lambda>e. e) ((@) (pg_items p)) r)"
      for r :: "js_error + incident list"
      by (cases r) simp_all
    with Inr show ?thesis
      by (simp add: Suc.IH incident_list_def option.map_comp comp_def split: option.split)
  qed (simp add: incident_list_def)
qed simp

lemma find_incident_unscoped:
  assumes "find_incident org i w = Some x" "distinct (map i_id (incidents w))"
  shows "find_first (\<lambda>i'. i_id i' = i) (incidents w) = Some x"
  using assms find_first_Some_iff [OF assms(1) [unfolded find_incident_def]]
  by (intro find_first_unique) (auto simp: distinct_map inj_on_def)

definition actor_audit :: "id \<Rightarrow> incident_actor \<Rightarrow> string \<Rightarrow> id \<Rightarrow> audit_event" where
  "actor_audit org actor action incidentId =
     \<lparr>au_organizationId = Some org, au_actorId = act_userId actor, au_actorType = act_actorType actor,
      au_action = action, au_resourceType = ''incident'', au_resourceId = Some incidentId,
      au_ipAddress = act_ipAddress actor, au_userAgent = act_userAgent actor, au_metadata = None\<rparr>"

definition actor_event ::
  "id \<Rightarrow> incident_event_type \<Rightarrow> string \<Rightarrow> incident_actor \<Rightarrow> time \<Rightarrow> incident_event" where
  "actor_event incidentId type message actor now =
     \<lparr>ie_incidentId = incidentId, ie_type = type, ie_message = Some message,
      ie_actorId = act_userId actor, ie_metadata = None, ie_createdAt = now\<rparr>"

definition ack_row :: "time \<Rightarrow> incident_actor \<Rightarrow> incident \<Rightarrow> incident" where
  "ack_row now actor i =
     i\<lparr>i_status := ACKNOWLEDGED, i_acknowledgedAt := Some now, i_acknowledgedById := act_userId actor\<rparr>"

definition acknowledge ::
  "id \<Rightarrow> id \<Rightarrow> incident_actor \<Rightarrow> time \<Rightarrow> db \<Rightarrow> incident_detail option \<times> db" where
  "acknowledge organizationId incidentId actor now w =
     (case find_incident organizationId incidentId w of
        None \<Rightarrow> (None, w)
      | Some existing \<Rightarrow>
          (let w' = (if i_status existing = OPEN
                     then writeAudit (actor_audit organizationId actor ''incident.acknowledged'' incidentId)
                       (create_event (actor_event incidentId EV_ACKNOWLEDGED ''Acknowledged.'' actor now)
                         (w\<lparr>incidents := update_rows (\<lambda>i. i_id i = incidentId) (ack_row now actor)
                              (incidents w)\<rparr>))
                     else w)
           in (loadDetail organizationId incidentId w', w')))"

definition resolve ::
  "id \<Rightarrow> id \<Rightarrow> incident_actor \<Rightarrow> time \<Rightarrow> db \<Rightarrow> incident_detail option \<times> db" where
  "resolve organizationId incidentId actor now w =
     (case find_incident organizationId incidentId w of
        None \<Rightarrow> (None, w)
      | Some existing \<Rightarrow>
          (let d = durationSec (i_startedAt existing) now;
               w' = (if i_status existing \<noteq> RESOLVED
                     then writeAudit (actor_audit organizationId actor ''incident.resolved'' incidentId)
                       (create_event (actor_event incidentId EV_RESOLVED ''Resolved manually.'' actor now)
                         (w\<lparr>incidents := update_rows (\<lambda>i. i_id i = incidentId) (resolve_row now d)
                              (incidents w)\<rparr>))
                     else w)
           in (loadDetail organizationId incidentId w', w')))"

definition comment ::
  "id \<Rightarrow> id \<Rightarrow> string \<Rightarrow> incident_actor \<Rightarrow> time \<Rightarrow> db \<Rightarrow> incident_event option \<times> db" where
  "comment organizationId incidentId message actor now w =
     (case find_incident organizationId incidentId w of
        None \<Rightarrow> (None, w)
      | Some _ \<Rightarrow>
          (let e = actor_event incidentId EV_COMMENT message actor now
           in (Some e, writeAudit (actor_audit organizationId actor ''incident.commented'' incidentId)
                        (create_event e w))))"

section \<open>The engine and its people\<close>

text \<open>
  \<open>ports opts\<close> are the options of a worker; every step may use other ones, another clock and
  another outside world.
\<close>

inductive engine_step :: "db \<Rightarrow> db \<Rightarrow> bool" where
  es_check: "safe_ports opts \<Longrightarrow> processCheckResult m out opts now w = (r, w') \<Longrightarrow> engine_step w w'"
| es_heartbeat: "safe_ports \<lparr>po_region = NA_EAST, po_isHeartbeatPing = True, po_alerts = al,
                         po_integrations = None, po_escalation = None\<rparr> \<Longrightarrow>
    recordHeartbeat i reg al now w = (r, w') \<Longrightarrow> engine_step w w'"
| es_alert: "alert_processor tr job now later w = (r, w') \<Longrightarrow> engine_step w w'"
| es_escalate: "channel_fan_out d \<Longrightarrow> escalation_processor tz d page ejob now w = (r, w') \<Longrightarrow> engine_step w w'"
| es_integrate: "integration_processor h ij made budget now w = (r, w') \<Longrightarrow> engine_step w w'"
| es_ack: "acknowledge org i actor now w = (r, w') \<Longrightarrow> engine_step w w'"
| es_close: "resolve org i actor now w = (r, w') \<Longrightarrow> engine_step w w'"
| es_note: "comment org i msg actor now w = (r, w') \<Longrightarrow> engine_step w w'"

inductive reachable :: "db \<Rightarrow> db \<Rightarrow> bool" for w where
  here: "reachable w w"
| further: "reachable w w' \<Longrightarrow> engine_step w' w'' \<Longrightarrow> reachable w w''"

section \<open>The incident invariant\<close>

definition active :: "incident \<Rightarrow> bool" where
  "active i \<longleftrightarrow> i_status i \<noteq> RESOLVED"

definition row_ok :: "incident \<Rightarrow> bool" where
  "row_ok i \<longleftrightarrow>
     (\<exists>m. i_monitorId i = Some m
        \<and> i_fingerprint i = (if i_status i = RESOLVED then None else Some (down_fingerprint m)))"

definition incident_inv :: "db \<Rightarrow> bool" where
  "incident_inv w \<longleftrightarrow>
     list_all row_ok (incidents w)
     \<and> distinct (map i_monitorId (filter active (incidents w)))
     \<and> distinct (map i_id (incidents w))
     \<and> fresh_ids (set (map i_id (incidents w))) w"

text \<open>How one incident may change: its identity stays, its status only advances.\<close>

fun rank :: "incident_status \<Rightarrow> nat" where
  "rank OPEN = 0"
| "rank ACKNOWLEDGED = 1"
| "rank RESOLVED = 2"

definition advances :: "incident \<Rightarrow> incident \<Rightarrow> bool" where
  "advances i i' \<longleftrightarrow>
     i_id i' = i_id i \<and> i_monitorId i' = i_monitorId i \<and> i_organizationId i' = i_organizationId i
     \<and> i_startedAt i' = i_startedAt i
     \<and> (i' = i \<or> rank (i_status i) < rank (i_status i'))"

definition evolves :: "incident list \<Rightarrow> incident list \<Rightarrow> bool" where
  "evolves t t' \<longleftrightarrow> (\<exists>news. list_all2 advances t (take (length t) t') \<and> t' = take (length t) t' @ news)"

lemma advances_refl [simp]: "advances i i"
  by (simp add: advances_def)

lemma advances_trans: "advances i j \<Longrightarrow> advances j k \<Longrightarrow> advances i k"
  by (auto simp: advances_def)

lemma evolves_refl [simp]: "evolves t t"
  by (auto simp: evolves_def list_all2_refl)

lemma evolves_iff: "evolves t t' \<longleftrightarrow> (\<exists>t1 news. t' = t1 @ news \<and> list_all2 advances t t1)"
proof
  assume "evolves t t'"
  then show "\<exists>t1 news. t' = t1 @ news \<and> list_all2 advances t t1" unfolding evolves_def by blast
next
  assume "\<exists>t1 news. t' = t1 @ news \<and> list_all2 advances t t1"
  then obtain t1 news where "t' = t1 @ news" "list_all2 advances t t1" by blast
  then show "evolves t t'" using list_all2_lengthD [of advances t t1]
    by (auto simp: evolves_def)
qed

lemma evolves_trans:
  assumes "evolves t u" "evolves u v"
  shows "evolves t v"
proof -
  obtain t1 n1 where t: "u = t1 @ n1" "list_all2 advances t t1" using assms(1) by (auto simp: evolves_iff)
  obtain u1 n2 where u: "v = u1 @ n2" "list_all2 advances u u1" using assms(2) by (auto simp: evolves_iff)
  from u(2) t(1) obtain t2 n3 where s: "u1 = t2 @ n3" "list_all2 advances t1 t2"
    by (auto simp: list_all2_append1)
  have "list_all2 advances t t2"
    by (rule list_all2_trans [OF _ t(2) s(2)]) (rule advances_trans)
  then show ?thesis using u(1) s(1) by (auto simp: evolves_iff)
qed

lemma evolves_append [simp]: "evolves t (t @ news)"
  by (auto simp: evolves_iff list_all2_refl)

lemma evolves_update:
  assumes "\<And>i. i \<in> set t \<Longrightarrow> P i \<Longrightarrow> advances i (f i)"
  shows "evolves t (update_rows P f t)"
proof -
  have "list_all2 advances t (update_rows P f t)"
    using assms by (auto simp: update_rows_def list_all2_map2 list_all2_same)
  then show ?thesis unfolding evolves_iff by (intro exI [of _ "update_rows P f t"] exI [of _ "[]"]) simp
qed

text \<open>An update of one active incident that keeps its monitor and either keeps or frees its key.\<close>

definition good_update :: "(incident \<Rightarrow> incident) \<Rightarrow> bool" where
  "good_update f \<longleftrightarrow>
     (\<forall>i. i_id (f i) = i_id i \<and> i_monitorId (f i) = i_monitorId i)
     \<and> (\<forall>i. active i \<longrightarrow> row_ok i \<longrightarrow> row_ok (f i))"

lemma good_ack: "good_update (ack_row now actor)"
  by (auto simp: good_update_def ack_row_def row_ok_def active_def)

lemma good_resolve: "good_update (resolve_row now d)"
  by (auto simp: good_update_def resolve_row_def row_ok_def)

lemma unique_id:
  "\<lbrakk>distinct (map i_id t); i \<in> set t; j \<in> set t; i_id i = i_id j\<rbrakk> \<Longrightarrow> i = j"
  by (simp add: distinct_map inj_on_def)

lemma distinct_map_filter_mono:
  assumes "distinct (map g (filter P t))" "\<And>i. i \<in> set t \<Longrightarrow> Q i \<Longrightarrow> P i"
  shows "distinct (map g (filter Q t))"
  using assms by (induction t) (auto split: if_splits)

lemma map_filter_update:
  assumes "\<And>i. g (f i) = g i"
  shows "map g (filter active (update_rows P f t)) =
         map g (filter (\<lambda>x. if P x then active (f x) else active x) t)"
  using assms by (induction t) (auto simp: update_rows_def)

lemma inv_update:
  assumes inv: "incident_inv w" and g: "good_update f"
    and i: "i \<in> set (incidents w)" "active i"
    and w': "incidents w' = update_rows (\<lambda>x. i_id x = i_id i) f (incidents w)" "supply_le w w'"
  shows "incident_inv w'"
proof -
  let ?t = "incidents w" and ?P = "\<lambda>x. i_id x = i_id i"
  have only: "x = i" if "x \<in> set ?t" "?P x" for x
    using unique_id [of ?t x i] inv i that by (auto simp: incident_inv_def)
  have ids: "map i_id (incidents w') = map i_id ?t" "map i_monitorId (incidents w') = map i_monitorId ?t"
    using g unfolding w' good_update_def by (auto intro: map_update_rows)
  have ok: "list_all row_ok (incidents w')"
    using inv i g only unfolding w' incident_inv_def good_update_def list_all_iff set_update_rows by auto
  define Q where "Q x = (if ?P x then active (f x) else active x)" for x
  have "map i_monitorId (filter active (incidents w')) = map i_monitorId (filter Q ?t)"
    using g unfolding w' Q_def by (intro map_filter_update) (simp add: good_update_def)
  moreover have "Q x \<Longrightarrow> active x" if "x \<in> set ?t" for x
    using only [OF that] i(2) by (auto simp: Q_def split: if_splits)
  ultimately have "distinct (map i_monitorId (filter active (incidents w')))"
    using inv distinct_map_filter_mono [of i_monitorId active ?t Q] by (auto simp: incident_inv_def)
  with inv ok ids w'(2) fresh_ids_supply show ?thesis
    unfolding incident_inv_def by (metis set_map)
qed

lemma inv_same: "incident_inv w \<Longrightarrow> incidents w' = incidents w \<Longrightarrow> supply_le w w' \<Longrightarrow> incident_inv w'"
  unfolding incident_inv_def using fresh_ids_supply by auto

subsection \<open>Checks\<close>

lemma open_inv:
  assumes inv: "incident_inv w" and n: "openIncident m out now w = (r, w1)"
    and w': "incidents w' = incidents w1" "supply_le w1 w'"
  shows "incident_inv w' \<and> evolves (incidents w) (incidents w')"
proof (cases r)
  case None
  then have "w1 = w" using n by (auto simp: openIncident_def Let_def split: if_splits)
  with w' inv inv_same show ?thesis by auto
next
  case (Some i)
  let ?new = "down_incident (new_id w) m out now"
  from n Some have no: "\<not> (\<exists>i \<in> set (incidents w). i_monitorId i = Some (s_id m)
            \<and> i_fingerprint i = Some (down_fingerprint (s_id m)))"
    and w1: "incidents w1 = incidents w @ [?new]" "db_uuid w1 = db_uuid w" "db_next w1 = Suc (db_next w)"
    by (auto simp: openIncident_def Let_def insert_row_def split: if_splits)
  have new: "i_id ?new = new_id w" "i_monitorId ?new = Some (s_id m)" "active ?new" "row_ok ?new"
    by (simp_all add: down_incident_def active_def row_ok_def)
  have f: "fresh_ids (set (map i_id (incidents w))) w" using inv by (simp add: incident_inv_def)
  have fr: "new_id w \<notin> set (map i_id (incidents w))" by (rule fresh_ids_new [OF f])
  have "fresh_ids (insert (new_id w) (set (map i_id (incidents w)))) (draw_id w)"
    by (rule fresh_ids_draw [OF f])
  then have "fresh_ids (insert (new_id w) (set (map i_id (incidents w)))) w'"
    by (rule fresh_ids_supply) (use w1 w'(2) in \<open>auto simp: supply_le_def\<close>)
  moreover have "Some (s_id m) \<notin> i_monitorId ` set (filter active (incidents w))"
    using no inv by (auto simp: incident_inv_def list_all_iff row_ok_def active_def)
  ultimately have "incident_inv w'"
    using inv fr new w' w1 by (auto simp: incident_inv_def)
  then show ?thesis using w' w1 by simp
qed

lemma resolve_row_advances: "active i \<Longrightarrow> advances i (resolve_row now d i)"
  by (cases "i_status i") (simp_all add: advances_def resolve_row_def active_def)

lemma ack_row_advances: "i_status i = OPEN \<Longrightarrow> advances i (ack_row now actor i)"
  by (simp add: advances_def ack_row_def)

lemma update_inv:
  assumes "incident_inv w" "good_update f" "i \<in> set (incidents w)" "active i" "advances i (f i)"
    and "incidents w' = update_rows (\<lambda>x. i_id x = i_id i) f (incidents w)" "supply_le w w'"
  shows "incident_inv w' \<and> evolves (incidents w) (incidents w')"
proof
  show "incident_inv w'" by (rule inv_update [OF assms(1-4,6,7)])
  have "x = i" if "x \<in> set (incidents w)" "i_id x = i_id i" for x
    using unique_id assms(1,3) that by (auto simp: incident_inv_def)
  then show "evolves (incidents w) (incidents w')"
    unfolding assms(6) using assms(5) by (intro evolves_update) auto
qed

lemma resolveIncident_inv:
  assumes inv: "incident_inv w" and n: "resolveIncident mid now w = (r, w1)"
    and w': "incidents w' = incidents w1" "supply_le w w'"
  shows "incident_inv w' \<and> evolves (incidents w) (incidents w')"
proof (cases "open_incident_of mid w")
  case None
  then have "w1 = w" using n by (simp add: resolveIncident_def)
  with w' inv inv_same show ?thesis by auto
next
  case (Some i)
  then have i: "i \<in> set (incidents w)" "active i"
    by (auto simp: open_incident_of_def active_def dest: find_first_desc_Some)
  from n Some have "incidents w1 = update_rows (\<lambda>x. i_id x = i_id i)
      (resolve_row now (durationSec (i_startedAt i) now)) (incidents w)"
    by (auto simp: resolveIncident_def addEvent_def Let_def)
  with w' show ?thesis
    by (intro update_inv [OF inv good_resolve i resolve_row_advances [OF i(2)]]) auto
qed

lemma processCheckResult_inv:
  assumes p: "safe_ports opts" and inv: "incident_inv w"
    and r: "processCheckResult m out opts now w = (r, w')"
  shows "incident_inv w' \<and> evolves (incidents w) (incidents w')"
proof (cases "\<exists>x \<in> set (monitors w). m_id x = s_id m")
  case False
  then have "w' = w\<lparr>check_results := insert_row (check_row m out (po_region opts) now) (check_results w)\<rparr>"
    using safe_ports.processCheckResult_missing [OF p False, of out now] r by simp
  then show ?thesis using inv inv_same [of w w'] by (simp add: supply_le_def)
next
  case True
  define d where "d = decide m (o_status out) (isInMaintenance (s_id m) now w)"
  note c = safe_ports.processCheckResult_core [OF p r True, folded d_def]
  show ?thesis
  proof (cases "tr_incident d")
    case None
    with c inv inv_same show ?thesis by auto
  next
    case (Some act)
    show ?thesis
    proof (cases act)
      case Act_open
      obtain r1 w1 where o': "openIncident m out now w = (r1, w1)" by fastforce
      with c Some Act_open show ?thesis by (intro open_inv [OF inv o']) auto
    next
      case Act_resolve
      obtain r1 w1 where o': "resolveIncident (s_id m) now w = (r1, w1)" by fastforce
      with c Some Act_resolve show ?thesis by (intro resolveIncident_inv [OF inv o']) auto
    qed
  qed
qed

subsection \<open>Every step\<close>

lemma alert_processor_incidents:
  assumes "alert_processor tr job now later w = (r, w')"
  shows "incidents w' = incidents w \<and> supply_le w w'"
proof (cases "\<exists>d i ch. sendable job w d i ch")
  case False
  from alert_processor_not_sendable [OF False, of tr now later] assms show ?thesis by auto
next
  case True
  then obtain d i ch where "sendable job w d i ch" by blast
  from alert_processor_sendable [OF this, of tr now later] assms show ?thesis
    by (auto simp: supply_le_def update_delivery_def split: option.splits sum.splits)
qed

lemma integration_processor_incidents:
  assumes "integration_processor h job made budget now w = (r, w')"
  shows "incidents w' = incidents w \<and> supply_le w w'"
  using assms
  by (auto simp: integration_processor_def update_int_delivery_def Let_def supply_le_def
        split: if_splits sum.splits send_outcome.splits)

lemma executeStep_incidents:
  assumes "channel_fan_out d" "executeStep tz d page i org inc step now w = (r, w')"
  shows "incidents w' = incidents w \<and> supply_le w w'"
proof -
  obtain chs refs where c: "collect_targets tz now w (es_targets step) [] [] = (chs, refs)" by fastforce
  let ?c = "\<lparr>cx_incidentId = i, cx_organizationId = org, cx_channelIds = chs, cx_kind = Opened\<rparr>"
  obtain n w1 where d: "d ?c w = (Inr n, w1)" "core_of w1 = core_of w"
    using channel_fan_out.dispatch_ok [OF assms(1)] by meson
  have "fan_out d" using assms(1) by (simp add: channel_fan_out_def)
  then have "supply_le w w1" using fan_out.keeps_supply [of d w ?c] d(1) by simp
  with assms(2) c d show ?thesis
    by (cases "chs = []") (auto simp: executeStep_def Let_def core_of_eq_iff supply_le_def)
qed

lemma escalation_processor_incidents:
  assumes "channel_fan_out d" "escalation_processor tz d page job now w = (r, w')"
  shows "incidents w' = incidents w \<and> supply_le w w'"
proof -
  have q: "incidents (enqueue_escalation j n v) = incidents v \<and> supply_le v (enqueue_escalation j n v)"
    for j n v by (simp add: enqueue_escalation_def supply_le_def)
  show ?thesis
    using assms(2)
    by (auto simp: escalation_processor_def Let_def q
          dest!: executeStep_incidents [OF assms(1)] intro: supply_le_trans
          split: option.splits if_splits prod.splits sum.splits)
qed

lemma recordHeartbeat_inv:
  assumes "safe_ports \<lparr>po_region = NA_EAST, po_isHeartbeatPing = True, po_alerts = al,
                         po_integrations = None, po_escalation = None\<rparr>"
    and "incident_inv w" and "recordHeartbeat i reg al now w = (r, w')"
  shows "incident_inv w' \<and> evolves (incidents w) (incidents w')"
proof (cases "find_first (\<lambda>m. m_id m = i \<and> m_type m = T_HEARTBEAT \<and> m_deletedAt m = None) (monitors w)")
  case None
  with assms show ?thesis by (auto simp: recordHeartbeat_def)
next
  case (Some row)
  let ?o = "\<lparr>po_region = (case reg of None \<Rightarrow> DEFAULT_REGION | Some r \<Rightarrow> r), po_isHeartbeatPing = True,
     po_alerts = al, po_integrations = None, po_escalation = None\<rparr>"
  obtain r1 where p: "processCheckResult (toSnapshot row) heartbeat_outcome ?o now w = (r1, w')"
    using assms(3) Some by (auto simp: recordHeartbeat_def map_prod_def split: prod.splits)
  have "safe_ports ?o" using assms(1) by (simp add: safe_ports_def)
  from processCheckResult_inv [OF this assms(2) p] show ?thesis .
qed

lemma acknowledge_inv:
  assumes inv: "incident_inv w" and "acknowledge org i actor now w = (r, w')"
  shows "incident_inv w' \<and> evolves (incidents w) (incidents w')"
proof (cases "find_incident org i w")
  case None
  with assms show ?thesis by (simp add: acknowledge_def)
next
  case (Some e)
  then have e: "e \<in> set (incidents w)" "i_id e = i"
    by (auto simp: find_incident_def dest: find_first_Some_iff)
  show ?thesis
  proof (cases "i_status e = OPEN")
    case True
    then have "active e" by (simp add: active_def)
    moreover have "incidents w' = update_rows (\<lambda>x. i_id x = i_id e) (ack_row now actor) (incidents w)"
      "supply_le w w'"
      using assms(2) Some True e by (auto simp: acknowledge_def Let_def supply_le_def)
    ultimately show ?thesis
      by (intro update_inv [OF inv good_ack e(1) _ ack_row_advances [OF True]])
  next
    case False
    with assms Some show ?thesis by (simp add: acknowledge_def Let_def)
  qed
qed

lemma resolve_inv:
  assumes inv: "incident_inv w" and "resolve org i actor now w = (r, w')"
  shows "incident_inv w' \<and> evolves (incidents w) (incidents w')"
proof (cases "find_incident org i w")
  case None
  with assms show ?thesis by (simp add: resolve_def)
next
  case (Some e)
  then have e: "e \<in> set (incidents w)" "i_id e = i"
    by (auto simp: find_incident_def dest: find_first_Some_iff)
  show ?thesis
  proof (cases "active e")
    case True
    have "incidents w' = update_rows (\<lambda>x. i_id x = i_id e)
        (resolve_row now (durationSec (i_startedAt e) now)) (incidents w)" "supply_le w w'"
      using assms(2) Some True e by (auto simp: resolve_def active_def Let_def supply_le_def)
    then show ?thesis
      by (intro update_inv [OF inv good_resolve e(1) True resolve_row_advances [OF True]])
  next
    case False
    with assms Some show ?thesis by (simp add: resolve_def active_def Let_def)
  qed
qed

lemma comment_incidents:
  "comment org i msg actor now w = (r, w') \<Longrightarrow> incidents w' = incidents w \<and> supply_le w w'"
  by (auto simp: comment_def Let_def supply_le_def split: option.splits)

lemma engine_step_inv:
  assumes "engine_step w w'" "incident_inv w"
  shows "incident_inv w' \<and> evolves (incidents w) (incidents w')"
  using assms
proof (induction rule: engine_step.induct)
  case (es_check opts m out now w r w')
  then show ?case using processCheckResult_inv by blast
next
  case (es_heartbeat al i reg now w r w')
  then show ?case using recordHeartbeat_inv by blast
next
  case (es_alert tr job now later w r w')
  then show ?case using alert_processor_incidents inv_same by (metis evolves_refl)
next
  case (es_escalate d tz page ejob now w r w')
  then show ?case using escalation_processor_incidents inv_same by (metis evolves_refl)
next
  case (es_integrate h ij made budget now w r w')
  then show ?case using integration_processor_incidents inv_same by (metis evolves_refl)
next
  case (es_ack org i actor now w r w')
  then show ?case using acknowledge_inv by blast
next
  case (es_close org i actor now w r w')
  then show ?case using resolve_inv by blast
next
  case (es_note org i msg actor now w r w')
  then show ?case using comment_incidents inv_same by (metis evolves_refl)
qed

lemma reachable_inv:
  assumes "reachable w w'" "incident_inv w"
  shows "incident_inv w' \<and> evolves (incidents w) (incidents w')"
  using assms
proof (induction rule: reachable.induct)
  case here
  then show ?case by simp
next
  case (further w' w'')
  with engine_step_inv [of w' w''] show ?case by (auto intro: evolves_trans)
qed

lemma empty_inv: "inj ids \<Longrightarrow> incident_inv (empty_db ids)"
  by (simp add: incident_inv_def empty_db_def fresh_ids_def)

end
