(* ===== verification/PipelineCases.thy ===== *)
theory PipelineCases
  imports Pipeline
begin

text \<open>
  What processing one outcome with the worker's ports does to the queues, branch by branch:
  nothing during maintenance, one alert job per live bound channel when an outage is confirmed
  or over, nothing when the outage is deduplicated as flapping.
\<close>

section \<open>Maintenance\<close>

lemma processCheckResult_maintenance:
  assumes "isInMaintenance (s_id m) now w" "\<exists>x \<in> set (monitors w). m_id x = s_id m"
  shows "processCheckResult m out opts now w =
    (Inr (result_of m out (decide m (o_status out) True) True None False None 0),
     w\<lparr>check_results := insert_row (check_row m out (po_region opts) now) (check_results w),
       monitors := update_rows (\<lambda>x. m_id x = s_id m)
         (monitor_update m out (decide m (o_status out) True) (po_isHeartbeatPing opts) now) (monitors w)\<rparr>)"
proof -
  have d: "tr_incident (decide m (o_status out) True) = None" "tr_state (decide m (o_status out) True) = S_MAINTENANCE"
    by (simp_all add: decide_def)
  show ?thesis
    using assms by (simp add: processCheckResult_def record_check_def Let_def d)
qed

section \<open>The alert queue\<close>

text \<open>The channels an event of a monitor goes to: its bindings whose channel is live.\<close>

definition bound_channels :: "id \<Rightarrow> db \<Rightarrow> id list" where
  "bound_channels monitorId w =
     map mc_channelId (find_many (\<lambda>b. mc_monitorId b = monitorId \<and> live_channel w (mc_channelId b)) (bindings w))"

definition alert_view :: "db \<Rightarrow> alert_job list \<times> alert_channel list \<times> monitor_channel list" where
  "alert_view w = (alert_queue w, channels w, bindings w)"

lemma bound_channels_view: "alert_view w = alert_view w' \<Longrightarrow> bound_channels i w = bound_channels i w'"
  by (simp add: bound_channels_def live_channel_def alert_view_def)

lemma dispatch_exact:
  assumes "dispatch c w = (r, w')"
  shows "\<exists>js. alert_queue w' = alert_queue w @ js \<and> map aj_channelId js = bound_channels (ax_monitorId c) w
    \<and> r = Inr (int (length js)) \<and> channels w' = channels w \<and> bindings w' = bindings w
    \<and> (\<forall>j \<in> set js. aj_incidentId j = ax_incidentId c \<and> aj_organizationId j = ax_organizationId c
         \<and> aj_kind j = ax_kind c)"
proof -
  obtain n where d: "dispatch_bindings c (bound_channels (ax_monitorId c) w) w 0 = (n, w')" "r = Inr n"
    using assms by (auto simp: dispatch_def bound_channels_def Let_def split: prod.splits)
  from dispatch_bindings_queue [OF d(1)] d(2) show ?thesis by (metis add_0 length_map)
qed

lemma fan_targets_view: "alert_view (snd (fan_targets org ev base event ts w n)) = alert_view w"
proof (induction ts arbitrary: w n)
  case (Cons t ts)
  have "alert_view (enqueue_integration i org t event w1) = alert_view w"
    if "create_int_delivery org t ev k w = Some (i, w1)" for i k w1
    using that by (auto simp: create_int_delivery_def enqueue_integration_def alert_view_def split: if_splits)
  with Cons show ?case by (auto split: option.splits prod.splits)
qed simp

lemma dispatchIncident_view: "alert_view (snd (dispatchIncident url t c w)) = alert_view w"
  by (simp add: dispatchIncident_def fanOut_def Let_def split_def fan_targets_view)

lemma start_view: "alert_view (snd (start c w)) = alert_view w"
  by (auto simp: start_def alert_view_def enqueue_escalation_def split: option.splits list.splits)

lemma start_escalation_view:
  "alert_view (snd (start_escalation (worker_options url t reg) m i w)) = alert_view w"
  by (simp add: start_escalation_def worker_options_def start_view split: option.split)

lemma start_escalation_answers:
  "\<exists>b w'. start_escalation (worker_options url t reg) m i w = (Inr b, w')"
  by (auto simp: start_escalation_def worker_options_def start_def split: option.split list.split)

definition jobs_for :: "db \<Rightarrow> db \<Rightarrow> id list \<Rightarrow> id \<Rightarrow> alert_kind \<Rightarrow> int \<Rightarrow> bool" where
  "jobs_for w w' chs i k n \<longleftrightarrow>
     (\<exists>js. alert_queue w' = alert_queue w @ js \<and> map aj_channelId js = chs \<and> n = int (length js)
        \<and> (\<forall>j \<in> set js. aj_incidentId j = i \<and> aj_kind j = k))"

lemma jobs_for_Nil: "jobs_for w w' [] i k n \<longleftrightarrow> alert_queue w' = alert_queue w \<and> n = 0"
  by (auto simp: jobs_for_def)

lemma announce_open_jobs:
  assumes "announce_open m out (worker_options url t reg) flapping i now w = (Inr n, w')"
  shows "jobs_for w w' (if flapping then [] else bound_channels (s_id m) w) i Opened n"
proof (cases flapping)
  case True
  with assms show ?thesis by (auto simp: announce_open_def addEvent_def jobs_for_Nil)
next
  case False
  let ?o = "worker_options url t reg"
  let ?w1 = "writeAudit (system_audit (s_organizationId m) ''incident.opened'' ''incident'' i
                (JObj [(''monitorId'', JStr (s_id m)), (''region'', JStr (region_name (po_region ?o))),
                       (''errorType'', jopt (o_errorType out))])) w"
  obtain ra w2 where a: "dispatch (alert_ctx m i Opened) ?w1 = (ra, w2)" by fastforce
  obtain b w3 where s: "start_escalation ?o m i w2 = (Inr b, w3)"
    using start_escalation_answers by blast
  from dispatch_exact [OF a] obtain js where js: "alert_queue w2 = alert_queue ?w1 @ js"
    "map aj_channelId js = bound_channels (s_id m) ?w1" "ra = Inr (int (length js))"
    "\<forall>j \<in> set js. aj_incidentId j = i \<and> aj_kind j = Opened" by (auto simp: alert_ctx_def)
  have "bound_channels (s_id m) ?w1 = bound_channels (s_id m) w"
    by (rule bound_channels_view) (simp add: alert_view_def)
  moreover have "n = int (length js)" "w' = snd (dispatchIncident url t (incident_context m i Opened) w3)"
    using assms False a s js(3)
    by (auto simp: announce_open_def dispatch_alert_def dispatchIntegration_def worker_options_def Let_def)
  moreover have "alert_queue w3 = alert_queue w2"
    using start_escalation_view [of url t reg m i w2] s by (simp add: alert_view_def)
  ultimately show ?thesis
    using False js dispatchIncident_view [of url t "incident_context m i Opened" w3]
    by (auto simp: jobs_for_def alert_view_def)
qed

lemma announce_resolved_jobs:
  assumes "announce_resolved m (worker_options url t reg) i w = (Inr n, w')"
  shows "jobs_for w w' (bound_channels (s_id m) w) i Resolved n"
proof -
  let ?o = "worker_options url t reg"
  let ?w1 = "writeAudit (system_audit (s_organizationId m) ''incident.resolved'' ''incident'' i
             (JObj [(''monitorId'', JStr (s_id m)), (''region'', JStr (region_name (po_region ?o)))])) w"
  obtain ra w2 where a: "dispatch (alert_ctx m i Resolved) ?w1 = (ra, w2)" by fastforce
  from dispatch_exact [OF a] obtain js where js: "alert_queue w2 = alert_queue ?w1 @ js"
    "map aj_channelId js = bound_channels (s_id m) ?w1" "ra = Inr (int (length js))"
    "\<forall>j \<in> set js. aj_incidentId j = i \<and> aj_kind j = Resolved" by (auto simp: alert_ctx_def)
  have "bound_channels (s_id m) ?w1 = bound_channels (s_id m) w"
    by (rule bound_channels_view) (simp add: alert_view_def)
  moreover have "n = int (length js)" "w' = snd (dispatchIncident url t (incident_context m i Resolved) w2)"
    using assms a js(3)
    by (auto simp: announce_resolved_def dispatch_alert_def dispatchIntegration_def worker_options_def Let_def)
  ultimately show ?thesis
    using js dispatchIncident_view [of url t "incident_context m i Resolved" w2]
    by (auto simp: jobs_for_def alert_view_def)
qed

lemma record_check_view:
  "record_check m out opts d now w = (r, w') \<Longrightarrow> alert_view w' = alert_view w"
  by (auto simp: record_check_def alert_view_def Let_def split: if_splits)

lemma openIncident_view: "openIncident m out now w = (r, w') \<Longrightarrow> alert_view w' = alert_view w"
  by (auto simp: openIncident_def alert_view_def Let_def split: if_splits)

lemma resolveIncident_view: "resolveIncident i now w = (r, w') \<Longrightarrow> alert_view w' = alert_view w"
  by (auto simp: resolveIncident_def alert_view_def addEvent_def Let_def split: option.splits)

lemma jobs_for_from:
  "jobs_for w1 w' chs i k n \<Longrightarrow> alert_view w1 = alert_view w \<Longrightarrow> jobs_for w w' chs i k n"
  by (simp add: jobs_for_def alert_view_def)

lemma jobs_for_none: "alert_view w' = alert_view w \<Longrightarrow> jobs_for w w' [] i k 0"
  by (simp add: jobs_for_Nil alert_view_def)

text \<open>The alert jobs one processed outcome adds, in every branch.\<close>

definition announced :: "process_result \<Rightarrow> id \<Rightarrow> db \<Rightarrow> id list" where
  "announced r monitorId w =
     (if pr_transition r = None \<or> pr_flapping r then [] else bound_channels monitorId w)"

definition announced_kind :: "process_result \<Rightarrow> alert_kind" where
  "announced_kind r = (if pr_transition r = Some Recovered then Resolved else Opened)"

lemma result_of_sel [simp]:
  "pr_transition (result_of m out d mt tr fl i n) = tr" "pr_flapping (result_of m out d mt tr fl i n) = fl"
  "pr_incidentId (result_of m out d mt tr fl i n) = i" "pr_alertsEnqueued (result_of m out d mt tr fl i n) = n"
  by (simp_all add: result_of_def)

lemma processCheckResult_jobs:
  assumes "processCheckResult m out (worker_options url t reg) now w = (Inr r, w')"
  shows "jobs_for w w' (announced r (s_id m) w) (case pr_incidentId r of Some i \<Rightarrow> i | None \<Rightarrow> '''')
           (announced_kind r) (pr_alertsEnqueued r)"
proof -
  let ?o = "worker_options url t reg"
  define mt where "mt = isInMaintenance (s_id m) now w"
  define d where "d = decide m (o_status out) mt"
  note p = assms [unfolded processCheckResult_def Let_def, folded mt_def, folded d_def]
  from p obtain w1 where rc: "record_check m out ?o d now w = (Inr (), w1)"
    by (auto split: prod.splits sum.splits)
  note v1 = record_check_view [OF rc]
  show ?thesis
  proof (cases "tr_incident d")
    case None
    with p rc v1 show ?thesis
      by (auto simp: announced_def jobs_for_none addEvent_def alert_view_def jobs_for_Nil
            split: if_splits option.splits)
  next
    case (Some act)
    show ?thesis
    proof (cases act)
      case Act_open
      let ?fl = "detectFlapping w1 (s_id m) now FLAP_WINDOW_MS FLAP_THRESHOLD"
      obtain oi w2 where oi: "openIncident m out now w1 = (oi, w2)" by fastforce
      note v2 = openIncident_view [OF oi]
      show ?thesis
      proof (cases oi)
        case None
        with p rc Some Act_open oi v1 v2 show ?thesis
          by (auto simp: announced_def jobs_for_none)
      next
        case (Some i)
        with p rc \<open>tr_incident d = Some act\<close> Act_open oi
        obtain n where a: "announce_open m out ?o ?fl i now w2 = (Inr n, w')"
          "r = result_of m out d mt (Some Down) ?fl (Some i) n"
          by (auto split: prod.splits sum.splits)
        have "bound_channels (s_id m) w2 = bound_channels (s_id m) w"
          using bound_channels_view v1 v2 by metis
        with jobs_for_from [OF announce_open_jobs [OF a(1)], of w] v1 v2 show ?thesis
          by (simp add: a(2) announced_def announced_kind_def split: if_splits)
      qed
    next
      case Act_resolve
      obtain oi w2 where oi: "resolveIncident (s_id m) now w1 = (oi, w2)" by fastforce
      note v2 = resolveIncident_view [OF oi]
      show ?thesis
      proof (cases oi)
        case None
        with p rc Some Act_resolve oi v1 v2 show ?thesis
          by (auto simp: announced_def jobs_for_none)
      next
        case (Some i)
        with p rc \<open>tr_incident d = Some act\<close> Act_resolve oi
        obtain n where a: "announce_resolved m ?o i w2 = (Inr n, w')"
          "r = result_of m out d mt (Some Recovered) False (Some i) n"
          by (auto split: prod.splits sum.splits)
        have "bound_channels (s_id m) w2 = bound_channels (s_id m) w"
          using bound_channels_view v1 v2 by metis
        with jobs_for_from [OF announce_resolved_jobs [OF a(1)], of w] v1 v2 show ?thesis
          by (simp add: a(2) announced_def announced_kind_def)
      qed
    qed
  qed
qed

lemma processCheckResult_incident:
  assumes "processCheckResult m out opts now w = (Inr r, w')" "pr_transition r \<noteq> None"
  shows "pr_incidentId r \<noteq> None"
  using assms
  by (auto simp: processCheckResult_def Let_def
        split: sum.splits prod.splits option.splits incident_action.splits if_splits)

end
