(* ===== verification/Transports.thy ===== *)
theory Transports
  imports Alerting Notify
begin

text \<open>
  The transports of the alert processor, from \<^verbatim>\<open>packages/monitoring/src/alerting\<close>
  (\<^verbatim>\<open>slack.ts\<close>, \<^verbatim>\<open>discord.ts\<close>, \<^verbatim>\<open>telegram.ts\<close>, \<^verbatim>\<open>msteams.ts\<close>, \<^verbatim>\<open>integration-channel.ts\<close>,
  \<^verbatim>\<open>transports.ts\<close>) and \<^verbatim>\<open>apps/worker/src/email-transport.ts\<close>, and the map of them the
  worker hands to the processor. The integration rows are read from the state; what an email
  provider answers is an argument.
\<close>

section \<open>Channel configuration\<close>

fun json_field :: "json \<Rightarrow> string \<Rightarrow> json option" where
  "json_field (JObj kvs) k = map_of kvs k"
| "json_field _ k = None"

fun json_truthy :: "json \<Rightarrow> bool" where
  "json_truthy JNull = False"
| "json_truthy (JBool b) = b"
| "json_truthy (JNum n) = (n \<noteq> NaN \<and> n \<noteq> Fin 0)"
| "json_truthy (JStr s) = (s \<noteq> '''')"
| "json_truthy _ = True"

text \<open>\<open>UUID_RE\<close>: five groups of hex digits of lengths 8, 4, 4, 4 and 12.\<close>

definition UUID_RE :: "string \<Rightarrow> bool" where
  "UUID_RE s =
     (let parts = split_on (CHR ''-'') s
      in map length parts = [8, 4, 4, 4, 12] \<and> list_all (list_all is_hex) parts)"

definition parseSlackChannelConfig :: "json \<Rightarrow> js_error + id" where
  "parseSlackChannelConfig config =
     (case json_field config ''integrationId'' of
        Some (JStr integrationId) \<Rightarrow>
          if length (trim integrationId) = 0
          then Inl (Err ''Slack channel config must include an integrationId.'')
          else if \<not> UUID_RE integrationId
          then Inl (Err ''Slack channel config integrationId is not a valid id.'')
          else Inr integrationId
      | _ \<Rightarrow> Inl (Err ''Slack channel config must include an integrationId.''))"

definition resolveIntegration ::
  "integration list \<Rightarrow> id \<Rightarrow> json \<Rightarrow> string \<Rightarrow> js_error + integration" where
  "resolveIntegration finder organizationId config providerLabel =
     (case parseSlackChannelConfig config of
        Inl e \<Rightarrow> Inl e
      | Inr integrationId \<Rightarrow>
          (case find_first (\<lambda>r. in_id r = integrationId \<and> in_organizationId r = organizationId
                              \<and> in_deletedAt r = None) finder of
             None \<Rightarrow> Inl (Err (''The '' @ providerLabel @ '' integration for this channel no longer exists.''))
           | Some row \<Rightarrow> Inr row))"

text \<open>The credential columns of a row, as its table has them.\<close>

fun webhookUrl :: "credential \<Rightarrow> string" where
  "webhookUrl (WebhookUrl u) = u"
| "webhookUrl (Endpoint u _) = u"
| "webhookUrl (BotToken _ _) = ''''"

fun bot_credentials :: "credential \<Rightarrow> string \<times> string" where
  "bot_credentials (BotToken t c) = (t, c)"
| "bot_credentials _ = ('''', '''')"

definition resolveSlackWebhookUrl :: "db \<Rightarrow> id \<Rightarrow> json \<Rightarrow> js_error + string" where
  "resolveSlackWebhookUrl w organizationId config =
     (case parseSlackChannelConfig config of
        Inl e \<Rightarrow> Inl e
      | Inr integrationId \<Rightarrow>
          (case find_first (\<lambda>r. in_id r = integrationId \<and> in_organizationId r = organizationId
                              \<and> in_deletedAt r = None) (integrations w I_SLACK) of
             None \<Rightarrow> Inl (Err ''The Slack integration for this channel no longer exists.'')
           | Some row \<Rightarrow> Inr (webhookUrl (in_credential row))))"

definition resolveDiscordWebhookUrl :: "db \<Rightarrow> id \<Rightarrow> json \<Rightarrow> js_error + string" where
  "resolveDiscordWebhookUrl w organizationId config =
     map_sum id (\<lambda>r. webhookUrl (in_credential r))
       (resolveIntegration (integrations w I_DISCORD) organizationId config ''Discord'')"

definition resolveMsTeamsWebhookUrl :: "db \<Rightarrow> id \<Rightarrow> json \<Rightarrow> js_error + string" where
  "resolveMsTeamsWebhookUrl w organizationId config =
     map_sum id (\<lambda>r. webhookUrl (in_credential r))
       (resolveIntegration (integrations w I_MICROSOFT_TEAMS) organizationId config ''Microsoft Teams'')"

definition resolveTelegramCredentials :: "db \<Rightarrow> id \<Rightarrow> json \<Rightarrow> js_error + string \<times> string" where
  "resolveTelegramCredentials w organizationId config =
     map_sum id (\<lambda>r. bot_credentials (in_credential r))
       (resolveIntegration (integrations w I_TELEGRAM) organizationId config ''Telegram'')"

section \<open>Rendering\<close>

fun severity_name :: "incident_severity \<Rightarrow> string" where
  "severity_name SEV_CRITICAL = ''CRITICAL''"
| "severity_name SEV_MAJOR = ''MAJOR''"
| "severity_name SEV_MINOR = ''MINOR''"
| "severity_name SEV_WARNING = ''WARNING''"

text \<open>\<open>webUrl.replace(/\\/$/, "")\<close>: one trailing slash is dropped.\<close>

definition strip_slash :: "string \<Rightarrow> string" where
  "strip_slash s = (if s \<noteq> '''' \<and> last s = CHR ''/'' then butlast s else s)"

definition toAlertEvent :: "alert_payload \<Rightarrow> string \<Rightarrow> integration_event" where
  "toAlertEvent payload webUrl =
     (let opened = (pl_kind payload = Opened)
      in \<lparr>iv_event = (if opened then ''incident.opened'' else ''incident.resolved''),
          iv_title = pl_title payload, iv_summary = pl_summary payload,
          iv_organizationName = None, iv_monitorName = Some (pl_monitorName payload),
          iv_status = Some (if opened then ''DOWN'' else ''RESOLVED''),
          iv_severity = Some (severity_name (pl_severity payload)),
          iv_url = Some (webUrl @ ''/dashboard/incidents/'' @ pl_incidentId payload),
          iv_timestamp = pl_occurredAt payload\<rparr>)"

definition toSlackAlertEvent :: "alert_payload \<Rightarrow> string \<Rightarrow> integration_event" where
  "toSlackAlertEvent payload webUrl =
     (let opened = (pl_kind payload = Opened)
      in \<lparr>iv_event = (if opened then ''incident.opened'' else ''incident.resolved''),
          iv_title = pl_title payload, iv_summary = pl_summary payload,
          iv_organizationName = None, iv_monitorName = Some (pl_monitorName payload),
          iv_status = Some (if opened then ''DOWN'' else ''RESOLVED''),
          iv_severity = Some (severity_name (pl_severity payload)),
          iv_url = Some (webUrl @ ''/dashboard/incidents/'' @ pl_incidentId payload),
          iv_timestamp = pl_occurredAt payload\<rparr>)"

lemma toSlackAlertEvent_eq: "toSlackAlertEvent = toAlertEvent"
  by (simp add: fun_eq_iff toSlackAlertEvent_def toAlertEvent_def)

section \<open>The transports\<close>

definition responded :: "string \<Rightarrow> delivery_result \<Rightarrow> string" where
  "responded label r =
     label @ '' responded '' @ show_int (dr_status r) @ '': ''
     @ (case dr_error r of None \<Rightarrow> ''unknown error'' | Some e \<Rightarrow> e)"

definition slackAlertTransport :: "host \<Rightarrow> db \<Rightarrow> string \<Rightarrow> alert_transport" where
  "slackAlertTransport h w webUrl channel payload =
     (case resolveSlackWebhookUrl w (ac_organizationId channel) (ac_config channel) of
        Inl e \<Rightarrow> Inl e
      | Inr url \<Rightarrow>
          (case SlackNotifier_send h url (toSlackAlertEvent payload (strip_slash webUrl)) of
             Inl e \<Rightarrow> Inl e
           | Inr r \<Rightarrow> if \<not> dr_ok r then Inl (Err (responded ''Slack webhook'' r)) else Inr None))"

definition discordAlertTransport :: "host \<Rightarrow> db \<Rightarrow> string \<Rightarrow> alert_transport" where
  "discordAlertTransport h w webUrl channel payload =
     (case resolveDiscordWebhookUrl w (ac_organizationId channel) (ac_config channel) of
        Inl e \<Rightarrow> Inl e
      | Inr url \<Rightarrow>
          (case DiscordNotifier_send h url (toAlertEvent payload (strip_slash webUrl)) of
             Inl e \<Rightarrow> Inl e
           | Inr r \<Rightarrow> if \<not> dr_ok r then Inl (Err (responded ''Discord webhook'' r)) else Inr None))"

definition msTeamsAlertTransport :: "host \<Rightarrow> db \<Rightarrow> string \<Rightarrow> alert_transport" where
  "msTeamsAlertTransport h w webUrl channel payload =
     (case resolveMsTeamsWebhookUrl w (ac_organizationId channel) (ac_config channel) of
        Inl e \<Rightarrow> Inl e
      | Inr url \<Rightarrow>
          (case MsTeamsNotifier_send h url (toAlertEvent payload (strip_slash webUrl)) of
             Inl e \<Rightarrow> Inl e
           | Inr r \<Rightarrow> if \<not> dr_ok r then Inl (Err (responded ''Microsoft Teams webhook'' r)) else Inr None))"

definition telegramAlertTransport :: "host \<Rightarrow> db \<Rightarrow> string \<Rightarrow> alert_transport" where
  "telegramAlertTransport h w webUrl channel payload =
     (case resolveTelegramCredentials w (ac_organizationId channel) (ac_config channel) of
        Inl e \<Rightarrow> Inl e
      | Inr (botToken, chatId) \<Rightarrow>
          (case TelegramNotifier_send h botToken chatId (toAlertEvent payload (strip_slash webUrl)) of
             Inl e \<Rightarrow> Inl e
           | Inr r \<Rightarrow>
               if \<not> dr_ok r then Inl (Err (redactToken (responded ''Telegram API'' r))) else Inr None))"

text \<open>
  The plain webhook: the payload as JSON. \<open>message_id\<close> is the \<open>x-message-id\<close> header of the answer.
\<close>

definition payload_json :: "host \<Rightarrow> alert_payload \<Rightarrow> json" where
  "payload_json h payload =
     JObj [(''kind'', JStr (kind_name (pl_kind payload))),
           (''incidentId'', JStr (pl_incidentId payload)),
           (''monitorName'', JStr (pl_monitorName payload)), (''title'', JStr (pl_title payload)),
           (''severity'', JStr (severity_name (pl_severity payload))),
           (''summary'', jopt (pl_summary payload)),
           (''occurredAt'', JStr (h_iso h (pl_occurredAt payload)))]"

definition webhookTransport :: "host \<Rightarrow> (http_request \<Rightarrow> string option) \<Rightarrow> alert_transport" where
  "webhookTransport h message_id channel payload =
     (case json_field (ac_config channel) ''url'' of
        None \<Rightarrow> Inl (Err ''webhook channel is missing a url'')
      | Some u \<Rightarrow>
          if \<not> json_truthy u then Inl (Err ''webhook channel is missing a url'')
          else
            (let url = (case u of JStr s \<Rightarrow> s | _ \<Rightarrow> h_stringify h u);
                 req = \<lparr>rq_url = url, rq_body = h_stringify h (payload_json h payload),
                        rq_headers = [(''content-type'', ''application/json'')]\<rparr>
             in case validateUrl (h_parse_url h) (h_allow_private h) url of
                  Inl e \<Rightarrow> Inl e
                | Inr target \<Rightarrow>
                    (case h_exchange h req of
                       Responded status _ \<Rightarrow>
                         if 200 \<le> status \<and> status < 300 then Inr (message_id req)
                         else Inl (Err (''webhook responded '' @ show_int status))
                     | Timed_out \<Rightarrow> Inl (Err ''webhook timed out'')
                     | Net_failed m \<Rightarrow> Inl (Err m))))"

text \<open>\<open>emailAlertTransport\<close>; \<open>send\<close> renders and sends one message of the \<open>incident\<close> template.\<close>

record incident_email =
  em_to :: "string list"
  em_incidentTitle :: string
  em_severity :: string
  em_description :: string
  em_statusPageUrl :: string

fun json_strings :: "json \<Rightarrow> string list" where
  "json_strings (JArr js) = concat (map (\<lambda>j. case j of JStr s \<Rightarrow> [s] | _ \<Rightarrow> []) js)"
| "json_strings _ = []"

definition email_recipients :: "json \<Rightarrow> string list" where
  "email_recipients config =
     (case json_field config ''recipients'' of
        Some r \<Rightarrow> if r \<noteq> JNull then json_strings r
                   else (case json_field config ''email'' of
                           Some (JStr e) \<Rightarrow> if e = '''' then [] else [e] | _ \<Rightarrow> [])
      | None \<Rightarrow> (case json_field config ''email'' of
                   Some (JStr e) \<Rightarrow> if e = '''' then [] else [e] | _ \<Rightarrow> []))"

definition emailAlertTransport ::
  "(incident_email \<Rightarrow> js_error + string option) \<Rightarrow> string \<Rightarrow> alert_transport" where
  "emailAlertTransport send webUrl channel payload =
     (let recipients = email_recipients (ac_config channel)
      in if recipients = [] then Inl (Err ''EMAIL channel is missing email/recipients.'')
         else send
           \<lparr>em_to = recipients, em_incidentTitle = pl_title payload,
            em_severity = severity_name (pl_severity payload),
            em_description = (case pl_summary payload of Some s \<Rightarrow> s
              | None \<Rightarrow> ''Monitor '' @ pl_monitorName payload @ '' is '' @ kind_name (pl_kind payload) @ ''.''),
            em_statusPageUrl = strip_slash webUrl @ ''/dashboard/incidents/'' @ pl_incidentId payload\<rparr>)"

text \<open>The map of \<^verbatim>\<open>apps/worker/src/index.ts\<close>: SMS, VOICE, PAGERDUTY and OPSGENIE have no transport.\<close>

definition worker_transports ::
  "host \<Rightarrow> (http_request \<Rightarrow> string option) \<Rightarrow> (incident_email \<Rightarrow> js_error + string option)
   \<Rightarrow> string \<Rightarrow> db \<Rightarrow> transports" where
  "worker_transports h message_id send webUrl w t =
     (case t of
        WEBHOOK \<Rightarrow> Some (webhookTransport h message_id)
      | EMAIL \<Rightarrow> Some (emailAlertTransport send webUrl)
      | SLACK \<Rightarrow> Some (slackAlertTransport h w webUrl)
      | DISCORD \<Rightarrow> Some (discordAlertTransport h w webUrl)
      | TELEGRAM \<Rightarrow> Some (telegramAlertTransport h w webUrl)
      | MICROSOFT_TEAMS \<Rightarrow> Some (msTeamsAlertTransport h w webUrl)
      | _ \<Rightarrow> None)"

section \<open>Tenancy\<close>

lemma resolveIntegration_scoped:
  assumes "resolveIntegration rows org config label = Inr row"
  shows "row \<in> set rows \<and> in_organizationId row = org \<and> in_deletedAt row = None"
  using assms
  by (auto simp: resolveIntegration_def split: sum.splits option.splits dest: find_first_Some_iff)

lemma resolveSlack_scoped:
  assumes "resolveSlackWebhookUrl w org config = Inr url"
  shows "\<exists>row \<in> set (integrations w I_SLACK). in_organizationId row = org \<and> in_deletedAt row = None
           \<and> url = webhookUrl (in_credential row)"
  using assms
  by (auto simp: resolveSlackWebhookUrl_def split: sum.splits option.splits dest: find_first_Some_iff)

text \<open>
  Which rows of the integration tables a delivery depends on: only those of the channel's own
  organization.
\<close>

definition own_integrations :: "id \<Rightarrow> db \<Rightarrow> integration_type \<Rightarrow> integration list" where
  "own_integrations org w t = filter (\<lambda>r. in_organizationId r = org) (integrations w t)"

lemma find_first_filter: "(\<And>r. P r \<Longrightarrow> Q r) \<Longrightarrow> find_first P (filter Q t) = find_first P t"
  by (induction t) (auto simp: find_first_def)

lemma resolveIntegration_own:
  "resolveIntegration (filter (\<lambda>r. in_organizationId r = org) rows) org config label =
     resolveIntegration rows org config label"
  unfolding resolveIntegration_def by (subst find_first_filter) auto

lemma resolve_own:
  assumes "own_integrations org w = own_integrations org w'"
  shows "resolveSlackWebhookUrl w org config = resolveSlackWebhookUrl w' org config"
    "resolveDiscordWebhookUrl w org config = resolveDiscordWebhookUrl w' org config"
    "resolveMsTeamsWebhookUrl w org config = resolveMsTeamsWebhookUrl w' org config"
    "resolveTelegramCredentials w org config = resolveTelegramCredentials w' org config"
proof -
  have f: "filter (\<lambda>r. in_organizationId r = org) (integrations w t) =
           filter (\<lambda>r. in_organizationId r = org) (integrations w' t)" for t
    using fun_cong [OF assms, of t] by (simp add: own_integrations_def)
  have "find_first (\<lambda>r. in_id r = i \<and> in_organizationId r = org \<and> in_deletedAt r = None) (integrations w t) =
        find_first (\<lambda>r. in_id r = i \<and> in_organizationId r = org \<and> in_deletedAt r = None) (integrations w' t)"
    for i t
    using f [of t] find_first_filter [of _ "\<lambda>r. in_organizationId r = org"]
    by (metis (mono_tags, lifting))
  then show "resolveSlackWebhookUrl w org config = resolveSlackWebhookUrl w' org config"
    by (simp add: resolveSlackWebhookUrl_def split: sum.split)
  have "resolveIntegration (integrations w t) org config l = resolveIntegration (integrations w' t) org config l"
    for t l
    using f [of t] resolveIntegration_own by metis
  then show "resolveDiscordWebhookUrl w org config = resolveDiscordWebhookUrl w' org config"
    "resolveMsTeamsWebhookUrl w org config = resolveMsTeamsWebhookUrl w' org config"
    "resolveTelegramCredentials w org config = resolveTelegramCredentials w' org config"
    by (simp_all add: resolveDiscordWebhookUrl_def resolveMsTeamsWebhookUrl_def
          resolveTelegramCredentials_def)
qed

lemma transports_own:
  assumes "own_integrations (ac_organizationId ch) w = own_integrations (ac_organizationId ch) w'"
  shows "map_option (\<lambda>t. t ch p) (worker_transports h mid send url w ty) =
         map_option (\<lambda>t. t ch p) (worker_transports h mid send url w' ty)"
  using resolve_own [OF assms]
  by (cases ty) (simp_all add: worker_transports_def slackAlertTransport_def discordAlertTransport_def
      msTeamsAlertTransport_def telegramAlertTransport_def)

end
