(* ===== verification/Probes.thy ===== *)
theory Probes
  imports Execute Ssrf
begin

text \<open>
  The probes, from \<^verbatim>\<open>packages/monitoring/src/probes\<close>: HTTP with its redirect loop, TCP and
  ping, TLS certificates, DNS and heartbeats, and their registry. The world a probe meets is
  the record \<open>world\<close>: the URL constructor, the resolver's answer to the \<open>n\<close>-th look-up (a name
  may resolve differently each time), and what the peer does. Besides its signal a probe
  reports what it sent, and to which addresses.

  \<open>node:net\<close> connects to an IP literal directly and asks the \<open>lookup\<close> option for any other host
  (\<open>node_connect\<close>).
\<close>

section \<open>Connecting\<close>

datatype header_value = HV_one string | HV_many "string list" | HV_absent

text \<open>A distinguished-name field and the fields of \<open>getPeerCertificate()\<close> a probe reads.\<close>

datatype cert_field = CF_one string | CF_many "string list" | CF_absent

record peer_cert =
  pc_valid_to :: "time option"    \<comment> \<open>\<open>None\<close>: absent or empty\<close>
  pc_valid_from :: time
  pc_issuer_O :: cert_field
  pc_issuer_CN :: cert_field
  pc_subject_CN :: cert_field

record http_sent =
  hs_url :: url
  hs_peers :: "string list"
  hs_method :: http_method
  hs_headers :: "(string \<times> string) list"
  hs_timeout :: int
  hs_rejectUnauthorized :: "bool option"
  hs_servername :: "string option"
  hs_body :: "string option"

record http_reply =
  hr_statusCode :: "int option"
  hr_headers :: "(string \<times> header_value) list"
  hr_chunks :: "string list"
  hr_peer :: "peer_cert option"

datatype socket_event = Ev_connect "peer_cert option" | Ev_timeout | Ev_error js_error | Ev_abort

datatype dns_answer =
    Plain string
  | Mx int string
  | Txt "string list"
  | Soa string string int

record world =
  wd_parse :: url_parser
  wd_join :: "string \<Rightarrow> url \<Rightarrow> string option"   \<comment> \<open>\<open>new URL(location, base).href\<close>\<close>
  wd_allow :: bool
  wd_all :: bool                                 \<comment> \<open>\<open>net\<close> asks for all addresses\<close>
  wd_dns :: "nat \<Rightarrow> resolver"
  wd_http :: "nat \<Rightarrow> http_sent \<Rightarrow> js_error + http_reply"
  wd_utf8 :: "string \<Rightarrow> string"
  wd_early :: "socket_event option"              \<comment> \<open>before the host is resolved\<close>
  wd_socket :: "string list \<Rightarrow> int \<Rightarrow> socket_event"
  wd_query :: "dns_record_type \<Rightarrow> string \<Rightarrow> js_error + dns_answer list"
  wd_dns_aborted :: bool                         \<comment> \<open>the abort wins the race\<close>
  wd_aborted :: bool                             \<comment> \<open>\<open>ctx.signal.aborted\<close> in the handler\<close>
  wd_elapsed :: int

definition node_connect :: "world \<Rightarrow> nat \<Rightarrow> string \<Rightarrow> js_error + string list" where
  "node_connect wd n host =
     (if isIP host \<noteq> 0 then Inr [host]
      else (case createSecureLookup (wd_dns wd n) (wd_allow wd) (wd_all wd) host of
              Inl e \<Rightarrow> Inl e
            | Inr answer \<Rightarrow> Inr (answer_addresses answer)))"

section \<open>Errors and certificates\<close>

fun err_code :: "js_error \<Rightarrow> string option" where
  "err_code (NodeErr c _) = Some c"
| "err_code (SsrfErr _ c) = Some c"
| "err_code (AppErr _ _) = None"
| "err_code (Err _) = None"

definition classifyHttpError :: "js_error \<Rightarrow> string" where
  "classifyHttpError err =
     (let code = (case err_code err of None \<Rightarrow> '''' | Some c \<Rightarrow> c) in
      if code = ''ENOTFOUND'' \<or> code = ''EAI_AGAIN'' then ''dns''
      else if code = ''ECONNREFUSED'' then ''refused''
      else if code = ''ETIMEDOUT'' then ''timeout''
      else if starts_with code ''CERT_'' \<or> starts_with code ''ERR_TLS''
              \<or> code = ''UNABLE_TO_VERIFY_LEAF_SIGNATURE'' \<or> code = ''DEPTH_ZERO_SELF_SIGNED_CERT''
              \<or> code = ''SELF_SIGNED_CERT_IN_CHAIN'' then ''tls''
      else if code = ''ECONNRESET'' \<or> code = ''EPIPE'' then ''connect''
      else ''error'')"

fun certName :: "cert_field \<Rightarrow> string option" where
  "certName (CF_many xs) = (case xs of [] \<Rightarrow> None | x # _ \<Rightarrow> Some x)"
| "certName (CF_one s) = Some s"
| "certName CF_absent = None"

definition days_until :: "time \<Rightarrow> time \<Rightarrow> int" where
  "days_until t now = (t - now) div 86400000"

definition cert_of :: "peer_cert \<Rightarrow> time \<Rightarrow> time \<Rightarrow> cert_info" where
  "cert_of peer validTo now =
     \<lparr>c_validTo = validTo, c_validFrom = pc_valid_from peer,
      c_daysUntilExpiry = days_until validTo now,
      c_issuer = (case certName (pc_issuer_O peer) of Some s \<Rightarrow> Some s
                  | None \<Rightarrow> certName (pc_issuer_CN peer)),
      c_subject = certName (pc_subject_CN peer)\<rparr>"

definition extractCert :: "peer_cert option \<Rightarrow> time \<Rightarrow> cert_info option" where
  "extractCert socket now =
     (case socket of
        None \<Rightarrow> None
      | Some peer \<Rightarrow>
          (case pc_valid_to peer of None \<Rightarrow> None | Some t \<Rightarrow> Some (cert_of peer t now)))"

section \<open>HTTP\<close>

definition MAX_BODY_BYTES :: nat where "MAX_BODY_BYTES = 1000000"
definition MAX_REDIRECTS :: nat where "MAX_REDIRECTS = 5"

record single_response =
  sr_statusCode :: int
  sr_headers :: "string \<rightharpoonup> string"
  sr_body :: string
  sr_location :: "string option"
  sr_cert :: "cert_info option"

text \<open>The \<open>data\<close> handler over the chunks that arrive: what it keeps, up to the limit.\<close>

fun collect_chunks :: "string list \<Rightarrow> nat \<Rightarrow> string" where
  "collect_chunks [] count = []"
| "collect_chunks (chunk # chunks) count =
     (let count' = count + length chunk
      in if count' > MAX_BODY_BYTES
         then take (length chunk - (count' - MAX_BODY_BYTES)) chunk
         else chunk @ collect_chunks chunks count')"

fun header_text :: "header_value \<Rightarrow> string option" where
  "header_text (HV_one s) = Some s"
| "header_text (HV_many xs) = Some (join '', '' xs)"
| "header_text HV_absent = None"

fun header_map :: "(string \<times> header_value) list \<Rightarrow> (string \<rightharpoonup> string) \<Rightarrow> string \<rightharpoonup> string" where
  "header_map [] m = m"
| "header_map ((k, v) # hs) m =
     (case header_text v of
        None \<Rightarrow> header_map hs m
      | Some t \<Rightarrow> header_map hs (m(to_lower k \<mapsto> t)))"

definition location_of :: "(string \<times> header_value) list \<Rightarrow> string option" where
  "location_of hs =
     (case map_of hs ''location'' of Some (HV_one s) \<Rightarrow> Some s | _ \<Rightarrow> None)"

definition request_headers :: "monitor_snapshot \<Rightarrow> (string \<times> string) list" where
  "request_headers m =
     fold (\<lambda>(k, v). map_set k v) (case s_requestHeaders m of None \<Rightarrow> [] | Some hs \<Rightarrow> hs)
       [(''user-agent'', ''UptimeFlow/1.0'')]"

text \<open>The host \<open>http.request\<close> connects to: the URL's, an IPv6 literal without its brackets.\<close>

definition node_host :: "url \<Rightarrow> string" where
  "node_host u = (let h = url_hostname u in if starts_with h ''['' then butlast (tl h) else h)"

definition performRequest ::
  "world \<Rightarrow> monitor_snapshot \<Rightarrow> time \<Rightarrow> nat \<Rightarrow> url \<Rightarrow> http_sent list \<times> (js_error + single_response)" where
  "performRequest wd m now hop target =
     (case node_connect wd hop (node_host target) of
        Inl e \<Rightarrow> ([], Inl e)
      | Inr peers \<Rightarrow>
          (let isHttps = (url_protocol target = ''https:'');
               sent = \<lparr>hs_url = target, hs_peers = peers,
                       hs_method = (case s_httpMethod m of None \<Rightarrow> GET | Some x \<Rightarrow> x),
                       hs_headers = request_headers m,
                       hs_timeout = s_timeoutSeconds m * 1000,
                       hs_rejectUnauthorized = (if isHttps then Some (s_verifySsl m) else None),
                       hs_servername = (if isHttps then Some (url_hostname target) else None),
                       hs_body = (case s_requestBody m of Some b \<Rightarrow> if b = '''' then None else Some b
                                  | None \<Rightarrow> None)\<rparr>
           in ([sent],
               case wd_http wd hop sent of
                 Inl e \<Rightarrow> Inl e
               | Inr reply \<Rightarrow>
                   Inr \<lparr>sr_statusCode = (case hr_statusCode reply of None \<Rightarrow> 0 | Some c \<Rightarrow> c),
                        sr_headers = header_map (hr_headers reply) Map.empty,
                        sr_body = wd_utf8 wd (collect_chunks (hr_chunks reply) 0),
                        sr_location = location_of (hr_headers reply),
                        sr_cert = extractCert (if isHttps then hr_peer reply else None) now\<rparr>)))"

definition redirect_target :: "single_response \<Rightarrow> string option" where
  "redirect_target r =
     (if 300 \<le> sr_statusCode r \<and> sr_statusCode r < 400
      then (case sr_location r of Some l \<Rightarrow> if l = '''' then None else Some l | None \<Rightarrow> None)
      else None)"

text \<open>The loop, with the number of redirects that may still be followed.\<close>

fun follow_redirects ::
  "world \<Rightarrow> monitor_snapshot \<Rightarrow> time \<Rightarrow> nat \<Rightarrow> url
   \<Rightarrow> http_sent list \<times> (js_error + single_response)" where
  "follow_redirects wd m now left current =
     (case performRequest wd m now (MAX_REDIRECTS - left) current of
        (sent, Inl e) \<Rightarrow> (sent, Inl e)
      | (sent, Inr resp) \<Rightarrow>
          (case redirect_target resp of
             None \<Rightarrow> (sent, Inr resp)
           | Some loc \<Rightarrow>
               if \<not> s_followRedirects m then (sent, Inr resp)
               else (case left of
                       0 \<Rightarrow> (sent, Inr resp)
                     | Suc left' \<Rightarrow>
                         (case wd_join wd loc current of
                            None \<Rightarrow> (sent, Inl (NodeErr ''ERR_INVALID_URL'' ''Invalid URL''))
                          | Some href \<Rightarrow>
                              (case validateUrl (wd_parse wd) (wd_allow wd) href of
                                 Inl e \<Rightarrow> (sent, Inl e)
                               | Inr target \<Rightarrow>
                                   (case follow_redirects wd m now left' target of
                                      (rest, r) \<Rightarrow> (sent @ rest, r)))))))"

declare follow_redirects.simps [simp del]

definition httpProbe ::
  "world \<Rightarrow> monitor_snapshot \<Rightarrow> time \<Rightarrow> http_sent list \<times> probe_signal" where
  "httpProbe wd m now =
     (case truthy_property (s_url m) of
        None \<Rightarrow> ([], fail_signal 0 ''config'' ''Monitor has no url.'')
      | Some raw \<Rightarrow>
          (let (sent, r) =
                 (case validateUrl (wd_parse wd) (wd_allow wd) raw of
                    Inl e \<Rightarrow> ([], Inl e)
                  | Inr current \<Rightarrow> follow_redirects wd m now MAX_REDIRECTS current)
           in (sent,
               case r of
                 Inr resp \<Rightarrow>
                   (ok_signal (wd_elapsed wd))
                     \<lparr>ps_statusCode := Some (sr_statusCode resp), ps_headers := Some (sr_headers resp),
                      ps_body := Some (sr_body resp), ps_cert := sr_cert resp\<rparr>
               | Inl (SsrfErr msg c) \<Rightarrow> fail_signal (wd_elapsed wd) ''blocked'' msg
               | Inl e \<Rightarrow> fail_signal (wd_elapsed wd)
                            (if wd_aborted wd then ''timeout'' else classifyHttpError e)
                            (err_message e))))"

section \<open>TCP and ping\<close>

definition DEFAULT_PING_PORT :: int where "DEFAULT_PING_PORT = 443"

text \<open>The bucket of a socket error; \<open>other\<close> is the probe's own.\<close>

definition socket_error_type :: "string \<Rightarrow> js_error \<Rightarrow> string" where
  "socket_error_type other e =
     (case err_code e of
        Some c \<Rightarrow>
          if starts_with c ''ssrf'' then ''blocked''
          else if c = ''ECONNREFUSED'' then ''refused''
          else if c = ''ENOTFOUND'' then ''dns''
          else other
      | None \<Rightarrow> other)"

definition tcp_signal :: "world \<Rightarrow> socket_event \<Rightarrow> probe_signal" where
  "tcp_signal wd ev =
     (case ev of
        Ev_connect _ \<Rightarrow> ok_signal (wd_elapsed wd)
      | Ev_timeout \<Rightarrow> fail_signal (wd_elapsed wd) ''timeout'' ''Connection timed out.''
      | Ev_error e \<Rightarrow> fail_signal (wd_elapsed wd) (socket_error_type ''connect'' e) (err_message e)
      | Ev_abort \<Rightarrow> fail_signal (wd_elapsed wd) ''timeout'' ''Connection aborted.'')"

text \<open>A connection attempt: the addresses it dials and the first event, which settles the promise.\<close>

definition dial :: "world \<Rightarrow> string \<Rightarrow> int \<Rightarrow> string list \<times> socket_event" where
  "dial wd host port =
     (case wd_early wd of
        Some ev \<Rightarrow> ([], ev)
      | None \<Rightarrow>
          (case node_connect wd 0 host of
             Inl e \<Rightarrow> ([], Ev_error e)
           | Inr peers \<Rightarrow> (peers, wd_socket wd peers port)))"

definition tcpConnect :: "world \<Rightarrow> string \<Rightarrow> int \<Rightarrow> string list \<times> probe_signal" where
  "tcpConnect wd host port = (case dial wd host port of (peers, ev) \<Rightarrow> (peers, tcp_signal wd ev))"

definition tcpProbe :: "world \<Rightarrow> monitor_snapshot \<Rightarrow> string list \<times> probe_signal" where
  "tcpProbe wd m =
     (case (truthy_property (s_host m), s_port m) of
        (Some host, Some port) \<Rightarrow> tcpConnect wd host port
      | _ \<Rightarrow> ([], fail_signal 0 ''config'' ''Monitor needs host and port.''))"

definition pingProbe :: "world \<Rightarrow> monitor_snapshot \<Rightarrow> string list \<times> probe_signal" where
  "pingProbe wd m =
     (case truthy_property (s_host m) of
        None \<Rightarrow> ([], fail_signal 0 ''config'' ''Monitor needs a host.'')
      | Some host \<Rightarrow>
          tcpConnect wd host (case s_port m of None \<Rightarrow> DEFAULT_PING_PORT | Some p \<Rightarrow> p))"

section \<open>TLS certificates\<close>

definition DEFAULT_TLS_PORT :: int where "DEFAULT_TLS_PORT = 443"

text \<open>\<open>Number(port) || 443\<close> of a URL's port, which is empty or decimal digits.\<close>

definition url_port_number :: "url \<Rightarrow> int" where
  "url_port_number u =
     (let n = int (nat_of_digits 10 digit_val (url_port u)) in if n = 0 then DEFAULT_TLS_PORT else n)"

definition ssl_signal :: "world \<Rightarrow> time \<Rightarrow> socket_event \<Rightarrow> probe_signal" where
  "ssl_signal wd now ev =
     (case ev of
        Ev_connect peer \<Rightarrow>
          (case peer of
             None \<Rightarrow> fail_signal (wd_elapsed wd) ''tls'' ''No peer certificate presented.''
           | Some p \<Rightarrow>
               (case pc_valid_to p of
                  None \<Rightarrow> fail_signal (wd_elapsed wd) ''tls'' ''No peer certificate presented.''
                | Some t \<Rightarrow> (ok_signal (wd_elapsed wd))\<lparr>ps_cert := Some (cert_of p t now)\<rparr>))
      | Ev_timeout \<Rightarrow> fail_signal (wd_elapsed wd) ''timeout'' ''TLS handshake timed out.''
      | Ev_error e \<Rightarrow> fail_signal (wd_elapsed wd) (socket_error_type ''tls'' e) (err_message e)
      | Ev_abort \<Rightarrow> fail_signal (wd_elapsed wd) ''timeout'' ''TLS connection aborted.'')"

text \<open>\<open>new URL\<close> is called outside the promise: an invalid URL makes the probe reject.\<close>

definition sslProbe ::
  "world \<Rightarrow> monitor_snapshot \<Rightarrow> time \<Rightarrow> string list \<times> (js_error + probe_signal)" where
  "sslProbe wd m now =
     (let parsed = (case truthy_property (s_url m) of
            None \<Rightarrow> Inr None
          | Some raw \<Rightarrow> (case wd_parse wd raw of
                None \<Rightarrow> Inl (NodeErr ''ERR_INVALID_URL'' ''Invalid URL'')
              | Some u \<Rightarrow> Inr (Some u)));
          host_r = (case s_host m of
            Some h \<Rightarrow> Inr (Some h)
          | None \<Rightarrow> (case parsed of Inl e \<Rightarrow> Inl e | Inr v \<Rightarrow> Inr (map_option url_hostname v)))
      in case host_r of
           Inl e \<Rightarrow> ([], Inl e)
         | Inr h \<Rightarrow>
             (case truthy_property h of
                None \<Rightarrow> ([], Inr (fail_signal 0 ''config'' ''Monitor needs a host or url.''))
              | Some host \<Rightarrow>
                  (case (case s_port m of
                           Some p \<Rightarrow> Inr p
                         | None \<Rightarrow> (case parsed of Inl e \<Rightarrow> Inl e
                                   | Inr None \<Rightarrow> Inr DEFAULT_TLS_PORT
                                   | Inr (Some u) \<Rightarrow> Inr (url_port_number u))) of
                     Inl e \<Rightarrow> ([], Inl e)
                   | Inr port \<Rightarrow>
                       (case dial wd host port of
                          (peers, ev) \<Rightarrow> (peers, Inr (ssl_signal wd now ev))))))"

section \<open>DNS\<close>

fun dns_name :: "dns_record_type \<Rightarrow> string" where
  "dns_name DNS_A = ''A''"
| "dns_name DNS_AAAA = ''AAAA''"
| "dns_name DNS_CNAME = ''CNAME''"
| "dns_name DNS_MX = ''MX''"
| "dns_name DNS_TXT = ''TXT''"
| "dns_name DNS_NS = ''NS''"
| "dns_name DNS_SOA = ''SOA''"

definition RECORD_TYPES :: "dns_record_type list" where
  "RECORD_TYPES = [DNS_A, DNS_AAAA, DNS_CNAME, DNS_MX, DNS_TXT, DNS_NS, DNS_SOA]"

definition DEFAULT_RECORD_TYPE :: dns_record_type where "DEFAULT_RECORD_TYPE = DNS_A"

definition recordTypeFor :: "monitor_snapshot \<Rightarrow> dns_record_type" where
  "recordTypeFor m =
     (case List.find (\<lambda>a. a_source a = DNS_RECORD \<and> truthy_property (a_property a) \<noteq> None) (s_assertions m) of
        None \<Rightarrow> DEFAULT_RECORD_TYPE
      | Some a \<Rightarrow>
          (case a_property a of
             None \<Rightarrow> DEFAULT_RECORD_TYPE
           | Some p \<Rightarrow>
               (let requested = map upper_char (trim p) in
                case List.find (\<lambda>t. dns_name t = requested) RECORD_TYPES of
                  None \<Rightarrow> DEFAULT_RECORD_TYPE
                | Some t \<Rightarrow> t)))"

fun stringifyRecord :: "dns_answer \<Rightarrow> string" where
  "stringifyRecord (Mx priority exchange) = show_int priority @ '' '' @ exchange"
| "stringifyRecord (Soa nsname hostmaster serial) =
     nsname @ '' '' @ hostmaster @ '' '' @ show_int serial"
| "stringifyRecord (Txt chunks) = concat chunks"
| "stringifyRecord (Plain s) = s"

definition resolveRecords :: "world \<Rightarrow> string \<Rightarrow> dns_record_type \<Rightarrow> js_error + string list" where
  "resolveRecords wd host t = map_sum id (map stringifyRecord) (wd_query wd t host)"

definition dnsProbe :: "world \<Rightarrow> monitor_snapshot \<Rightarrow> probe_signal" where
  "dnsProbe wd m =
     (case truthy_property (map_option trim (s_host m)) of
        None \<Rightarrow> fail_signal 0 ''config'' ''Monitor needs a host.''
      | Some host \<Rightarrow>
          (let recordType = recordTypeFor m;
               ms = wd_elapsed wd;
               quoted = [CHR 0x22] @ host @ [CHR 0x22]
           in case (if wd_dns_aborted wd then Inl (NodeErr ''ETIMEDOUT'' ''DNS lookup aborted.'')
                    else resolveRecords wd host recordType) of
                Inr records \<Rightarrow>
                  (case (if recordType = DNS_A \<or> recordType = DNS_AAAA
                         then find_first isBlockedIp records else None) of
                     Some value \<Rightarrow>
                       fail_signal ms ''blocked'' (quoted @ '' resolves to blocked address '' @ value @ ''.'')
                   | None \<Rightarrow>
                       if length records = 0
                       then fail_signal ms ''dns''
                              (''No '' @ dns_name recordType @ '' records found for '' @ quoted @ ''.'')
                       else (ok_signal ms)
                              \<lparr>ps_dns := Some \<lparr>dn_recordType = recordType, dn_values = records\<rparr>\<rparr>)
              | Inl (SsrfErr msg c) \<Rightarrow> fail_signal ms ''blocked'' msg
              | Inl e \<Rightarrow>
                  if err_code e = Some ''ETIMEDOUT'' \<or> wd_aborted wd
                  then fail_signal ms ''timeout'' ''DNS lookup timed out.''
                  else fail_signal ms
                         (if err_code e \<in> {Some ''ENOTFOUND'', Some ''ENODATA'', Some ''ESERVFAIL''}
                          then ''dns'' else ''error'')
                         (err_message e)))"

section \<open>Heartbeats\<close>

definition HEARTBEAT_GRACE_MS :: int where "HEARTBEAT_GRACE_MS = 60000"

definition heartbeatProbe :: "monitor_snapshot \<Rightarrow> time \<Rightarrow> probe_signal" where
  "heartbeatProbe m now =
     (case s_lastCheckedAt m of
        None \<Rightarrow> fail_signal 0 ''no_ping'' ''No heartbeat received yet.''
      | Some t \<Rightarrow>
          (let ageMs = now - t; deadlineMs = s_intervalSeconds m * 1000 + HEARTBEAT_GRACE_MS
           in if ageMs > deadlineMs
              then fail_signal ageMs ''timeout''
                     (''No heartbeat for '' @ show_int (round_div ageMs 1000) @ ''s (expected every ''
                      @ show_int (s_intervalSeconds m) @ ''s).'')
              else ok_signal ageMs))"

section \<open>The registry\<close>

text \<open>
  \<open>worlds k\<close> is the world of the \<open>k\<close>-th attempt; \<open>domain\<close> is the probe of
  \<^verbatim>\<open>probes/domain.ts\<close>. GRPC has no probe.
\<close>

definition defaultProbes :: "(nat \<Rightarrow> world) \<Rightarrow> probe \<Rightarrow> monitor_type \<Rightarrow> probe option" where
  "defaultProbes worlds domain t =
     (case t of
        T_HTTP \<Rightarrow> Some (\<lambda>k m now. Inr (snd (httpProbe (worlds k) m now)))
      | T_KEYWORD \<Rightarrow> Some (\<lambda>k m now. Inr (snd (httpProbe (worlds k) m now)))
      | T_SSL \<Rightarrow> Some (\<lambda>k m now. snd (sslProbe (worlds k) m now))
      | T_TCP \<Rightarrow> Some (\<lambda>k m now. Inr (snd (tcpProbe (worlds k) m)))
      | T_PORT \<Rightarrow> Some (\<lambda>k m now. Inr (snd (tcpProbe (worlds k) m)))
      | T_PING \<Rightarrow> Some (\<lambda>k m now. Inr (snd (pingProbe (worlds k) m)))
      | T_HEARTBEAT \<Rightarrow> Some (\<lambda>k m now. Inr (heartbeatProbe m now))
      | T_DNS \<Rightarrow> Some (\<lambda>k m now. Inr (dnsProbe (worlds k) m))
      | T_DOMAIN \<Rightarrow> Some domain
      | T_GRPC \<Rightarrow> None)"

section \<open>What the probes dial\<close>

text \<open>
  What is used of the URL constructor: an \<open>http(s)\<close> host is not empty and lower case, an IPv6
  literal is in brackets, and an IP literal is serialised without a trailing dot.
\<close>

definition whatwg :: "url_parser \<Rightarrow> bool" where
  "whatwg p \<longleftrightarrow>
     (\<forall>raw u. p raw = Some u \<longrightarrow> url_protocol u \<in> {''http:'', ''https:''} \<longrightarrow>
        (\<exists>a. a \<noteq> '''' \<and> hd a \<noteq> CHR ''['' \<and> last a \<noteq> CHR '']'' \<and> to_lower a = a
           \<and> (isIP a \<noteq> 0 \<longrightarrow> last a \<noteq> CHR ''.'')
           \<and> url_hostname u \<in> {a, ''['' @ a @ '']''}))"

lemma whatwg_host:
  assumes "whatwg p" "validateUrl p allow raw = Inr u" "isIP (node_host u) \<noteq> 0"
  shows "normalizeHost (url_hostname u) = node_host u"
proof -
  note v = validateUrl_Inr [OF assms(2)]
  from assms(1) v(1,2) obtain a where a: "a \<noteq> ''''" "hd a \<noteq> CHR ''[''" "last a \<noteq> CHR '']''" "to_lower a = a"
    "isIP a \<noteq> 0 \<longrightarrow> last a \<noteq> CHR ''.''" "url_hostname u \<in> {a, ''['' @ a @ '']''}"
    unfolding whatwg_def by blast
  have n: "node_host u = a"
    using a by (cases a) (auto simp: node_host_def starts_with_def)
  moreover have "strip_brackets (url_hostname u) = a"
    using a by (auto simp: strip_brackets_def Let_def)
  ultimately show ?thesis using a assms(3) by (simp add: normalizeHost_def Let_def)
qed

lemma node_connect_safe:
  assumes "\<not> wd_allow wd" "node_connect wd n host = Inr peers" "isIP host \<noteq> 0 \<Longrightarrow> \<not> isBlockedIp host"
    and "a \<in> set peers"
  shows "\<not> isBlockedIp a"
  using assms lookup_answers_safe [of "wd_dns wd n" "wd_all wd" host]
  by (auto simp: node_connect_def split: if_splits sum.splits)

text \<open>An HTTP request that leaves the process: validated target, no blocked peer.\<close>

definition guarded :: "http_sent \<Rightarrow> bool" where
  "guarded s \<longleftrightarrow>
     url_protocol (hs_url s) \<in> {''http:'', ''https:''}
     \<and> url_username (hs_url s) = '''' \<and> url_password (hs_url s) = ''''
     \<and> normalizeHost (url_hostname (hs_url s)) \<notin> set BLOCKED_HOSTNAMES
     \<and> (\<forall>a \<in> set (hs_peers s). \<not> isBlockedIp a)"

lemma performRequest_guarded:
  assumes "whatwg (wd_parse wd)" "\<not> wd_allow wd" "validateUrl (wd_parse wd) False raw = Inr u"
    and "performRequest wd m now n u = (sent, r)" "s \<in> set sent"
  shows "guarded s \<and> length sent = 1 \<and> hs_url s = u"
proof -
  note v = validateUrl_Inr [OF assms(3)]
  obtain peers where p: "node_connect wd n (node_host u) = Inr peers" "hs_peers s = peers" "hs_url s = u"
    "length sent = 1"
    using assms(4,5) by (auto simp: performRequest_def Let_def split: sum.splits)
  have "isIP (node_host u) \<noteq> 0 \<Longrightarrow> \<not> isBlockedIp (node_host u)"
    using v(7) whatwg_host [OF assms(1,3)] by fastforce
  from node_connect_safe [OF assms(2) p(1) this] have "\<not> isBlockedIp a" if "a \<in> set peers" for a
    using that by blast
  with v p show ?thesis by (auto simp: guarded_def)
qed

lemma performRequest_length: "performRequest wd m now n u = (sent, r) \<Longrightarrow> length sent \<le> 1"
  by (auto simp: performRequest_def Let_def split: sum.splits)

lemma follow_redirects_guarded:
  assumes "whatwg (wd_parse wd)" "\<not> wd_allow wd"
  shows "validateUrl (wd_parse wd) False raw = Inr u \<Longrightarrow>
    (\<forall>s \<in> set (fst (follow_redirects wd m now left u)). guarded s)
    \<and> length (fst (follow_redirects wd m now left u)) \<le> Suc left"
proof (induction left arbitrary: u raw)
  case 0
  obtain sent r where p: "performRequest wd m now MAX_REDIRECTS u = (sent, r)" by fastforce
  have "fst (follow_redirects wd m now 0 u) = sent"
    by (subst follow_redirects.simps) (simp add: p split: sum.splits option.splits)
  with performRequest_guarded [OF assms 0 p] performRequest_length [OF p] show ?case by auto
next
  case (Suc left)
  obtain sent r where p: "performRequest wd m now (MAX_REDIRECTS - Suc left) u = (sent, r)" by fastforce
  have "fst (follow_redirects wd m now (Suc left) u) = sent
      \<or> (\<exists>href v. validateUrl (wd_parse wd) False href = Inr v
           \<and> fst (follow_redirects wd m now (Suc left) u) = sent @ fst (follow_redirects wd m now left v))"
    using assms(2)
    unfolding follow_redirects.simps [of wd m now "Suc left" u]
    by (auto simp: p split_def split: sum.splits option.splits)
  then show ?case
  proof (elim disjE exE conjE)
    fix href v assume v: "validateUrl (wd_parse wd) False href = Inr v"
      "fst (follow_redirects wd m now (Suc left) u) = sent @ fst (follow_redirects wd m now left v)"
    show ?thesis
      using Suc.IH [OF v(1)] performRequest_guarded [OF assms Suc.prems p] performRequest_length [OF p]
      unfolding v(2) by auto
  qed (use performRequest_guarded [OF assms Suc.prems p] performRequest_length [OF p] in auto)
qed

lemma httpProbe_guarded:
  assumes "whatwg (wd_parse wd)" "\<not> wd_allow wd"
  shows "(\<forall>s \<in> set (fst (httpProbe wd m now)). guarded s) \<and> length (fst (httpProbe wd m now)) \<le> 6"
proof (cases "truthy_property (s_url m)")
  case None
  then show ?thesis by (simp add: httpProbe_def)
next
  case (Some raw)
  show ?thesis
  proof (cases "validateUrl (wd_parse wd) False raw")
    case (Inl e)
    with Some assms show ?thesis by (simp add: httpProbe_def)
  next
    case (Inr u)
    with Some assms follow_redirects_guarded [OF assms Inr, of m now MAX_REDIRECTS]
    show ?thesis by (simp add: httpProbe_def Let_def MAX_REDIRECTS_def split_def)
  qed
qed

text \<open>The other probes hand a literal straight to the socket.\<close>

lemma dial_literal:
  "wd_early wd = None \<Longrightarrow> isIP host \<noteq> 0 \<Longrightarrow> fst (dial wd host port) = [host]"
  by (simp add: dial_def node_connect_def)

lemma dial_name:
  assumes "isIP host = 0" "\<not> wd_allow wd" "a \<in> set (fst (dial wd host port))"
  shows "\<not> isBlockedIp a"
proof -
  obtain peers where "node_connect wd 0 host = Inr peers" "a \<in> set peers"
    using assms(3) by (auto simp: dial_def split: option.splits sum.splits)
  from node_connect_safe [OF assms(2) this(1) _ this(2)] assms(1) show ?thesis by simp
qed

section \<open>Bodies, freshness and DNS answers\<close>

lemma collect_chunks_take:
  "n \<le> MAX_BODY_BYTES \<Longrightarrow> collect_chunks chunks n = take (MAX_BODY_BYTES - n) (concat chunks)"
proof (induction chunks arbitrary: n)
  case (Cons c chunks)
  show ?case
  proof (cases "n + length c > MAX_BODY_BYTES")
    case True
    then have "length c - (n + length c - MAX_BODY_BYTES) = MAX_BODY_BYTES - n"
      "MAX_BODY_BYTES - n \<le> length c" using Cons.prems by auto
    with True show ?thesis by (simp add: Let_def)
  next
    case False
    with Cons.IH [of "n + length c"] show ?thesis by (simp add: Let_def diff_diff_left)
  qed
qed simp

lemma heartbeat_fresh:
  "ps_reachable (heartbeatProbe m now) \<longleftrightarrow>
     (\<exists>t. s_lastCheckedAt m = Some t \<and> now \<le> t + s_intervalSeconds m * 1000 + HEARTBEAT_GRACE_MS)"
  by (auto simp: heartbeatProbe_def Let_def fail_signal_def ok_signal_def split: option.splits)

lemma dnsProbe_unblocked:
  assumes "ps_dns (dnsProbe wd m) = Some d" "dn_recordType d \<in> {DNS_A, DNS_AAAA}" "v \<in> set (dn_values d)"
  shows "\<not> isBlockedIp v"
  using assms
  by (auto simp: dnsProbe_def Let_def fail_signal_def ok_signal_def find_first_None_iff
        split: option.splits sum.splits js_error.splits if_splits)

end
