(* ===== verification/Scheduler.thy ===== *)
theory Scheduler
  imports Pipeline "HOL-Library.AList"
begin

text \<open>
  The check scheduler, from \<^verbatim>\<open>packages/monitoring/src/scheduler.ts\<close>: the reconciliation of the
  repeatable jobs of every regional queue with the monitor table. The queue is the source's own
  interface \<open>SchedulableQueue\<close>, the record \<open>queue_ops\<close>; the locale \<open>job_schedulers\<close> states
  what is asked of its provider. \<open>view q k\<close> is the scheduler stored under \<open>k\<close>: none, or one
  with its \<open>every\<close> (none when the queue reports \<open>null\<close>).
\<close>

section \<open>The desired schedulers\<close>

definition SCHEDULER_PREFIX :: string where "SCHEDULER_PREFIX = ''monitor:''"

definition schedulerId :: "id \<Rightarrow> probe_region \<Rightarrow> string" where
  "schedulerId monitorId region = SCHEDULER_PREFIX @ monitorId @ '':'' @ region_name region"

record scheduler_spec =
  sp_every :: int
  sp_data :: check_job

definition monitor_regions :: "probe_region \<Rightarrow> monitor_row \<Rightarrow> probe_region list" where
  "monitor_regions defaultRegion m =
     (if m_type m = T_HEARTBEAT then [defaultRegion]
      else if length (m_regions m) > 0 then m_regions m else [defaultRegion])"

definition spec_of :: "monitor_row \<Rightarrow> probe_region \<Rightarrow> scheduler_spec" where
  "spec_of m region =
     \<lparr>sp_every = max 1 (m_intervalSeconds m) * 1000,
      sp_data = \<lparr>cj_monitorId = m_id m, cj_organizationId = m_organizationId m, cj_region = region\<rparr>\<rparr>"

type_synonym desired_map = "probe_region \<Rightarrow> (string \<times> scheduler_spec) list"

definition want_region ::
  "probe_region set \<Rightarrow> monitor_row \<Rightarrow> probe_region \<Rightarrow> desired_map \<Rightarrow> desired_map" where
  "want_region served m region desired =
     (if region \<notin> served then desired
      else desired(region := map_set (schedulerId (m_id m) region) (spec_of m region) (desired region)))"

definition want_monitor ::
  "probe_region set \<Rightarrow> probe_region \<Rightarrow> monitor_row \<Rightarrow> desired_map \<Rightarrow> desired_map" where
  "want_monitor served defaultRegion m desired =
     fold (want_region served m) (monitor_regions defaultRegion m) desired"

definition scheduled :: "monitor_row \<Rightarrow> bool" where
  "scheduled m \<longleftrightarrow> m_state m = ACTIVE \<and> m_deletedAt m = None"

definition desired_of ::
  "probe_region set \<Rightarrow> probe_region \<Rightarrow> monitor_row list \<Rightarrow> desired_map" where
  "desired_of served defaultRegion ms = fold (want_monitor served defaultRegion) ms (\<lambda>_. [])"

section \<open>Reconciling one queue\<close>

text \<open>A call that rejects leaves the queue in a state of its own.\<close>

record 'q queue_ops =
  q_list :: "'q \<Rightarrow> js_error + (string \<times> int option) list"
  q_upsert :: "string \<Rightarrow> int \<Rightarrow> check_job \<Rightarrow> 'q \<Rightarrow> js_error option \<times> 'q"
  q_remove :: "string \<Rightarrow> 'q \<Rightarrow> js_error option \<times> 'q"

fun upsert_wanted ::
  "'q queue_ops \<Rightarrow> (string \<rightharpoonup> int option) \<Rightarrow> (string \<times> scheduler_spec) list \<Rightarrow> int \<Rightarrow> 'q
   \<Rightarrow> (js_error + int) \<times> 'q" where
  "upsert_wanted ops existing [] n q = (Inr n, q)"
| "upsert_wanted ops existing ((k, spec) # want) n q =
     (if existing k = Some (Some (sp_every spec)) then upsert_wanted ops existing want n q
      else (case q_upsert ops k (sp_every spec) (sp_data spec) q of
              (Some e, q') \<Rightarrow> (Inl e, q')
            | (None, q') \<Rightarrow> upsert_wanted ops existing want (n + 1) q'))"

fun remove_unwanted ::
  "'q queue_ops \<Rightarrow> (string \<times> scheduler_spec) list \<Rightarrow> (string \<times> int option) list \<Rightarrow> int \<Rightarrow> 'q
   \<Rightarrow> (js_error + int) \<times> 'q" where
  "remove_unwanted ops want [] n q = (Inr n, q)"
| "remove_unwanted ops want ((k, e) # existing) n q =
     (if starts_with k SCHEDULER_PREFIX \<and> k \<notin> fst ` set want
      then (case q_remove ops k q of
              (Some err, q') \<Rightarrow> (Inl err, q')
            | (None, q') \<Rightarrow> remove_unwanted ops want existing (n + 1) q')
      else remove_unwanted ops want existing n q)"

text \<open>\<open>new Map(entries)\<close>: the last entry of a key wins.\<close>

definition js_map :: "('k \<times> 'v) list \<Rightarrow> ('k \<rightharpoonup> 'v)" where
  "js_map xs = map_of (rev xs)"

definition sync_queue ::
  "'q queue_ops \<Rightarrow> (string \<times> scheduler_spec) list \<Rightarrow> int \<times> int \<Rightarrow> 'q
   \<Rightarrow> (js_error + int \<times> int) \<times> 'q" where
  "sync_queue ops want counts q =
     (case q_list ops q of
        Inl e \<Rightarrow> (Inl e, q)
      | Inr existing \<Rightarrow>
          (case upsert_wanted ops (js_map existing) want (fst counts) q of
             (Inl e, q1) \<Rightarrow> (Inl e, q1)
           | (Inr ups, q1) \<Rightarrow>
               (case remove_unwanted ops want existing (snd counts) q1 of
                  (Inl e, q2) \<Rightarrow> (Inl e, q2)
                | (Inr rem, q2) \<Rightarrow> (Inr (ups, rem), q2))))"

section \<open>One sync, and the timer\<close>

record sync_summary =
  sm_monitors :: int
  sm_upserts :: int
  sm_removals :: int

fun sync_queues ::
  "'q queue_ops \<Rightarrow> desired_map \<Rightarrow> int \<times> int \<Rightarrow> (probe_region \<times> 'q) list
   \<Rightarrow> (js_error + int \<times> int) \<times> (probe_region \<times> 'q) list" where
  "sync_queues ops desired counts [] = (Inr counts, [])"
| "sync_queues ops desired counts ((region, q) # qs) =
     (case sync_queue ops (desired region) counts q of
        (Inl e, q') \<Rightarrow> (Inl e, (region, q') # qs)
      | (Inr counts', q') \<Rightarrow>
          (case sync_queues ops desired counts' qs of (r, qs') \<Rightarrow> (r, (region, q') # qs')))"

definition sync ::
  "'q queue_ops \<Rightarrow> probe_region option \<Rightarrow> db \<Rightarrow> (probe_region \<times> 'q) list
   \<Rightarrow> (js_error + sync_summary) \<times> (probe_region \<times> 'q) list" where
  "sync ops configured w queues =
     (let defaultRegion = (case configured of None \<Rightarrow> DEFAULT_REGION | Some r \<Rightarrow> r);
          served = fst ` set queues;
          ms = find_many scheduled (monitors w);
          desired = desired_of served defaultRegion ms
      in case sync_queues ops desired (0, 0) queues of
           (Inl e, queues') \<Rightarrow> (Inl e, queues')
         | (Inr (ups, rem), queues') \<Rightarrow>
             (Inr \<lparr>sm_monitors = int (length ms), sm_upserts = ups, sm_removals = rem\<rparr>, queues'))"

text \<open>
  \<open>start\<close>: an initial sync and one per tick, each over the database of its moment; a sync that
  rejects is logged and the next one starts from what it left.
\<close>

definition scheduler_start ::
  "'q queue_ops \<Rightarrow> probe_region option \<Rightarrow> db list \<Rightarrow> (probe_region \<times> 'q) list
   \<Rightarrow> (probe_region \<times> 'q) list" where
  "scheduler_start ops configured ticks queues =
     fold (\<lambda>w qs. snd (sync ops configured w qs)) ticks queues"

section \<open>What is desired\<close>

text \<open>A want list of one queue: distinct keys, all with the scheduler's prefix.\<close>

definition own_keys :: "(string \<times> 'v) list \<Rightarrow> bool" where
  "own_keys xs \<longleftrightarrow> distinct (map fst xs) \<and> (\<forall>k \<in> fst ` set xs. starts_with k SCHEDULER_PREFIX)"

lemma own_keys_set: "own_keys xs \<Longrightarrow> starts_with k SCHEDULER_PREFIX \<Longrightarrow> own_keys (map_set k v xs)"
  using map_set_keys [of k v xs] map_set_distinct [of xs k v] by (simp add: own_keys_def)

lemma region_name_no_colon: "CHR '':'' \<notin> set (region_name r)"
  by (cases r) simp_all

lemma region_name_inj: "region_name r = region_name r' \<Longrightarrow> r = r'"
  by (cases r; cases r'; simp)

lemma split_last_colon:
  assumes "x @ CHR '':'' # a = y @ CHR '':'' # b" "CHR '':'' \<notin> set a" "CHR '':'' \<notin> set b"
  shows "x = y \<and> a = b"
proof -
  let ?f = "\<lambda>s. rev (takeWhile (\<lambda>c. c \<noteq> CHR '':'') (rev s))"
  have "?f (z @ CHR '':'' # c) = c" if "CHR '':'' \<notin> set c" for z c :: string
    using that by (auto simp: takeWhile_tail rev_swap takeWhile_eq_all_conv)
  from this [OF assms(2), of x] this [OF assms(3), of y] assms(1) have "a = b" by simp
  with assms(1) show ?thesis by simp
qed

lemma schedulerId_inj: "schedulerId m r = schedulerId m' r' \<longleftrightarrow> m = m' \<and> r = r'"
  using split_last_colon [OF _ region_name_no_colon region_name_no_colon, of m r m' r'] region_name_inj
  by (auto simp: schedulerId_def)

lemma schedulerId_prefix [simp]: "starts_with (schedulerId m r) SCHEDULER_PREFIX"
  by (simp add: schedulerId_def)

lemma want_regions_lookup:
  "map_of (fold (want_region served m) rs d r) k =
     (if r \<in> served \<and> r \<in> set rs \<and> k = schedulerId (m_id m) r then Some (spec_of m r) else map_of (d r) k)"
  by (induction rs arbitrary: d) (auto simp: want_region_def)

lemma want_monitors_lookup:
  "distinct (map m_id ms) \<Longrightarrow>
   map_of (fold (want_monitor served dr) ms d r) k = Some s \<longleftrightarrow>
     (\<exists>m \<in> set ms. r \<in> served \<and> r \<in> set (monitor_regions dr m) \<and> k = schedulerId (m_id m) r \<and> s = spec_of m r)
     \<or> map_of (d r) k = Some s
       \<and> \<not> (\<exists>m \<in> set ms. r \<in> served \<and> r \<in> set (monitor_regions dr m) \<and> k = schedulerId (m_id m) r)"
proof (induction ms arbitrary: d)
  case (Cons m ms)
  then have "m_id m \<notin> m_id ` set ms" by simp
  with Cons show ?case
    by (auto simp: want_monitor_def want_regions_lookup schedulerId_inj split: if_splits)
qed simp

lemma desired_of_lookup:
  "distinct (map m_id ms) \<Longrightarrow>
   map_of (desired_of served dr ms r) k = Some s \<longleftrightarrow>
     (\<exists>m \<in> set ms. r \<in> served \<and> r \<in> set (monitor_regions dr m) \<and> k = schedulerId (m_id m) r \<and> s = spec_of m r)"
  by (simp add: desired_of_def want_monitors_lookup)

lemma want_regions_keys:
  "\<forall>r. own_keys (d r) \<Longrightarrow> \<forall>r. own_keys (fold (want_region served m) rs d r)"
  by (induction rs arbitrary: d) (simp_all add: want_region_def own_keys_set)

lemma want_monitors_keys:
  "\<forall>r. own_keys (d r) \<Longrightarrow> \<forall>r. own_keys (fold (want_monitor served dr) ms d r)"
  by (induction ms arbitrary: d) (simp_all add: want_monitor_def want_regions_keys)

lemma desired_of_keys: "own_keys (desired_of served dr ms r)"
  using want_monitors_keys [of "\<lambda>_. []" served dr ms] by (simp add: desired_of_def own_keys_def)

lemma js_map_distinct: "distinct (map fst xs) \<Longrightarrow> js_map xs = map_of xs"
  unfolding js_map_def by (subst map_of_inject_set) (simp_all add: rev_map [symmetric])

section \<open>What the queue promises\<close>

locale job_schedulers =
  fixes ops :: "'q queue_ops" and view :: "'q \<Rightarrow> string \<Rightarrow> int option option"
  assumes listed: "q_list ops q = Inr xs \<Longrightarrow> distinct (map fst xs) \<and> map_of xs = view q"
    and upserted: "q_upsert ops k every data q = (None, q') \<Longrightarrow> view q' = (view q)(k \<mapsto> Some every)"
    and removed: "q_remove ops k q = (None, q') \<Longrightarrow> view q' = (view q)(k := None)"
begin

lemma upsert_wanted_view:
  assumes "upsert_wanted ops existing want n q = (Inr n', q')" "distinct (map fst want)"
    and "\<And>k. k \<in> fst ` set want \<Longrightarrow> existing k = view q k"
  shows "view q' k = (case map_of want k of None \<Rightarrow> view q k | Some s \<Rightarrow> Some (Some (sp_every s)))"
  using assms
proof (induction want arbitrary: n q)
  case (Cons x want)
  obtain k' spec where x: "x = (k', spec)" by (cases x)
  have fresh: "map_of want k' = None" "k' \<notin> fst ` set want"
    using Cons.prems(2) by (simp_all add: x map_of_eq_None_iff)
  show ?case
  proof (cases "existing k' = Some (Some (sp_every spec))")
    case True
    with Cons.prems have "view q' k =
        (case map_of want k of None \<Rightarrow> view q k | Some s \<Rightarrow> Some (Some (sp_every s)))"
      by (intro Cons.IH [of n q]) (simp_all add: x)
    moreover have "view q k' = Some (Some (sp_every spec))"
      using True Cons.prems(3) [of k'] by (simp add: x)
    ultimately show ?thesis using fresh by (auto simp: x)
  next
    case False
    then obtain q1 where q1: "q_upsert ops k' (sp_every spec) (sp_data spec) q = (None, q1)"
      "upsert_wanted ops existing want (n + 1) q1 = (Inr n', q')"
      using Cons.prems(1) by (auto simp: x split: prod.splits option.splits)
    have v: "view q1 = (view q)(k' \<mapsto> Some (sp_every spec))" by (rule upserted [OF q1(1)])
    have "view q' k = (case map_of want k of None \<Rightarrow> view q1 k | Some s \<Rightarrow> Some (Some (sp_every s)))"
    proof (rule Cons.IH [OF q1(2)])
      show "existing j = view q1 j" if "j \<in> fst ` set want" for j
        using Cons.prems(3) [of j] that fresh(2) v by (auto simp: x)
    qed (use Cons.prems(2) in \<open>simp add: x\<close>)
    then show ?thesis using fresh v by (auto simp: x split: option.splits)
  qed
qed simp

lemma remove_unwanted_view:
  assumes "remove_unwanted ops want existing n q = (Inr n', q')"
  shows "view q' k =
    (if k \<in> fst ` set existing \<and> starts_with k SCHEDULER_PREFIX \<and> k \<notin> fst ` set want then None
     else view q k)"
  using assms
proof (induction existing arbitrary: n q)
  case (Cons x existing)
  obtain k' e where x: "x = (k', e)" by (cases x)
  show ?case
  proof (cases "starts_with k' SCHEDULER_PREFIX \<and> k' \<notin> fst ` set want")
    case False
    with Cons show ?thesis by (auto simp: x)
  next
    case True
    then obtain q1 where q1: "q_remove ops k' q = (None, q1)"
      "remove_unwanted ops want existing (n + 1) q1 = (Inr n', q')"
      using Cons.prems by (auto simp: x split: prod.splits option.splits)
    with Cons.IH [OF q1(2)] removed [OF q1(1)] True show ?thesis by (auto simp: x)
  qed
qed simp

text \<open>
  One queue after a successful sync: its own keys are exactly the wanted ones, at the wanted
  interval, whatever it held before; a scheduler with another prefix is left alone.
\<close>

lemma sync_queue_view:
  assumes "sync_queue ops want counts q = (Inr counts', q')" "own_keys want"
  shows "view q' k =
    (if starts_with k SCHEDULER_PREFIX then map_option (\<lambda>s. Some (sp_every s)) (map_of want k)
     else view q k)"
proof -
  obtain existing n1 q1 n2 where l: "q_list ops q = Inr existing"
    "upsert_wanted ops (js_map existing) want (fst counts) q = (Inr n1, q1)"
    "remove_unwanted ops want existing (snd counts) q1 = (Inr n2, q')"
    using assms(1) by (auto simp: sync_queue_def split: sum.splits prod.splits)
  have d: "distinct (map fst existing)" "map_of existing = view q" using listed [OF l(1)] by auto
  then have "js_map existing = view q" by (simp add: js_map_distinct)
  moreover have "distinct (map fst want)" using assms(2) by (simp add: own_keys_def)
  ultimately have v1: "view q1 k =
      (case map_of want k of None \<Rightarrow> view q k | Some s \<Rightarrow> Some (Some (sp_every s)))"
    using upsert_wanted_view [OF l(2)] by simp
  have e: "k \<in> fst ` set existing \<longleftrightarrow> view q k \<noteq> None"
    using d(2) by (metis map_of_eq_None_iff)
  show ?thesis
    using remove_unwanted_view [OF l(3), of k] v1 e assms(2)
    by (auto simp: own_keys_def map_of_eq_None_iff split: option.splits dest: map_of_SomeD)
qed

lemma sync_queues_view:
  assumes "sync_queues ops desired counts queues = (Inr counts', queues')"
    and "\<And>r. own_keys (desired r)"
  shows "list_all2 (\<lambda>(r, q) (r', q'). r' = r \<and> (\<forall>k. view q' k =
      (if starts_with k SCHEDULER_PREFIX then map_option (\<lambda>s. Some (sp_every s)) (map_of (desired r) k)
       else view q k))) queues queues'"
  using assms(1)
proof (induction queues arbitrary: counts queues')
  case (Cons x queues)
  obtain r q where x: "x = (r, q)" by (cases x)
  obtain c1 q1 qs1 where s: "sync_queue ops (desired r) counts q = (Inr c1, q1)"
    "sync_queues ops desired c1 queues = (Inr counts', qs1)" "queues' = (r, q1) # qs1"
    using Cons.prems by (auto simp: x split: sum.splits prod.splits)
  with Cons.IH [OF s(2)] sync_queue_view [OF s(1) assms(2)] show ?case by (simp add: x)
qed simp

text \<open>A queue that already holds what is wanted is not touched.\<close>

lemma upsert_wanted_noop:
  "(\<And>k s. (k, s) \<in> set want \<Longrightarrow> existing k = Some (Some (sp_every s))) \<Longrightarrow>
   upsert_wanted ops existing want n q = (Inr n, q)"
  by (induction want) auto

lemma remove_unwanted_noop:
  "(\<And>k. k \<in> fst ` set existing \<Longrightarrow> starts_with k SCHEDULER_PREFIX \<Longrightarrow> k \<in> fst ` set want) \<Longrightarrow>
   remove_unwanted ops want existing n q = (Inr n, q)"
  by (induction existing) auto

lemma sync_queue_noop:
  assumes "q_list ops q = Inr existing" "own_keys want"
    and "\<And>k. starts_with k SCHEDULER_PREFIX \<Longrightarrow>
      view q k = map_option (\<lambda>s. Some (sp_every s)) (map_of want k)"
  shows "sync_queue ops want counts q = (Inr counts, q)"
proof -
  have d: "distinct (map fst existing)" "map_of existing = view q" using listed [OF assms(1)] by auto
  then have j: "js_map existing = view q" by (simp add: js_map_distinct)
  have "upsert_wanted ops (js_map existing) want (fst counts) q = (Inr (fst counts), q)"
    using assms(2,3) unfolding j own_keys_def
    by (intro upsert_wanted_noop) (force simp: map_of_is_SomeI)
  moreover have "remove_unwanted ops want existing (snd counts) q = (Inr (snd counts), q)"
  proof (rule remove_unwanted_noop)
    fix k assume "k \<in> fst ` set existing" "starts_with k SCHEDULER_PREFIX"
    then have "map_option (\<lambda>s. Some (sp_every s)) (map_of want k) \<noteq> None"
      using assms(3) d(2) by (metis map_of_eq_None_iff)
    then show "k \<in> fst ` set want" by (simp add: map_of_eq_None_iff)
  qed
  ultimately show ?thesis using assms(1) by (simp add: sync_queue_def)
qed

lemma sync_queues_noop:
  assumes "\<And>r. own_keys (desired r)"
    and "list_all (\<lambda>(r, q). (\<exists>xs. q_list ops q = Inr xs) \<and>
      (\<forall>k. starts_with k SCHEDULER_PREFIX \<longrightarrow>
         view q k = map_option (\<lambda>s. Some (sp_every s)) (map_of (desired r) k))) queues"
  shows "sync_queues ops desired counts queues = (Inr counts, queues)"
  using assms(2)
proof (induction queues)
  case (Cons x queues)
  obtain r q where x: "x = (r, q)" by (cases x)
  from Cons.prems obtain xs where "q_list ops q = Inr xs" by (auto simp: x)
  then have "sync_queue ops (desired r) counts q = (Inr counts, q)"
    using Cons.prems assms(1) by (intro sync_queue_noop) (auto simp: x)
  with Cons show ?case by (simp add: x)
qed simp

end

section \<open>A queue in memory\<close>

text \<open>The scheduler table of one queue: key, interval and job template, in order of creation.\<close>

type_synonym memory_queue = "(string \<times> int \<times> check_job) list"

definition memory_ops :: "memory_queue queue_ops" where
  "memory_ops =
     \<lparr>q_list = (\<lambda>q. Inr (map (\<lambda>(k, every, _). (k, Some every)) (AList.clearjunk q))),
      q_upsert = (\<lambda>k every data q. (None, map_set k (every, data) q)),
      q_remove = (\<lambda>k q. (None, AList.delete k q))\<rparr>"

definition memory_view :: "memory_queue \<Rightarrow> string \<Rightarrow> int option option" where
  "memory_view q k = map_option (\<lambda>(every, _). Some every) (map_of q k)"

interpretation memory: job_schedulers memory_ops memory_view
proof unfold_locales
  fix q :: memory_queue and xs assume "q_list memory_ops q = Inr xs"
  then have xs: "xs = map (\<lambda>(k, every, _). (k, Some every)) (AList.clearjunk q)"
    by (simp add: memory_ops_def)
  have "map fst xs = map fst (AList.clearjunk q)" by (simp add: xs split_def)
  then have "distinct (map fst xs)" by (simp add: distinct_clearjunk)
  moreover have "map_of xs k = memory_view q k" for k
  proof -
    have "map_of (map (\<lambda>(k, every, _). (k, Some every)) ys) k
        = map_option (\<lambda>(every, _). Some every) (map_of ys k)" for ys :: memory_queue
      by (induction ys) auto
    then show ?thesis by (simp add: xs memory_view_def map_of_clearjunk)
  qed
  ultimately show "distinct (map fst xs) \<and> map_of xs = memory_view q" by auto
qed (auto simp: memory_ops_def memory_view_def fun_eq_iff delete_conv')

section \<open>Reconciliation\<close>

lemma list_all2_second:
  "list_all2 R xs ys \<Longrightarrow> y \<in> set ys \<Longrightarrow> \<exists>x \<in> set xs. R x y"
  by (metis in_set_conv_nth list_all2_conv_all_nth)

definition wants :: "probe_region \<Rightarrow> probe_region \<Rightarrow> monitor_row \<Rightarrow> bool" where
  "wants defaultRegion r m \<longleftrightarrow> scheduled m \<and> r \<in> set (monitor_regions defaultRegion m)"

lemma sync_view:
  assumes "job_schedulers ops view" "distinct (map m_id (monitors w))"
    and "sync ops configured w queues = (Inr summary, queues')"
    and "(r, q') \<in> set queues'" "starts_with k SCHEDULER_PREFIX"
  shows "view q' k = Some e \<longleftrightarrow>
    (\<exists>m \<in> set (monitors w). wants (case configured of None \<Rightarrow> DEFAULT_REGION | Some r \<Rightarrow> r) r m
       \<and> k = schedulerId (m_id m) r \<and> e = Some (max 1 (m_intervalSeconds m) * 1000))"
proof -
  define dr where "dr = (case configured of None \<Rightarrow> DEFAULT_REGION | Some r \<Rightarrow> r)"
  define d where "d = desired_of (fst ` set queues) dr (find_many scheduled (monitors w))"
  obtain c where "sync_queues ops d (0, 0) queues = (Inr c, queues')"
    using assms(3) by (auto simp: sync_def Let_def d_def dr_def split: sum.splits prod.splits)
  from job_schedulers.sync_queues_view [OF assms(1) this] desired_of_keys
  have all: "list_all2 (\<lambda>(r, q) (r', q'). r' = r \<and> (\<forall>k. view q' k =
      (if starts_with k SCHEDULER_PREFIX then map_option (\<lambda>s. Some (sp_every s)) (map_of (d r) k)
       else view q k))) queues queues'" unfolding d_def by blast
  from list_all2_second [OF this assms(4)] obtain q where
    q: "(r, q) \<in> set queues" "view q' k = map_option (\<lambda>s. Some (sp_every s)) (map_of (d r) k)"
    using assms(5) by auto
  have dist: "distinct (map m_id (find_many scheduled (monitors w)))"
    using assms(2) by (simp add: find_many_def distinct_map_filter)
  have "r \<in> fst ` set queues" using q(1) by force
  then show ?thesis
    using q(2) desired_of_lookup [OF dist, of "fst ` set queues" dr r k] unfolding dr_def [symmetric]
    by (auto simp: d_def wants_def find_many_def spec_of_def)
qed

lemma sync_again:
  assumes "job_schedulers ops view"
    and "sync ops configured w queues = (Inr summary, queues')"
    and "\<forall>(r, q) \<in> set queues'. \<exists>xs. q_list ops q = Inr xs"
  shows "sync ops configured w queues' =
    (Inr \<lparr>sm_monitors = sm_monitors summary, sm_upserts = 0, sm_removals = 0\<rparr>, queues')"
proof -
  define dr where "dr = (case configured of None \<Rightarrow> DEFAULT_REGION | Some r \<Rightarrow> r)"
  define d where "d = desired_of (fst ` set queues) dr (find_many scheduled (monitors w))"
  obtain c where "sync_queues ops d (0, 0) queues = (Inr c, queues')"
    and m: "sm_monitors summary = int (length (find_many scheduled (monitors w)))"
    using assms(2) by (auto simp: sync_def Let_def d_def dr_def split: sum.splits prod.splits)
  from job_schedulers.sync_queues_view [OF assms(1) this(1)] desired_of_keys
  have all: "list_all2 (\<lambda>(r, q) (r', q'). r' = r \<and> (\<forall>k. view q' k =
      (if starts_with k SCHEDULER_PREFIX then map_option (\<lambda>s. Some (sp_every s)) (map_of (d r) k)
       else view q k))) queues queues'" unfolding d_def by blast
  have "map fst queues' = map fst queues"
    using all by (induction rule: list_all2_induct) auto
  then have "fst ` set queues' = fst ` set queues" by (metis set_map)
  moreover have "sync_queues ops d (0, 0) queues' = (Inr (0, 0), queues')"
  proof (rule job_schedulers.sync_queues_noop [OF assms(1)])
    show "own_keys (d r)" for r unfolding d_def by (rule desired_of_keys)
    show "list_all (\<lambda>(r, q). (\<exists>xs. q_list ops q = Inr xs) \<and> (\<forall>k. starts_with k SCHEDULER_PREFIX \<longrightarrow>
         view q k = map_option (\<lambda>s. Some (sp_every s)) (map_of (d r) k))) queues'"
      using assms(3) list_all2_second [OF all] by (fastforce simp: list_all_iff)
  qed
  ultimately show ?thesis using m by (simp add: sync_def Let_def d_def dr_def)
qed

end
