(* ===== verification/Samples.thy ===== *)
theory Samples
  imports IncidentService PipelineCases Transports Probes Scheduler
begin

text \<open>
  Concrete inputs the witnesses evaluate: a monitor, a failing and a passing outcome, a bound
  alert channel, and states holding them.
\<close>

definition sample_ids :: "nat \<Rightarrow> id" where
  "sample_ids n = replicate n (CHR ''i'')"

definition sample_monitor :: monitor_row where
  "sample_monitor =
     \<lparr>m_id = ''m1'', m_organizationId = ''o1'', m_groupId = None, m_name = ''Acme'', m_type = T_HTTP,
      m_state = ACTIVE, m_health = H_UP, m_url = Some ''https://acme.test'', m_host = None,
      m_port = None, m_httpMethod = Some GET, m_requestHeaders = None, m_requestBody = None,
      m_expectedStatus = None, m_keyword = None, m_keywordInverted = False, m_followRedirects = True,
      m_verifySsl = True, m_intervalSeconds = 60, m_timeoutSeconds = 10, m_retries = 0,
      m_regions = [], m_failureThreshold = 1, m_successThreshold = 1, m_escalationPolicyId = None,
      m_consecutiveFailures = 0, m_consecutiveSuccesses = 0, m_lastCheckedAt = None,
      m_lastStatusCode = None, m_lastResponseMs = None, m_lastError = None, m_assertions = [],
      m_createdById = None, m_updatedById = None, m_deletedById = None, m_createdAt = 0,
      m_deletedAt = None\<rparr>"

definition outcome_of :: "check_status \<Rightarrow> probe_outcome" where
  "outcome_of s =
     with_attempts
       \<lparr>o_status = s, o_statusCode = None, o_responseMs = Some 5, o_errorType = None,
        o_errorMessage = None, o_cert = None, o_dns = None, o_domain = None, o_validations = []\<rparr> 1"

definition sample_channel :: alert_channel where
  "sample_channel =
     \<lparr>ac_id = ''c1'', ac_organizationId = ''o1'', ac_type = WEBHOOK, ac_name = ''hook'',
      ac_config = JObj [(''url'', JStr ''https://hook.test'')], ac_enabled = True, ac_deletedAt = None\<rparr>"

definition sample_db :: db where
  "sample_db = (empty_db sample_ids)
     \<lparr>monitors := [sample_monitor], channels := [sample_channel],
      bindings := [\<lparr>mc_monitorId = ''m1'', mc_channelId = ''c1''\<rparr>]\<rparr>"

lemma inj_sample_ids: "inj sample_ids"
  by (rule injI) (metis length_replicate sample_ids_def)

abbreviation sample_options :: process_options where
  "sample_options \<equiv> worker_options ''https://app.test'' 0 NA_EAST"

definition sample_down :: db where
  "sample_down = snd (processCheckResult (toSnapshot sample_monitor) (outcome_of C_DOWN) sample_options 1000 sample_db)"

lemma sample_down_incidents:
  "incidents sample_down = [down_incident [] (toSnapshot sample_monitor) (outcome_of C_DOWN) 1000]"
  by code_simp

lemma sample_safe: "safe_ports sample_options"
  by (rule worker.safe_ports_axioms)

lemma sample_down_reachable: "reachable sample_db sample_down"
proof -
  have "engine_step sample_db sample_down"
    by (rule es_check [OF sample_safe])
       (auto simp: sample_down_def intro: prod.collapse [symmetric])
  then show ?thesis by (rule further [OF here])
qed

definition sample_actor :: incident_actor where
  "sample_actor =
     \<lparr>act_userId = Some ''u1'', act_actorType = A_user, act_ipAddress = None, act_userAgent = None\<rparr>"

definition sample_acked :: db where
  "sample_acked = snd (acknowledge ''o1'' [] sample_actor 2000 sample_down)"

lemma sample_acked_incidents:
  "incidents sample_acked =
     [ack_row 2000 sample_actor (down_incident [] (toSnapshot sample_monitor) (outcome_of C_DOWN) 1000)]"
  by code_simp

lemma sample_acked_reachable: "reachable sample_down sample_acked"
  by (rule further [OF here], rule es_ack) (auto simp: sample_acked_def intro: prod.collapse [symmetric])

section \<open>Runtimes\<close>

definition sample_js :: js_host where
  "sample_js =
     \<lparr>json_parse = (\<lambda>_. None), json_stringify = (\<lambda>_. ''''), regex_test = (\<lambda>_ _. None),
      to_number = (\<lambda>_. NaN), fraction_text = (\<lambda>_. '''')\<rparr>"

definition sample_url :: "string \<Rightarrow> url" where
  "sample_url hostname =
     \<lparr>url_href = ''http://'' @ hostname, url_protocol = ''http:'', url_username = '''',
      url_password = '''', url_hostname = hostname, url_port = ''''\<rparr>"

definition sample_parse :: url_parser where
  "sample_parse raw =
     (if raw = ''http://acme.test'' then Some (sample_url ''acme.test'')
      else if raw = ''http://127.0.0.1'' then Some (sample_url ''127.0.0.1'')
      else None)"

definition sample_host :: host where
  "sample_host =
     \<lparr>h_parse_url = sample_parse, h_allow_private = False, h_fetch = None,
      h_exchange = (\<lambda>_. Responded 500 ''boom''), h_stringify = (\<lambda>_. ''{}''),
      h_hmac = (\<lambda>secret text. secret @ text), h_iso = (\<lambda>_. ''1970-01-01T00:00:00.000Z''),
      h_emoji = (\<lambda>_. '''')\<rparr>"

text \<open>The peer redirects to a loopback address.\<close>

definition sample_world :: world where
  "sample_world =
     \<lparr>wd_parse = sample_parse, wd_join = (\<lambda>location _. Some location), wd_allow = False, wd_all = False,
      wd_dns = (\<lambda>_ _. Inr [''93.184.216.34'']),
      wd_http = (\<lambda>_ _. Inr \<lparr>hr_statusCode = Some 302,
        hr_headers = [(''location'', HV_one ''http://127.0.0.1'')], hr_chunks = [], hr_peer = None\<rparr>),
      wd_utf8 = (\<lambda>s. s), wd_early = None, wd_socket = (\<lambda>_ _. Ev_connect None),
      wd_query = (\<lambda>_ _. Inr [Plain ''93.184.216.34'']), wd_dns_aborted = False, wd_aborted = False,
      wd_elapsed = 7\<rparr>"

lemma sample_whatwg: "whatwg (wd_parse sample_world)"
proof -
  have "to_lower ''acme.test'' = ''acme.test''" "to_lower ''127.0.0.1'' = ''127.0.0.1''"
    "isIP ''acme.test'' = 0" by code_simp+
  then show ?thesis
    by (auto simp: whatwg_def sample_world_def sample_parse_def sample_url_def)
qed

section \<open>A codec\<close>

text \<open>A JSON codec on cursors and a date format, in unary.\<close>

definition unary_json :: "json \<Rightarrow> string" where
  "unary_json j =
     (case j of
        JObj [(_, JStr i), (_, JStr t)] \<Rightarrow> replicate (length i) (CHR ''a'') @ ''b'' @ i @ t
      | _ \<Rightarrow> ''c'')"

definition unary_parse :: "string \<Rightarrow> json option" where
  "unary_parse s =
     (let n = length (takeWhile (\<lambda>c. c = CHR ''a'') s); rest = drop (Suc n) s
      in Some (cursor_json \<lparr>cu_id = take n rest, cu_createdAt = drop n rest\<rparr>))"

definition sample_codec :: codec_host where
  "sample_codec =
     \<lparr>ch_stringify = unary_json, ch_parse = unary_parse,
      ch_iso = (\<lambda>t. (if t < 0 then CHR ''-'' else CHR ''+'') # replicate (nat \<bar>t\<bar>) (CHR ''1'')),
      ch_date = (\<lambda>s. if s \<noteq> '''' \<and> hd s = CHR ''-'' then - int (length s - 1) else int (length s - 1))\<rparr>"

lemma sample_codec_ok: "codec_ok sample_codec"
proof -
  have "unary_parse (unary_json (cursor_json c)) = Some (cursor_json c)
      \<and> unary_json (cursor_json c) \<noteq> ''''" for c
    by (cases c) (simp add: unary_parse_def unary_json_def cursor_json_def takeWhile_tail Let_def)
  then show ?thesis by (simp add: codec_ok_def sample_codec_def)
qed

end
