(* ===== verification/ApiSchema.thy ===== *)
theory ApiSchema
  imports Schema
begin

text \<open>
  The tables behind the API that the check engine does not touch, from
  \<^verbatim>\<open>packages/db/prisma/schema.prisma\<close>: organizations and their members, API keys, plans and
  subscriptions, status pages, custom domains and daily statistics. \<open>api\<close> is the whole state of
  the service: the engine's state next to these tables. Secrets the code draws from
  \<open>randomBytes\<close> come from a stream, as the generated identifiers do.
\<close>

section \<open>Organizations\<close>

record organization_row =
  og_id :: id
  og_name :: string
  og_slug :: string
  og_logo :: "string option"
  og_createdAt :: time

record member_row =
  mb_id :: id
  mb_organizationId :: id
  mb_userId :: id
  mb_role :: string
  mb_createdAt :: time

record invitation_row =
  inv_id :: id
  inv_organizationId :: id
  inv_email :: string
  inv_role :: "string option"
  inv_status :: string
  inv_expiresAt :: time

record api_key_row =
  ak_id :: id
  ak_organizationId :: id
  ak_name :: string
  ak_hashedKey :: string
  ak_prefix :: string
  ak_scopes :: "string list"
  ak_lastUsedAt :: "time option"
  ak_expiresAt :: "time option"
  ak_createdById :: "id option"
  ak_revokedAt :: "time option"
  ak_createdAt :: time
  ak_deletedAt :: "time option"

section \<open>Plans\<close>

datatype plan_tier = FREE | STARTER | GROWTH | BUSINESS | ENTERPRISE

datatype subscription_status = TRIALING | SUB_ACTIVE | PAST_DUE | CANCELED | UNPAID | INCOMPLETE

record billing_plan =
  bp_id :: id
  bp_tier :: plan_tier
  bp_name :: string
  bp_description :: "string option"
  bp_stripePriceId :: "string option"
  bp_monitorLimit :: "int option"
  bp_seatLimit :: "int option"
  bp_statusPageLimit :: "int option"
  bp_smsEnabled :: bool
  bp_voiceEnabled :: bool
  bp_ssoEnabled :: bool
  bp_advancedAnalytics :: bool
  bp_customDomainsEnabled :: bool
  bp_meteredAllowances :: "(string \<times> int) list option"
  bp_isPublic :: bool
  bp_sortOrder :: int
  bp_priceCents :: int
  bp_currency :: string

record subscription_row =
  sub_id :: id
  sub_organizationId :: id
  sub_planId :: "id option"
  sub_plan :: plan_tier
  sub_status :: subscription_status
  sub_stripeCustomerId :: "string option"
  sub_stripeSubscriptionId :: "string option"
  sub_stripePriceId :: "string option"
  sub_seats :: int
  sub_monitorLimit :: "int option"
  sub_trialEndsAt :: "time option"
  sub_currentPeriodEnd :: "time option"
  sub_cancelAtPeriodEnd :: bool
  sub_canceledAt :: "time option"

record usage_record =
  us_organizationId :: id
  us_metric :: string
  us_quantity :: int
  us_periodStart :: time

datatype invoice_event_type =
    CHECKOUT_COMPLETED | SUBSCRIPTION_CREATED | SUBSCRIPTION_UPDATED | SUBSCRIPTION_DELETED
  | PAYMENT_SUCCEEDED | PAYMENT_FAILED

record invoice_event =
  ev_id :: id
  ev_organizationId :: id
  ev_subscriptionId :: "id option"
  ev_stripeEventId :: string
  ev_type :: invoice_event_type
  ev_stripeInvoiceId :: "string option"
  ev_amountCents :: "int option"
  ev_currency :: "string option"
  ev_state :: "string option"
  ev_hostedInvoiceUrl :: "string option"
  ev_invoicePdfUrl :: "string option"
  ev_periodStart :: "time option"
  ev_periodEnd :: "time option"
  ev_createdAt :: time

section \<open>Monitor groups and statistics\<close>

record monitor_group =
  gr_id :: id
  gr_organizationId :: id
  gr_name :: string
  gr_deletedAt :: "time option"

record daily_stat =
  ds_organizationId :: id
  ds_monitorId :: id
  ds_region :: "probe_region option"
  ds_day :: time
  ds_totalChecks :: int
  ds_upChecks :: int
  ds_downChecks :: int
  ds_uptimePct :: rat
  ds_avgResponseMs :: "int option"
  ds_p95ResponseMs :: "int option"
  ds_p99ResponseMs :: "int option"
  ds_downtimeSec :: int

section \<open>Status pages\<close>

datatype visibility = V_PUBLIC | V_UNLISTED | V_PRIVATE

datatype component_status =
  OPERATIONAL | DEGRADED_PERFORMANCE | PARTIAL_OUTAGE | MAJOR_OUTAGE | UNDER_MAINTENANCE

datatype page_incident_status = INVESTIGATING | IDENTIFIED | MONITORING | P_RESOLVED

datatype page_incident_impact = IM_NONE | IM_MINOR | IM_MAJOR | IM_CRITICAL | IM_MAINTENANCE

datatype subscriber_status = SS_PENDING | SS_ACTIVE | SS_UNSUBSCRIBED

record status_page =
  sp_id :: id
  sp_organizationId :: id
  sp_slug :: string
  sp_customDomain :: "string option"
  sp_name :: string
  sp_description :: "string option"
  sp_visibility :: visibility
  sp_branding :: "json option"
  sp_createdById :: "id option"
  sp_updatedById :: "id option"
  sp_deletedById :: "id option"
  sp_createdAt :: time
  sp_updatedAt :: time
  sp_deletedAt :: "time option"

record page_component =
  co_id :: id
  co_statusPageId :: id
  co_monitorId :: "id option"
  co_name :: string
  co_description :: "string option"
  co_groupName :: "string option"
  co_status :: component_status
  co_position :: int
  co_showUptime :: bool
  co_createdAt :: time
  co_updatedAt :: time

record page_incident =
  pi_id :: id
  pi_statusPageId :: id
  pi_title :: string
  pi_status :: page_incident_status
  pi_impact :: page_incident_impact
  pi_startedAt :: time
  pi_resolvedAt :: "time option"
  pi_createdAt :: time

record page_update =
  pu_id :: id
  pu_incidentId :: id
  pu_status :: page_incident_status
  pu_body :: string
  pu_createdAt :: time

record subscriber =
  su_id :: id
  su_statusPageId :: id
  su_email :: string
  su_status :: subscriber_status
  su_verificationToken :: "string option"
  su_unsubscribeToken :: "string option"
  su_verifiedAt :: "time option"
  su_unsubscribedAt :: "time option"
  su_createdAt :: time

section \<open>Custom domains\<close>

datatype verification_status = DV_PENDING | DV_VERIFIED | DV_FAILED
datatype ssl_status = SSL_PENDING | SSL_ACTIVE | SSL_FAILED

record custom_domain =
  cd_id :: id
  cd_organizationId :: id
  cd_statusPageId :: id
  cd_domain :: string
  cd_verificationStatus :: verification_status
  cd_verificationToken :: string
  cd_sslStatus :: ssl_status
  cd_verifiedAt :: "time option"
  cd_lastCheckedAt :: "time option"
  cd_lastCheckError :: "string option"
  cd_createdById :: "id option"
  cd_updatedById :: "id option"
  cd_deletedById :: "id option"
  cd_createdAt :: time
  cd_updatedAt :: time
  cd_deletedAt :: "time option"

section \<open>Outgoing subscriber mail\<close>

datatype incident_phase = Ph_opened | Ph_updated | Ph_resolved

text \<open>
  The jobs the status pages put on the e-mail queue: the confirmation of a subscription (address,
  page name, link) and the notice of an incident.
\<close>

record incident_mail =
  im_phase :: incident_phase
  im_to :: string
  im_pageName :: string
  im_incidentTitle :: string
  im_statusLabel :: page_incident_status
  im_body :: string
  im_publicUrl :: string
  im_unsubscribeUrl :: string

datatype status_mail =
    Subscribe_confirm string string string
  | Status_incident incident_mail

section \<open>The state of the API\<close>

record api =
  engine :: db
  organizations :: "organization_row list"
  members :: "member_row list"
  invitations :: "invitation_row list"
  api_keys :: "api_key_row list"
  billing_plans :: "billing_plan list"
  subscriptions :: "subscription_row list"
  usage_records :: "usage_record list"
  invoice_events :: "invoice_event list"
  groups :: "monitor_group list"
  daily_stats :: "daily_stat list"
  pages :: "status_page list"
  components :: "page_component list"
  page_incidents :: "page_incident list"
  page_updates :: "page_update list"
  subscribers :: "subscriber list"
  custom_domains :: "custom_domain list"
  status_mails :: "(string \<times> status_mail) list"  \<comment> \<open>jobId, job\<close>
  secrets :: "nat \<Rightarrow> string"
  next_secret :: nat

definition on_engine :: "(db \<Rightarrow> db) \<Rightarrow> api \<Rightarrow> api" where
  "on_engine f a = a\<lparr>engine := f (engine a)\<rparr>"

text \<open>An identifier the database generates, and a token of \<open>randomBytes\<close>.\<close>

definition gen_id :: "api \<Rightarrow> id \<times> api" where
  "gen_id a = (new_id (engine a), on_engine draw_id a)"

definition gen_token :: "api \<Rightarrow> string \<times> api" where
  "gen_token a = (secrets a (next_secret a), a\<lparr>next_secret := Suc (next_secret a)\<rparr>)"

definition audit :: "audit_event \<Rightarrow> api \<Rightarrow> api" where
  "audit e = on_engine (writeAudit e)"

text \<open>What the client throws when a unique index or a foreign key refuses a write.\<close>

definition unique_violation :: js_error where
  "unique_violation = NodeErr ''P2002'' ''Unique constraint failed''"

definition foreign_key_violation :: js_error where
  "foreign_key_violation = NodeErr ''P2003'' ''Foreign key constraint violated''"

lemma on_engine_sel [simp]:
  "engine (on_engine f a) = f (engine a)"
  "organizations (on_engine f a) = organizations a" "members (on_engine f a) = members a"
  "invitations (on_engine f a) = invitations a" "api_keys (on_engine f a) = api_keys a"
  "billing_plans (on_engine f a) = billing_plans a" "subscriptions (on_engine f a) = subscriptions a"
  "usage_records (on_engine f a) = usage_records a" "invoice_events (on_engine f a) = invoice_events a"
  "groups (on_engine f a) = groups a" "daily_stats (on_engine f a) = daily_stats a"
  "pages (on_engine f a) = pages a" "components (on_engine f a) = components a"
  "page_incidents (on_engine f a) = page_incidents a" "page_updates (on_engine f a) = page_updates a"
  "subscribers (on_engine f a) = subscribers a" "custom_domains (on_engine f a) = custom_domains a"
  "status_mails (on_engine f a) = status_mails a" "secrets (on_engine f a) = secrets a"
  "next_secret (on_engine f a) = next_secret a"
  by (simp_all add: on_engine_def)

lemma audit_sel [simp]:
  "engine (audit e a) = writeAudit e (engine a)"
  "organizations (audit e a) = organizations a" "members (audit e a) = members a"
  "invitations (audit e a) = invitations a" "api_keys (audit e a) = api_keys a"
  "billing_plans (audit e a) = billing_plans a" "subscriptions (audit e a) = subscriptions a"
  "usage_records (audit e a) = usage_records a" "invoice_events (audit e a) = invoice_events a"
  "groups (audit e a) = groups a" "daily_stats (audit e a) = daily_stats a"
  "pages (audit e a) = pages a" "components (audit e a) = components a"
  "page_incidents (audit e a) = page_incidents a" "page_updates (audit e a) = page_updates a"
  "subscribers (audit e a) = subscribers a" "custom_domains (audit e a) = custom_domains a"
  "status_mails (audit e a) = status_mails a" "secrets (audit e a) = secrets a"
  "next_secret (audit e a) = next_secret a"
  by (simp_all add: audit_def)

definition empty_api :: "db \<Rightarrow> (nat \<Rightarrow> string) \<Rightarrow> api" where
  "empty_api w ss =
     \<lparr>engine = w, organizations = [], members = [], invitations = [], api_keys = [],
      billing_plans = [], subscriptions = [], usage_records = [], invoice_events = [], groups = [],
      daily_stats = [], pages = [], components = [], page_incidents = [], page_updates = [],
      subscribers = [], custom_domains = [], status_mails = [], secrets = ss, next_secret = 0\<rparr>"

end
