(* ===== verification/Access.thy ===== *)
theory Access
  imports ApiSchema
begin

text \<open>
  Who may do what. The role matrix and the API key scopes of
  \<^verbatim>\<open>packages/shared/src/roles.ts\<close>, the error codes of \<^verbatim>\<open>errors.ts\<close>, API keys
  (\<^verbatim>\<open>apps/api/src/services/api-key.service.ts\<close> and \<^verbatim>\<open>routes/api-keys.ts\<close>) and the middleware every
  request to an organization passes, in the order \<^verbatim>\<open>server.ts\<close> mounts it. A middleware maps the
  request's context to a new one or to the error it hands to \<open>next\<close>; the error handler turns
  an error into a response.
\<close>

section \<open>Roles\<close>

definition ORG_ROLES :: "string list" where
  "ORG_ROLES = [''owner'', ''admin'', ''manager'', ''developer'', ''viewer'']"

text \<open>An object literal of action lists, in the order of its keys.\<close>

type_synonym permission_set = "(string \<times> string list) list"

definition permissionStatements :: permission_set where
  "permissionStatements =
     [(''organization'', [''read'', ''update'', ''delete'']),
      (''member'', [''read'', ''create'', ''update'', ''delete'']),
      (''invitation'', [''read'', ''create'', ''cancel'']),
      (''billing'', [''read'', ''manage'']),
      (''auditLog'', [''read'']),
      (''apiKey'', [''read'', ''create'', ''revoke'']),
      (''monitor'', [''read'', ''create'', ''update'', ''delete'']),
      (''statusPage'', [''read'', ''create'', ''update'', ''delete'']),
      (''alertChannel'', [''read'', ''create'', ''update'', ''delete'']),
      (''escalationPolicy'', [''read'', ''create'', ''update'', ''delete'']),
      (''onCallSchedule'', [''read'', ''create'', ''update'', ''delete''])]"

definition ALL_GRANTS :: permission_set where
  "ALL_GRANTS = map (\<lambda>(resource, actions). (resource, actions)) permissionStatements"

definition READ_EVERYTHING :: permission_set where
  "READ_EVERYTHING =
     map (\<lambda>(resource, _). (resource, [''read'']))
       (filter (\<lambda>(_, actions). ''read'' \<in> set actions) permissionStatements)"

definition OPERATE :: permission_set where
  "OPERATE =
     map (\<lambda>resource. (resource, [''read'', ''create'', ''update'', ''delete'']))
       [''monitor'', ''statusPage'', ''alertChannel'', ''escalationPolicy'', ''onCallSchedule'']"

text \<open>\<open>{ ...a, ...b }\<close>\<close>

definition spread :: "permission_set \<Rightarrow> permission_set \<Rightarrow> permission_set" where
  "spread a b = fold (\<lambda>(k, v). map_set k v) b a"

definition rolePermissions :: "string \<Rightarrow> permission_set" where
  "rolePermissions role =
     (if role = ''owner'' then ALL_GRANTS
      else if role = ''admin'' then
        spread ALL_GRANTS [(''organization'', [''read'', ''update'']), (''billing'', [''read''])]
      else if role = ''manager'' then
        spread
          [(''organization'', [''read'']),
           (''member'', [''read'', ''create'', ''update'']),
           (''invitation'', [''read'', ''create'', ''cancel'']),
           (''billing'', [''read'']),
           (''auditLog'', [''read'']),
           (''apiKey'', [''read'', ''create'', ''revoke''])] OPERATE
      else if role = ''developer'' then
        spread
          [(''organization'', [''read'']),
           (''apiKey'', [''read'', ''create'', ''revoke''])] OPERATE
      else READ_EVERYTHING)"

definition isOrgRole :: "string \<Rightarrow> bool" where
  "isOrgRole value = (value \<in> set ORG_ROLES)"

definition hasPermission :: "string \<Rightarrow> string \<Rightarrow> string list \<Rightarrow> bool" where
  "hasPermission role resource actions =
     (if \<not> isOrgRole role then False
      else (case map_of (rolePermissions role) resource of
              None \<Rightarrow> False
            | Some granted \<Rightarrow> list_all (\<lambda>action. action \<in> set granted) actions))"

definition assignableRoles :: "string \<Rightarrow> string list" where
  "assignableRoles actorRole =
     (if actorRole = ''owner'' then ORG_ROLES
      else if actorRole = ''admin'' then [''admin'', ''manager'', ''developer'', ''viewer'']
      else if actorRole = ''manager'' then [''developer'', ''viewer'']
      else [])"

section \<open>API key scopes\<close>

definition scopeAllows :: "string list \<Rightarrow> string \<Rightarrow> string \<Rightarrow> bool" where
  "scopeAllows scopes resource action =
     list_ex (\<lambda>s. s = ''*'' \<or> s = resource @ '':*'' \<or> s = resource @ '':'' @ action) scopes"

definition hasScopePermission :: "string list \<Rightarrow> string \<Rightarrow> string list \<Rightarrow> bool" where
  "hasScopePermission scopes resource actions =
     list_all (\<lambda>action. scopeAllows scopes resource action) actions"

text \<open>
  The members every object inherits from \<open>Object.prototype\<close>: \<open>in\<close> finds them, and none of their
  values is an array, so calling \<open>includes\<close> on one is a \<open>TypeError\<close>.
\<close>

definition OBJECT_PROTOTYPE :: "string list" where
  "OBJECT_PROTOTYPE =
     [''constructor'', ''__defineGetter__'', ''__defineSetter__'', ''hasOwnProperty'',
      ''__lookupGetter__'', ''__lookupSetter__'', ''isPrototypeOf'', ''propertyIsEnumerable'',
      ''toString'', ''valueOf'', ''__proto__'', ''toLocaleString'']"

definition isValidScope :: "string \<Rightarrow> js_error + bool" where
  "isValidScope scope =
     (if scope = ''*'' then Inr True
      else (case split_on (CHR '':'') scope of
              [resource, action] \<Rightarrow>
                if resource = '''' \<or> action = '''' then Inr False
                else (case map_of permissionStatements resource of
                        Some actions \<Rightarrow> Inr (action = ''*'' \<or> action \<in> set actions)
                      | None \<Rightarrow>
                          if resource \<notin> set OBJECT_PROTOTYPE then Inr False
                          else if action = ''*'' then Inr True
                          else Inl (Err ''actions.includes is not a function''))
            | _ \<Rightarrow> Inr False))"

section \<open>Errors and responses\<close>

fun DEFAULT_STATUS :: "error_code \<Rightarrow> int" where
  "DEFAULT_STATUS bad_request = 400"
| "DEFAULT_STATUS validation_failed = 400"
| "DEFAULT_STATUS unauthorized = 401"
| "DEFAULT_STATUS forbidden = 403"
| "DEFAULT_STATUS payment_required = 402"
| "DEFAULT_STATUS not_found = 404"
| "DEFAULT_STATUS conflict = 409"
| "DEFAULT_STATUS rate_limited = 429"
| "DEFAULT_STATUS internal_error = 500"
| "DEFAULT_STATUS service_unavailable = 503"

record app_error =
  ae_code :: error_code
  ae_message :: string
  ae_status :: int
  ae_details :: "json option"
  ae_expose :: bool

definition AppError :: "error_code \<Rightarrow> string \<Rightarrow> int option \<Rightarrow> json option \<Rightarrow> app_error" where
  "AppError code message status details =
     (let st = (case status of None \<Rightarrow> DEFAULT_STATUS code | Some s \<Rightarrow> s)
      in \<lparr>ae_code = code, ae_message = message, ae_status = st, ae_details = details,
          ae_expose = (st < 500)\<rparr>)"

text \<open>
  What reaches the error handler: an \<open>AppError\<close>, a \<open>ZodError\<close> with its flattened issues, a known
  Prisma error with its code, an \<open>Error\<close> with a numeric \<open>status\<close>, or anything else.
\<close>

datatype thrown =
    ThrownApp app_error
  | ThrownZod json
  | ThrownPrisma string string
  | ThrownHttp string int
  | ThrownOther string

record error_body =
  eb_code :: error_code
  eb_message :: string
  eb_requestId :: string
  eb_details :: "json option"

definition toAppError :: "thrown \<Rightarrow> app_error" where
  "toAppError err =
     (case err of
        ThrownApp e \<Rightarrow> e
      | ThrownZod issues \<Rightarrow> AppError validation_failed ''Request validation failed.'' None (Some issues)
      | ThrownPrisma code _ \<Rightarrow>
          if code = ''P2002''
          then AppError conflict ''A resource with these unique values already exists.'' None None
          else if code = ''P2025'' then AppError not_found ''Resource not found.'' None None
          else AppError internal_error ''Database error.'' None None
      | ThrownHttp message status \<Rightarrow>
          if status \<ge> 400 \<and> status < 500
          then AppError bad_request (if message = '''' then ''Malformed request body.'' else message)
                 (Some status) None
          else AppError internal_error ''Internal server error.'' None None
      | ThrownOther _ \<Rightarrow> AppError internal_error ''Internal server error.'' None None)"

text \<open>\<open>None\<close>: the headers are out already and the error goes to Express.\<close>

definition errorHandler :: "bool \<Rightarrow> thrown \<Rightarrow> string \<Rightarrow> (int \<times> error_body) option" where
  "errorHandler headersSent err requestId =
     (if headersSent then None
      else (let e = toAppError err
            in Some (ae_status e,
                 \<lparr>eb_code = ae_code e,
                  eb_message = (if ae_expose e then ae_message e else ''Internal server error.''),
                  eb_requestId = requestId,
                  eb_details = (if ae_expose e then ae_details e else None)\<rparr>)))"

section \<open>API keys\<close>

definition API_KEY_PREFIX :: string where "API_KEY_PREFIX = ''uf_''"

record verified_key =
  vk_id :: id
  vk_name :: string
  vk_organizationId :: id
  vk_scopes :: "string list"

record created_key =
  ck_id :: id
  ck_name :: string
  ck_prefix :: string
  ck_scopes :: "string list"
  ck_expiresAt :: "time option"
  ck_token :: string

text \<open>The digest is the host's SHA-256 in hexadecimal; the column is unique.\<close>

definition create_key ::
  "(string \<Rightarrow> string) \<Rightarrow> id \<Rightarrow> string \<Rightarrow> string list \<Rightarrow> time option \<Rightarrow> id option \<Rightarrow> time \<Rightarrow> api
   \<Rightarrow> (js_error + created_key) \<times> api" where
  "create_key hashToken organizationId name scopes expiresAt createdById now a =
     (let (secret, a1) = gen_token a;
          token = API_KEY_PREFIX @ secret;
          prefix = take (length API_KEY_PREFIX + 8) token;
          (kid, a2) = gen_id a1
      in if \<exists>k \<in> set (api_keys a2). ak_hashedKey k = hashToken token
         then (Inl (NodeErr ''P2002'' ''Unique constraint failed''), a1)
         else (Inr \<lparr>ck_id = kid, ck_name = name, ck_prefix = prefix, ck_scopes = scopes,
                     ck_expiresAt = expiresAt, ck_token = token\<rparr>,
               a2\<lparr>api_keys := insert_row
                   \<lparr>ak_id = kid, ak_organizationId = organizationId, ak_name = name,
                    ak_hashedKey = hashToken token, ak_prefix = prefix, ak_scopes = scopes,
                    ak_lastUsedAt = None, ak_expiresAt = expiresAt, ak_createdById = createdById,
                    ak_revokedAt = None, ak_createdAt = now, ak_deletedAt = None\<rparr> (api_keys a2)\<rparr>))"

text \<open>The usage stamp is best effort: \<open>stamped\<close> says whether that write succeeds.\<close>

definition verify_key ::
  "(string \<Rightarrow> string) \<Rightarrow> bool \<Rightarrow> string \<Rightarrow> time \<Rightarrow> api \<Rightarrow> verified_key option \<times> api" where
  "verify_key hashToken stamped token now a =
     (if \<not> starts_with token API_KEY_PREFIX then (None, a)
      else (case find_first (\<lambda>k. ak_hashedKey k = hashToken token) (api_keys a) of
              None \<Rightarrow> (None, a)
            | Some record \<Rightarrow>
                if ak_revokedAt record \<noteq> None \<or> ak_deletedAt record \<noteq> None then (None, a)
                else if (case ak_expiresAt record of None \<Rightarrow> False | Some t \<Rightarrow> t \<le> now) then (None, a)
                else (Some \<lparr>vk_id = ak_id record, vk_name = ak_name record,
                            vk_organizationId = ak_organizationId record, vk_scopes = ak_scopes record\<rparr>,
                      if stamped
                      then a\<lparr>api_keys := update_rows (\<lambda>k. ak_id k = ak_id record)
                               (\<lambda>k. k\<lparr>ak_lastUsedAt := Some now\<rparr>) (api_keys a)\<rparr>
                      else a)))"

definition list_keys :: "id \<Rightarrow> api \<Rightarrow> api_key_row list" where
  "list_keys organizationId a =
     sort_key (\<lambda>k. - ak_createdAt k)
       (find_many (\<lambda>k. ak_organizationId k = organizationId \<and> ak_deletedAt k = None) (api_keys a))"

definition revoke_key :: "id \<Rightarrow> id \<Rightarrow> time \<Rightarrow> api \<Rightarrow> bool \<times> api" where
  "revoke_key organizationId kid now a =
     (let P = (\<lambda>k. ak_id k = kid \<and> ak_organizationId k = organizationId \<and> ak_deletedAt k = None)
      in (0 < count_rows P (api_keys a),
          a\<lparr>api_keys := update_rows P
               (\<lambda>k. k\<lparr>ak_revokedAt := Some now, ak_deletedAt := Some now\<rparr>) (api_keys a)\<rparr>))"

section \<open>Middleware\<close>

text \<open>
  What the middleware reads of a request: the two headers (a header sent twice is an array, here
  \<open>None\<close>), the user of the cookie session as Better Auth resolves it, and the route parameters.
\<close>

record request =
  req_apiKeyHeader :: "string option"
  req_authorization :: "string option"
  req_session :: "id option"
  req_organizationId :: string

datatype principal =
    Session id id string        \<comment> \<open>user, membership, role\<close>
  | Key id "string list"        \<comment> \<open>key, scopes\<close>

datatype caller = ByKey verified_key | BySession id

record org_context =
  ctx_organizationId :: id
  ctx_organization :: organization_row
  ctx_principal :: principal

definition extractApiKey :: "request \<Rightarrow> string option" where
  "extractApiKey req =
     (let bearer =
            (case req_authorization req of
               Some auth \<Rightarrow>
                 (if starts_with auth ''Bearer ''
                  then (let token = trim (drop (length ''Bearer '') auth)
                        in if starts_with token API_KEY_PREFIX then Some token else None)
                  else None)
             | None \<Rightarrow> None)
      in case req_apiKeyHeader req of
           Some header \<Rightarrow> if length header > 0 then Some header else bearer
         | None \<Rightarrow> bearer)"

definition unauthorized_error :: js_error where
  "unauthorized_error = AppErr unauthorized ''Authentication required.''"

definition not_found_error :: js_error where
  "not_found_error = AppErr not_found ''Resource not found.''"

definition authenticate ::
  "(string \<Rightarrow> string) \<Rightarrow> bool \<Rightarrow> request \<Rightarrow> time \<Rightarrow> api \<Rightarrow> (js_error + caller) \<times> api" where
  "authenticate hashToken stamped req now a =
     (case extractApiKey req of
        Some presented \<Rightarrow>
          (case verify_key hashToken stamped presented now a of
             (None, a') \<Rightarrow> (Inl (AppErr unauthorized ''Invalid or expired API key.''), a')
           | (Some key, a') \<Rightarrow> (Inr (ByKey key), a'))
      | None \<Rightarrow>
          (case req_session req of
             None \<Rightarrow> (Inl unauthorized_error, a)
           | Some user \<Rightarrow> (Inr (BySession user), a)))"

definition org_not_found :: js_error where
  "org_not_found = AppErr not_found ''Organization not found.''"

definition orgContext :: "string \<Rightarrow> caller \<Rightarrow> api \<Rightarrow> js_error + org_context" where
  "orgContext organizationId c a =
     (if organizationId = '''' then Inl (AppErr bad_request ''Missing organization id.'')
      else (case c of
              ByKey key \<Rightarrow>
                if vk_organizationId key \<noteq> organizationId then Inl org_not_found
                else (case find_first (\<lambda>o'. og_id o' = organizationId) (organizations a) of
                        None \<Rightarrow> Inl org_not_found
                      | Some organization \<Rightarrow>
                          Inr \<lparr>ctx_organizationId = organizationId, ctx_organization = organization,
                               ctx_principal = Key (vk_id key) (vk_scopes key)\<rparr>)
            | BySession user \<Rightarrow>
                (case find_first (\<lambda>m. mb_organizationId m = organizationId \<and> mb_userId m = user)
                        (members a) of
                   None \<Rightarrow> Inl org_not_found
                 | Some membership \<Rightarrow>
                     if \<not> isOrgRole (mb_role membership)
                     then Inl (AppErr forbidden ''Your role in this organization is not recognized.'')
                     else (case find_first (\<lambda>o'. og_id o' = organizationId) (organizations a) of
                             None \<Rightarrow> Inl (Err ''Inconsistent query result'')
                           | Some organization \<Rightarrow>
                               Inr \<lparr>ctx_organizationId = organizationId, ctx_organization = organization,
                                    ctx_principal = Session user (mb_id membership) (mb_role membership)\<rparr>))))"

definition principal_allows :: "principal \<Rightarrow> string \<Rightarrow> string list \<Rightarrow> bool" where
  "principal_allows p resource actions =
     (case p of
        Session _ _ role \<Rightarrow> hasPermission role resource actions
      | Key _ scopes \<Rightarrow> hasScopePermission scopes resource actions)"

definition requirePermission :: "string \<Rightarrow> string list \<Rightarrow> org_context \<Rightarrow> js_error + org_context" where
  "requirePermission resource actions ctx =
     (if principal_allows (ctx_principal ctx) resource actions then Inr ctx
      else Inl (AppErr forbidden
             ((case ctx_principal ctx of Session _ _ role \<Rightarrow> ''Your role ('' @ role @ '')''
               | Key _ _ \<Rightarrow> ''This API key'')
              @ '' does not allow '' @ join '','' actions @ '' on '' @ resource @ ''.'')))"

definition requireResource ::
  "(id \<Rightarrow> 'r option) \<Rightarrow> ('r \<Rightarrow> id) \<Rightarrow> string \<Rightarrow> org_context \<Rightarrow> js_error + 'r" where
  "requireResource load orgOf param ctx =
     (if param = '''' then Inl not_found_error
      else (case load param of
              None \<Rightarrow> Inl not_found_error
            | Some resource \<Rightarrow>
                if orgOf resource \<noteq> ctx_organizationId ctx then Inl not_found_error
                else Inr resource))"

text \<open>The chain in front of every handler of an organization's routes.\<close>

definition guard ::
  "(string \<Rightarrow> string) \<Rightarrow> bool \<Rightarrow> string \<Rightarrow> string list \<Rightarrow> request \<Rightarrow> time \<Rightarrow> api
   \<Rightarrow> (js_error + org_context) \<times> api" where
  "guard hashToken stamped resource actions req now a =
     (case authenticate hashToken stamped req now a of
        (Inl e, a') \<Rightarrow> (Inl e, a')
      | (Inr c, a') \<Rightarrow>
          (case orgContext (req_organizationId req) c a' of
             Inl e \<Rightarrow> (Inl e, a')
           | Inr ctx \<Rightarrow> (requirePermission resource actions ctx, a')))"

section \<open>The API key routes\<close>

text \<open>
  The body schema of \<^verbatim>\<open>routes/api-keys.ts\<close>. An exception in a \<open>refine\<close> callback leaves
  \<open>parse\<close>; every other violation is collected into one \<open>ZodError\<close>, whose issues are \<open>issues\<close>.
\<close>

definition parse_key_body ::
  "json \<Rightarrow> string \<Rightarrow> string list \<Rightarrow> time option \<Rightarrow> time \<Rightarrow> thrown + string \<times> string list \<times> time option" where
  "parse_key_body issues name scopes expiresAt now =
     (let name' = trim name in
      case List.find (\<lambda>s. case isValidScope s of Inl _ \<Rightarrow> True | Inr _ \<Rightarrow> False) scopes of
        Some _ \<Rightarrow> Inl (ThrownOther ''actions.includes is not a function'')
      | None \<Rightarrow>
          if 1 \<le> length name' \<and> length name' \<le> 120
             \<and> list_all (\<lambda>s. isValidScope s = Inr True) scopes \<and> 1 \<le> length scopes \<and> length scopes \<le> 50
             \<and> (case expiresAt of None \<Rightarrow> True | Some t \<Rightarrow> now < t)
          then Inr (name', scopes, expiresAt)
          else Inl (ThrownZod issues))"

fun thrown_of :: "js_error \<Rightarrow> thrown" where
  "thrown_of (AppErr c m) = ThrownApp (AppError c m None None)"
| "thrown_of (NodeErr c m) = ThrownPrisma c m"
| "thrown_of e = ThrownOther (err_message e)"

definition post_api_key ::
  "(string \<Rightarrow> string) \<Rightarrow> bool \<Rightarrow> json \<Rightarrow> string \<Rightarrow> string list \<Rightarrow> time option \<Rightarrow> request \<Rightarrow> time \<Rightarrow> api
   \<Rightarrow> (thrown + created_key) \<times> api" where
  "post_api_key hashToken stamped issues name scopes expiresAt req now a =
     (case guard hashToken stamped ''apiKey'' [''create''] req now a of
        (Inl e, a') \<Rightarrow> (Inl (thrown_of e), a')
      | (Inr ctx, a') \<Rightarrow>
          (case parse_key_body issues name scopes expiresAt now of
             Inl e \<Rightarrow> (Inl e, a')
           | Inr (name', scopes', expiresAt') \<Rightarrow>
               (let createdById = (case ctx_principal ctx of Session user _ _ \<Rightarrow> Some user | Key _ _ \<Rightarrow> None)
                in case create_key hashToken (ctx_organizationId ctx) name' scopes' expiresAt' createdById now a' of
                     (Inl e, a2) \<Rightarrow> (Inl (thrown_of e), a2)
                   | (Inr created, a2) \<Rightarrow> (Inr created, a2))))"

definition delete_api_key ::
  "(string \<Rightarrow> string) \<Rightarrow> bool \<Rightarrow> id \<Rightarrow> request \<Rightarrow> time \<Rightarrow> api \<Rightarrow> (thrown + unit) \<times> api" where
  "delete_api_key hashToken stamped keyId req now a =
     (case guard hashToken stamped ''apiKey'' [''revoke''] req now a of
        (Inl e, a') \<Rightarrow> (Inl (thrown_of e), a')
      | (Inr ctx, a') \<Rightarrow>
          (case requireResource (\<lambda>i. find_first (\<lambda>k. ak_id k = i) (api_keys a')) ak_organizationId keyId ctx of
             Inl e \<Rightarrow> (Inl (thrown_of e), a')
           | Inr key \<Rightarrow> (Inr (), snd (revoke_key (ctx_organizationId ctx) (ak_id key) now a'))))"

definition get_api_keys ::
  "(string \<Rightarrow> string) \<Rightarrow> bool \<Rightarrow> request \<Rightarrow> time \<Rightarrow> api \<Rightarrow> (thrown + api_key_row list) \<times> api" where
  "get_api_keys hashToken stamped req now a =
     (case guard hashToken stamped ''apiKey'' [''read''] req now a of
        (Inl e, a') \<Rightarrow> (Inl (thrown_of e), a')
      | (Inr ctx, a') \<Rightarrow> (Inr (list_keys (ctx_organizationId ctx) a'), a'))"

section \<open>Rate limiting and request ids\<close>

text \<open>
  The limiter is a parameter: \<open>Inr\<close> the remaining points, \<open>Inl\<close> the milliseconds until the next
  window, or a failure of the store.
\<close>

datatype limiter_answer = Consumed int | Rejected int | Limiter_failed js_error

definition ceil_div :: "int \<Rightarrow> int \<Rightarrow> int" where
  "ceil_div x y = - ((- x) div y)"

definition rateLimit ::
  "(int \<times> limiter_answer) option \<Rightarrow> (string \<times> int) list \<times> js_error option" where
  "rateLimit limiter =
     (case limiter of
        None \<Rightarrow> ([], None)
      | Some (points, Consumed remaining) \<Rightarrow>
          ([(''X-RateLimit-Limit'', points), (''X-RateLimit-Remaining'', max 0 remaining)], None)
      | Some (points, Rejected msBeforeNext) \<Rightarrow>
          ([(''Retry-After'', max 1 (ceil_div msBeforeNext 1000)), (''X-RateLimit-Limit'', points),
            (''X-RateLimit-Remaining'', 0)],
           Some (AppErr rate_limited ''Too many requests. Slow down and retry shortly.''))
      | Some (_, Limiter_failed e) \<Rightarrow> ([], Some e))"

definition word_dot_dash :: "char \<Rightarrow> bool" where
  "word_dot_dash c =
     (is_digit c \<or> is_lower_alpha (lower_char c) \<or> c \<in> {CHR ''_'', CHR ''.'', CHR ''-''})"

definition requestId :: "string option \<Rightarrow> string \<Rightarrow> string" where
  "requestId inbound uuid =
     (case inbound of
        Some i \<Rightarrow> if 8 \<le> length i \<and> length i \<le> 64 \<and> list_all word_dot_dash i then i else uuid
      | None \<Rightarrow> uuid)"

section \<open>What the matrix grants\<close>

lemma hasPermission_cases:
  "hasPermission role resource actions \<Longrightarrow> role \<in> {''owner'', ''admin'', ''manager'', ''developer'', ''viewer''}"
  by (auto simp: hasPermission_def isOrgRole_def ORG_ROLES_def split: if_splits)

text \<open>\<open>subset_grants p q\<close>: every action of \<open>p\<close> is granted by \<open>q\<close>.\<close>

definition subset_grants :: "permission_set \<Rightarrow> permission_set \<Rightarrow> bool" where
  "subset_grants p q \<longleftrightarrow>
     list_all (\<lambda>(resource, actions). case map_of q resource of
        None \<Rightarrow> False | Some granted \<Rightarrow> list_all (\<lambda>x. x \<in> set granted) actions) p"

lemma subset_grants_permission:
  assumes "subset_grants (rolePermissions r) (rolePermissions r')" "isOrgRole r'"
    and "hasPermission r resource actions"
  shows "hasPermission r' resource actions"
proof -
  obtain granted where g: "map_of (rolePermissions r) resource = Some granted"
    "list_all (\<lambda>a. a \<in> set granted) actions"
    using assms(3) by (auto simp: hasPermission_def split: if_splits option.splits)
  from map_of_SomeD [OF g(1)] assms(1) obtain granted' where
    "map_of (rolePermissions r') resource = Some granted'" "list_all (\<lambda>x. x \<in> set granted') granted"
    by (auto simp: subset_grants_def list_all_iff split: option.splits)
  with g(2) assms(2) show ?thesis by (auto simp: hasPermission_def list_all_iff)
qed

lemma assignable_subset:
  "r' \<in> set (assignableRoles r) \<Longrightarrow>
     isOrgRole r \<and> isOrgRole r' \<and> subset_grants (rolePermissions r') (rolePermissions r)"
proof -
  have t: "list_all (\<lambda>r. list_all (\<lambda>r'. isOrgRole r' \<and> subset_grants (rolePermissions r') (rolePermissions r))
      (assignableRoles r)) ORG_ROLES" by code_simp
  assume r: "r' \<in> set (assignableRoles r)"
  then have "r \<in> set ORG_ROLES" by (auto simp: assignableRoles_def ORG_ROLES_def split: if_splits)
  with t r show ?thesis by (auto simp: list_all_iff isOrgRole_def)
qed

text \<open>The viewer reads everything and nothing else is granted to it.\<close>

lemma viewer_grants:
  "map_of (rolePermissions ''viewer'') resource =
     (if resource \<in> fst ` set permissionStatements then Some [''read''] else None)"
proof -
  have "map_of (map (\<lambda>x. (fst x, c)) xs) resource = (if resource \<in> fst ` set xs then Some c else None)"
    for c :: "string list" and xs :: permission_set
    by (induction xs) auto
  moreover have "rolePermissions ''viewer'' = map (\<lambda>x. (fst x, [''read''])) permissionStatements" by code_simp
  ultimately show ?thesis by (simp only:)
qed

section \<open>Scopes\<close>

lemma scopeAllows_star [simp]: "''*'' \<in> set scopes \<Longrightarrow> scopeAllows scopes resource action"
  by (auto simp: scopeAllows_def list_ex_iff)

lemma hasScopePermission_star: "''*'' \<in> set scopes \<Longrightarrow> hasScopePermission scopes resource actions"
  by (simp add: hasScopePermission_def list_all_iff)

section \<open>Keys\<close>

lemma verify_key_Some:
  assumes "verify_key hash stamped token now a = (Some v, a')"
  shows "\<exists>k \<in> set (api_keys a). ak_hashedKey k = hash token \<and> ak_revokedAt k = None \<and> ak_deletedAt k = None
    \<and> (case ak_expiresAt k of None \<Rightarrow> True | Some t \<Rightarrow> now < t)
    \<and> vk_id v = ak_id k \<and> vk_organizationId v = ak_organizationId k \<and> vk_scopes v = ak_scopes k"
  using assms
  by (auto simp: verify_key_def not_le split: if_splits option.splits dest!: find_first_Some_iff
        intro!: bexI)

lemma verify_key_organizations [simp]:
  "organizations (snd (verify_key hash stamped token now a)) = organizations a"
  "members (snd (verify_key hash stamped token now a)) = members a"
  by (simp_all add: verify_key_def split: option.split)

lemma authenticate_keeps:
  "authenticate hash stamped req now a = (r, a') \<Longrightarrow> organizations a' = organizations a \<and> members a' = members a"
  using verify_key_organizations [of hash stamped _ now a]
  by (auto simp: authenticate_def split: option.splits prod.splits; metis snd_conv)

lemma guard_Inr:
  assumes "guard hash stamped resource actions req now a = (Inr ctx, a')"
  shows "\<exists>c. authenticate hash stamped req now a = (Inr c, a') \<and> orgContext (req_organizationId req) c a' = Inr ctx
    \<and> principal_allows (ctx_principal ctx) resource actions \<and> ctx_organizationId ctx = req_organizationId req"
  using assms
  by (auto simp: guard_def requirePermission_def orgContext_def split: prod.splits sum.splits if_splits
        caller.splits option.splits)

section \<open>Creating and using a key\<close>

lemma create_key_Inr:
  assumes "create_key hash org name scopes expiresAt by now a = (Inr created, a')"
  shows "\<exists>k. api_keys a' = api_keys a @ [k] \<and> ak_hashedKey k = hash (ck_token created)
    \<and> (\<forall>k' \<in> set (api_keys a). ak_hashedKey k' \<noteq> hash (ck_token created))
    \<and> ak_id k = ck_id created \<and> ak_organizationId k = org \<and> ak_scopes k = scopes \<and> ak_expiresAt k = expiresAt
    \<and> ak_revokedAt k = None \<and> ak_deletedAt k = None \<and> starts_with (ck_token created) API_KEY_PREFIX
    \<and> organizations a' = organizations a \<and> members a' = members a"
  using assms
  by (auto simp: create_key_def gen_id_def gen_token_def Let_def insert_row_def starts_with_def
        API_KEY_PREFIX_def split: if_splits)

lemma created_key_verifies:
  assumes "create_key hash org name scopes expiresAt by now a = (Inr created, a')"
    and "case expiresAt of None \<Rightarrow> True | Some t \<Rightarrow> later < t"
  shows "\<exists>v a2. verify_key hash stamped (ck_token created) later a' = (Some v, a2)
    \<and> vk_id v = ck_id created \<and> vk_organizationId v = org \<and> vk_scopes v = scopes"
proof -
  from create_key_Inr [OF assms(1)] obtain k where k: "api_keys a' = api_keys a @ [k]"
    "ak_hashedKey k = hash (ck_token created)"
    "\<forall>k' \<in> set (api_keys a). ak_hashedKey k' \<noteq> hash (ck_token created)"
    "ak_id k = ck_id created" "ak_organizationId k = org" "ak_scopes k = scopes" "ak_expiresAt k = expiresAt"
    "ak_revokedAt k = None" "ak_deletedAt k = None" "starts_with (ck_token created) API_KEY_PREFIX" by blast
  have "find_first (\<lambda>k. ak_hashedKey k = hash (ck_token created)) (api_keys a') = Some k"
    by (rule find_first_unique) (use k in auto)
  with k(4-) assms(2) show ?thesis by (auto simp: verify_key_def split: option.splits)
qed

section \<open>The guard\<close>

text \<open>Who a request acts as, read off the tables.\<close>

definition acts_as :: "(string \<Rightarrow> string) \<Rightarrow> request \<Rightarrow> time \<Rightarrow> api \<Rightarrow> principal \<Rightarrow> bool" where
  "acts_as hash req now a p \<longleftrightarrow>
     (case p of
        Session user mid role \<Rightarrow>
          req_session req = Some user \<and> isOrgRole role
          \<and> (\<exists>m \<in> set (members a). mb_id m = mid \<and> mb_organizationId m = req_organizationId req
               \<and> mb_userId m = user \<and> mb_role m = role)
      | Key kid scopes \<Rightarrow>
          (\<exists>k \<in> set (api_keys a). \<exists>token. extractApiKey req = Some token \<and> ak_hashedKey k = hash token
             \<and> ak_id k = kid \<and> ak_scopes k = scopes \<and> ak_organizationId k = req_organizationId req
             \<and> ak_revokedAt k = None \<and> ak_deletedAt k = None
             \<and> (case ak_expiresAt k of None \<Rightarrow> True | Some t \<Rightarrow> now < t)))"

lemma guard_acts_as:
  assumes "guard hash stamped resource actions req now a = (Inr ctx, a')"
  shows "acts_as hash req now a (ctx_principal ctx) \<and> principal_allows (ctx_principal ctx) resource actions
    \<and> ctx_organizationId ctx = req_organizationId req"
proof -
  obtain c where c: "authenticate hash stamped req now a = (Inr c, a')"
    "orgContext (req_organizationId req) c a' = Inr ctx"
    "principal_allows (ctx_principal ctx) resource actions" "ctx_organizationId ctx = req_organizationId req"
    using guard_Inr [OF assms] by blast
  have m: "members a' = members a" using authenticate_keeps [OF c(1)] by simp
  have "acts_as hash req now a (ctx_principal ctx)"
  proof (cases c)
    case (ByKey v)
    with c(1) obtain token where t: "extractApiKey req = Some token"
      "verify_key hash stamped token now a = (Some v, a')"
      by (auto simp: authenticate_def split: option.splits prod.splits)
    have p: "vk_organizationId v = req_organizationId req" "ctx_principal ctx = Key (vk_id v) (vk_scopes v)"
      using c(2) by (auto simp: ByKey orgContext_def split: if_splits option.splits)
    obtain k where "k \<in> set (api_keys a)" "ak_hashedKey k = hash token" "ak_revokedAt k = None"
      "ak_deletedAt k = None" "case ak_expiresAt k of None \<Rightarrow> True | Some t \<Rightarrow> now < t"
      "ak_id k = vk_id v" "ak_organizationId k = vk_organizationId v" "ak_scopes k = vk_scopes v"
      using verify_key_Some [OF t(2)] by metis
    with p t(1) show ?thesis unfolding acts_as_def by auto
  next
    case (BySession user)
    with c(1) have "req_session req = Some user"
      by (auto simp: authenticate_def split: option.splits prod.splits)
    with c(2) m show ?thesis
      by (auto simp: acts_as_def BySession orgContext_def dest!: find_first_Some_iff
            split: if_splits option.splits)
  qed
  with c(3,4) show ?thesis by blast
qed

lemma guard_outsider:
  assumes "extractApiKey req = None" "req_session req = Some user" "req_organizationId req \<noteq> ''''"
    and "\<And>m. m \<in> set (members a) \<Longrightarrow> mb_userId m = user \<Longrightarrow> mb_organizationId m \<noteq> req_organizationId req"
  shows "guard hash stamped resource actions req now a = (Inl org_not_found, a)"
proof -
  have "find_first (\<lambda>m. mb_organizationId m = req_organizationId req \<and> mb_userId m = user) (members a) = None"
    using assms(4) by (auto simp: find_first_None_iff)
  with assms(1-3) show ?thesis by (simp add: guard_def authenticate_def orgContext_def)
qed

lemma guard_foreign_key:
  assumes "extractApiKey req = Some token" "verify_key hash stamped token now a = (Some v, a')"
    and "vk_organizationId v \<noteq> req_organizationId req" "req_organizationId req \<noteq> ''''"
  shows "guard hash stamped resource actions req now a = (Inl org_not_found, a')"
  using assms by (simp add: guard_def authenticate_def orgContext_def)

text \<open>A request that presents a key, and one of a member.\<close>

definition key_request :: "string \<Rightarrow> id \<Rightarrow> request" where
  "key_request token org =
     \<lparr>req_apiKeyHeader = Some token, req_authorization = None, req_session = None, req_organizationId = org\<rparr>"

lemma guard_star_key:
  assumes "verify_key hash stamped token now a = (Some v, a')" "vk_organizationId v = org" "''*'' \<in> set (vk_scopes v)"
    and "token \<noteq> ''''" "org \<noteq> ''''" "find_first (\<lambda>o'. og_id o' = org) (organizations a') = Some o''"
  shows "\<exists>ctx. guard hash stamped resource actions (key_request token org) now a = (Inr ctx, a')"
  using assms hasScopePermission_star [OF assms(3)]
  by (simp add: guard_def authenticate_def key_request_def extractApiKey_def orgContext_def
      requirePermission_def principal_allows_def)

section \<open>Revoked keys\<close>

lemma revoked_key_dead:
  assumes "k \<in> set (api_keys a)" "ak_id k = kid" "ak_organizationId k = org" "ak_deletedAt k = None"
    and "distinct (map ak_hashedKey (api_keys a))" "ak_hashedKey k = hash token"
  shows "fst (revoke_key org kid now a)
    \<and> fst (verify_key hash stamped token later (snd (revoke_key org kid now a))) = None"
proof -
  let ?P = "\<lambda>k. ak_id k = kid \<and> ak_organizationId k = org \<and> ak_deletedAt k = None"
  let ?f = "\<lambda>k. k\<lparr>ak_revokedAt := Some now, ak_deletedAt := Some now\<rparr>"
  have u: "find_first (\<lambda>k. ak_hashedKey k = hash token) (api_keys a) = Some k"
    by (intro find_first_unique) (use assms(1,5,6) in \<open>blast, simp, metis distinct_map inj_onD\<close>)
  then have "find_first (\<lambda>k. ak_hashedKey k = hash token) (update_rows ?P ?f (api_keys a)) = Some (?f k)"
    using assms(2-4) by (subst find_first_update_keep) simp_all
  moreover have "0 < count_rows ?P (api_keys a)"
    using assms(1-4) by (auto simp: count_rows_def filter_empty_conv)
  ultimately show ?thesis by (simp add: revoke_key_def Let_def verify_key_def)
qed

section \<open>Error responses\<close>

lemma errorHandler_masks:
  assumes "errorHandler False err rid = Some (status, body)" "500 \<le> status"
    and "\<And>e. err = ThrownApp e \<Longrightarrow> ae_expose e = (ae_status e < 500)"
  shows "eb_message body = ''Internal server error.'' \<and> eb_details body = None"
  using assms
  by (cases err) (auto simp: errorHandler_def toAppError_def AppError_def Let_def split: if_splits)

end
