(* ===== verification/PlanLimits.thy ===== *)
theory PlanLimits
  imports Access
begin

text \<open>
  Plan limits, from \<^verbatim>\<open>apps/api/src/services/plan-limits.service.ts\<close>, the middleware that puts
  them in front of a route (\<^verbatim>\<open>middleware/enforce-limit.ts\<close>) and the seat hooks of
  \<^verbatim>\<open>packages/auth/src/seat-limits.ts\<close>. The relation \<open>seat_step\<close> is the membership life of one
  organization as Better Auth runs it between those hooks.
\<close>

section \<open>Limits\<close>

datatype limited_resource = R_monitor | R_seat | R_statusPage
datatype capability = Cap_sms | Cap_voice | Cap_sso | Cap_advancedAnalytics | Cap_customDomains

record effective_limits =
  el_tier :: plan_tier
  el_planName :: string
  el_monitorLimit :: "int option"
  el_seatLimit :: "int option"
  el_statusPageLimit :: "int option"
  el_smsEnabled :: bool
  el_voiceEnabled :: bool
  el_ssoEnabled :: bool
  el_advancedAnalytics :: bool
  el_customDomainsEnabled :: bool
  el_meteredAllowances :: "(string \<times> int) list"

definition FREE_FALLBACK :: effective_limits where
  "FREE_FALLBACK =
     \<lparr>el_tier = FREE, el_planName = ''Free'', el_monitorLimit = Some 10, el_seatLimit = Some 1,
      el_statusPageLimit = Some 1, el_smsEnabled = False, el_voiceEnabled = False, el_ssoEnabled = False,
      el_advancedAnalytics = False, el_customDomainsEnabled = False,
      el_meteredAllowances = [(''sms'', 0), (''voice_minutes'', 0)]\<rparr>"

fun RESOURCE_LABEL :: "limited_resource \<Rightarrow> string" where
  "RESOURCE_LABEL R_monitor = ''monitors''"
| "RESOURCE_LABEL R_seat = ''seats''"
| "RESOURCE_LABEL R_statusPage = ''status pages''"

fun CAPABILITY_LABEL :: "capability \<Rightarrow> string" where
  "CAPABILITY_LABEL Cap_sms = ''SMS alerts''"
| "CAPABILITY_LABEL Cap_voice = ''voice calls''"
| "CAPABILITY_LABEL Cap_sso = ''SSO''"
| "CAPABILITY_LABEL Cap_advancedAnalytics = ''advanced analytics''"
| "CAPABILITY_LABEL Cap_customDomains = ''custom domains''"

text \<open>The subscription's plan row, or the catalog row of its tier; \<open>??\<close> is \<open>first_some\<close>.\<close>

definition first_some :: "'x option \<Rightarrow> 'x option \<Rightarrow> 'x option" where
  "first_some x y = (case x of Some _ \<Rightarrow> x | None \<Rightarrow> y)"

definition subscription_of :: "id \<Rightarrow> api \<Rightarrow> subscription_row option" where
  "subscription_of organizationId a = find_first (\<lambda>s. sub_organizationId s = organizationId) (subscriptions a)"

definition getEffectiveLimits :: "id \<Rightarrow> api \<Rightarrow> effective_limits" where
  "getEffectiveLimits organizationId a =
     (let subscription = subscription_of organizationId a;
          billingPlan = (case subscription of None \<Rightarrow> None
            | Some s \<Rightarrow> (case sub_planId s of None \<Rightarrow> None
                | Some p \<Rightarrow> find_first (\<lambda>b. bp_id b = p) (billing_plans a)));
          tier = (case subscription of None \<Rightarrow> FREE | Some s \<Rightarrow> sub_plan s);
          plan = first_some billingPlan (find_first (\<lambda>b. bp_tier b = tier) (billing_plans a))
      in case plan of
           None \<Rightarrow> FREE_FALLBACK
         | Some p \<Rightarrow>
             \<lparr>el_tier = bp_tier p, el_planName = bp_name p,
              el_monitorLimit =
                first_some (case subscription of None \<Rightarrow> None | Some s \<Rightarrow> sub_monitorLimit s) (bp_monitorLimit p),
              el_seatLimit = bp_seatLimit p, el_statusPageLimit = bp_statusPageLimit p,
              el_smsEnabled = bp_smsEnabled p, el_voiceEnabled = bp_voiceEnabled p,
              el_ssoEnabled = bp_ssoEnabled p, el_advancedAnalytics = bp_advancedAnalytics p,
              el_customDomainsEnabled = bp_customDomainsEnabled p,
              el_meteredAllowances = (case bp_meteredAllowances p of None \<Rightarrow> [] | Some xs \<Rightarrow> xs)\<rparr>)"

fun countUsage :: "id \<Rightarrow> limited_resource \<Rightarrow> api \<Rightarrow> int" where
  "countUsage organizationId R_monitor a =
     count_rows (\<lambda>m. m_organizationId m = organizationId \<and> m_deletedAt m = None) (monitors (engine a))"
| "countUsage organizationId R_seat a =
     count_rows (\<lambda>m. mb_organizationId m = organizationId) (members a)"
| "countUsage organizationId R_statusPage a =
     count_rows (\<lambda>p. sp_organizationId p = organizationId \<and> sp_deletedAt p = None) (pages a)"

definition pending :: "id \<Rightarrow> time \<Rightarrow> invitation_row \<Rightarrow> bool" where
  "pending organizationId now i \<longleftrightarrow>
     inv_organizationId i = organizationId \<and> inv_status i = ''pending'' \<and> now < inv_expiresAt i"

definition countPendingInvitations :: "id \<Rightarrow> time \<Rightarrow> api \<Rightarrow> int" where
  "countPendingInvitations organizationId now a = count_rows (pending organizationId now) (invitations a)"

fun limitFor :: "effective_limits \<Rightarrow> limited_resource \<Rightarrow> int option" where
  "limitFor limits R_monitor = el_monitorLimit limits"
| "limitFor limits R_seat = el_seatLimit limits"
| "limitFor limits R_statusPage = el_statusPageLimit limits"

definition assertWithinLimit :: "id \<Rightarrow> limited_resource \<Rightarrow> api \<Rightarrow> js_error + unit" where
  "assertWithinLimit organizationId resource a =
     (let limits = getEffectiveLimits organizationId a
      in case limitFor limits resource of
           None \<Rightarrow> Inr ()
         | Some limit \<Rightarrow>
             (let used = countUsage organizationId resource a
              in if used \<ge> limit
                 then Inl (AppErr payment_required
                        (''Your '' @ el_planName limits @ '' plan allows '' @ show_int limit @ '' ''
                         @ RESOURCE_LABEL resource @ ''. Upgrade your plan to add more.''))
                 else Inr ()))"

definition assertSeatAvailableForInvite :: "id \<Rightarrow> time \<Rightarrow> api \<Rightarrow> js_error + unit" where
  "assertSeatAvailableForInvite organizationId now a =
     (let limits = getEffectiveLimits organizationId a
      in case el_seatLimit limits of
           None \<Rightarrow> Inr ()
         | Some seatLimit \<Rightarrow>
             (let members' = countUsage organizationId R_seat a;
                  pending' = countPendingInvitations organizationId now a;
                  committed = members' + pending'
              in if committed \<ge> seatLimit
                 then Inl (AppErr payment_required
                        (''Your '' @ el_planName limits @ '' plan allows '' @ show_int seatLimit @ '' ''
                         @ RESOURCE_LABEL R_seat @ '' ('' @ show_int members' @ '' in use, ''
                         @ show_int pending' @ '' invited). Upgrade your plan to add more.''))
                 else Inr ()))"

fun enabled :: "effective_limits \<Rightarrow> capability \<Rightarrow> bool" where
  "enabled limits Cap_sms = el_smsEnabled limits"
| "enabled limits Cap_voice = el_voiceEnabled limits"
| "enabled limits Cap_sso = el_ssoEnabled limits"
| "enabled limits Cap_customDomains = el_customDomainsEnabled limits"
| "enabled limits Cap_advancedAnalytics = el_advancedAnalytics limits"

definition assertCapability :: "id \<Rightarrow> capability \<Rightarrow> api \<Rightarrow> js_error + unit" where
  "assertCapability organizationId capability a =
     (let limits = getEffectiveLimits organizationId a
      in if \<not> enabled limits capability
         then Inl (AppErr payment_required
                (CAPABILITY_LABEL capability @ '' is not included in your '' @ el_planName limits
                 @ '' plan. Upgrade to enable it.''))
         else Inr ())"

section \<open>The summary\<close>

text \<open>
  The first instant of the month of an instant, by the proleptic Gregorian calendar of \<open>Date\<close>:
  days are counted from 0000-03-01 in eras of 400 years, so that the leap day is the last day of
  a year.
\<close>

definition DAY :: int where "DAY = 86400000"

definition day_of_month :: "int \<Rightarrow> int" where
  "day_of_month days =
     (let z = days + 719468;
          doe = z mod 146097;
          yoe = (doe - doe div 1460 + doe div 36524 - doe div 146096) div 365;
          doy = doe - (365 * yoe + yoe div 4 - yoe div 100);
          mp = (5 * doy + 2) div 153
      in doy - (153 * mp + 2) div 5 + 1)"

definition startOfMonthUtc :: "time \<Rightarrow> time" where
  "startOfMonthUtc now = (now div DAY - (day_of_month (now div DAY) - 1)) * DAY"

record resource_usage =
  ru_limit :: "int option"
  ru_used :: int
  ru_remaining :: "int option"

definition toUsage :: "int option \<Rightarrow> int \<Rightarrow> resource_usage" where
  "toUsage limit used =
     \<lparr>ru_limit = limit, ru_used = used, ru_remaining = map_option (\<lambda>l. max 0 (l - used)) limit\<rparr>"

record plan_summary =
  ps_limits :: effective_limits
  ps_monitor :: resource_usage
  ps_seat :: resource_usage
  ps_statusPage :: resource_usage
  ps_metered :: "(string \<times> int \<times> int) list"

definition usage_by_metric :: "id \<Rightarrow> time \<Rightarrow> api \<Rightarrow> (string \<times> int) list" where
  "usage_by_metric organizationId periodStart a =
     (let rows = find_many (\<lambda>u. us_organizationId u = organizationId \<and> periodStart \<le> us_periodStart u)
                   (usage_records a)
      in map (\<lambda>metric. (metric, sum_list (map us_quantity (filter (\<lambda>u. us_metric u = metric) rows))))
           (remdups (map us_metric rows)))"

definition metered :: "(string \<times> int) list \<Rightarrow> (string \<times> int) list \<Rightarrow> (string \<times> int \<times> int) list" where
  "metered allowances usage =
     fold (\<lambda>(metric, used). map_set metric
            (used, case map_of allowances metric of None \<Rightarrow> 0 | Some n \<Rightarrow> n)) usage
       (fold (\<lambda>(metric, included). map_set metric (0, included)) allowances [])"

definition getSummary :: "id \<Rightarrow> time \<Rightarrow> api \<Rightarrow> plan_summary" where
  "getSummary organizationId now a =
     (let limits = getEffectiveLimits organizationId a
      in \<lparr>ps_limits = limits,
          ps_monitor = toUsage (el_monitorLimit limits) (countUsage organizationId R_monitor a),
          ps_seat = toUsage (el_seatLimit limits) (countUsage organizationId R_seat a),
          ps_statusPage = toUsage (el_statusPageLimit limits) (countUsage organizationId R_statusPage a),
          ps_metered = metered (el_meteredAllowances limits)
            (usage_by_metric organizationId (startOfMonthUtc now) a)\<rparr>)"

section \<open>Gates\<close>

definition enforceLimit :: "limited_resource \<Rightarrow> org_context option \<Rightarrow> api \<Rightarrow> js_error + unit" where
  "enforceLimit resource ctx a =
     (case ctx of
        None \<Rightarrow> Inl unauthorized_error
      | Some c \<Rightarrow> if ctx_organizationId c = '''' then Inl unauthorized_error
                  else assertWithinLimit (ctx_organizationId c) resource a)"

definition requireCapability :: "capability \<Rightarrow> org_context option \<Rightarrow> api \<Rightarrow> js_error + unit" where
  "requireCapability capability ctx a =
     (case ctx of
        None \<Rightarrow> Inl unauthorized_error
      | Some c \<Rightarrow> if ctx_organizationId c = '''' then Inl unauthorized_error
                  else assertCapability (ctx_organizationId c) capability a)"

text \<open>
  What a hook throws at Better Auth: its own 402, or the error it caught. \<open>None\<close> as a gate turns
  enforcement off.
\<close>

datatype hook_error = Api_payment_required string string | Rethrown js_error

definition enforceSeat :: "js_error + unit \<Rightarrow> hook_error + unit" where
  "enforceSeat r =
     (case r of
        Inr u \<Rightarrow> Inr u
      | Inl (AppErr payment_required m) \<Rightarrow> Inl (Api_payment_required ''PLAN_SEAT_LIMIT_REACHED'' m)
      | Inl e \<Rightarrow> Inl (Rethrown e))"

record seat_gate =
  assertSeatAvailable :: "id \<Rightarrow> time \<Rightarrow> api \<Rightarrow> js_error + unit"
  assertSeatForInvite :: "id \<Rightarrow> time \<Rightarrow> api \<Rightarrow> js_error + unit"

text \<open>The gate \<^verbatim>\<open>bootstrap.ts\<close> injects.\<close>

definition plan_gate :: seat_gate where
  "plan_gate =
     \<lparr>assertSeatAvailable = (\<lambda>organizationId _. assertWithinLimit organizationId R_seat),
      assertSeatForInvite = assertSeatAvailableForInvite\<rparr>"

definition beforeCreateInvitation :: "seat_gate option \<Rightarrow> id \<Rightarrow> time \<Rightarrow> api \<Rightarrow> hook_error + unit" where
  "beforeCreateInvitation gate organizationId now a =
     (case gate of None \<Rightarrow> Inr () | Some g \<Rightarrow> enforceSeat (assertSeatForInvite g organizationId now a))"

definition beforeAcceptInvitation :: "seat_gate option \<Rightarrow> id \<Rightarrow> time \<Rightarrow> api \<Rightarrow> hook_error + unit" where
  "beforeAcceptInvitation gate organizationId now a =
     (case gate of None \<Rightarrow> Inr () | Some g \<Rightarrow> enforceSeat (assertSeatAvailable g organizationId now a))"

definition beforeAddMember :: "seat_gate option \<Rightarrow> id \<Rightarrow> time \<Rightarrow> api \<Rightarrow> hook_error + unit" where
  "beforeAddMember gate organizationId now a =
     (case gate of None \<Rightarrow> Inr () | Some g \<Rightarrow> enforceSeat (assertSeatAvailable g organizationId now a))"

section \<open>Laws of the limits\<close>

lemma assertWithinLimit_Inr:
  "assertWithinLimit org resource a = Inr u \<longleftrightarrow>
     (case limitFor (getEffectiveLimits org a) resource of None \<Rightarrow> True
      | Some limit \<Rightarrow> countUsage org resource a < limit)"
  by (auto simp: assertWithinLimit_def Let_def split: option.split)

lemma assertSeatForInvite_Inr:
  "assertSeatAvailableForInvite org now a = Inr u \<longleftrightarrow>
     (case el_seatLimit (getEffectiveLimits org a) of None \<Rightarrow> True
      | Some limit \<Rightarrow> countUsage org R_seat a + countPendingInvitations org now a < limit)"
  by (auto simp: assertSeatAvailableForInvite_def Let_def split: option.split)

lemma enforceSeat_Inr [simp]: "enforceSeat r = Inr u \<longleftrightarrow> r = Inr u"
  by (auto simp: enforceSeat_def split: sum.split js_error.split error_code.split)

lemma limits_cong:
  assumes "subscriptions a = subscriptions b" "billing_plans a = billing_plans b"
  shows "getEffectiveLimits org a = getEffectiveLimits org b"
  unfolding getEffectiveLimits_def subscription_of_def assms ..

lemma limits_members [simp]:
  "getEffectiveLimits org (a\<lparr>members := ms\<rparr>) = getEffectiveLimits org a"
  "getEffectiveLimits org (a\<lparr>invitations := is\<rparr>) = getEffectiveLimits org a"
  by (rule limits_cong; simp)+



lemma count_rows_mono: "(\<And>r. r \<in> set t \<Longrightarrow> P r \<Longrightarrow> Q r) \<Longrightarrow> count_rows P t \<le> count_rows Q t"
  by (induction t) (auto simp: count_rows_def)

lemma count_rows_delete: "count_rows P (delete_rows Q t) \<le> count_rows P t"
  by (induction t) (auto simp: count_rows_def delete_rows_def)

lemma count_rows_update:
  "(\<And>r. Q r \<Longrightarrow> \<not> P (f r)) \<Longrightarrow>
   count_rows P (update_rows Q f t) = count_rows (\<lambda>r. P r \<and> \<not> Q r) t"
  by (induction t) (auto simp: count_rows_def update_rows_def)

lemma count_rows_split: "count_rows P t = count_rows (\<lambda>r. P r \<and> \<not> Q r) t + count_rows (\<lambda>r. P r \<and> Q r) t"
  by (induction t) (auto simp: count_rows_def)

lemma count_rows_pos: "r \<in> set t \<Longrightarrow> P r \<Longrightarrow> 0 < count_rows P t"
  by (auto simp: count_rows_def filter_empty_conv)

lemma count_rows_less_eq:
  assumes "r \<in> set t" "P r" "Q r"
  shows "count_rows (\<lambda>r. P r \<and> \<not> Q r) t + 1 \<le> count_rows P t"
  using count_rows_split [of P t Q] count_rows_pos [of r t "\<lambda>r. P r \<and> Q r"] assms by simp

section \<open>Seats\<close>

text \<open>
  Members and the invitations still open, the seats an organization has promised. A step passes
  time, creates an invitation behind its hook, or is one of the writes that follow an invitation:
  accepting it needs no check here, so it may act on a check made at any earlier time.
\<close>

definition claims :: "id \<Rightarrow> time \<Rightarrow> api \<Rightarrow> int" where
  "claims org now a = countUsage org R_seat a + countPendingInvitations org now a"

inductive seat_step :: "id \<Rightarrow> time \<times> api \<Rightarrow> time \<times> api \<Rightarrow> bool" for org where
  st_wait: "t \<le> t' \<Longrightarrow> seat_step org (t, a) (t', a)"
| st_invite: "beforeCreateInvitation (Some plan_gate) org t a = Inr () \<Longrightarrow>
    seat_step org (t, a) (t, a\<lparr>invitations := insert_row i (invitations a)\<rparr>)"
| st_accept: "i \<in> set (invitations a) \<Longrightarrow> pending org t i \<Longrightarrow> mb_organizationId m = org \<Longrightarrow>
    seat_step org (t, a)
      (t, a\<lparr>invitations := update_rows (\<lambda>j. inv_id j = inv_id i) (\<lambda>j. j\<lparr>inv_status := ''accepted''\<rparr>)
                              (invitations a),
            members := insert_row m (members a)\<rparr>)"
| st_withdraw: "s \<noteq> ''pending'' \<Longrightarrow>
    seat_step org (t, a)
      (t, a\<lparr>invitations := update_rows P (\<lambda>j. j\<lparr>inv_status := s\<rparr>) (invitations a)\<rparr>)"
| st_leave: "seat_step org (t, a) (t, a\<lparr>members := delete_rows P (members a)\<rparr>)"



lemma seat_step_claims:
  assumes "seat_step org s s'" "el_seatLimit (getEffectiveLimits org (snd s)) = Some limit"
    and "claims org (fst s) (snd s) \<le> limit"
  shows "el_seatLimit (getEffectiveLimits org (snd s')) = Some limit \<and> claims org (fst s') (snd s') \<le> limit"
  using assms
proof cases
  case (st_wait t t' a)
  have "countPendingInvitations org t' a \<le> countPendingInvitations org t a"
    unfolding countPendingInvitations_def by (rule count_rows_mono) (use st_wait(3) in \<open>auto simp: pending_def\<close>)
  with assms st_wait show ?thesis by (simp add: claims_def)
next
  case (st_invite t a i)
  with assms show ?thesis
    by (auto simp: claims_def beforeCreateInvitation_def plan_gate_def assertSeatForInvite_Inr
          countPendingInvitations_def count_rows_insert)
next
  case (st_accept i a t m)
  have "count_rows (pending org t) (update_rows (\<lambda>j. inv_id j = inv_id i) (\<lambda>j. j\<lparr>inv_status := ''accepted''\<rparr>)
          (invitations a)) + 1 \<le> count_rows (pending org t) (invitations a)"
    using count_rows_less_eq [of i "invitations a" "pending org t" "\<lambda>j. inv_id j = inv_id i"] st_accept(3,4)
    by (subst count_rows_update) (simp_all add: pending_def)
  with assms st_accept show ?thesis by (simp add: claims_def countPendingInvitations_def count_rows_insert)
next
  case (st_withdraw st t a P)
  have "count_rows (pending org t) (update_rows P (\<lambda>j. j\<lparr>inv_status := st\<rparr>) (invitations a))
      \<le> count_rows (pending org t) (invitations a)"
    using st_withdraw(3) by (subst count_rows_update) (auto simp: pending_def intro: count_rows_mono)
  with assms st_withdraw show ?thesis by (simp add: claims_def countPendingInvitations_def)
next
  case (st_leave t a P)
  have "count_rows (\<lambda>m. mb_organizationId m = org) (delete_rows P (members a))
      \<le> count_rows (\<lambda>m. mb_organizationId m = org) (members a)" by (rule count_rows_delete)
  with assms st_leave show ?thesis by (simp add: claims_def countPendingInvitations_def)
qed

lemma seat_steps_claims:
  assumes "(seat_step org)\<^sup>*\<^sup>* s s'" "el_seatLimit (getEffectiveLimits org (snd s)) = Some limit"
    and "claims org (fst s) (snd s) \<le> limit"
  shows "el_seatLimit (getEffectiveLimits org (snd s')) = Some limit \<and> claims org (fst s') (snd s') \<le> limit"
  using assms
proof (induction rule: rtranclp_induct)
  case (step y z)
  then have "el_seatLimit (getEffectiveLimits org (snd y)) = Some limit" "claims org (fst y) (snd y) \<le> limit"
    by simp_all
  from seat_step_claims [OF step.hyps(2) this] show ?case .
qed simp

end
