(* ===== verification/MonitorService.thy ===== *)
theory MonitorService
  imports PlanLimits Pagination
begin

text \<open>
  Monitor configuration, from \<^verbatim>\<open>apps/api/src/services/monitor.service.ts\<close>. Timestamps the
  database maintains (\<open>updatedAt\<close>) and the ids of assertion rows are left out; the audit sink
  never fails a request, so an entry is always written.
\<close>

section \<open>Inputs and views\<close>

text \<open>\<open>Partial<CreateMonitorInput>\<close>: \<open>None\<close> is an absent key.\<close>

record monitor_input =
  mi_name :: "string option"
  mi_type :: "monitor_type option"
  mi_groupId :: "id option"
  mi_url :: "string option"
  mi_host :: "string option"
  mi_port :: "int option"
  mi_httpMethod :: "http_method option"
  mi_requestHeaders :: "(string \<times> string) list option"
  mi_requestBody :: "string option"
  mi_expectedStatus :: "int option"
  mi_keyword :: "string option"
  mi_keywordInverted :: "bool option"
  mi_followRedirects :: "bool option"
  mi_verifySsl :: "bool option"
  mi_intervalSeconds :: "int option"
  mi_timeoutSeconds :: "int option"
  mi_retries :: "int option"
  mi_regions :: "probe_region list option"
  mi_failureThreshold :: "int option"
  mi_successThreshold :: "int option"
  mi_escalationPolicyId :: "id option"
  mi_assertions :: "assertion_def list option"
  mi_channelIds :: "id list option"

record monitor_actor =
  ma_userId :: "id option"
  ma_actorType :: actor_type

record monitor_list_query =
  mq_limit :: nat
  mq_cursor :: "string option"
  mq_groupId :: "id option"
  mq_health :: "monitor_health option"
  mq_state :: "lifecycle option"

record monitor_summary =
  ms_id :: id
  ms_name :: string
  ms_type :: monitor_type
  ms_state :: lifecycle
  ms_health :: monitor_health
  ms_url :: "string option"
  ms_host :: "string option"
  ms_port :: "int option"
  ms_intervalSeconds :: int
  ms_groupId :: "id option"
  ms_groupName :: "string option"
  ms_lastCheckedAt :: "time option"
  ms_lastResponseMs :: "int option"
  ms_lastStatusCode :: "int option"
  ms_lastError :: "string option"
  ms_escalationPolicyId :: "id option"
  ms_createdAt :: time

record monitor_list_item = monitor_summary +
  ml_recentChecks :: "(check_status \<times> time) list"

record monitor_detail = monitor_summary +
  md_httpMethod :: "http_method option"
  md_requestHeaders :: "(string \<times> string) list option"
  md_requestBody :: "string option"
  md_expectedStatus :: "int option"
  md_keyword :: "string option"
  md_keywordInverted :: bool
  md_followRedirects :: bool
  md_verifySsl :: bool
  md_timeoutSeconds :: int
  md_retries :: int
  md_regions :: "probe_region list"
  md_failureThreshold :: int
  md_successThreshold :: int
  md_consecutiveFailures :: int
  md_consecutiveSuccesses :: int
  md_assertions :: "assertion_def list"
  md_boundChannelIds :: "id list"

definition HEARTBEAT_STRIP_SIZE :: nat where "HEARTBEAT_STRIP_SIZE = 24"

definition monitor_summary_of :: "api \<Rightarrow> monitor_row \<Rightarrow> monitor_summary" where
  "monitor_summary_of a row =
     \<lparr>ms_id = m_id row, ms_name = m_name row, ms_type = m_type row, ms_state = m_state row,
      ms_health = m_health row, ms_url = m_url row, ms_host = m_host row, ms_port = m_port row,
      ms_intervalSeconds = m_intervalSeconds row, ms_groupId = m_groupId row,
      ms_groupName = map_option gr_name (find_first (\<lambda>g. m_groupId row = Some (gr_id g)) (groups a)),
      ms_lastCheckedAt = m_lastCheckedAt row, ms_lastResponseMs = m_lastResponseMs row,
      ms_lastStatusCode = m_lastStatusCode row, ms_lastError = m_lastError row,
      ms_escalationPolicyId = m_escalationPolicyId row, ms_createdAt = m_createdAt row\<rparr>"

definition monitorListItem :: "api \<Rightarrow> monitor_row \<Rightarrow> monitor_list_item" where
  "monitorListItem a row =
     monitor_summary.extend (monitor_summary_of a row)
       (monitor_list_item.fields
          (map (\<lambda>c. (cr_status c, cr_checkedAt c))
             (rev (take HEARTBEAT_STRIP_SIZE
                (sort_key (\<lambda>c. - cr_checkedAt c)
                   (find_many (\<lambda>c. cr_monitorId c = m_id row) (check_results (engine a))))))))"

definition monitorDetail :: "api \<Rightarrow> monitor_row \<Rightarrow> monitor_detail" where
  "monitorDetail a row =
     monitor_summary.extend (monitor_summary_of a row)
       (monitor_detail.fields (m_httpMethod row) (m_requestHeaders row) (m_requestBody row)
          (m_expectedStatus row) (m_keyword row) (m_keywordInverted row) (m_followRedirects row)
          (m_verifySsl row) (m_timeoutSeconds row) (m_retries row) (m_regions row)
          (m_failureThreshold row) (m_successThreshold row) (m_consecutiveFailures row)
          (m_consecutiveSuccesses row) (m_assertions row)
          (map mc_channelId (find_many (\<lambda>b. mc_monitorId b = m_id row) (bindings (engine a)))))"

section \<open>Validation\<close>

definition blank :: "string option \<Rightarrow> bool" where
  "blank v \<longleftrightarrow> v = None \<or> v = Some ''''"

definition validateTargetFields ::
  "monitor_type \<Rightarrow> string option \<Rightarrow> string option \<Rightarrow> int option \<Rightarrow> js_error option" where
  "validateTargetFields type url host port =
     (if type \<in> {T_HTTP, T_KEYWORD, T_SSL} then (if blank url then Some (Err ''URL_REQUIRED'') else None)
      else if type \<in> {T_TCP, T_PORT} then
        (if blank host then Some (Err ''HOST_REQUIRED'')
         else if port = None \<or> port = Some 0 then Some (Err ''PORT_REQUIRED'') else None)
      else if type \<in> {T_PING, T_DNS, T_DOMAIN} then
        (if blank host then Some (Err ''HOST_REQUIRED'') else None)
      else if type = T_HEARTBEAT then None
      else Some (Err ''UNSUPPORTED_TYPE''))"

definition assertGroupOwned :: "id \<Rightarrow> id \<Rightarrow> api \<Rightarrow> js_error option" where
  "assertGroupOwned groupId organizationId a =
     (if count_rows (\<lambda>g. gr_id g = groupId \<and> gr_organizationId g = organizationId \<and> gr_deletedAt g = None)
           (groups a) = 0
      then Some (Err ''INVALID_GROUP'') else None)"

definition assertPolicyOwned :: "id \<Rightarrow> id \<Rightarrow> api \<Rightarrow> js_error option" where
  "assertPolicyOwned policyId organizationId a =
     (if count_rows (\<lambda>p. ep_id p = policyId \<and> ep_organizationId p = organizationId \<and> ep_deletedAt p = None)
           (policies (engine a)) = 0
      then Some (Err ''INVALID_ESCALATION_POLICY'') else None)"

definition assertChannelsOwned :: "id list \<Rightarrow> id \<Rightarrow> api \<Rightarrow> js_error option" where
  "assertChannelsOwned channelIds organizationId a =
     (if length channelIds = 0 then None
      else if count_rows (\<lambda>c. ac_id c \<in> set channelIds \<and> ac_organizationId c = organizationId
                            \<and> ac_deletedAt c = None) (channels (engine a)) \<noteq> int (length channelIds)
      then Some (Err ''INVALID_CHANNEL'') else None)"

text \<open>The guards on the references of an input, in the order both operations run them.\<close>

definition assert_references :: "id \<Rightarrow> monitor_input \<Rightarrow> api \<Rightarrow> js_error option" where
  "assert_references organizationId input a =
     (case (case mi_groupId input of
              Some g \<Rightarrow> if g = '''' then None else assertGroupOwned g organizationId a
            | None \<Rightarrow> None) of
        Some e \<Rightarrow> Some e
      | None \<Rightarrow>
          (case (case mi_escalationPolicyId input of
                   Some p \<Rightarrow> if p = '''' then None else assertPolicyOwned p organizationId a
                 | None \<Rightarrow> None) of
             Some e \<Rightarrow> Some e
           | None \<Rightarrow>
               (case mi_channelIds input of
                  Some cs \<Rightarrow> assertChannelsOwned cs organizationId a
                | None \<Rightarrow> None)))"

section \<open>Operations\<close>

definition in_org :: "id \<Rightarrow> id \<Rightarrow> monitor_row \<Rightarrow> bool" where
  "in_org organizationId monitorId m \<longleftrightarrow>
     m_id m = monitorId \<and> m_organizationId m = organizationId \<and> m_deletedAt m = None"

definition find_monitor :: "id \<Rightarrow> id \<Rightarrow> api \<Rightarrow> monitor_row option" where
  "find_monitor organizationId monitorId a = find_first (in_org organizationId monitorId) (monitors (engine a))"

definition loadMonitor :: "id \<Rightarrow> id \<Rightarrow> api \<Rightarrow> monitor_detail option" where
  "loadMonitor organizationId monitorId a = map_option (monitorDetail a) (find_monitor organizationId monitorId a)"

definition monitor_audit :: "id \<Rightarrow> monitor_actor \<Rightarrow> string \<Rightarrow> id \<Rightarrow> audit_event" where
  "monitor_audit organizationId actor action monitorId =
     \<lparr>au_organizationId = Some organizationId, au_actorId = ma_userId actor,
      au_actorType = ma_actorType actor, au_action = action, au_resourceType = ''monitor'',
      au_resourceId = Some monitorId, au_ipAddress = None, au_userAgent = None, au_metadata = None\<rparr>"

text \<open>\<open>x ?? d\<close>, and a column the update only writes when the key is there.\<close>

definition default_to :: "'x \<Rightarrow> 'x option \<Rightarrow> 'x" where
  "default_to d x = (case x of None \<Rightarrow> d | Some v \<Rightarrow> v)"

definition bind_channels :: "id \<Rightarrow> id list \<Rightarrow> db \<Rightarrow> db" where
  "bind_channels monitorId channelIds w =
     w\<lparr>bindings := bindings w @ map (\<lambda>c. \<lparr>mc_monitorId = monitorId, mc_channelId = c\<rparr>) channelIds\<rparr>"

definition unbind_channels :: "id \<Rightarrow> db \<Rightarrow> db" where
  "unbind_channels monitorId w = w\<lparr>bindings := delete_rows (\<lambda>b. mc_monitorId b = monitorId) (bindings w)\<rparr>"

definition new_monitor :: "id \<Rightarrow> id \<Rightarrow> string \<Rightarrow> monitor_type \<Rightarrow> monitor_input \<Rightarrow> monitor_actor \<Rightarrow> time \<Rightarrow> monitor_row" where
  "new_monitor mid organizationId name type input actor now =
     \<lparr>m_id = mid, m_organizationId = organizationId, m_groupId = mi_groupId input, m_name = name,
      m_type = type, m_state = ACTIVE, m_health = H_PENDING, m_url = mi_url input, m_host = mi_host input,
      m_port = mi_port input, m_httpMethod = Some (default_to GET (mi_httpMethod input)),
      m_requestHeaders = mi_requestHeaders input, m_requestBody = mi_requestBody input,
      m_expectedStatus = Some (default_to 200 (mi_expectedStatus input)), m_keyword = mi_keyword input,
      m_keywordInverted = default_to False (mi_keywordInverted input),
      m_followRedirects = default_to True (mi_followRedirects input),
      m_verifySsl = default_to True (mi_verifySsl input),
      m_intervalSeconds = default_to 60 (mi_intervalSeconds input),
      m_timeoutSeconds = default_to 30 (mi_timeoutSeconds input), m_retries = default_to 2 (mi_retries input),
      m_regions = default_to [] (mi_regions input),
      m_failureThreshold = default_to 1 (mi_failureThreshold input),
      m_successThreshold = default_to 1 (mi_successThreshold input),
      m_escalationPolicyId = mi_escalationPolicyId input, m_consecutiveFailures = 0,
      m_consecutiveSuccesses = 0, m_lastCheckedAt = None, m_lastStatusCode = None, m_lastResponseMs = None,
      m_lastError = None, m_assertions = default_to [] (mi_assertions input),
      m_createdById = ma_userId actor, m_updatedById = None, m_deletedById = None, m_createdAt = now,
      m_deletedAt = None\<rparr>"

definition createMonitor ::
  "id \<Rightarrow> string \<Rightarrow> monitor_type \<Rightarrow> monitor_input \<Rightarrow> monitor_actor \<Rightarrow> time \<Rightarrow> api
   \<Rightarrow> (js_error + monitor_detail) \<times> api" where
  "createMonitor organizationId name type input actor now a =
     (case assertWithinLimit organizationId R_monitor a of
        Inl e \<Rightarrow> (Inl e, a)
      | Inr _ \<Rightarrow>
          (case validateTargetFields type (mi_url input) (mi_host input) (mi_port input) of
             Some e \<Rightarrow> (Inl e, a)
           | None \<Rightarrow>
               (case assert_references organizationId input a of
                  Some e \<Rightarrow> (Inl e, a)
                | None \<Rightarrow>
                    (let (mid, a1) = gen_id a;
                         row = new_monitor mid organizationId name type input actor now;
                         a2 = on_engine (\<lambda>w. bind_channels mid (default_to [] (mi_channelIds input))
                                (w\<lparr>monitors := insert_row row (monitors w)\<rparr>)) a1
                     in (Inr (monitorDetail a2 row), audit (monitor_audit organizationId actor ''monitor.created'' mid) a2)))))"

definition update_row :: "monitor_input \<Rightarrow> monitor_actor \<Rightarrow> monitor_row \<Rightarrow> monitor_row" where
  "update_row input actor m =
     m\<lparr>m_name := default_to (m_name m) (mi_name input),
       m_type := default_to (m_type m) (mi_type input),
       m_groupId := first_some (mi_groupId input) (m_groupId m),
       m_url := first_some (mi_url input) (m_url m),
       m_host := first_some (mi_host input) (m_host m),
       m_port := first_some (mi_port input) (m_port m),
       m_httpMethod := first_some (mi_httpMethod input) (m_httpMethod m),
       m_requestHeaders := first_some (mi_requestHeaders input) (m_requestHeaders m),
       m_requestBody := first_some (mi_requestBody input) (m_requestBody m),
       m_expectedStatus := first_some (mi_expectedStatus input) (m_expectedStatus m),
       m_keyword := first_some (mi_keyword input) (m_keyword m),
       m_keywordInverted := default_to (m_keywordInverted m) (mi_keywordInverted input),
       m_followRedirects := default_to (m_followRedirects m) (mi_followRedirects input),
       m_verifySsl := default_to (m_verifySsl m) (mi_verifySsl input),
       m_intervalSeconds := default_to (m_intervalSeconds m) (mi_intervalSeconds input),
       m_timeoutSeconds := default_to (m_timeoutSeconds m) (mi_timeoutSeconds input),
       m_retries := default_to (m_retries m) (mi_retries input),
       m_regions := default_to (m_regions m) (mi_regions input),
       m_failureThreshold := default_to (m_failureThreshold m) (mi_failureThreshold input),
       m_successThreshold := default_to (m_successThreshold m) (mi_successThreshold input),
       m_escalationPolicyId := first_some (mi_escalationPolicyId input) (m_escalationPolicyId m),
       m_assertions := default_to (m_assertions m) (mi_assertions input),
       m_updatedById := first_some (ma_userId actor) (m_updatedById m)\<rparr>"

definition rebind_channels :: "id \<Rightarrow> id list \<Rightarrow> db \<Rightarrow> db" where
  "rebind_channels monitorId channelIds w =
     bind_channels monitorId (remdups channelIds) (unbind_channels monitorId w)"

definition update_monitors :: "id \<Rightarrow> (monitor_row \<Rightarrow> monitor_row) \<Rightarrow> db \<Rightarrow> db" where
  "update_monitors monitorId f w =
     w\<lparr>monitors := update_rows (\<lambda>m. m_id m = monitorId) f (monitors w)\<rparr>"

definition updateMonitor ::
  "id \<Rightarrow> id \<Rightarrow> monitor_input \<Rightarrow> monitor_actor \<Rightarrow> api \<Rightarrow> (js_error + monitor_detail option) \<times> api" where
  "updateMonitor organizationId monitorId input actor a =
     (case find_monitor organizationId monitorId a of
        None \<Rightarrow> (Inr None, a)
      | Some existing \<Rightarrow>
          (case validateTargetFields (default_to (m_type existing) (mi_type input))
                  (first_some (mi_url input) (m_url existing)) (first_some (mi_host input) (m_host existing))
                  (first_some (mi_port input) (m_port existing)) of
             Some e \<Rightarrow> (Inl e, a)
           | None \<Rightarrow>
               (case assert_references organizationId input a of
                  Some e \<Rightarrow> (Inl e, a)
                | None \<Rightarrow>
                    (let a1 = (case mi_channelIds input of
                                 None \<Rightarrow> a
                               | Some cs \<Rightarrow> on_engine (rebind_channels monitorId cs) a);
                         a2 = on_engine (update_monitors monitorId (update_row input actor)) a1;
                         a3 = audit (monitor_audit organizationId actor ''monitor.updated'' monitorId) a2
                     in (Inr (loadMonitor organizationId monitorId a3), a3)))))"

definition removeMonitor :: "id \<Rightarrow> id \<Rightarrow> monitor_actor \<Rightarrow> time \<Rightarrow> api \<Rightarrow> bool \<times> api" where
  "removeMonitor organizationId monitorId actor now a =
     (if count_rows (in_org organizationId monitorId) (monitors (engine a)) = 0 then (False, a)
      else (True, audit (monitor_audit organizationId actor ''monitor.deleted'' monitorId)
              (on_engine (\<lambda>w. w\<lparr>monitors := update_rows (in_org organizationId monitorId)
                 (\<lambda>m. m\<lparr>m_deletedAt := Some now,
                        m_deletedById := first_some (ma_userId actor) (m_deletedById m)\<rparr>) (monitors w)\<rparr>) a)))"

definition pauseMonitor :: "id \<Rightarrow> id \<Rightarrow> monitor_actor \<Rightarrow> api \<Rightarrow> monitor_detail option \<times> api" where
  "pauseMonitor organizationId monitorId actor a =
     (case find_monitor organizationId monitorId a of
        None \<Rightarrow> (None, a)
      | Some existing \<Rightarrow>
          (let a' = (if m_state existing = PAUSED then a
                     else audit (monitor_audit organizationId actor ''monitor.paused'' monitorId)
                       (on_engine (update_monitors monitorId
                          (\<lambda>m. m\<lparr>m_state := PAUSED, m_health := H_PAUSED,
                                 m_updatedById := first_some (ma_userId actor) (m_updatedById m)\<rparr>)) a))
           in (loadMonitor organizationId monitorId a', a')))"

definition resumeMonitor :: "id \<Rightarrow> id \<Rightarrow> monitor_actor \<Rightarrow> api \<Rightarrow> monitor_detail option \<times> api" where
  "resumeMonitor organizationId monitorId actor a =
     (case find_monitor organizationId monitorId a of
        None \<Rightarrow> (None, a)
      | Some existing \<Rightarrow>
          (let a' = (if m_state existing = ACTIVE then a
                     else audit (monitor_audit organizationId actor ''monitor.resumed'' monitorId)
                       (on_engine (update_monitors monitorId
                          (\<lambda>m. m\<lparr>m_state := ACTIVE, m_health := H_PENDING, m_consecutiveFailures := 0,
                                 m_consecutiveSuccesses := 0,
                                 m_updatedById := first_some (ma_userId actor) (m_updatedById m)\<rparr>)) a))
           in (loadMonitor organizationId monitorId a', a')))"

definition setChannels :: "id \<Rightarrow> id \<Rightarrow> id list \<Rightarrow> api \<Rightarrow> (js_error + id list) \<times> api" where
  "setChannels organizationId monitorId channelIds a =
     (case find_monitor organizationId monitorId a of
        None \<Rightarrow> (Inl (AppErr not_found ''Monitor not found.''), a)
      | Some _ \<Rightarrow>
          (case assertChannelsOwned channelIds organizationId a of
             Some e \<Rightarrow> (Inl e, a)
           | None \<Rightarrow> (Inr channelIds, on_engine (rebind_channels monitorId channelIds) a)))"

section \<open>Reads\<close>

definition listed_monitor :: "id \<Rightarrow> monitor_list_query \<Rightarrow> monitor_row \<Rightarrow> bool" where
  "listed_monitor organizationId query m \<longleftrightarrow>
     m_organizationId m = organizationId \<and> m_deletedAt m = None
     \<and> (case mq_groupId query of None \<Rightarrow> True | Some g \<Rightarrow> g = '''' \<or> m_groupId m = Some g)
     \<and> (case mq_health query of None \<Rightarrow> True | Some h \<Rightarrow> m_health m = h)
     \<and> (case mq_state query of None \<Rightarrow> True | Some s \<Rightarrow> m_state m = s)"

definition listMonitors ::
  "codec_host \<Rightarrow> id \<Rightarrow> monitor_list_query \<Rightarrow> api \<Rightarrow> js_error + monitor_list_item page" where
  "listMonitors h organizationId query a =
     map_sum (\<lambda>e. e) (\<lambda>p. \<lparr>pg_items = map (monitorListItem a) (pg_items p), pg_nextCursor = pg_nextCursor p\<rparr>)
       (list_page h m_id m_createdAt (listed_monitor organizationId query) (mq_limit query)
          (monitors (engine a)) (mq_cursor query))"

text \<open>The rows of the check log carry no id here; \<open>rid\<close> is the one the database gave them.\<close>

definition listCheckResults ::
  "codec_host \<Rightarrow> (check_result \<Rightarrow> id) \<Rightarrow> id \<Rightarrow> id \<Rightarrow> nat \<Rightarrow> string option \<Rightarrow> probe_region option \<Rightarrow> api
   \<Rightarrow> js_error + check_result page option" where
  "listCheckResults h rid organizationId monitorId limit cursor region a =
     (case find_monitor organizationId monitorId a of
        None \<Rightarrow> Inr None
      | Some _ \<Rightarrow>
          map_sum (\<lambda>e. e) Some
            (list_page h rid cr_checkedAt
               (\<lambda>c. cr_monitorId c = monitorId \<and> cr_organizationId c = organizationId
                  \<and> (case region of None \<Rightarrow> True | Some r \<Rightarrow> cr_region c = r))
               limit (check_results (engine a)) cursor))"

definition listMaintenanceWindows :: "id \<Rightarrow> id \<Rightarrow> api \<Rightarrow> js_error + maintenance_window list" where
  "listMaintenanceWindows organizationId monitorId a =
     (case find_monitor organizationId monitorId a of
        None \<Rightarrow> Inl (AppErr not_found ''Monitor not found.'')
      | Some _ \<Rightarrow>
          Inr (sort_key (\<lambda>x. - w_startsAt x)
            (find_many (\<lambda>x. w_organizationId x = organizationId \<and> w_deletedAt x = None
               \<and> monitorId \<in> set (w_monitors x)) (windows (engine a)))))"

section \<open>Routes\<close>

text \<open>\<open>handleServiceError\<close>: the service's own codes become 422 responses.\<close>

definition handleServiceError :: "js_error \<Rightarrow> (int \<times> string) option" where
  "handleServiceError e =
     map_option (\<lambda>m. (422, m)) (map_of
       [(''URL_REQUIRED'', ''A URL is required for this monitor type.''),
        (''HOST_REQUIRED'', ''A host is required for this monitor type.''),
        (''PORT_REQUIRED'', ''A port is required for this monitor type.''),
        (''UNSUPPORTED_TYPE'', ''The GRPC monitor type is not yet supported.''),
        (''INVALID_GROUP'', ''Group not found or does not belong to this organization.''),
        (''INVALID_ESCALATION_POLICY'', ''Escalation policy not found or does not belong to this organization.''),
        (''INVALID_CHANNEL'', ''One or more channel IDs do not belong to this organization.'')]
       (err_message e))"

definition actorOf :: "org_context \<Rightarrow> monitor_actor" where
  "actorOf ctx =
     (case ctx_principal ctx of
        Session user _ _ \<Rightarrow> \<lparr>ma_userId = Some user, ma_actorType = A_user\<rparr>
      | Key _ _ \<Rightarrow> \<lparr>ma_userId = None, ma_actorType = A_api_key\<rparr>)"

end
