(* ===== verification/MonitorConfig.thy ===== *)
theory MonitorConfig
  imports MonitorService Probes PipelineCases
begin

text \<open>
  What configuration guarantees to the engine: a monitor that passed validation is never answered
  with a configuration error by its probe, channel bindings stay inside their organization, and so
  do the alerts dispatched over them.
\<close>

section \<open>Targets\<close>

definition target_ok :: "monitor_row \<Rightarrow> bool" where
  "target_ok m \<longleftrightarrow> validateTargetFields (m_type m) (m_url m) (m_host m) (m_port m) = None"

lemma blank_truthy: "truthy_property v = None \<longleftrightarrow> blank v"
  by (cases v) (auto simp: truthy_property_def blank_def)

lemma not_config:
  "ps_errorType (ok_signal n) \<noteq> Some ''config''"
  "e \<noteq> ''config'' \<Longrightarrow> ps_errorType (fail_signal n e msg) \<noteq> Some ''config''"
  by (simp_all add: ok_signal_def fail_signal_def)

lemma socket_error_type_config: "other \<noteq> ''config'' \<Longrightarrow> socket_error_type other e \<noteq> ''config''"
  by (auto simp: socket_error_type_def split: option.split)

lemma classifyHttpError_config: "classifyHttpError e \<noteq> ''config''"
  by (auto simp: classifyHttpError_def Let_def split: option.split)

lemma tcpConnect_not_config: "ps_errorType (snd (tcpConnect wd host port)) \<noteq> Some ''config''"
  by (auto simp: tcpConnect_def tcp_signal_def not_config socket_error_type_config
        split: prod.split socket_event.split)

lemma httpProbe_not_config:
  "\<not> blank (s_url m) \<Longrightarrow> ps_errorType (snd (httpProbe wd m now)) \<noteq> Some ''config''"
  unfolding blank_truthy [symmetric]
  by (auto simp: httpProbe_def Let_def not_config classifyHttpError_config ok_signal_def
        split: option.split sum.split prod.split js_error.split)

lemma sslProbe_not_config:
  assumes "\<not> blank (s_url m)" "s_host m \<noteq> Some ''''"
    and "snd (sslProbe wd m now) = Inr s"
    and "\<And>u. wd_parse wd (the (s_url m)) = Some u \<Longrightarrow> url_hostname u \<noteq> ''''"
  shows "ps_errorType s \<noteq> Some ''config''"
proof -
  have "ps_errorType (ssl_signal wd now ev) \<noteq> Some ''config''" for ev
    by (auto simp: ssl_signal_def not_config socket_error_type_config ok_signal_def
        split: socket_event.split option.split)
  moreover obtain raw where "truthy_property (s_url m) = Some raw" "s_url m = Some raw"
  proof (cases "s_url m")
    case (Some raw)
    with assms(1) that show thesis by (simp add: blank_def truthy_property_def)
  qed (use assms(1) in \<open>simp add: blank_def\<close>)
  ultimately show ?thesis
    using assms(2-4)
    by (auto simp: sslProbe_def Let_def truthy_property_def split: option.splits sum.splits prod.splits if_splits)
qed

lemma dnsProbe_not_config:
  assumes "\<And>h. s_host m = Some h \<Longrightarrow> trim h \<noteq> ''''" "\<not> blank (s_host m)"
  shows "ps_errorType (dnsProbe wd m) \<noteq> Some ''config''"
proof -
  obtain h where h: "s_host m = Some h" using assms(2) by (cases "s_host m") (auto simp: blank_def)
  have t: "truthy_property (map_option trim (s_host m)) = Some (trim h)"
    using h assms(1) by (simp add: truthy_property_def)
  show ?thesis
    unfolding dnsProbe_def t Let_def
    by (auto simp: not_config ok_signal_def split: sum.split option.split js_error.split)
qed

lemma snapshot_targets [simp]:
  "s_url (toSnapshot m) = m_url m" "s_host (toSnapshot m) = m_host m" "s_port (toSnapshot m) = m_port m"
  by (simp_all add: toSnapshot_def)

lemma configured_probe:
  assumes "target_ok m" and "m_type m \<notin> {T_DOMAIN, T_HEARTBEAT}"
    and "\<And>h. m_host m = Some h \<Longrightarrow> trim h \<noteq> '''' \<and> h \<noteq> ''''"
    and "\<And>k u. wd_parse (worlds k) (the (m_url m)) = Some u \<Longrightarrow> url_hostname u \<noteq> ''''"
  shows "\<exists>p. defaultProbes worlds domain (m_type m) = Some p
    \<and> (\<forall>k s. p k (toSnapshot m) now = Inr s \<longrightarrow> ps_errorType s \<noteq> Some ''config'')"
proof -
  have hosts: "s_host (toSnapshot m) \<noteq> Some ''''" using assms(3) by auto
  consider (url) "m_type m \<in> {T_HTTP, T_KEYWORD}" "\<not> blank (m_url m)"
    | (ssl) "m_type m = T_SSL" "\<not> blank (m_url m)"
    | (tcp) "m_type m \<in> {T_TCP, T_PORT}" "\<not> blank (m_host m)" "m_port m \<noteq> None"
    | (ping) "m_type m = T_PING" "\<not> blank (m_host m)"
    | (dns) "m_type m = T_DNS" "\<not> blank (m_host m)"
    using assms(1,2) by (cases "m_type m") (auto simp: target_ok_def validateTargetFields_def split: if_splits)
  then show ?thesis
  proof cases
    case url
    with httpProbe_not_config [of "toSnapshot m"] show ?thesis by (auto simp: defaultProbes_def)
  next
    case ssl
    with sslProbe_not_config [of "toSnapshot m"] hosts assms(4) show ?thesis
      by (auto simp: defaultProbes_def)
  next
    case tcp
    then obtain host port where "truthy_property (m_host m) = Some host" "m_port m = Some port"
      by (cases "truthy_property (m_host m)") (auto simp: blank_truthy)
    then have "tcpProbe wd (toSnapshot m) = tcpConnect wd host port" for wd by (simp add: tcpProbe_def)
    with tcp tcpConnect_not_config show ?thesis by (auto simp: defaultProbes_def)
  next
    case ping
    then obtain host where "truthy_property (m_host m) = Some host"
      by (cases "truthy_property (m_host m)") (auto simp: blank_truthy)
    then have "pingProbe wd (toSnapshot m)
        = tcpConnect wd host (case m_port m of None \<Rightarrow> DEFAULT_PING_PORT | Some p \<Rightarrow> p)" for wd
      by (simp add: pingProbe_def)
    with ping tcpConnect_not_config show ?thesis by (auto simp: defaultProbes_def)
  next
    case dns
    with dnsProbe_not_config [of "toSnapshot m"] assms(3) show ?thesis by (auto simp: defaultProbes_def)
  qed
qed

section \<open>Bindings\<close>

text \<open>
  The state configuration keeps: identifiers of channels and monitors are unique and new ones are
  fresh, a binding joins a monitor and a channel of one organization, and every monitor that is not
  deleted has a complete target.
\<close>

definition tenant_bindings :: "db \<Rightarrow> bool" where
  "tenant_bindings w \<longleftrightarrow>
     (\<forall>b \<in> set (bindings w). \<forall>m \<in> set (monitors w). \<forall>c \<in> set (channels w).
        m_id m = mc_monitorId b \<longrightarrow> ac_id c = mc_channelId b \<longrightarrow> ac_organizationId c = m_organizationId m)"

definition config_inv :: "db \<Rightarrow> bool" where
  "config_inv w \<longleftrightarrow>
     tenant_bindings w \<and> distinct (map ac_id (channels w)) \<and> distinct (map m_id (monitors w))
     \<and> fresh_ids (m_id ` set (monitors w) \<union> mc_monitorId ` set (bindings w)) w
     \<and> (\<forall>m \<in> set (monitors w). m_deletedAt m = None \<longrightarrow> target_ok m)"

text \<open>As many owned channels as requested ids: every requested id names an owned channel.\<close>

lemma assertChannelsOwned_None:
  assumes "assertChannelsOwned cs org a = None" "distinct (map ac_id (channels (engine a)))"
    and "c \<in> set (channels (engine a))" "ac_id c \<in> set cs"
  shows "ac_organizationId c = org"
proof -
  let ?P = "\<lambda>c. ac_id c \<in> set cs \<and> ac_organizationId c = org \<and> ac_deletedAt c = None"
  let ?own = "filter ?P (channels (engine a))"
  have n: "length ?own = length cs"
    using assms(1,4) by (auto simp: assertChannelsOwned_def count_rows_def split: if_splits)
  have d: "distinct (map ac_id ?own)" using assms(2) by (rule distinct_map_filter)
  from distinct_card [OF this] have "card (ac_id ` set ?own) = length cs" unfolding list.set_map length_map n .
  then have "card (set cs) \<le> card (ac_id ` set ?own)" using card_length [of cs] by simp
  moreover have "ac_id ` set ?own \<subseteq> set cs" by auto
  ultimately have "ac_id ` set ?own = set cs" by (intro card_seteq) simp_all
  with assms(4) have "ac_id c \<in> ac_id ` set ?own" by (simp only:)
  then obtain c' where eq: "ac_id c = ac_id c'" and own: "c' \<in> set ?own" by (rule imageE)
  from own have mem: "c' \<in> set (channels (engine a))" and org: "ac_organizationId c' = org" by simp_all
  have inj: "inj_on ac_id (set (channels (engine a)))" using assms(2) by (simp only: distinct_map)
  have "c = c'" by (rule inj_onD [OF inj eq assms(3) mem])
  with org show ?thesis by (simp only:)
qed

lemma bindings_channels [simp]:
  "channels (bind_channels i cs w) = channels w" "monitors (bind_channels i cs w) = monitors w"
  "channels (rebind_channels i cs w) = channels w" "monitors (rebind_channels i cs w) = monitors w"
  "db_uuid (bind_channels i cs w) = db_uuid w" "db_next (bind_channels i cs w) = db_next w"
  "db_uuid (rebind_channels i cs w) = db_uuid w" "db_next (rebind_channels i cs w) = db_next w"
  "channels (update_monitors i f w) = channels w" "bindings (update_monitors i f w) = bindings w"
  "db_uuid (update_monitors i f w) = db_uuid w" "db_next (update_monitors i f w) = db_next w"
  by (simp_all add: bind_channels_def rebind_channels_def unbind_channels_def update_monitors_def)

lemma set_rebind:
  "set (bindings (rebind_channels i cs w)) =
     {b \<in> set (bindings w). mc_monitorId b \<noteq> i} \<union> (\<lambda>c. \<lparr>mc_monitorId = i, mc_channelId = c\<rparr>) ` set cs"
  by (auto simp: rebind_channels_def bind_channels_def unbind_channels_def delete_rows_def)

lemma fresh_ids_mono:
  "fresh_ids used w \<Longrightarrow> used' \<subseteq> used \<Longrightarrow> db_uuid w' = db_uuid w \<Longrightarrow> db_next w' = db_next w \<Longrightarrow> fresh_ids used' w'"
  by (auto simp: fresh_ids_def)

text \<open>Rebinding a monitor of the organization to channels it owns.\<close>

lemma config_inv_rebind:
  assumes "config_inv (engine a)" "find_monitor org i a = Some m" "assertChannelsOwned cs org a = None"
  shows "config_inv (rebind_channels i cs (engine a))"
proof -
  let ?w = "engine a"
  have m: "m \<in> set (monitors ?w)" "m_id m = i" "m_organizationId m = org"
    using find_first_Some_iff [OF assms(2) [unfolded find_monitor_def]] by (auto simp: in_org_def)
  have u: "x \<in> set (monitors ?w) \<Longrightarrow> m_id x = i \<Longrightarrow> x = m" for x
    using assms(1) m by (metis config_inv_def distinct_map inj_onD)
  have "tenant_bindings (rebind_channels i cs ?w)"
    unfolding tenant_bindings_def set_rebind bindings_channels
  proof (intro ballI impI)
    fix b x c
    assume b: "b \<in> {b \<in> set (bindings ?w). mc_monitorId b \<noteq> i} \<union> (\<lambda>c. \<lparr>mc_monitorId = i, mc_channelId = c\<rparr>) ` set cs"
      and x: "x \<in> set (monitors ?w)" "m_id x = mc_monitorId b"
      and c: "c \<in> set (channels ?w)" "ac_id c = mc_channelId b"
    show "ac_organizationId c = m_organizationId x"
    proof (cases "b \<in> set (bindings ?w) \<and> mc_monitorId b \<noteq> i")
      case True
      with assms(1) x c show ?thesis by (auto simp: config_inv_def tenant_bindings_def)
    next
      case False
      with b x c have "ac_id c \<in> set cs" "m_id x = i" by auto
      moreover have "distinct (map ac_id (channels ?w))" using assms(1) by (simp add: config_inv_def)
      ultimately show ?thesis using assertChannelsOwned_None [OF assms(3) _ c(1)] u [OF x(1)] m(3) by simp
    qed
  qed
  moreover have "fresh_ids (m_id ` set (monitors ?w) \<union> mc_monitorId ` set (bindings (rebind_channels i cs ?w)))
      (rebind_channels i cs ?w)"
    by (rule fresh_ids_mono [of "m_id ` set (monitors ?w) \<union> mc_monitorId ` set (bindings ?w)"])
       (use assms(1) m in \<open>auto simp: config_inv_def set_rebind\<close>)
  ultimately show ?thesis using assms(1) by (simp add: config_inv_def)
qed

text \<open>Rewriting one monitor without touching its identity or owner.\<close>

lemma config_inv_update:
  assumes "config_inv w" "\<And>m. m_id (f m) = m_id m" "\<And>m. m_organizationId (f m) = m_organizationId m"
    and "\<And>m. m \<in> set (monitors w) \<Longrightarrow> P m \<Longrightarrow> m_deletedAt (f m) = None \<Longrightarrow> target_ok (f m)"
  shows "config_inv (w\<lparr>monitors := update_rows P f (monitors w)\<rparr>)"
proof -
  have s: "set (update_rows P f (monitors w)) = (\<lambda>m. if P m then f m else m) ` set (monitors w)"
    by (rule set_update_rows)
  have ids: "map m_id (update_rows P f (monitors w)) = map m_id (monitors w)"
    using assms(2) by (simp add: update_rows_def comp_def)
  then have "m_id ` set (update_rows P f (monitors w)) = m_id ` set (monitors w)" by (metis list.set_map)
  moreover have "tenant_bindings (w\<lparr>monitors := update_rows P f (monitors w)\<rparr>)"
    using assms(1-3) by (auto simp: tenant_bindings_def s config_inv_def)
  moreover have "\<forall>m \<in> set (update_rows P f (monitors w)). m_deletedAt m = None \<longrightarrow> target_ok m"
    using assms(1,4) by (auto simp: s config_inv_def)
  ultimately show ?thesis
    using assms(1) ids by (auto simp: config_inv_def intro: fresh_ids_mono)
qed

lemma config_inv_cong:
  "config_inv w \<Longrightarrow> monitors w' = monitors w \<Longrightarrow> bindings w' = bindings w \<Longrightarrow> channels w' = channels w \<Longrightarrow>
   db_uuid w' = db_uuid w \<Longrightarrow> db_next w' = db_next w \<Longrightarrow> config_inv w'"
  by (auto simp: config_inv_def tenant_bindings_def intro: fresh_ids_mono)

lemma config_inv_audit [simp]: "config_inv (writeAudit e w) \<longleftrightarrow> config_inv w"
proof
  show "config_inv (writeAudit e w) \<Longrightarrow> config_inv w" by (erule config_inv_cong) simp_all
  show "config_inv w \<Longrightarrow> config_inv (writeAudit e w)" by (erule config_inv_cong) simp_all
qed

section \<open>The service keeps them\<close>

lemma config_inv_create:
  assumes "config_inv (engine a)" "createMonitor org name type input actor now a = (r, a')"
  shows "config_inv (engine a')"
proof (cases r)
  case (Inl e)
  with assms show ?thesis
    by (auto simp: createMonitor_def gen_id_def Let_def split: sum.splits option.splits prod.splits)
next
  case (Inr d)
  define i where "i = new_id (engine a)"
  define row where "row = new_monitor i org name type input actor now"
  define cs where "cs = default_to [] (mi_channelIds input)"
  let ?w = "engine a"
  let ?w' = "bind_channels i cs ((draw_id ?w)\<lparr>monitors := insert_row row (monitors ?w)\<rparr>)"
  from Inr assms(2) have ok: "validateTargetFields type (mi_url input) (mi_host input) (mi_port input) = None"
    "assert_references org input a = None" "engine a' = writeAudit (monitor_audit org actor ''monitor.created'' i) ?w'"
    by (auto simp: createMonitor_def gen_id_def Let_def i_def row_def cs_def split: sum.splits option.splits)
  have own: "assertChannelsOwned cs org a = None"
    using ok(2) by (auto simp: cs_def default_to_def assert_references_def assertChannelsOwned_def
        split: option.splits if_splits)
  have i: "i \<notin> m_id ` set (monitors ?w) \<union> mc_monitorId ` set (bindings ?w)"
    using assms(1) fresh_ids_new by (auto simp: config_inv_def i_def)
  have row: "m_id row = i" "m_organizationId row = org" "target_ok row"
    using ok(1) by (simp_all add: row_def new_monitor_def target_ok_def)
  have b: "set (bindings ?w') = set (bindings ?w) \<union> (\<lambda>c. \<lparr>mc_monitorId = i, mc_channelId = c\<rparr>) ` set cs"
    by (simp add: bind_channels_def)
  have "tenant_bindings ?w'"
    unfolding tenant_bindings_def b bindings_channels
  proof (intro ballI impI)
    fix y x c
    assume y: "y \<in> set (bindings ?w) \<union> (\<lambda>c. \<lparr>mc_monitorId = i, mc_channelId = c\<rparr>) ` set cs"
      and x: "x \<in> set (monitors ((draw_id ?w)\<lparr>monitors := insert_row row (monitors ?w)\<rparr>))" "m_id x = mc_monitorId y"
      and c: "c \<in> set (channels ((draw_id ?w)\<lparr>monitors := insert_row row (monitors ?w)\<rparr>))" "ac_id c = mc_channelId y"
    have c': "c \<in> set (channels ?w)" using c(1) by simp
    show "ac_organizationId c = m_organizationId x"
    proof (cases "x = row")
      case True
      with x(2) row(1) have "mc_monitorId y = i" by simp
      with i have "y \<notin> set (bindings ?w)" by blast
      with y have "y \<in> (\<lambda>c. \<lparr>mc_monitorId = i, mc_channelId = c\<rparr>) ` set cs" by blast
      then have "mc_channelId y \<in> set cs" by (elim imageE) simp
      with c(2) have "ac_id c \<in> set cs" by simp
      moreover have "distinct (map ac_id (channels ?w))" using assms(1) by (simp add: config_inv_def)
      ultimately show ?thesis using assertChannelsOwned_None [OF own _ c'] True row(2) by simp
    next
      case False
      with x(1) have x': "x \<in> set (monitors ?w)" by (simp add: insert_row_def)
      with i x(2) y have "y \<in> set (bindings ?w)" by auto
      with assms(1) x' x(2) c' c(2) show ?thesis by (auto simp: config_inv_def tenant_bindings_def)
    qed
  qed
  moreover have "fresh_ids (m_id ` set (monitors ?w') \<union> mc_monitorId ` set (bindings ?w')) ?w'"
    by (rule fresh_ids_mono [OF fresh_ids_draw])
       (use assms(1) row(1) in \<open>auto simp: config_inv_def i_def insert_row_def b [unfolded insert_row_def i_def]\<close>)
  moreover have "distinct (map m_id (monitors ?w'))"
    using assms(1) i row(1) by (auto simp: config_inv_def insert_row_def)
  ultimately have "config_inv ?w'"
    unfolding config_inv_def [of ?w'] using assms(1) row(3) by (auto simp: config_inv_def insert_row_def)
  then show ?thesis by (simp add: ok(3))
qed

lemma update_row_sel [simp]:
  "m_id (update_row input actor m) = m_id m" "m_organizationId (update_row input actor m) = m_organizationId m"
  "m_deletedAt (update_row input actor m) = m_deletedAt m"
  by (simp_all add: update_row_def)

lemma config_inv_updateMonitor:
  assumes "config_inv (engine a)" "updateMonitor org i input actor a = (r, a')"
  shows "config_inv (engine a')"
proof (cases "engine a' = engine a")
  case True
  with assms(1) show ?thesis by simp
next
  case False
  with assms(2) obtain m where m: "find_monitor org i a = Some m"
    "validateTargetFields (default_to (m_type m) (mi_type input)) (first_some (mi_url input) (m_url m))
       (first_some (mi_host input) (m_host m)) (first_some (mi_port input) (m_port m)) = None"
    "assert_references org input a = None"
    by (auto simp: updateMonitor_def Let_def split: option.splits)
  define w1 where "w1 = (case mi_channelIds input of None \<Rightarrow> engine a | Some cs \<Rightarrow> rebind_channels i cs (engine a))"
  have e: "engine a' = writeAudit (monitor_audit org actor ''monitor.updated'' i)
      (update_monitors i (update_row input actor) w1)"
    using assms(2) m by (auto simp: updateMonitor_def Let_def w1_def split: option.splits)
  have w1: "config_inv w1" "monitors w1 = monitors (engine a)"
    using assms(1) config_inv_rebind [OF assms(1) m(1)] m(3)
    by (auto simp: w1_def assert_references_def split: option.splits if_splits)
  have "x = m" if "x \<in> set (monitors (engine a))" "m_id x = i" for x
    using assms(1) that find_first_Some_iff [OF m(1) [unfolded find_monitor_def]]
    by (metis config_inv_def distinct_map in_org_def inj_onD)
  then have "config_inv (update_monitors i (update_row input actor) w1)"
    unfolding update_monitors_def using m(2) w1
    by (intro config_inv_update) (auto simp: target_ok_def update_row_def)
  then show ?thesis by (simp add: e)
qed

lemma config_inv_state:
  assumes "config_inv (engine a)"
  shows "removeMonitor org i actor now a = (b, a') \<Longrightarrow> config_inv (engine a')"
    and "pauseMonitor org i actor a = (d, a') \<Longrightarrow> config_inv (engine a')"
    and "resumeMonitor org i actor a = (d, a') \<Longrightarrow> config_inv (engine a')"
    and "setChannels org i cs a = (s, a') \<Longrightarrow> config_inv (engine a')"
proof -
  have t: "m \<in> set (monitors (engine a)) \<Longrightarrow> m_deletedAt m = None \<Longrightarrow> target_ok m" for m
    using assms by (simp add: config_inv_def)
  show "config_inv (engine a')" if "removeMonitor org i actor now a = (b, a')"
    using that assms
    by (auto simp: removeMonitor_def split: if_splits intro!: config_inv_update)
  show "config_inv (engine a')" if "pauseMonitor org i actor a = (d, a')"
    using that assms t
    by (auto simp: pauseMonitor_def Let_def update_monitors_def split: option.splits if_splits
          intro!: config_inv_update) (simp_all add: target_ok_def)
  show "config_inv (engine a')" if "resumeMonitor org i actor a = (d, a')"
    using that assms t
    by (auto simp: resumeMonitor_def Let_def update_monitors_def split: option.splits if_splits
          intro!: config_inv_update) (simp_all add: target_ok_def)
  show "config_inv (engine a')" if "setChannels org i cs a = (s, a')"
    using that assms config_inv_rebind
    by (auto simp: setChannels_def split: option.splits)
qed

end
