(* ===== verification/MonitorLife.thy ===== *)
theory MonitorLife
  imports MonitorConfig Samples
begin

text \<open>
  Configuration and checks together: the relation \<open>life_step\<close> interleaves the operations of the
  monitor service with the processing of check results, over ports that may add deliveries and
  jobs but leave channels and bindings alone. \<open>config_inv\<close> is its invariant.
\<close>

section \<open>Ports that leave the routing alone\<close>

definition routing :: "db \<Rightarrow> alert_channel list \<times> monitor_channel list" where
  "routing w = (channels w, bindings w)"

locale routing_ports = safe_ports +
  assumes alerts_route: "po_alerts opts = Some f \<Longrightarrow> routing (snd (f c w)) = routing w"
    and integrations_route: "po_integrations opts = Some g \<Longrightarrow> routing (snd (g c' w)) = routing w"
    and escalation_route: "po_escalation opts = Some s \<Longrightarrow> routing (snd (s e w)) = routing w"
begin

lemma dispatch_alert_routing: "dispatch_alert opts c w = (r, w') \<Longrightarrow> routing w' = routing w"
  by (cases "po_alerts opts") (auto simp: dispatch_alert_def dest: alerts_route [of _ c w])

lemma dispatchIntegration_routing: "routing (dispatchIntegration opts c w) = routing w"
  by (cases "po_integrations opts") (auto simp: dispatchIntegration_def integrations_route)

lemma start_escalation_routing: "start_escalation opts m i w = (r, w') \<Longrightarrow> routing w' = routing w"
  by (auto simp: start_escalation_def split: option.splits; metis escalation_route snd_conv)

lemma announce_open_routing: "announce_open m out opts fl i now w = (r, w') \<Longrightarrow> routing w' = routing w"
  by (auto simp: announce_open_def Let_def dispatchIntegration_routing addEvent_def routing_def [of "writeAudit _ _"]
        split: if_splits prod.splits sum.splits dest!: dispatch_alert_routing start_escalation_routing)
     (simp_all add: routing_def)

lemma announce_resolved_routing: "announce_resolved m opts i w = (r, w') \<Longrightarrow> routing w' = routing w"
  by (auto simp: announce_resolved_def Let_def dispatchIntegration_routing routing_def [of "writeAudit _ _"]
        split: prod.splits sum.splits dest!: dispatch_alert_routing)
     (simp_all add: routing_def)

lemma processCheckResult_routing:
  assumes "processCheckResult m out opts now w = (r, w')"
  shows "routing w' = routing w"
proof -
  have rc: "routing w1 = routing w" if "record_check m out opts d now w = (x, w1)" for d x w1
    using that by (auto simp: record_check_def routing_def Let_def split: if_splits)
  have oi: "routing w2 = routing w1" if "openIncident m out now w1 = (x, w2)" for x w1 w2
    using that by (auto simp: openIncident_def routing_def Let_def split: if_splits)
  have ri: "routing w2 = routing w1" if "resolveIncident (s_id m) now w1 = (x, w2)" for x w1 w2
    using that by (auto simp: resolveIncident_def routing_def addEvent_def Let_def split: option.splits)
  have ev: "routing (addEvent i e msg now md w1) = routing w1" for i e msg md w1
    by (simp add: addEvent_def routing_def)
  show ?thesis
    using assms
    by (auto simp: processCheckResult_def Let_def ev
          split: prod.splits sum.splits option.splits incident_action.splits if_splits
          dest!: rc oi ri announce_open_routing announce_resolved_routing)
qed

end

lemma alert_view_routing: "alert_view w = alert_view w' \<Longrightarrow> routing w = routing w'"
  by (simp add: alert_view_def routing_def)

lemma dispatch_routing: "routing (snd (dispatch c w)) = routing w"
  using dispatch_exact [of c w] by (cases "dispatch c w") (auto simp: routing_def)

interpretation routed: routing_ports "worker_options webUrl now region" for webUrl now region
  by unfold_locales
     (auto simp: worker_options_def dispatch_routing dispatchIncident_view start_view
        intro: alert_view_routing alerts.fan_out_axioms incident_integrations.fan_out_axioms
          escalations.fan_out_axioms)

section \<open>Steps\<close>

inductive life_step :: "api \<Rightarrow> api \<Rightarrow> bool" where
  ls_create: "createMonitor org name type input actor now a = (r, a') \<Longrightarrow> life_step a a'"
| ls_update: "updateMonitor org i input actor a = (r', a') \<Longrightarrow> life_step a a'"
| ls_remove: "removeMonitor org i actor now a = (b, a') \<Longrightarrow> life_step a a'"
| ls_pause: "pauseMonitor org i actor a = (d, a') \<Longrightarrow> life_step a a'"
| ls_resume: "resumeMonitor org i actor a = (d, a') \<Longrightarrow> life_step a a'"
| ls_channels: "setChannels org i cs a = (s, a') \<Longrightarrow> life_step a a'"
| ls_check: "routing_ports opts \<Longrightarrow> processCheckResult m out opts now (engine a) = (x, w') \<Longrightarrow>
    life_step a (a\<lparr>engine := w'\<rparr>)"

lemma openIncident_supply: "supply_le w (snd (openIncident m out now w))"
  by (auto simp: openIncident_def supply_le_def Let_def)

lemma config_inv_check:
  assumes "config_inv w" "routing_ports opts" "processCheckResult m out opts now w = (r, w')"
  shows "config_inv w'"
proof -
  have ch: "channels w' = channels w" "bindings w' = bindings w"
    using routing_ports.processCheckResult_routing [OF assms(2,3)] by (simp_all add: routing_def)
  show ?thesis
  proof (cases "\<exists>x \<in> set (monitors w). m_id x = s_id m")
    case False
    with assms(3) safe_ports.processCheckResult_missing [OF routing_ports.axioms(1) [OF assms(2)]]
    have "w' = w\<lparr>check_results := insert_row (check_row m out (po_region opts) now) (check_results w)\<rparr>" by simp
    with assms(1) show ?thesis by (intro config_inv_cong [of w w']) simp_all
  next
    case True
    define d where "d = decide m (o_status out) (isInMaintenance (s_id m) now w)"
    from safe_ports.processCheckResult_core [OF routing_ports.axioms(1) [OF assms(2)] assms(3) True]
    have ms: "monitors w' = update_rows (\<lambda>x. m_id x = s_id m)
         (monitor_update m out d (po_isHeartbeatPing opts) now) (monitors w)"
      and s: "supply_le (if tr_incident d = Some Act_open then snd (openIncident m out now w) else w) w'"
      unfolding d_def by blast+
    have "supply_le w w'"
      using s supply_le_trans [OF openIncident_supply] by (auto split: if_splits)
    then have s': "supply_le (w\<lparr>monitors := monitors w'\<rparr>) w'" by (simp add: supply_le_def)
    have "config_inv (w\<lparr>monitors := monitors w'\<rparr>)"
      unfolding ms using assms(1)
      by (intro config_inv_update) (auto simp: monitor_update_def target_ok_def config_inv_def)
    then show ?thesis
      using ch by (auto simp: config_inv_def tenant_bindings_def intro: fresh_ids_supply [OF _ s'])
  qed
qed

lemma life_step_inv: "life_step a a' \<Longrightarrow> config_inv (engine a) \<Longrightarrow> config_inv (engine a')"
  by (induction rule: life_step.induct)
     (auto intro: config_inv_create config_inv_updateMonitor config_inv_state config_inv_check)

lemma life_steps_inv: "life_step\<^sup>*\<^sup>* a a' \<Longrightarrow> config_inv (engine a) \<Longrightarrow> config_inv (engine a')"
  by (induction rule: rtranclp_induct) (auto intro: life_step_inv)

section \<open>Where alerts go\<close>

lemma dispatched_in_tenant:
  assumes "tenant_bindings w" "dispatch c w = (r, w')" "m \<in> set (monitors w)" "m_id m = ax_monitorId c"
    and "j \<in> set (new_jobs w w')" "ch \<in> set (channels w)" "ac_id ch = aj_channelId j"
  shows "ac_organizationId ch = m_organizationId m"
proof -
  from dispatch_exact [OF assms(2)] obtain js where js: "alert_queue w' = alert_queue w @ js"
    "map aj_channelId js = bound_channels (ax_monitorId c) w" by blast
  have "aj_channelId j \<in> set (bound_channels (ax_monitorId c) w)"
    unfolding js(2) [symmetric] using assms(5) js(1) by (simp add: new_jobs_def)
  then obtain b where "b \<in> set (bindings w)" "mc_monitorId b = ax_monitorId c" "mc_channelId b = aj_channelId j"
    by (auto simp: bound_channels_def find_many_def)
  with assms(1,3,4,6,7) show ?thesis by (auto simp: tenant_bindings_def)
qed

end
