(* ===== verification/ApiSamples.thy ===== *)
theory ApiSamples
  imports MonitorLife
begin

text \<open>
  Concrete states of the API for the witnesses: two organizations, an owner and a developer in the
  first, a plan with limits, and the engine state of \<^verbatim>\<open>Samples\<close>.
\<close>

definition sample_org :: "id \<Rightarrow> organization_row" where
  "sample_org i = \<lparr>og_id = i, og_name = i, og_slug = i, og_logo = None, og_createdAt = 0\<rparr>"

definition sample_member :: "id \<Rightarrow> id \<Rightarrow> string \<Rightarrow> member_row" where
  "sample_member user org role =
     \<lparr>mb_id = user @ ''@'' @ org, mb_organizationId = org, mb_userId = user, mb_role = role, mb_createdAt = 0\<rparr>"

definition sample_plan :: billing_plan where
  "sample_plan =
     \<lparr>bp_id = ''p1'', bp_tier = STARTER, bp_name = ''Starter'', bp_description = None, bp_stripePriceId = Some ''price_1'',
      bp_monitorLimit = Some 50, bp_seatLimit = Some 3, bp_statusPageLimit = Some 3, bp_smsEnabled = False,
      bp_voiceEnabled = False, bp_ssoEnabled = False, bp_advancedAnalytics = False,
      bp_customDomainsEnabled = True, bp_meteredAllowances = None, bp_isPublic = True, bp_sortOrder = 1,
      bp_priceCents = 900, bp_currency = ''usd''\<rparr>"

definition sample_subscription :: subscription_row where
  "sample_subscription =
     \<lparr>sub_id = ''s1'', sub_organizationId = ''o1'', sub_planId = Some ''p1'', sub_plan = STARTER,
      sub_status = SUB_ACTIVE, sub_stripeCustomerId = Some ''cus_1'', sub_stripeSubscriptionId = Some ''sub_1'',
      sub_stripePriceId = Some ''price_1'', sub_seats = 1, sub_monitorLimit = None, sub_trialEndsAt = None,
      sub_currentPeriodEnd = None, sub_cancelAtPeriodEnd = False, sub_canceledAt = None\<rparr>"

definition sample_secrets :: "nat \<Rightarrow> string" where
  "sample_secrets n = replicate (Suc n) (CHR ''s'')"

definition sample_api :: api where
  "sample_api = (empty_api sample_db sample_secrets)
     \<lparr>organizations := [sample_org ''o1'', sample_org ''o2''],
      members := [sample_member ''alice'' ''o1'' ''owner'', sample_member ''dave'' ''o1'' ''developer''],
      billing_plans := [sample_plan], subscriptions := [sample_subscription]\<rparr>"

definition session_request :: "id \<Rightarrow> id \<Rightarrow> request" where
  "session_request user org =
     \<lparr>req_apiKeyHeader = None, req_authorization = None, req_session = Some user, req_organizationId = org\<rparr>"

definition sample_user :: monitor_actor where
  "sample_user = \<lparr>ma_userId = Some ''alice'', ma_actorType = A_user\<rparr>"

definition no_input :: monitor_input where
  "no_input =
     \<lparr>mi_name = None, mi_type = None, mi_groupId = None, mi_url = None, mi_host = None, mi_port = None,
      mi_httpMethod = None, mi_requestHeaders = None, mi_requestBody = None, mi_expectedStatus = None,
      mi_keyword = None, mi_keywordInverted = None, mi_followRedirects = None, mi_verifySsl = None,
      mi_intervalSeconds = None, mi_timeoutSeconds = None, mi_retries = None, mi_regions = None,
      mi_failureThreshold = None, mi_successThreshold = None, mi_escalationPolicyId = None,
      mi_assertions = None, mi_channelIds = None\<rparr>"

definition sample_page :: "id \<Rightarrow> id \<Rightarrow> visibility \<Rightarrow> status_page" where
  "sample_page i org v =
     \<lparr>sp_id = i, sp_organizationId = org, sp_slug = i, sp_customDomain = None, sp_name = i, sp_description = None,
      sp_visibility = v, sp_branding = None, sp_createdById = None, sp_updatedById = None, sp_deletedById = None,
      sp_createdAt = 0, sp_updatedAt = 0, sp_deletedAt = None\<rparr>"

definition domain_actor :: incident_actor where
  "domain_actor = \<lparr>act_userId = Some ''alice'', act_actorType = A_user, act_ipAddress = None, act_userAgent = None\<rparr>"

lemma sample_config_inv: "config_inv (engine sample_api)"
proof -
  have s: "target_ok sample_monitor" by code_simp
  have "sample_ids n \<noteq> ''m1''" for n by (cases n) (simp_all add: sample_ids_def)
  then have "fresh_ids {''m1''} sample_db"
    using inj_sample_ids by (simp add: fresh_ids_def sample_db_def empty_db_def)
  with s show ?thesis
    by (simp add: config_inv_def tenant_bindings_def sample_api_def empty_api_def sample_db_def
        sample_monitor_def sample_channel_def empty_db_def)
qed

end
