(* ===== verification/Domains.thy ===== *)
theory Domains
  imports MonitorService IncidentService
begin

text \<open>
  Custom domains: the normalisation of \<^verbatim>\<open>packages/shared/src/domains.ts\<close> and the service of
  \<^verbatim>\<open>apps/api/src/services/custom-domain.service.ts\<close>. The DNS resolver is a parameter: what a TXT
  lookup of a name answers. \<open>domain_step\<close> runs the operations of all organizations in any order
  and keeps, beside the tables, every TXT answer seen.
\<close>

section \<open>Host names\<close>

definition scheme_char :: "char \<Rightarrow> bool" where
  "scheme_char c = (is_lower_alpha c \<or> is_digit c \<or> c \<in> {CHR ''+'', CHR ''.'', CHR ''-''})"

text \<open>\<open>host.replace(/^[a-z][a-z0-9+.-]*:\/\//, "")\<close>: no scheme character is a colon.\<close>

definition strip_scheme :: "string \<Rightarrow> string" where
  "strip_scheme host =
     (let pre = takeWhile scheme_char host
      in if pre \<noteq> '''' \<and> is_lower_alpha (hd pre) \<and> starts_with (drop (length pre) host) ''://''
         then drop (length pre + 3) host else host)"

definition label_char :: "char \<Rightarrow> bool" where
  "label_char c = (is_lower_alpha c \<or> is_digit c \<or> c = CHR ''-'')"

definition LABEL :: "string \<Rightarrow> bool" where
  "LABEL l =
     (1 \<le> length l \<and> length l \<le> 63 \<and> list_all label_char l \<and> hd l \<noteq> CHR ''-'' \<and> last l \<noteq> CHR ''-'')"

definition bare_ipv4 :: "string \<Rightarrow> bool" where
  "bare_ipv4 host =
     (let parts = split_on (CHR ''.'') host
      in length parts = 4 \<and> list_all (\<lambda>p. p \<noteq> '''' \<and> list_all is_digit p) parts)"

definition public_domain :: "string \<Rightarrow> bool" where
  "public_domain host =
     (\<not> (length host = 0 \<or> length host > 253)
      \<and> CHR ''*'' \<notin> set host \<and> host \<noteq> ''localhost''
      \<and> \<not> (bare_ipv4 host \<or> CHR '':'' \<in> set host)
      \<and> (let labels = split_on (CHR ''.'') host
         in \<not> length labels < 2 \<and> list_all LABEL labels
            \<and> list_all is_lower_alpha (last labels) \<and> length (last labels) \<ge> 2))"

definition strip_host :: "string \<Rightarrow> string" where
  "strip_host host =
     (let h1 = hd (split_on (CHR ''/'') (strip_scheme host));
          h2 = hd (split_on (CHR '':'') h1)
      in if ends_with h2 ''.'' then butlast h2 else h2)"

definition normalizeDomain :: "string \<Rightarrow> string option" where
  "normalizeDomain input =
     (let host = to_lower (trim input)
      in if length host = 0 then None
         else (let h = strip_host host in if public_domain h then Some h else None))"

definition isValidDomain :: "string \<Rightarrow> bool" where
  "isValidDomain input = (normalizeDomain input \<noteq> None)"

definition DEFAULT_CHALLENGE_PREFIX :: string where
  "DEFAULT_CHALLENGE_PREFIX = ''_uptimeflow-challenge''"

record dns_instructions =
  di_txtName :: string
  di_txtValue :: string
  di_cnameName :: string
  di_cnameValue :: string

definition challengeHostname :: "string \<Rightarrow> string option \<Rightarrow> string" where
  "challengeHostname domain prefix = default_to DEFAULT_CHALLENGE_PREFIX prefix @ ''.'' @ domain"

definition buildDnsInstructions :: "string \<Rightarrow> string \<Rightarrow> string \<Rightarrow> string option \<Rightarrow> dns_instructions" where
  "buildDnsInstructions domain token cnameTarget challengePrefix =
     \<lparr>di_txtName = default_to DEFAULT_CHALLENGE_PREFIX challengePrefix @ ''.'' @ domain, di_txtValue = token,
      di_cnameName = domain, di_cnameValue = cnameTarget\<rparr>"

section \<open>The service\<close>

record domain_deps =
  dd_cnameTarget :: string
  dd_challengePrefix :: "string option"
  dd_assertCanUse :: "(id \<Rightarrow> api \<Rightarrow> js_error + unit) option"

text \<open>The service \<^verbatim>\<open>server.ts\<close> builds.\<close>

definition server_domains :: "string \<Rightarrow> domain_deps" where
  "server_domains cnameTarget =
     \<lparr>dd_cnameTarget = cnameTarget, dd_challengePrefix = None,
      dd_assertCanUse = Some (\<lambda>org. assertCapability org Cap_customDomains)\<rparr>"

record domain_summary =
  dm_id :: id
  dm_statusPageId :: id
  dm_domain :: string
  dm_verificationStatus :: verification_status
  dm_sslStatus :: ssl_status
  dm_verifiedAt :: "time option"
  dm_lastCheckedAt :: "time option"
  dm_lastCheckError :: "string option"
  dm_createdAt :: time
  dm_updatedAt :: time
  dm_dns :: dns_instructions

record resolved_domain =
  rd_organizationId :: id
  rd_statusPageId :: id
  rd_domain :: string
  rd_slug :: string

definition domainSummary :: "domain_deps \<Rightarrow> custom_domain \<Rightarrow> domain_summary" where
  "domainSummary deps row =
     \<lparr>dm_id = cd_id row, dm_statusPageId = cd_statusPageId row, dm_domain = cd_domain row,
      dm_verificationStatus = cd_verificationStatus row, dm_sslStatus = cd_sslStatus row,
      dm_verifiedAt = cd_verifiedAt row, dm_lastCheckedAt = cd_lastCheckedAt row,
      dm_lastCheckError = cd_lastCheckError row, dm_createdAt = cd_createdAt row,
      dm_updatedAt = cd_updatedAt row,
      dm_dns = buildDnsInstructions (cd_domain row) (cd_verificationToken row) (dd_cnameTarget deps)
                 (dd_challengePrefix deps)\<rparr>"

definition domain_audit :: "string \<Rightarrow> id \<Rightarrow> id \<Rightarrow> incident_actor \<Rightarrow> audit_event" where
  "domain_audit action organizationId did actor =
     \<lparr>au_organizationId = Some organizationId, au_actorId = act_userId actor,
      au_actorType = act_actorType actor, au_action = action, au_resourceType = ''statusPage'',
      au_resourceId = Some did, au_ipAddress = act_ipAddress actor, au_userAgent = act_userAgent actor,
      au_metadata = None\<rparr>"

definition domain_of :: "id \<Rightarrow> id \<Rightarrow> custom_domain \<Rightarrow> bool" where
  "domain_of organizationId did d \<longleftrightarrow>
     cd_id d = did \<and> cd_organizationId d = organizationId \<and> cd_deletedAt d = None"

definition listDomains ::
  "codec_host \<Rightarrow> domain_deps \<Rightarrow> id \<Rightarrow> nat \<Rightarrow> string option \<Rightarrow> api \<Rightarrow> js_error + domain_summary page" where
  "listDomains h deps organizationId limit cursor a =
     map_sum (\<lambda>e. e) (\<lambda>p. \<lparr>pg_items = map (domainSummary deps) (pg_items p), pg_nextCursor = pg_nextCursor p\<rparr>)
       (list_page h cd_id cd_createdAt
          (\<lambda>d. cd_organizationId d = organizationId \<and> cd_deletedAt d = None) limit (custom_domains a) cursor)"

definition getDomain :: "domain_deps \<Rightarrow> id \<Rightarrow> id \<Rightarrow> api \<Rightarrow> domain_summary option" where
  "getDomain deps organizationId did a =
     map_option (domainSummary deps) (find_first (domain_of organizationId did) (custom_domains a))"

text \<open>The page of the row is joined through its foreign key; its own deletion is not looked at.\<close>

definition resolveDomain :: "string \<Rightarrow> api \<Rightarrow> resolved_domain option" where
  "resolveDomain host a =
     (case normalizeDomain host of
        None \<Rightarrow> None
      | Some domain \<Rightarrow>
          (case find_first (\<lambda>d. cd_domain d = domain \<and> cd_verificationStatus d = DV_VERIFIED
                              \<and> cd_deletedAt d = None) (custom_domains a) of
             None \<Rightarrow> None
           | Some row \<Rightarrow>
               map_option (\<lambda>p. \<lparr>rd_organizationId = cd_organizationId row,
                   rd_statusPageId = cd_statusPageId row, rd_domain = cd_domain row, rd_slug = sp_slug p\<rparr>)
                 (find_first (\<lambda>p. sp_id p = cd_statusPageId row) (pages a))))"

definition new_domain :: "id \<Rightarrow> id \<Rightarrow> id \<Rightarrow> string \<Rightarrow> string \<Rightarrow> incident_actor \<Rightarrow> time \<Rightarrow> custom_domain" where
  "new_domain did organizationId statusPageId domain token actor now =
     \<lparr>cd_id = did, cd_organizationId = organizationId, cd_statusPageId = statusPageId, cd_domain = domain,
      cd_verificationStatus = DV_PENDING, cd_verificationToken = token, cd_sslStatus = SSL_PENDING,
      cd_verifiedAt = None, cd_lastCheckedAt = None, cd_lastCheckError = None,
      cd_createdById = act_userId actor, cd_updatedById = act_userId actor, cd_deletedById = None,
      cd_createdAt = now, cd_updatedAt = now, cd_deletedAt = None\<rparr>"

text \<open>The column \<open>domain\<close> is unique over all rows, the deleted ones included.\<close>

definition createDomain ::
  "domain_deps \<Rightarrow> id \<Rightarrow> id \<Rightarrow> string \<Rightarrow> incident_actor \<Rightarrow> time \<Rightarrow> api
   \<Rightarrow> (js_error + domain_summary) \<times> api" where
  "createDomain deps organizationId statusPageId domain actor now a =
     (case (case dd_assertCanUse deps of None \<Rightarrow> Inr () | Some gate \<Rightarrow> gate organizationId a) of
        Inl e \<Rightarrow> (Inl e, a)
      | Inr _ \<Rightarrow>
          (case normalizeDomain domain of
             None \<Rightarrow> (Inl (AppErr validation_failed ''Enter a valid domain, e.g. status.acme.com.''), a)
           | Some domain' \<Rightarrow>
               (case find_first (\<lambda>p. sp_id p = statusPageId \<and> sp_organizationId p = organizationId
                                   \<and> sp_deletedAt p = None) (pages a) of
                  None \<Rightarrow> (Inl (AppErr not_found ''Status page not found.''), a)
                | Some _ \<Rightarrow>
                    (let (token, a1) = gen_token a; (did, a2) = gen_id a1;
                         row = new_domain did organizationId statusPageId domain' token actor now
                     in if \<exists>d \<in> set (custom_domains a2). cd_domain d = domain'
                        then (Inl (AppErr conflict ''That domain is already connected to a status page.''), a2)
                        else (Inr (domainSummary deps row),
                              audit (domain_audit ''custom_domain.created'' organizationId did actor)
                                (a2\<lparr>custom_domains := insert_row row (custom_domains a2)\<rparr>))))))"

definition NO_TXT_RECORD :: string where
  "NO_TXT_RECORD = ''No verification TXT record found yet - DNS may still be propagating.''"

text \<open>The verdict on one lookup of the challenge name.\<close>

fun err_code :: "js_error \<Rightarrow> string option" where
  "err_code (NodeErr c _) = Some c"
| "err_code _ = None"

definition challenge_verdict ::
  "string \<Rightarrow> js_error + string list list \<Rightarrow> verification_status \<times> string option" where
  "challenge_verdict token answer =
     (case answer of
        Inr records \<Rightarrow>
          (let values = map concat records
           in if token \<in> set values then (DV_VERIFIED, None)
              else if length values > 0
              then (DV_FAILED, Some ''A TXT record was found but did not match the expected verification token.'')
              else (DV_PENDING, Some NO_TXT_RECORD))
      | Inl err \<Rightarrow>
          (DV_PENDING,
           if err_code err = Some ''ENOTFOUND'' \<or> err_code err = Some ''ENODATA'' then Some NO_TXT_RECORD
           else Some (''DNS lookup failed''
             @ (case err_code err of None \<Rightarrow> '''' | Some c \<Rightarrow> if c = '''' then '''' else '' ('' @ c @ '')'')
             @ '' - will retry.'')))"

definition checked_domain :: "verification_status \<Rightarrow> string option \<Rightarrow> time \<Rightarrow> custom_domain \<Rightarrow> custom_domain" where
  "checked_domain status err now d =
     d\<lparr>cd_verificationStatus := status, cd_lastCheckedAt := Some now,
       cd_lastCheckError := (if status = DV_VERIFIED then None else err),
       cd_verifiedAt := (if status = DV_VERIFIED then Some (default_to now (cd_verifiedAt d)) else cd_verifiedAt d),
       cd_updatedAt := now\<rparr>"

definition verify_actor :: incident_actor where
  "verify_actor = \<lparr>act_userId = None, act_actorType = A_user, act_ipAddress = None, act_userAgent = None\<rparr>"

definition verifyDomain ::
  "domain_deps \<Rightarrow> (string \<Rightarrow> js_error + string list list) \<Rightarrow> id \<Rightarrow> id \<Rightarrow> time \<Rightarrow> api
   \<Rightarrow> domain_summary option \<times> api" where
  "verifyDomain deps resolveTxt organizationId did now a =
     (case find_first (domain_of organizationId did) (custom_domains a) of
        None \<Rightarrow> (None, a)
      | Some row \<Rightarrow>
          (let (status, err) = challenge_verdict (cd_verificationToken row)
                 (resolveTxt (challengeHostname (cd_domain row) (dd_challengePrefix deps)));
               a1 = a\<lparr>custom_domains := update_rows (\<lambda>d. cd_id d = cd_id row) (checked_domain status err now)
                        (custom_domains a)\<rparr>;
               a2 = (if status = DV_VERIFIED \<and> cd_verificationStatus row \<noteq> DV_VERIFIED
                     then audit (domain_audit ''custom_domain.verified'' organizationId (cd_id row) verify_actor) a1
                     else a1)
           in (Some (domainSummary deps (checked_domain status err now row)), a2)))"

definition removeDomain :: "id \<Rightarrow> id \<Rightarrow> incident_actor \<Rightarrow> time \<Rightarrow> api \<Rightarrow> bool \<times> api" where
  "removeDomain organizationId did actor now a =
     (case find_first (domain_of organizationId did) (custom_domains a) of
        None \<Rightarrow> (False, a)
      | Some _ \<Rightarrow>
          (True, audit (domain_audit ''custom_domain.deleted'' organizationId did actor)
             (a\<lparr>custom_domains := update_rows (\<lambda>d. cd_id d = did)
                (\<lambda>d. d\<lparr>cd_deletedAt := Some now, cd_deletedById := act_userId actor, cd_updatedAt := now\<rparr>)
                (custom_domains a)\<rparr>)))"

section \<open>Normal forms\<close>

lemma split_on_chars: "x \<in> set s \<Longrightarrow> x \<noteq> c \<Longrightarrow> \<exists>p \<in> set (split_on c s). x \<in> set p"
  by (induction s) (auto split: list.splits)

lemma split_on_snoc: "split_on c (s @ [c]) = split_on c s @ [[]]"
  by (induction s) (auto split: list.splits)

lemma label_char_plain:
  assumes "label_char c \<or> c = CHR ''.''"
  shows "lower_char c = c" "\<not> is_space c" "c \<noteq> CHR '':''" "c \<noteq> CHR ''/''"
proof -
  define n :: nat where "n = of_char c"
  have n: "n = 45 \<or> n = 46 \<or> (48 \<le> n \<and> n \<le> 57) \<or> (97 \<le> n \<and> n \<le> 122)"
    using assms by (auto simp: n_def label_char_def is_lower_alpha_def is_digit_def Let_def)
  then show "lower_char c = c" "\<not> is_space c"
    by (auto simp: lower_char_def is_space_def Let_def n_def [symmetric])
  from n show "c \<noteq> CHR '':''" "c \<noteq> CHR ''/''" by (auto simp: n_def)
qed

lemma public_domain_chars:
  assumes "public_domain h" "c \<in> set h"
  shows "label_char c \<or> c = CHR ''.''"
proof (cases "c = CHR ''.''")
  case False
  with split_on_chars [OF assms(2)] obtain p where "p \<in> set (split_on (CHR ''.'') h)" "c \<in> set p" by blast
  with assms(1) have "LABEL p" by (auto simp: public_domain_def list_all_iff Let_def)
  with \<open>c \<in> set p\<close> show ?thesis by (auto simp: LABEL_def list_all_iff)
qed simp

lemma public_domain_end: "public_domain h \<Longrightarrow> \<not> ends_with h ''.''"
proof
  assume p: "public_domain h" and "ends_with h ''.''"
  then have "h \<noteq> []" "drop (length h - 1) h = ''.''" by (auto simp: ends_with_def)
  then have "h = butlast h @ ''.''" by (metis One_nat_def append_take_drop_id butlast_conv_take)
  then have "last (split_on (CHR ''.'') h) = []" by (metis split_on_snoc last_snoc)
  with p show False by (simp add: public_domain_def Let_def)
qed

lemma trim_id: "(\<And>c. c \<in> set s \<Longrightarrow> \<not> is_space c) \<Longrightarrow> trim s = s"
proof -
  assume ns: "\<And>c. c \<in> set s \<Longrightarrow> \<not> is_space c"
  have d: "dropWhile is_space t = t" if "set t \<subseteq> set s" for t
    using that ns by (cases t) auto
  show ?thesis by (simp add: trim_def d)
qed

lemma strip_scheme_id: "CHR '':'' \<notin> set h \<Longrightarrow> strip_scheme h = h"
proof -
  assume c: "CHR '':'' \<notin> set h"
  have "\<not> starts_with (drop n h) ''://''" for n
  proof
    assume "starts_with (drop n h) ''://''"
    then obtain t where "drop n h = ''://'' @ t" using starts_with_obtain by blast
    then have "CHR '':'' \<in> set (drop n h)" by simp
    with c show False using set_drop_subset by fastforce
  qed
  then show ?thesis by (simp add: strip_scheme_def Let_def)
qed

text \<open>A normal form is its own: every spelling of a host leads to one stored name.\<close>

lemma normalizeDomain_Some:
  assumes "normalizeDomain s = Some h"
  shows "public_domain h" "normalizeDomain h = Some h"
proof -
  show p: "public_domain h" using assms by (auto simp: normalizeDomain_def Let_def split: if_splits)
  note ch = label_char_plain [OF public_domain_chars [OF p]]
  have no: "CHR '':'' \<notin> set h" "CHR ''/'' \<notin> set h" using ch by blast+
  have "to_lower (trim h) = h"
    using ch by (simp add: trim_id to_lower_def map_idI)
  moreover have "strip_host h = h"
    using no public_domain_end [OF p] by (simp add: strip_host_def strip_scheme_id split_on_no_sep)
  moreover have "length h \<noteq> 0" using p by (simp add: public_domain_def)
  ultimately show "normalizeDomain h = Some h" using p by (simp add: normalizeDomain_def)
qed

section \<open>Ownership\<close>

text \<open>The TXT values a resolver answers, per name.\<close>

definition txt_answers :: "(string \<Rightarrow> js_error + string list list) \<Rightarrow> (string \<times> string) set" where
  "txt_answers resolveTxt = {(name, v). \<exists>rs. resolveTxt name = Inr rs \<and> v \<in> concat ` set rs}"

inductive domain_step ::
  "domain_deps \<Rightarrow> (string \<times> string) set \<times> api \<Rightarrow> (string \<times> string) set \<times> api \<Rightarrow> bool" for deps where
  ds_create: "createDomain deps org pid domain actor now a = (r, a') \<Longrightarrow> domain_step deps (seen, a) (seen, a')"
| ds_verify: "verifyDomain deps txt org did now a = (v, a') \<Longrightarrow>
    domain_step deps (seen, a) (seen \<union> txt_answers txt, a')"
| ds_remove: "removeDomain org did actor now a = (b, a') \<Longrightarrow> domain_step deps (seen, a) (seen, a')"

definition domain_row_ok :: "domain_deps \<Rightarrow> (string \<times> string) set \<Rightarrow> status_page list \<Rightarrow> custom_domain \<Rightarrow> bool" where
  "domain_row_ok deps seen ps d \<longleftrightarrow>
     (\<exists>p \<in> set ps. sp_id p = cd_statusPageId d \<and> sp_organizationId p = cd_organizationId d)
     \<and> (cd_verificationStatus d = DV_VERIFIED \<longrightarrow>
          (challengeHostname (cd_domain d) (dd_challengePrefix deps), cd_verificationToken d) \<in> seen)"

definition domains_inv :: "domain_deps \<Rightarrow> (string \<times> string) set \<Rightarrow> api \<Rightarrow> bool" where
  "domains_inv deps seen a \<longleftrightarrow>
     distinct (map cd_domain (custom_domains a)) \<and> distinct (map cd_id (custom_domains a))
     \<and> fresh_ids (cd_id ` set (custom_domains a)) (engine a)
     \<and> (\<forall>d \<in> set (custom_domains a). domain_row_ok deps seen (pages a) d)"

lemma domain_row_ok_mono: "domain_row_ok deps seen ps d \<Longrightarrow> seen \<subseteq> seen' \<Longrightarrow> domain_row_ok deps seen' ps d"
  by (auto simp: domain_row_ok_def)

text \<open>Rewriting rows without touching their identity keeps the invariant when every row stays in order.\<close>

lemma domains_inv_update:
  assumes "domains_inv deps seen a" "engine a' = engine a \<or> (\<exists>e. engine a' = writeAudit e (engine a))"
    and "custom_domains a' = update_rows P f (custom_domains a)" "pages a' = pages a" "seen \<subseteq> seen'"
    and "\<And>d. cd_domain (f d) = cd_domain d" "\<And>d. cd_id (f d) = cd_id d"
    and "\<And>d. d \<in> set (custom_domains a) \<Longrightarrow> P d \<Longrightarrow> domain_row_ok deps seen' (pages a) (f d)"
  shows "domains_inv deps seen' a'"
proof -
  have "map cd_domain (custom_domains a') = map cd_domain (custom_domains a)"
    and ids: "map cd_id (custom_domains a') = map cd_id (custom_domains a)"
    using assms(6,7) by (simp_all add: assms(3) map_update_rows)
  moreover from ids have "cd_id ` set (custom_domains a') = cd_id ` set (custom_domains a)" by (metis list.set_map)
  moreover have "\<forall>d \<in> set (custom_domains a'). domain_row_ok deps seen' (pages a') d"
    using assms(1,8) domain_row_ok_mono [OF _ assms(5)]
    by (auto simp: assms(3,4) set_update_rows domains_inv_def)
  moreover have "fresh_ids ids (engine a') = fresh_ids ids (engine a)" for ids
    using assms(2) by (auto simp: fresh_ids_def)
  ultimately show ?thesis using assms(1) by (simp add: domains_inv_def)
qed

lemma domains_inv_create:
  assumes "domains_inv deps seen a" "createDomain deps org pid domain actor now a = (r, a')"
  shows "domains_inv deps seen a'"
proof (cases "custom_domains a' = custom_domains a")
  case True
  have "pages a' = pages a" and "db_uuid (engine a') = db_uuid (engine a) \<and> db_next (engine a) \<le> db_next (engine a')"
    using assms(2) by (auto simp: createDomain_def gen_token_def gen_id_def Let_def on_engine_def audit_def
        split: sum.splits option.splits if_splits)
  with True assms(1) show ?thesis by (auto simp: domains_inv_def fresh_ids_def)
next
  case False
  let ?found = "find_first (\<lambda>p. sp_id p = pid \<and> sp_organizationId p = org \<and> sp_deletedAt p = None) (pages a)"
  have g: "(case dd_assertCanUse deps of None \<Rightarrow> Inr () | Some gate \<Rightarrow> gate org a) = Inr ()"
    using False assms(2) by (auto simp: createDomain_def split: sum.splits)
  note s = assms(2) [unfolded createDomain_def g, simplified]
  obtain domain' where n: "normalizeDomain domain = Some domain'"
    using False s by (cases "normalizeDomain domain") simp_all
  obtain p where d: "normalizeDomain domain = Some domain'" "?found = Some p"
    using False s n by (cases ?found) simp_all
  have d3: "\<forall>d \<in> set (custom_domains a). cd_domain d \<noteq> domain'"
  proof (rule ccontr)
    assume "\<not> ?thesis"
    with False s d show False by (auto simp: gen_token_def gen_id_def)
  qed
  have c: "custom_domains a' = custom_domains a @ [new_domain (new_id (engine a)) org pid domain'
        (secrets a (next_secret a)) actor now]" "pages a' = pages a"
      "engine a' = writeAudit (domain_audit ''custom_domain.created'' org (new_id (engine a)) actor) (draw_id (engine a))"
    using s d d3 by (auto simp: gen_token_def gen_id_def insert_row_def new_id_def Let_def)
  from find_first_Some_iff [OF d(2)] have "\<exists>p \<in> set (pages a). sp_id p = pid \<and> sp_organizationId p = org" by blast
  moreover have "new_id (engine a) \<notin> cd_id ` set (custom_domains a)"
    using assms(1) fresh_ids_new by (auto simp: domains_inv_def)
  moreover have "fresh_ids (insert (new_id (engine a)) (cd_id ` set (custom_domains a))) (engine a')"
  proof -
    from assms(1) have "fresh_ids (cd_id ` set (custom_domains a)) (engine a)" by (simp add: domains_inv_def)
    from fresh_ids_draw [OF this] show ?thesis by (simp add: c(3) fresh_ids_def)
  qed
  ultimately show ?thesis
    using assms(1) d3 by (auto simp: c(1,2) domains_inv_def new_domain_def domain_row_ok_def)
qed

lemma verdict_verified:
  "challenge_verdict token answer = (DV_VERIFIED, e) \<Longrightarrow> \<exists>rs. answer = Inr rs \<and> token \<in> concat ` set rs"
  by (auto simp: challenge_verdict_def Let_def split: sum.splits if_splits)

lemma domains_inv_verify:
  assumes "domains_inv deps seen a" "verifyDomain deps txt org did now a = (r, a')"
  shows "domains_inv deps (seen \<union> txt_answers txt) a'"
proof (cases "find_first (domain_of org did) (custom_domains a)")
  case None
  with assms show ?thesis by (auto simp: verifyDomain_def domains_inv_def intro: domain_row_ok_mono)
next
  case (Some row)
  note row = find_first_Some_iff [OF Some]
  let ?host = "challengeHostname (cd_domain row) (dd_challengePrefix deps)"
  obtain status err where v: "challenge_verdict (cd_verificationToken row) (txt ?host) = (status, err)" by fastforce
  have same: "d = row" if "d \<in> set (custom_domains a)" "cd_id d = cd_id row" for d
    using assms(1) that row by (metis domains_inv_def distinct_map inj_onD)
  have ok: "domain_row_ok deps (seen \<union> txt_answers txt) (pages a) (checked_domain status err now row)"
  proof -
    have "(?host, cd_verificationToken row) \<in> txt_answers txt" if "status = DV_VERIFIED"
      using verdict_verified [OF v [unfolded that]] by (auto simp: txt_answers_def)
    then show ?thesis using assms(1) row by (auto simp: domains_inv_def domain_row_ok_def checked_domain_def)
  qed
  have c: "custom_domains a' = update_rows (\<lambda>d. cd_id d = cd_id row) (checked_domain status err now)
      (custom_domains a)" "pages a' = pages a"
    "engine a' = engine a \<or> (\<exists>e. engine a' = writeAudit e (engine a))"
    using assms(2) Some v by (auto simp: verifyDomain_def Let_def split: if_splits)
  show ?thesis
  proof (rule domains_inv_update [OF assms(1) c(3,1,2)])
    fix d
    assume "d \<in> set (custom_domains a)" "cd_id d = cd_id row"
    from same [OF this] ok show "domain_row_ok deps (seen \<union> txt_answers txt) (pages a) (checked_domain status err now d)"
      by (simp only:)
  qed (simp_all add: checked_domain_def)
qed

lemma domains_inv_remove:
  assumes "domains_inv deps seen a" "removeDomain org did actor now a = (b, a')"
  shows "domains_inv deps seen a'"
proof (cases "find_first (domain_of org did) (custom_domains a)")
  case None
  with assms show ?thesis by (simp add: removeDomain_def)
next
  case (Some row)
  let ?f = "\<lambda>d. d\<lparr>cd_deletedAt := Some now, cd_deletedById := act_userId actor, cd_updatedAt := now\<rparr>"
  have c: "custom_domains a' = update_rows (\<lambda>d. cd_id d = did) ?f (custom_domains a)" "pages a' = pages a"
    "engine a' = engine a \<or> (\<exists>e. engine a' = writeAudit e (engine a))"
    using assms(2) Some by (auto simp: removeDomain_def)
  show ?thesis
  proof (rule domains_inv_update [OF assms(1) c(3,1,2) order_refl])
    fix d
    assume "d \<in> set (custom_domains a)"
    with assms(1) show "domain_row_ok deps seen (pages a) (?f d)" by (simp add: domains_inv_def domain_row_ok_def)
  qed simp_all
qed

lemma domain_steps_inv:
  assumes "(domain_step deps)\<^sup>*\<^sup>* s s'" "domains_inv deps (fst s) (snd s)"
  shows "domains_inv deps (fst s') (snd s')"
  using assms
proof (induction rule: rtranclp_induct)
  case (step y z)
  from step.hyps(2) step.IH [OF step.prems] show ?case
    by cases (auto intro: domains_inv_create domains_inv_verify domains_inv_remove)
qed

lemma resolved_owner:
  assumes "domains_inv deps seen a" "resolveDomain host a = Some r"
  shows "normalizeDomain host = Some (rd_domain r)
    \<and> (\<exists>d \<in> set (custom_domains a). cd_domain d = rd_domain r \<and> cd_organizationId d = rd_organizationId r
         \<and> cd_deletedAt d = None
         \<and> (challengeHostname (rd_domain r) (dd_challengePrefix deps), cd_verificationToken d) \<in> seen)
    \<and> (\<exists>p \<in> set (pages a). sp_id p = rd_statusPageId r \<and> sp_organizationId p = rd_organizationId r)"
proof -
  obtain domain row p where n: "normalizeDomain host = Some domain"
    and f: "find_first (\<lambda>d. cd_domain d = domain \<and> cd_verificationStatus d = DV_VERIFIED \<and> cd_deletedAt d = None)
        (custom_domains a) = Some row"
    and r: "rd_organizationId r = cd_organizationId row" "rd_statusPageId r = cd_statusPageId row"
      "rd_domain r = cd_domain row"
    using assms(2) by (auto simp: resolveDomain_def split: option.splits)
  note row = find_first_Some_iff [OF f]
  with assms(1) have "domain_row_ok deps seen (pages a) row" by (auto simp: domains_inv_def)
  with n row show ?thesis by (auto simp: r domain_row_ok_def)
qed

end
