(* ===== verification/Rollup.thy ===== *)
theory Rollup
  imports PlanLimits
begin

text \<open>
  Daily statistics, from \<^verbatim>\<open>packages/monitoring/src/rollup\<close> and the one-shot backfill of
  \<^verbatim>\<open>apps/worker/src/rollup-backfill.ts\<close>. The SQL statement is modelled clause by clause over the
  tables; PostgreSQL's \<open>percentile_cont\<close> followed by the cast to \<open>int\<close> is a parameter. Days are
  their first instants, which order as their \<open>YYYY-MM-DD\<close> texts do for years of four digits.
\<close>

section \<open>One window\<close>

type_synonym percentile = "rat \<Rightarrow> int list \<Rightarrow> int"
type_synonym stat_key = "id \<times> probe_region \<times> time"

definition UP_STATUSES :: "check_status list" where "UP_STATUSES = [C_UP, C_DEGRADED]"
definition DOWN_STATUSES :: "check_status list" where "DOWN_STATUSES = [C_DOWN, C_TIMEOUT, C_ERROR]"
definition DAY_SEC :: int where "DAY_SEC = 86400"

definition utcDayStart :: "time \<Rightarrow> time" where
  "utcDayStart d = d div DAY * DAY"

text \<open>SQL's \<open>ROUND\<close> of a non-negative number: halves go up.\<close>

definition sql_round :: "rat \<Rightarrow> int" where
  "sql_round x = \<lfloor>x + 1 / 2\<rfloor>"

definition uptime_pct :: "int \<Rightarrow> int \<Rightarrow> rat" where
  "uptime_pct up total' = of_int (sql_round (100 * of_int up / of_int total' * 10000)) / 10000"

definition responses :: "check_result list \<Rightarrow> int list" where
  "responses cs = List.map_filter cr_responseMs (filter (\<lambda>c. cr_status c \<in> set UP_STATUSES) cs)"

definition avg_response :: "int list \<Rightarrow> int option" where
  "avg_response xs =
     (if xs = [] then None else Some (sql_round (of_int (sum_list xs) / of_int (int (length xs)))))"

definition percentile_response :: "percentile \<Rightarrow> rat \<Rightarrow> int list \<Rightarrow> int option" where
  "percentile_response pc q xs = (if xs = [] then None else Some (pc q (sort xs)))"

text \<open>The \<open>SELECT\<close> list of one group: the group's key, its rows and the monitor's interval.\<close>

definition group_stat :: "percentile \<Rightarrow> id \<Rightarrow> stat_key \<Rightarrow> int \<Rightarrow> check_result list \<Rightarrow> daily_stat" where
  "group_stat pc org k interval cs =
     (let up = count_rows (\<lambda>c. cr_status c \<in> set UP_STATUSES) cs;
          down = count_rows (\<lambda>c. cr_status c \<in> set DOWN_STATUSES) cs;
          total' = int (length cs)
      in \<lparr>ds_organizationId = org, ds_monitorId = fst k, ds_region = Some (fst (snd k)), ds_day = snd (snd k),
          ds_totalChecks = total', ds_upChecks = up, ds_downChecks = down,
          ds_uptimePct = uptime_pct up total', ds_avgResponseMs = avg_response (responses cs),
          ds_p95ResponseMs = percentile_response pc (95 / 100) (responses cs),
          ds_p99ResponseMs = percentile_response pc (99 / 100) (responses cs),
          ds_downtimeSec = min (down * interval) DAY_SEC\<rparr>)"

definition check_key :: "check_result \<Rightarrow> stat_key" where
  "check_key c = (cr_monitorId c, cr_region c, utcDayStart (cr_checkedAt c))"

definition monitor_of :: "id \<Rightarrow> db \<Rightarrow> monitor_row option" where
  "monitor_of i w = find_first (\<lambda>m. m_id m = i) (monitors w)"

text \<open>The joined rows of the window, and the keys of their groups.\<close>

definition window_rows :: "time \<Rightarrow> time \<Rightarrow> db \<Rightarrow> check_result list" where
  "window_rows from' to' w =
     filter (\<lambda>c. from' \<le> cr_checkedAt c \<and> cr_checkedAt c < to' \<and> monitor_of (cr_monitorId c) w \<noteq> None)
       (check_results w)"

definition group_keys :: "check_result list \<Rightarrow> (id \<times> stat_key) list" where
  "group_keys cs = remdups (map (\<lambda>c. (cr_organizationId c, check_key c)) cs)"

definition stat_of :: "percentile \<Rightarrow> check_result list \<Rightarrow> db \<Rightarrow> id \<times> stat_key \<Rightarrow> daily_stat" where
  "stat_of pc cs w g =
     group_stat pc (fst g) (snd g)
       (case monitor_of (fst (snd g)) w of None \<Rightarrow> 0 | Some m \<Rightarrow> m_intervalSeconds m)
       (filter (\<lambda>c. (cr_organizationId c, check_key c) = g) cs)"

definition has_key :: "stat_key \<Rightarrow> daily_stat \<Rightarrow> bool" where
  "has_key k s \<longleftrightarrow> ds_monitorId s = fst k \<and> ds_region s = Some (fst (snd k)) \<and> ds_day s = snd (snd k)"

definition do_update :: "daily_stat \<Rightarrow> daily_stat \<Rightarrow> daily_stat" where
  "do_update excluded s =
     s\<lparr>ds_totalChecks := ds_totalChecks excluded, ds_upChecks := ds_upChecks excluded,
       ds_downChecks := ds_downChecks excluded, ds_uptimePct := ds_uptimePct excluded,
       ds_avgResponseMs := ds_avgResponseMs excluded, ds_p95ResponseMs := ds_p95ResponseMs excluded,
       ds_p99ResponseMs := ds_p99ResponseMs excluded, ds_downtimeSec := ds_downtimeSec excluded\<rparr>"

definition upsert_stat :: "stat_key \<Rightarrow> daily_stat \<Rightarrow> daily_stat list \<Rightarrow> daily_stat list" where
  "upsert_stat k s t =
     (if find_first (has_key k) t = None then insert_row s t
      else update_rows (has_key k) (do_update s) t)"

text \<open>A statement that would touch one row twice is refused as a whole.\<close>

definition rollupWindow :: "percentile \<Rightarrow> time \<Rightarrow> time \<Rightarrow> api \<Rightarrow> (js_error + int) \<times> api" where
  "rollupWindow pc windowFrom windowTo a =
     (let from' = utcDayStart windowFrom; to' = utcDayStart windowTo in
      if to' \<le> from' then (Inr 0, a)
      else (let cs = window_rows from' to' (engine a); gs = group_keys cs
            in if \<not> distinct (map snd gs)
               then (Inl (NodeErr ''P2010'' ''ON CONFLICT DO UPDATE command cannot affect row a second time''), a)
               else (Inr (int (length gs)),
                     a\<lparr>daily_stats := fold (\<lambda>g. upsert_stat (snd g) (stat_of pc cs (engine a) g)) gs (daily_stats a)\<rparr>)))"

definition rollupRecentDays :: "percentile \<Rightarrow> int \<Rightarrow> time \<Rightarrow> api \<Rightarrow> (js_error + int) \<times> api" where
  "rollupRecentDays pc lookbackDays now a =
     (let lookback = max 0 lookbackDays; today = utcDayStart now
      in rollupWindow pc (today - lookback * DAY) (today + DAY) a)"

definition earliestCheckDay :: "api \<Rightarrow> time option" where
  "earliestCheckDay a =
     (case map cr_checkedAt (check_results (engine a)) of
        [] \<Rightarrow> None
      | t # ts \<Rightarrow> Some (utcDayStart (fold min ts t)))"

record rollup_result =
  rr_rows :: int
  rr_lookbackDays :: int

definition rollup_processor :: "percentile \<Rightarrow> int \<Rightarrow> time \<Rightarrow> api \<Rightarrow> (js_error + rollup_result) \<times> api" where
  "rollup_processor pc lookbackDays now a =
     (case rollupRecentDays pc lookbackDays now a of
        (Inl e, a') \<Rightarrow> (Inl e, a')
      | (Inr rows, a') \<Rightarrow> (Inr \<lparr>rr_rows = rows, rr_lookbackDays = lookbackDays\<rparr>, a'))"

section \<open>The backfill\<close>

text \<open>\<open>parseChunkDays\<close>: \<open>None\<close> exits the process; \<open>Number(raw)\<close> is the runtime's.\<close>

definition parseChunkDays :: "(string \<Rightarrow> numv) \<Rightarrow> string option \<Rightarrow> int option" where
  "parseChunkDays to_num arg =
     (case arg of
        None \<Rightarrow> Some 7
      | Some raw \<Rightarrow>
          (case to_num raw of
             Fin q \<Rightarrow> if q = of_int \<lfloor>q\<rfloor> \<and> 1 \<le> \<lfloor>q\<rfloor> \<and> \<lfloor>q\<rfloor> \<le> 365 then Some \<lfloor>q\<rfloor> else None
           | _ \<Rightarrow> None))"

text \<open>The \<open>while\<close> loop: it may not end for every step width, so not returning is \<open>None\<close>.\<close>

partial_function (option) backfill_loop ::
  "percentile \<Rightarrow> int \<Rightarrow> time \<Rightarrow> time \<Rightarrow> int \<Rightarrow> int \<Rightarrow> api \<Rightarrow> ((js_error + int \<times> int) \<times> api) option" where
  "backfill_loop pc chunkDays until cursor totalRows chunks a =
     (if \<not> cursor < until then Some (Inr (chunks, totalRows), a)
      else (let chunkEnd = min (cursor + chunkDays * DAY) until
            in case fst (rollupWindow pc cursor chunkEnd a) of
                 Inl e \<Rightarrow> Some (Inl e, snd (rollupWindow pc cursor chunkEnd a))
               | Inr rows \<Rightarrow>
                   backfill_loop pc chunkDays until chunkEnd (totalRows + rows) (chunks + 1)
                     (snd (rollupWindow pc cursor chunkEnd a))))"

datatype backfill_outcome = Nothing_to_do | Bad_range | Complete int int

text \<open>
  \<open>main\<close> after its arguments are parsed: \<open>since\<close> defaults to the earliest check, \<open>until\<close> to
  tomorrow.
\<close>

definition backfill ::
  "percentile \<Rightarrow> int \<Rightarrow> time option \<Rightarrow> time option \<Rightarrow> time \<Rightarrow> api
   \<Rightarrow> ((js_error + backfill_outcome) \<times> api) option" where
  "backfill pc chunkDays sinceArg untilArg now a =
     (case (case sinceArg of Some s \<Rightarrow> Some s | None \<Rightarrow> earliestCheckDay a) of
        None \<Rightarrow> Some (Inr Nothing_to_do, a)
      | Some since \<Rightarrow>
          (let until = (case untilArg of Some u \<Rightarrow> u | None \<Rightarrow> utcDayStart now + DAY)
           in if until \<le> since then Some (Inr Bad_range, a)
              else map_option (map_prod (map_sum (\<lambda>e. e) (\<lambda>(chunks, rows). Complete chunks rows)) (\<lambda>a. a))
                     (backfill_loop pc chunkDays until since 0 0 a)))"

section \<open>What a window writes\<close>

definition stat_at :: "api \<Rightarrow> stat_key \<Rightarrow> daily_stat option" where
  "stat_at a k = find_first (has_key k) (daily_stats a)"

definition merged :: "daily_stat option \<Rightarrow> daily_stat \<Rightarrow> daily_stat" where
  "merged old s = (case old of None \<Rightarrow> s | Some x \<Rightarrow> do_update s x)"

lemma has_key_unique: "has_key k s \<Longrightarrow> has_key k' s \<longleftrightarrow> k' = k"
  by (cases k; cases k') (auto simp: has_key_def)

lemma has_key_do_update [simp]: "has_key k (do_update s x) \<longleftrightarrow> has_key k x"
  by (simp add: has_key_def do_update_def)

lemma merged_twice [simp]: "merged (Some (merged old s)) s = merged old s"
  by (cases old) (simp_all add: merged_def do_update_def)

lemma has_key_merged: "has_key k s \<Longrightarrow> (\<And>x. old = Some x \<Longrightarrow> has_key k x) \<Longrightarrow> has_key k (merged old s)"
  by (auto simp: merged_def split: option.split)

lemma upsert_lookup:
  assumes "has_key k s"
  shows "find_first (has_key k') (upsert_stat k s t) =
    (if k' = k then Some (merged (find_first (has_key k) t) s) else find_first (has_key k') t)"
proof (cases "find_first (has_key k) t")
  case None
  with assms show ?thesis
    by (auto simp: upsert_stat_def find_first_insert_row merged_def has_key_unique split: option.split)
next
  case (Some x)
  have "find_first (has_key k') (update_rows (has_key k) (do_update s) t)
      = map_option (\<lambda>r. if has_key k r then do_update s r else r) (find_first (has_key k') t)"
    by (rule find_first_update_keep) simp
  moreover have "has_key k r \<longleftrightarrow> k' = k" if "find_first (has_key k') t = Some r" for r
    using find_first_Some_iff [OF that] has_key_unique by blast
  ultimately show ?thesis
    using Some by (cases "find_first (has_key k') t") (auto simp: upsert_stat_def merged_def)
qed

lemma find_first_Cons: "find_first P (x # xs) = (if P x then Some x else find_first P xs)"
  by (simp add: find_first_def)

lemma fold_upsert_lookup:
  assumes "distinct (map snd gs)" "\<And>g. has_key (snd g) (f g)"
  shows "find_first (has_key k) (fold (\<lambda>g. upsert_stat (snd g) (f g)) gs t) =
    (case find_first (\<lambda>g. snd g = k) gs of
       None \<Rightarrow> find_first (has_key k) t | Some g \<Rightarrow> Some (merged (find_first (has_key k) t) (f g)))"
  using assms(1)
proof (induction gs arbitrary: t)
  case Nil
  then show ?case by (simp add: find_first_def)
next
  case (Cons g gs)
  have "find_first (\<lambda>x. snd x = snd g) gs = None"
    unfolding find_first_None_iff using Cons.prems by (metis distinct.simps(2) image_eqI list.set_map list.simps(9))
  then have n: "snd g = k \<Longrightarrow> find_first (\<lambda>x. snd x = k) gs = None" by simp
  have "distinct (map snd gs)" using Cons.prems by simp
  note ih = Cons.IH [OF this, of "upsert_stat (snd g) (f g) t"]
  show ?case
  proof (cases "snd g = k")
    case True
    with ih n upsert_lookup [OF assms(2) [of g], of k t] show ?thesis by (simp add: find_first_Cons)
  next
    case False
    then have "k \<noteq> snd g" by simp
    with ih False upsert_lookup [OF assms(2) [of g], of k t] show ?thesis
      by (cases "find_first (\<lambda>g. snd g = k) gs") (simp_all add: find_first_Cons)
  qed
qed

lemma has_key_group_stat [simp]: "has_key (snd g) (stat_of pc cs w g)"
  by (simp add: has_key_def stat_of_def group_stat_def Let_def)

text \<open>Whole days: a check lies in an aligned window exactly when its day does.\<close>

lemma DAY_pos: "0 < DAY"
  by (simp add: DAY_def)

lemma day_aligned: "DAY dvd utcDayStart t" "DAY dvd d \<Longrightarrow> utcDayStart d = d"
  by (simp_all add: utcDayStart_def)

lemma day_bounds: "utcDayStart t \<le> t" "t < utcDayStart t + DAY"
  using DAY_pos minus_mod_eq_div_mult [of t DAY, symmetric] pos_mod_bound [of DAY t] pos_mod_sign [of DAY t]
  by (simp_all add: utcDayStart_def)

lemma day_mono: "s \<le> t \<Longrightarrow> utcDayStart s \<le> utcDayStart t"
  using DAY_pos by (simp add: utcDayStart_def zdiv_mono1)

lemma day_in_window:
  assumes "DAY dvd d"
  shows "d \<le> t \<longleftrightarrow> d \<le> utcDayStart t" "t < d \<longleftrightarrow> utcDayStart t < d"
proof -
  show "d \<le> t \<longleftrightarrow> d \<le> utcDayStart t"
    using day_mono [of d t] day_bounds(1) [of t] day_aligned(2) [OF assms] by linarith
  then show "t < d \<longleftrightarrow> utcDayStart t < d" by linarith
qed

section \<open>Groups\<close>

text \<open>The organization of a check is that of its monitor, so a key names one group.\<close>

definition one_owner :: "db \<Rightarrow> bool" where
  "one_owner w \<longleftrightarrow>
     (\<forall>c \<in> set (check_results w). \<forall>c' \<in> set (check_results w).
        cr_monitorId c = cr_monitorId c' \<longrightarrow> cr_organizationId c = cr_organizationId c')"

definition monitored :: "db \<Rightarrow> check_result list" where
  "monitored w = filter (\<lambda>c. monitor_of (cr_monitorId c) w \<noteq> None) (check_results w)"

definition full_stat :: "percentile \<Rightarrow> db \<Rightarrow> id \<times> stat_key \<Rightarrow> daily_stat" where
  "full_stat pc w g = stat_of pc (monitored w) w g"

definition day_of :: "id \<times> stat_key \<Rightarrow> time" where
  "day_of g = snd (snd (snd g))"

lemma group_keys_distinct:
  assumes "one_owner w" "set cs \<subseteq> set (check_results w)"
  shows "distinct (map snd (group_keys cs))"
proof -
  have "inj_on snd (set (group_keys cs))"
  proof (rule inj_onI)
    fix g g'
    assume "g \<in> set (group_keys cs)" "g' \<in> set (group_keys cs)" and k: "snd g = snd g'"
    then obtain c c' where c: "c \<in> set cs" "g = (cr_organizationId c, check_key c)"
      "c' \<in> set cs" "g' = (cr_organizationId c', check_key c')" by (auto simp: group_keys_def)
    with k have "cr_monitorId c = cr_monitorId c'" by (simp add: check_key_def)
    with assms c(1,3) have "cr_organizationId c = cr_organizationId c'" unfolding one_owner_def by blast
    with c k show "g = g'" by simp
  qed
  then show ?thesis by (simp add: distinct_map group_keys_def)
qed

lemma find_group_iff:
  assumes "distinct (map snd gs)"
  shows "find_first (\<lambda>g. snd g = k) gs = Some g \<longleftrightarrow> g \<in> set gs \<and> snd g = k"
proof
  assume "g \<in> set gs \<and> snd g = k"
  moreover have "inj_on snd (set gs)" using assms by (simp add: distinct_map)
  ultimately show "find_first (\<lambda>g. snd g = k) gs = Some g"
    by (intro find_first_unique) (auto dest: inj_onD)
qed (rule find_first_Some_iff)

lemma window_rows_days:
  assumes "DAY dvd lo" "DAY dvd hi"
  shows "window_rows lo hi w =
    filter (\<lambda>c. lo \<le> utcDayStart (cr_checkedAt c) \<and> utcDayStart (cr_checkedAt c) < hi) (monitored w)"
  unfolding window_rows_def monitored_def filter_filter
  by (rule filter_cong [OF refl]) (use day_in_window(1) [OF assms(1)] day_in_window(2) [OF assms(2)] in blast)

lemma window_group_iff:
  assumes "DAY dvd lo" "DAY dvd hi"
  shows "g \<in> set (group_keys (window_rows lo hi w)) \<longleftrightarrow>
    g \<in> set (group_keys (monitored w)) \<and> lo \<le> day_of g \<and> day_of g < hi"
  by (auto simp: group_keys_def window_rows_days [OF assms] day_of_def check_key_def)

definition day_group :: "db \<Rightarrow> stat_key \<Rightarrow> (id \<times> stat_key) option" where
  "day_group w k = find_first (\<lambda>g. snd g = k) (group_keys (monitored w))"

lemma window_subset: "set (window_rows lo hi w) \<subseteq> set (check_results w)" "set (monitored w) \<subseteq> set (check_results w)"
  by (auto simp: window_rows_def monitored_def)

lemma option_ext: "(\<And>g. x = Some g \<longleftrightarrow> y = Some g) \<Longrightarrow> x = y"
  by (cases x; cases y) auto

lemma window_group:
  assumes "one_owner w" "DAY dvd lo" "DAY dvd hi"
  shows "find_first (\<lambda>g. snd g = k) (group_keys (window_rows lo hi w))
    = (if lo \<le> snd (snd k) \<and> snd (snd k) < hi then day_group w k else None)"
proof (rule option_ext)
  fix g
  have d: "distinct (map snd (group_keys (window_rows lo hi w)))" "distinct (map snd (group_keys (monitored w)))"
    using group_keys_distinct [OF assms(1)] window_subset by blast+
  show "find_first (\<lambda>g. snd g = k) (group_keys (window_rows lo hi w)) = Some g
      \<longleftrightarrow> (if lo \<le> snd (snd k) \<and> snd (snd k) < hi then day_group w k else None) = Some g"
    using window_group_iff [OF assms(2,3), of g w]
    by (auto simp: find_group_iff [OF d(1)] day_group_def find_group_iff [OF d(2)] day_of_def)
qed

lemma stat_of_window:
  assumes "DAY dvd lo" "DAY dvd hi" "lo \<le> day_of g" "day_of g < hi"
  shows "stat_of pc (window_rows lo hi w) w g = full_stat pc w g"
proof -
  have "utcDayStart (cr_checkedAt c) = day_of g" if "(cr_organizationId c, check_key c) = g" for c
    using that by (auto simp: check_key_def day_of_def)
  with assms(3,4) have "filter (\<lambda>c. (cr_organizationId c, check_key c) = g) (window_rows lo hi w)
      = filter (\<lambda>c. (cr_organizationId c, check_key c) = g) (monitored w)"
    unfolding window_rows_days [OF assms(1,2)] filter_filter by (intro filter_cong) auto
  then show ?thesis by (simp add: stat_of_def full_stat_def)
qed

text \<open>The table one window leaves, key by key.\<close>

definition rolled :: "percentile \<Rightarrow> db \<Rightarrow> time \<Rightarrow> time \<Rightarrow> stat_key \<Rightarrow> daily_stat option \<Rightarrow> daily_stat option" where
  "rolled pc w lo hi k old =
     (if lo \<le> snd (snd k) \<and> snd (snd k) < hi
      then (case day_group w k of None \<Rightarrow> old | Some g \<Rightarrow> Some (merged old (full_stat pc w g))) else old)"

definition groups_in :: "db \<Rightarrow> time \<Rightarrow> time \<Rightarrow> int" where
  "groups_in w lo hi = int (length (group_keys (window_rows lo hi w)))"

lemma rollupWindow_table:
  assumes "one_owner (engine a)" "DAY dvd lo" "DAY dvd hi"
  shows "fst (rollupWindow pc lo hi a) = Inr (if lo < hi then groups_in (engine a) lo hi else 0)"
    and "engine (snd (rollupWindow pc lo hi a)) = engine a"
    and "stat_at (snd (rollupWindow pc lo hi a)) k = rolled pc (engine a) lo hi k (stat_at a k)"
proof -
  let ?gs = "group_keys (window_rows lo hi (engine a))"
  let ?f = "stat_of pc (window_rows lo hi (engine a)) (engine a)"
  note al = day_aligned(2) [OF assms(2)] day_aligned(2) [OF assms(3)]
  have d: "distinct (map snd ?gs)" using group_keys_distinct [OF assms(1)] window_subset by blast
  then show "fst (rollupWindow pc lo hi a) = Inr (if lo < hi then groups_in (engine a) lo hi else 0)"
    "engine (snd (rollupWindow pc lo hi a)) = engine a"
    by (auto simp: rollupWindow_def Let_def al groups_in_def)
  show "stat_at (snd (rollupWindow pc lo hi a)) k = rolled pc (engine a) lo hi k (stat_at a k)"
  proof (cases "lo < hi")
    case False
    then show ?thesis by (auto simp: rollupWindow_def Let_def al rolled_def)
  next
    case True
    have "stat_at (snd (rollupWindow pc lo hi a)) k =
        find_first (has_key k) (fold (\<lambda>g. upsert_stat (snd g) (?f g)) ?gs (daily_stats a))"
      using True d by (simp add: rollupWindow_def Let_def al stat_at_def)
    also have "\<dots> = (case find_first (\<lambda>g. snd g = k) ?gs of
        None \<Rightarrow> stat_at a k | Some g \<Rightarrow> Some (merged (stat_at a k) (?f g)))"
      unfolding stat_at_def by (rule fold_upsert_lookup [OF d]) simp
    also have "\<dots> = rolled pc (engine a) lo hi k (stat_at a k)"
    proof (cases "lo \<le> snd (snd k) \<and> snd (snd k) < hi")
      case True
      have "?f g = full_stat pc (engine a) g" if "day_group (engine a) k = Some g" for g
        using that True find_first_Some_iff
        by (intro stat_of_window [OF assms(2,3)]) (fastforce simp: day_group_def day_of_def)+
      with True show ?thesis
        by (auto simp: rolled_def window_group [OF assms] split: option.split)
    next
      case False
      then show ?thesis by (auto simp: rolled_def window_group [OF assms])
    qed
    finally show ?thesis .
  qed
qed

section \<open>Chunks\<close>

lemma rolled_split:
  assumes "lo \<le> mid" "mid \<le> hi"
  shows "rolled pc w mid hi k (rolled pc w lo mid k old) = rolled pc w lo hi k old"
  using assms by (auto simp: rolled_def)

lemma rolled_again: "rolled pc w lo hi k (rolled pc w lo hi k old) = rolled pc w lo hi k old"
  by (auto simp: rolled_def split: option.split)

lemma rolled_empty: "hi \<le> lo \<Longrightarrow> rolled pc w lo hi k old = old"
  by (auto simp: rolled_def)

lemma groups_in_split:
  assumes "DAY dvd lo" "DAY dvd mid" "DAY dvd hi" "lo \<le> mid" "mid \<le> hi"
  shows "groups_in w lo mid + groups_in w mid hi = groups_in w lo hi"
proof -
  let ?G = "\<lambda>l h. set (group_keys (window_rows l h w))"
  have "?G lo hi = ?G lo mid \<union> ?G mid hi" "?G lo mid \<inter> ?G mid hi = {}"
    using assms(4,5) window_group_iff [OF assms(1,2), of _ w] window_group_iff [OF assms(2,3), of _ w]
      window_group_iff [OF assms(1,3), of _ w] by (auto simp: set_eq_iff)
  moreover have "length (group_keys cs) = card (set (group_keys cs))" for cs
    unfolding group_keys_def by (rule distinct_card [symmetric]) simp
  ultimately show ?thesis by (simp add: groups_in_def card_Un_disjoint)
qed

lemma groups_in_empty: "hi \<le> lo \<Longrightarrow> groups_in w lo hi = 0"
  by (auto simp: groups_in_def group_keys_def window_rows_def filter_empty_conv)

lemma backfill_loop_whole:
  assumes "1 \<le> chunkDays" "DAY dvd until" "one_owner w"
  shows "engine a = w \<Longrightarrow> DAY dvd cursor \<Longrightarrow>
    \<exists>n a'. backfill_loop pc chunkDays until cursor rows chunks a = Some (Inr (n, rows + groups_in w cursor until), a')
      \<and> engine a' = w \<and> (\<forall>k. stat_at a' k = rolled pc w cursor until k (stat_at a k))"
proof (induction "nat (until - cursor)" arbitrary: cursor rows chunks a rule: less_induct)
  case less
  show ?case
  proof (cases "cursor < until")
    case False
    then show ?thesis
      using less.prems by (subst backfill_loop.simps) (simp add: groups_in_empty rolled_empty)
  next
    case True
    let ?stop = "min (cursor + chunkDays * DAY) until"
    let ?a = "snd (rollupWindow pc cursor ?stop a)"
    have step: "cursor < ?stop" using True assms(1) DAY_pos by (simp add: mult_pos_pos)
    have al: "DAY dvd ?stop" using less.prems(2) assms(2) by (simp add: min_def)
    have o1: "one_owner (engine a)" using less.prems(1) assms(3) by simp
    note t = rollupWindow_table [OF o1 less.prems(2) al, of pc]
    have r: "fst (rollupWindow pc cursor ?stop a) = Inr (groups_in w cursor ?stop)" "engine ?a = w"
      using t(1,2) step less.prems(1) by simp_all
    have "nat (until - ?stop) < nat (until - cursor)" using step True by simp
    from less.hyps [OF this r(2) al, of "rows + groups_in w cursor ?stop" "chunks + 1"] obtain n a' where
      ih: "backfill_loop pc chunkDays until ?stop (rows + groups_in w cursor ?stop) (chunks + 1) ?a
          = Some (Inr (n, rows + groups_in w cursor ?stop + groups_in w ?stop until), a')"
      "engine a' = w" "\<forall>k. stat_at a' k = rolled pc w ?stop until k (stat_at ?a k)" by blast
    have "backfill_loop pc chunkDays until cursor rows chunks a
        = Some (Inr (n, rows + groups_in w cursor until), a')"
      using True r(1) ih(1) groups_in_split [OF less.prems(2) al assms(2), of w] step
      by (subst backfill_loop.simps) (simp add: Let_def add.assoc)
    moreover have "stat_at a' k = rolled pc w cursor until k (stat_at a k)" for k
    proof -
      have "cursor \<le> ?stop" "?stop \<le> until" using step by simp_all
      note s = rolled_split [OF this, of pc w k "stat_at a k"]
      have "stat_at ?a k = rolled pc w cursor ?stop k (stat_at a k)" unfolding t(3) less.prems(1) ..
      then show ?thesis unfolding ih(3) [rule_format, of k] by (simp only: s)
    qed
    ultimately show ?thesis using ih(2) by blast
  qed
qed

end
