(* ===== verification/StatusPages.thy ===== *)
theory StatusPages
  imports MonitorService IncidentService Rollup
begin

text \<open>
  Status pages, from \<^verbatim>\<open>apps/api/src/services/status-page.service.ts\<close> and the notifier of
  \<^verbatim>\<open>status-notifier.ts\<close>: pages and their components, incidents, the public reads and the
  subscriptions. The notifier puts jobs on the e-mail queue, which ignores a job whose id it
  already holds; the audit sink and the queue always take what they are given. Percentages are
  rationals.
\<close>

section \<open>Views\<close>

record public_component =
  pc_id :: id
  pc_name :: string
  pc_description :: "string option"
  pc_groupName :: "string option"
  pc_status :: component_status
  pc_showUptime :: bool

record public_update =
  uv_status :: page_incident_status
  uv_body :: string
  uv_createdAt :: time

record public_incident =
  iv_id :: id
  iv_title :: string
  iv_status :: page_incident_status
  iv_impact :: page_incident_impact
  iv_startedAt :: time
  iv_resolvedAt :: "time option"
  iv_createdAt :: time
  iv_updates :: "public_update list"

record public_page =
  pp_name :: string
  pp_slug :: string
  pp_description :: "string option"
  pp_branding :: "json option"
  pp_overallStatus :: component_status
  pp_components :: "public_component list"
  pp_activeIncidents :: "public_incident list"
  pp_updatedAt :: time

record page_summary =
  sm_id :: id
  sm_name :: string
  sm_slug :: string
  sm_description :: "string option"
  sm_customDomain :: "string option"
  sm_visibility :: visibility
  sm_isPublic :: bool
  sm_branding :: "json option"
  sm_createdAt :: time
  sm_updatedAt :: time

record page_list_item = page_summary +
  sm_componentCount :: nat
  sm_subscriberCount :: nat
  sm_overallStatus :: component_status

fun STATUS_SEVERITY :: "component_status \<Rightarrow> int" where
  "STATUS_SEVERITY OPERATIONAL = 0"
| "STATUS_SEVERITY UNDER_MAINTENANCE = 1"
| "STATUS_SEVERITY DEGRADED_PERFORMANCE = 2"
| "STATUS_SEVERITY PARTIAL_OUTAGE = 3"
| "STATUS_SEVERITY MAJOR_OUTAGE = 4"

fun HEALTH_TO_STATUS :: "monitor_health \<Rightarrow> component_status option" where
  "HEALTH_TO_STATUS H_UP = Some OPERATIONAL"
| "HEALTH_TO_STATUS H_DOWN = Some MAJOR_OUTAGE"
| "HEALTH_TO_STATUS H_DEGRADED = Some DEGRADED_PERFORMANCE"
| "HEALTH_TO_STATUS H_RECOVERING = Some DEGRADED_PERFORMANCE"
| "HEALTH_TO_STATUS H_MAINTENANCE = Some UNDER_MAINTENANCE"
| "HEALTH_TO_STATUS _ = None"

definition componentStatus :: "api \<Rightarrow> page_component \<Rightarrow> component_status" where
  "componentStatus a c =
     default_to (co_status c)
       (case find_first (\<lambda>m. co_monitorId c = Some (m_id m)) (monitors (engine a)) of
          None \<Rightarrow> None | Some m \<Rightarrow> HEALTH_TO_STATUS (m_health m))"

definition worst_status :: "component_status list \<Rightarrow> component_status" where
  "worst_status ss = fold (\<lambda>s worst. if STATUS_SEVERITY worst < STATUS_SEVERITY s then s else worst) ss OPERATIONAL"

text \<open>\<open>orderBy: [{ position: "asc" }, { createdAt: "asc" }]\<close>\<close>

definition components_of :: "id \<Rightarrow> api \<Rightarrow> page_component list" where
  "components_of pageId a =
     sort_key co_position (sort_key co_createdAt (find_many (\<lambda>c. co_statusPageId c = pageId) (components a)))"

definition incidentView :: "api \<Rightarrow> page_incident \<Rightarrow> public_incident" where
  "incidentView a i =
     \<lparr>iv_id = pi_id i, iv_title = pi_title i, iv_status = pi_status i, iv_impact = pi_impact i,
      iv_startedAt = pi_startedAt i, iv_resolvedAt = pi_resolvedAt i, iv_createdAt = pi_createdAt i,
      iv_updates = map (\<lambda>u. \<lparr>uv_status = pu_status u, uv_body = pu_body u, uv_createdAt = pu_createdAt u\<rparr>)
        (sort_key (\<lambda>u. - pu_createdAt u) (find_many (\<lambda>u. pu_incidentId u = pi_id i) (page_updates a)))\<rparr>"

definition toBranding :: "json option \<Rightarrow> json option" where
  "toBranding v = (case v of Some (JObj _) \<Rightarrow> v | Some (JArr _) \<Rightarrow> v | _ \<Rightarrow> None)"

definition pageSummary :: "status_page \<Rightarrow> page_summary" where
  "pageSummary p =
     \<lparr>sm_id = sp_id p, sm_name = sp_name p, sm_slug = sp_slug p, sm_description = sp_description p,
      sm_customDomain = sp_customDomain p, sm_visibility = sp_visibility p,
      sm_isPublic = (sp_visibility p = V_PUBLIC), sm_branding = toBranding (sp_branding p),
      sm_createdAt = sp_createdAt p, sm_updatedAt = sp_updatedAt p\<rparr>"

definition resolveVisibility :: "visibility option \<Rightarrow> bool option \<Rightarrow> visibility option" where
  "resolveVisibility v isPublic =
     (case v of Some x \<Rightarrow> Some x
      | None \<Rightarrow> (case isPublic of None \<Rightarrow> None | Some b \<Rightarrow> Some (if b then V_PUBLIC else V_PRIVATE)))"

definition toPublicPage :: "api \<Rightarrow> status_page \<Rightarrow> public_page" where
  "toPublicPage a p =
     (let comps = map (\<lambda>c. \<lparr>pc_id = co_id c, pc_name = co_name c, pc_description = co_description c,
                     pc_groupName = co_groupName c, pc_status = componentStatus a c,
                     pc_showUptime = co_showUptime c\<rparr>) (components_of (sp_id p) a)
      in \<lparr>pp_name = sp_name p, pp_slug = sp_slug p, pp_description = sp_description p,
          pp_branding = sp_branding p, pp_overallStatus = worst_status (map pc_status comps),
          pp_components = comps,
          pp_activeIncidents = map (incidentView a) (sort_key (\<lambda>i. - pi_startedAt i)
             (find_many (\<lambda>i. pi_statusPageId i = sp_id p \<and> pi_resolvedAt i = None) (page_incidents a))),
          pp_updatedAt = sp_updatedAt p\<rparr>)"

section \<open>Pages\<close>

definition page_of :: "id \<Rightarrow> id \<Rightarrow> status_page \<Rightarrow> bool" where
  "page_of organizationId pid p \<longleftrightarrow> sp_id p = pid \<and> sp_organizationId p = organizationId \<and> sp_deletedAt p = None"

definition find_page :: "id \<Rightarrow> id \<Rightarrow> api \<Rightarrow> status_page option" where
  "find_page organizationId pid a = find_first (page_of organizationId pid) (pages a)"

definition pageInOrg :: "id \<Rightarrow> id \<Rightarrow> api \<Rightarrow> bool" where
  "pageInOrg organizationId pid a = (find_page organizationId pid a \<noteq> None)"

definition publicPageBySlug :: "string \<Rightarrow> api \<Rightarrow> status_page option" where
  "publicPageBySlug slug a =
     find_first (\<lambda>p. sp_slug p = slug \<and> sp_deletedAt p = None \<and> sp_visibility p \<in> {V_PUBLIC, V_UNLISTED}) (pages a)"

definition page_audit :: "string \<Rightarrow> id \<Rightarrow> id \<Rightarrow> incident_actor \<Rightarrow> json option \<Rightarrow> audit_event" where
  "page_audit action organizationId pid actor metadata =
     \<lparr>au_organizationId = Some organizationId, au_actorId = act_userId actor,
      au_actorType = act_actorType actor, au_action = action, au_resourceType = ''statusPage'',
      au_resourceId = Some pid, au_ipAddress = act_ipAddress actor, au_userAgent = act_userAgent actor,
      au_metadata = metadata\<rparr>"

record component_seed =
  cs_monitorId :: "id option"
  cs_displayName :: string
  cs_description :: "string option"
  cs_groupName :: "string option"
  cs_sortOrder :: "int option"

record page_input =
  pg_name :: string
  pg_slug :: string
  pg_description :: "string option"
  pg_customDomain :: "string option"
  pg_visibility :: "visibility option"
  pg_isPublic :: "bool option"
  pg_branding :: "json option"
  pg_components :: "component_seed list"

text \<open>In an update an absent key is \<open>None\<close> and an explicit null is \<open>Some None\<close>.\<close>

record page_patch =
  pt_name :: "string option"
  pt_slug :: "string option"
  pt_description :: "string option option"
  pt_customDomain :: "string option option"
  pt_visibility :: "visibility option"
  pt_isPublic :: "bool option"
  pt_branding :: "json option option"

definition listPages ::
  "codec_host \<Rightarrow> id \<Rightarrow> nat \<Rightarrow> string option \<Rightarrow> api \<Rightarrow> js_error + page_list_item page" where
  "listPages h organizationId limit cursor a =
     map_sum (\<lambda>e. e)
       (\<lambda>p. \<lparr>pg_items = map (\<lambda>row. page_summary.extend (pageSummary row)
                 (page_list_item.fields (length (components_of (sp_id row) a))
                    (length (filter (\<lambda>s. su_statusPageId s = sp_id row \<and> su_status s = SS_ACTIVE) (subscribers a)))
                    (worst_status (map (componentStatus a) (components_of (sp_id row) a))))) (pg_items p),
             pg_nextCursor = pg_nextCursor p\<rparr>)
       (list_page h sp_id sp_createdAt
          (\<lambda>p. sp_organizationId p = organizationId \<and> sp_deletedAt p = None) limit (pages a) cursor)"

definition getPage :: "id \<Rightarrow> id \<Rightarrow> api \<Rightarrow> page_summary option" where
  "getPage organizationId pid a = map_option pageSummary (find_page organizationId pid a)"

definition slug_taken :: "(status_page \<Rightarrow> bool) \<Rightarrow> string option \<Rightarrow> string option \<Rightarrow> api \<Rightarrow> bool" where
  "slug_taken other slug customDomain a \<longleftrightarrow>
     list_ex (\<lambda>p. other p \<and> (Some (sp_slug p) = slug \<or> sp_customDomain p \<noteq> None \<and> sp_customDomain p = customDomain))
       (pages a)"

definition monitor_exists :: "id option \<Rightarrow> api \<Rightarrow> bool" where
  "monitor_exists mid a =
     (case mid of None \<Rightarrow> True | Some i \<Rightarrow> list_ex (\<lambda>m. m_id m = i) (monitors (engine a)))"

definition new_component ::
  "id \<Rightarrow> id \<Rightarrow> id option \<Rightarrow> string \<Rightarrow> string option \<Rightarrow> string option \<Rightarrow> component_status \<Rightarrow> bool \<Rightarrow> int \<Rightarrow> time
   \<Rightarrow> page_component" where
  "new_component cid pid mid name description groupName status showUptime position now =
     \<lparr>co_id = cid, co_statusPageId = pid, co_monitorId = mid, co_name = name, co_description = description,
      co_groupName = groupName, co_status = status, co_position = position, co_showUptime = showUptime,
      co_createdAt = now, co_updatedAt = now\<rparr>"

fun seed_components :: "id \<Rightarrow> int \<Rightarrow> component_seed list \<Rightarrow> time \<Rightarrow> api \<Rightarrow> api" where
  "seed_components pid i [] now a = a"
| "seed_components pid i (c # cs) now a =
     (let (cid, a1) = gen_id a
      in seed_components pid (i + 1) cs now
           (a1\<lparr>components := insert_row
              (new_component cid pid (cs_monitorId c) (cs_displayName c) (cs_description c) (cs_groupName c)
                 OPERATIONAL True (default_to i (cs_sortOrder c)) now) (components a1)\<rparr>))"

definition new_page :: "id \<Rightarrow> id \<Rightarrow> page_input \<Rightarrow> incident_actor \<Rightarrow> time \<Rightarrow> status_page" where
  "new_page pid organizationId input actor now =
     \<lparr>sp_id = pid, sp_organizationId = organizationId, sp_slug = pg_slug input,
      sp_customDomain = pg_customDomain input, sp_name = pg_name input, sp_description = pg_description input,
      sp_visibility = default_to V_PUBLIC (resolveVisibility (pg_visibility input) (pg_isPublic input)),
      sp_branding = pg_branding input, sp_createdById = act_userId actor, sp_updatedById = act_userId actor,
      sp_deletedById = None, sp_createdAt = now, sp_updatedAt = now, sp_deletedAt = None\<rparr>"

definition createPage ::
  "id \<Rightarrow> page_input \<Rightarrow> incident_actor \<Rightarrow> time \<Rightarrow> api \<Rightarrow> (js_error + page_summary) \<times> api" where
  "createPage organizationId input actor now a =
     (case assertWithinLimit organizationId R_statusPage a of
        Inl e \<Rightarrow> (Inl e, a)
      | Inr _ \<Rightarrow>
          if slug_taken (\<lambda>_. True) (Some (pg_slug input)) (pg_customDomain input) a then (Inl unique_violation, a)
          else if \<not> list_all (\<lambda>c. monitor_exists (cs_monitorId c) a) (pg_components input)
          then (Inl foreign_key_violation, a)
          else (let (pid, a1) = gen_id a;
                    row = new_page pid organizationId input actor now;
                    a2 = seed_components pid 0 (pg_components input) now (a1\<lparr>pages := insert_row row (pages a1)\<rparr>)
                in (Inr (pageSummary row),
                    audit (page_audit ''status_page.created'' organizationId pid actor None) a2)))"

definition patch_page :: "page_patch \<Rightarrow> incident_actor \<Rightarrow> time \<Rightarrow> status_page \<Rightarrow> status_page" where
  "patch_page input actor now p =
     p\<lparr>sp_name := default_to (sp_name p) (pt_name input), sp_slug := default_to (sp_slug p) (pt_slug input),
       sp_description := default_to (sp_description p) (pt_description input),
       sp_customDomain := default_to (sp_customDomain p) (pt_customDomain input),
       sp_visibility := default_to (sp_visibility p) (resolveVisibility (pt_visibility input) (pt_isPublic input)),
       sp_branding := (case pt_branding input of None \<Rightarrow> sp_branding p | Some None \<Rightarrow> Some JNull | Some (Some b) \<Rightarrow> Some b),
       sp_updatedById := act_userId actor, sp_updatedAt := now\<rparr>"

definition updatePage ::
  "id \<Rightarrow> id \<Rightarrow> page_patch \<Rightarrow> incident_actor \<Rightarrow> time \<Rightarrow> api \<Rightarrow> (js_error + page_summary option) \<times> api" where
  "updatePage organizationId pid input actor now a =
     (case find_page organizationId pid a of
        None \<Rightarrow> (Inr None, a)
      | Some existing \<Rightarrow>
          if slug_taken (\<lambda>p. sp_id p \<noteq> pid) (pt_slug input) (default_to None (pt_customDomain input)) a
          then (Inl unique_violation, a)
          else (Inr (Some (pageSummary (patch_page input actor now existing))),
                audit (page_audit ''status_page.updated'' organizationId pid actor None)
                  (a\<lparr>pages := update_rows (\<lambda>p. sp_id p = pid) (patch_page input actor now) (pages a)\<rparr>)))"

definition removePage :: "id \<Rightarrow> id \<Rightarrow> incident_actor \<Rightarrow> time \<Rightarrow> api \<Rightarrow> bool \<times> api" where
  "removePage organizationId pid actor now a =
     (case find_page organizationId pid a of
        None \<Rightarrow> (False, a)
      | Some _ \<Rightarrow>
          (True, audit (page_audit ''status_page.deleted'' organizationId pid actor None)
             (a\<lparr>pages := update_rows (\<lambda>p. sp_id p = pid)
                (\<lambda>p. p\<lparr>sp_deletedAt := Some now, sp_deletedById := act_userId actor, sp_updatedAt := now\<rparr>) (pages a)\<rparr>)))"

section \<open>Components\<close>

record component_input =
  ci_monitorId :: "id option option"
  ci_name :: "string option"
  ci_description :: "string option option"
  ci_groupName :: "string option option"
  ci_status :: "component_status option"
  ci_showUptime :: "bool option"
  ci_position :: "int option"

definition component_meta :: "id \<Rightarrow> json option" where
  "component_meta cid = Some (JObj [(''componentId'', JStr cid)])"

definition listComponents :: "id \<Rightarrow> id \<Rightarrow> api \<Rightarrow> page_component list option" where
  "listComponents organizationId pid a =
     (if \<not> pageInOrg organizationId pid a then None else Some (components_of pid a))"

definition max_position :: "id \<Rightarrow> api \<Rightarrow> int option" where
  "max_position pid a =
     (case map co_position (find_many (\<lambda>c. co_statusPageId c = pid) (components a)) of
        [] \<Rightarrow> None | p # ps \<Rightarrow> Some (fold max ps p))"

definition createComponent ::
  "id \<Rightarrow> id \<Rightarrow> string \<Rightarrow> component_input \<Rightarrow> incident_actor \<Rightarrow> time \<Rightarrow> api
   \<Rightarrow> (js_error + page_component option) \<times> api" where
  "createComponent organizationId pid name input actor now a =
     (if \<not> pageInOrg organizationId pid a then (Inr None, a)
      else if \<not> monitor_exists (default_to None (ci_monitorId input)) a then (Inl foreign_key_violation, a)
      else (let position = default_to (default_to (-1) (max_position pid a) + 1) (ci_position input);
                (cid, a1) = gen_id a;
                row = new_component cid pid (default_to None (ci_monitorId input)) name
                        (default_to None (ci_description input)) (default_to None (ci_groupName input))
                        (default_to OPERATIONAL (ci_status input)) (default_to True (ci_showUptime input)) position now
            in (Inr (Some row),
                audit (page_audit ''status_page.component_created'' organizationId pid actor (component_meta cid))
                  (a1\<lparr>components := insert_row row (components a1)\<rparr>))))"

definition component_of :: "id \<Rightarrow> id \<Rightarrow> id \<Rightarrow> api \<Rightarrow> page_component option" where
  "component_of organizationId pid cid a =
     find_first (\<lambda>c. co_id c = cid \<and> co_statusPageId c = pid \<and> pageInOrg organizationId pid a) (components a)"

definition patch_component :: "component_input \<Rightarrow> time \<Rightarrow> page_component \<Rightarrow> page_component" where
  "patch_component input now c =
     c\<lparr>co_name := default_to (co_name c) (ci_name input),
       co_description := default_to (co_description c) (ci_description input),
       co_groupName := default_to (co_groupName c) (ci_groupName input),
       co_status := default_to (co_status c) (ci_status input),
       co_showUptime := default_to (co_showUptime c) (ci_showUptime input),
       co_position := default_to (co_position c) (ci_position input),
       co_monitorId := (case ci_monitorId input of None \<Rightarrow> co_monitorId c
                        | Some m \<Rightarrow> if m = Some '''' then None else m),
       co_updatedAt := now\<rparr>"

definition updateComponent ::
  "id \<Rightarrow> id \<Rightarrow> id \<Rightarrow> component_input \<Rightarrow> incident_actor \<Rightarrow> time \<Rightarrow> api
   \<Rightarrow> (js_error + page_component option) \<times> api" where
  "updateComponent organizationId pid cid input actor now a =
     (case component_of organizationId pid cid a of
        None \<Rightarrow> (Inr None, a)
      | Some existing \<Rightarrow>
          if \<not> monitor_exists (co_monitorId (patch_component input now existing)) a
          then (Inl (NodeErr ''P2025'' ''Record to connect not found''), a)
          else (Inr (Some (patch_component input now existing)),
                audit (page_audit ''status_page.component_updated'' organizationId pid actor (component_meta cid))
                  (a\<lparr>components := update_rows (\<lambda>c. co_id c = cid) (patch_component input now) (components a)\<rparr>)))"

definition deleteComponent :: "id \<Rightarrow> id \<Rightarrow> id \<Rightarrow> incident_actor \<Rightarrow> api \<Rightarrow> bool \<times> api" where
  "deleteComponent organizationId pid cid actor a =
     (case component_of organizationId pid cid a of
        None \<Rightarrow> (False, a)
      | Some _ \<Rightarrow>
          (True, audit (page_audit ''status_page.component_deleted'' organizationId pid actor (component_meta cid))
             (a\<lparr>components := delete_rows (\<lambda>c. co_id c = cid) (components a)\<rparr>)))"

text \<open>The transaction's updates, in order: a repeated id keeps its last index.\<close>

fun place :: "int \<Rightarrow> id list \<Rightarrow> time \<Rightarrow> page_component list \<Rightarrow> page_component list" where
  "place i [] now t = t"
| "place i (cid # ids) now t =
     place (i + 1) ids now (update_rows (\<lambda>c. co_id c = cid) (\<lambda>c. c\<lparr>co_position := i, co_updatedAt := now\<rparr>) t)"

definition reorderComponents ::
  "id \<Rightarrow> id \<Rightarrow> id list \<Rightarrow> incident_actor \<Rightarrow> time \<Rightarrow> api \<Rightarrow> page_component list option \<times> api" where
  "reorderComponents organizationId pid orderedIds actor now a =
     (if \<not> pageInOrg organizationId pid a then (None, a)
      else (let owned = map co_id (find_many (\<lambda>c. co_statusPageId c = pid) (components a));
                ordered = filter (\<lambda>i. i \<in> set owned) orderedIds;
                a1 = a\<lparr>components := place 0 ordered now (components a)\<rparr>;
                a2 = audit (page_audit ''status_page.components_reordered'' organizationId pid actor None) a1
            in (Some (components_of pid a2), a2)))"

section \<open>The notifier\<close>

record page_deps =
  pd_webUrl :: string
  pd_notifier :: bool
  pd_iso :: "time \<Rightarrow> string"

text \<open>\<open>add\<close> of the queue: a job whose id is there already is not added again.\<close>

definition enqueueEmail :: "string \<Rightarrow> status_mail \<Rightarrow> api \<Rightarrow> api" where
  "enqueueEmail jobId job a =
     (if jobId \<in> fst ` set (status_mails a) then a else a\<lparr>status_mails := insert_row (jobId, job) (status_mails a)\<rparr>)"

fun text_after :: "string \<Rightarrow> string \<Rightarrow> string option" where
  "text_after p [] = None"
| "text_after p (c # s) = (if starts_with (c # s) p then Some (drop (length p) (c # s)) else text_after p s)"

fun text_before :: "string \<Rightarrow> string \<Rightarrow> string" where
  "text_before p [] = []"
| "text_before p (c # s) = (if starts_with (c # s) p then [] else c # text_before p s)"

definition sendVerification :: "string \<Rightarrow> string \<Rightarrow> string \<Rightarrow> api \<Rightarrow> api" where
  "sendVerification pageName email confirmUrl a =
     enqueueEmail
       (''status-confirm:'' @ (case text_after ''token='' confirmUrl of None \<Rightarrow> email | Some t \<Rightarrow> text_before ''token='' t))
       (Subscribe_confirm email pageName confirmUrl) a"

fun phase_name :: "incident_phase \<Rightarrow> string" where
  "phase_name Ph_opened = ''opened''"
| "phase_name Ph_updated = ''updated''"
| "phase_name Ph_resolved = ''resolved''"

definition mail_for ::
  "page_deps \<Rightarrow> status_page \<Rightarrow> string \<Rightarrow> incident_phase \<Rightarrow> page_incident_status \<Rightarrow> string \<Rightarrow> subscriber \<Rightarrow> status_mail" where
  "mail_for deps p title phase st body sub =
     (let publicUrl = drop_slash (pd_webUrl deps) @ ''/status/'' @ sp_slug p
      in Status_incident \<lparr>im_phase = phase, im_to = su_email sub, im_pageName = sp_name p,
           im_incidentTitle = title, im_statusLabel = st, im_body = body, im_publicUrl = publicUrl,
           im_unsubscribeUrl = publicUrl @ ''/unsubscribe?token='' @ default_to ''null'' (su_unsubscribeToken sub)\<rparr>)"

definition notifyIncident ::
  "page_deps \<Rightarrow> status_page \<Rightarrow> id \<Rightarrow> string \<Rightarrow> string \<Rightarrow> incident_phase \<Rightarrow> page_incident_status \<Rightarrow> string \<Rightarrow> api \<Rightarrow> api" where
  "notifyIncident deps p incidentId updateId title phase st body a =
     (let subs = find_many (\<lambda>s. su_statusPageId s = sp_id p \<and> su_status s = SS_ACTIVE \<and> su_unsubscribeToken s \<noteq> None)
                   (subscribers a)
      in fold (\<lambda>sub. enqueueEmail
           (''status-incident:'' @ phase_name phase @ '':'' @ incidentId @ '':'' @ updateId @ '':'' @ su_id sub)
           (mail_for deps p title phase st body sub)) subs a)"

section \<open>Incidents\<close>

definition incident_meta :: "id \<Rightarrow> json option" where
  "incident_meta i = Some (JObj [(''incidentId'', JStr i)])"

definition listPageIncidents ::
  "codec_host \<Rightarrow> id \<Rightarrow> nat \<Rightarrow> string option \<Rightarrow> api \<Rightarrow> js_error + public_incident page" where
  "listPageIncidents h pid limit cursor a =
     map_sum (\<lambda>e. e) (\<lambda>p. \<lparr>pg_items = map (incidentView a) (pg_items p), pg_nextCursor = pg_nextCursor p\<rparr>)
       (list_page h pi_id pi_createdAt (\<lambda>i. pi_statusPageId i = pid) limit (page_incidents a) cursor)"

definition listStatusIncidents ::
  "codec_host \<Rightarrow> id \<Rightarrow> id \<Rightarrow> nat \<Rightarrow> string option \<Rightarrow> api \<Rightarrow> js_error + public_incident page option" where
  "listStatusIncidents h organizationId pid limit cursor a =
     (if \<not> pageInOrg organizationId pid a then Inr None
      else map_sum (\<lambda>e. e) Some (listPageIncidents h pid limit cursor a))"

definition new_update :: "id \<Rightarrow> id \<Rightarrow> page_incident_status \<Rightarrow> string \<Rightarrow> time \<Rightarrow> page_update" where
  "new_update uid incidentId st body now =
     \<lparr>pu_id = uid, pu_incidentId = incidentId, pu_status = st, pu_body = body, pu_createdAt = now\<rparr>"

definition openStatusIncident ::
  "page_deps \<Rightarrow> id \<Rightarrow> id \<Rightarrow> string \<Rightarrow> string \<Rightarrow> page_incident_impact option \<Rightarrow> incident_actor \<Rightarrow> time \<Rightarrow> api
   \<Rightarrow> public_incident option \<times> api" where
  "openStatusIncident deps organizationId pid title body impact actor now a =
     (case find_page organizationId pid a of
        None \<Rightarrow> (None, a)
      | Some page \<Rightarrow>
          (let (iid, a1) = gen_id a; (uid, a2) = gen_id a1;
               row = \<lparr>pi_id = iid, pi_statusPageId = pid, pi_title = title, pi_status = INVESTIGATING,
                      pi_impact = default_to IM_MINOR impact, pi_startedAt = now, pi_resolvedAt = None,
                      pi_createdAt = now\<rparr>;
               a3 = a2\<lparr>page_incidents := insert_row row (page_incidents a2),
                       page_updates := insert_row (new_update uid iid INVESTIGATING body now) (page_updates a2)\<rparr>;
               a4 = audit (page_audit ''status_page.incident_opened'' organizationId pid actor (incident_meta iid)) a3;
               a5 = (if pd_notifier deps
                     then notifyIncident deps page iid (pd_iso deps now) title Ph_opened INVESTIGATING body a4 else a4)
           in (Some (incidentView a3 row), a5)))"

definition addIncidentUpdate ::
  "page_deps \<Rightarrow> id \<Rightarrow> id \<Rightarrow> id \<Rightarrow> page_incident_status \<Rightarrow> string \<Rightarrow> incident_actor \<Rightarrow> time \<Rightarrow> api
   \<Rightarrow> public_incident option \<times> api" where
  "addIncidentUpdate deps organizationId pid incidentId st body actor now a =
     (case (find_first (\<lambda>i. pi_id i = incidentId \<and> pi_statusPageId i = pid) (page_incidents a),
            find_page organizationId pid a) of
        (Some existing, Some page) \<Rightarrow>
          (let resolved = (st = P_RESOLVED);
               (uid, a1) = gen_id a;
               f = (\<lambda>i. i\<lparr>pi_status := st, pi_resolvedAt := (if resolved then Some now else None)\<rparr>);
               a2 = a1\<lparr>page_updates := insert_row (new_update uid incidentId st body now) (page_updates a1),
                       page_incidents := update_rows (\<lambda>i. pi_id i = incidentId) f (page_incidents a1)\<rparr>;
               a3 = audit (page_audit (if resolved then ''status_page.incident_resolved'' else ''status_page.incident_updated'')
                      organizationId pid actor (incident_meta incidentId)) a2;
               a4 = (if pd_notifier deps
                     then notifyIncident deps page incidentId uid (pi_title existing)
                       (if resolved then Ph_resolved else Ph_updated) st body a3 else a3)
           in (Some (incidentView a2 (f existing)), a4))
      | _ \<Rightarrow> (None, a))"

section \<open>Public reads\<close>

definition getPublicPage :: "string \<Rightarrow> api \<Rightarrow> public_page option" where
  "getPublicPage slug a = map_option (toPublicPage a) (publicPageBySlug slug a)"

definition listPublicIncidents ::
  "codec_host \<Rightarrow> string \<Rightarrow> nat \<Rightarrow> string option \<Rightarrow> api \<Rightarrow> js_error + public_incident page option" where
  "listPublicIncidents h slug limit cursor a =
     (case publicPageBySlug slug a of
        None \<Rightarrow> Inr None
      | Some p \<Rightarrow> map_sum (\<lambda>e. e) Some (listPageIncidents h (sp_id p) limit cursor a))"

definition round2 :: "rat \<Rightarrow> rat" where
  "round2 n = of_int \<lfloor>n * 100 + 1 / 2\<rfloor> / 100"

definition percent :: "int \<Rightarrow> int \<Rightarrow> rat option" where
  "percent up total' = (if total' > 0 then Some (round2 (of_int up / of_int total' * 100)) else None)"

record history_component =
  hc_id :: id
  hc_name :: string
  hc_uptimePct :: "rat option"
  hc_days :: "(time \<times> rat option) list"

record status_history =
  sh_windowDays :: nat
  sh_overallUptimePct :: "rat option"
  sh_components :: "history_component list"

text \<open>The sums of a monitor's rows of one day over all regions.\<close>

definition day_sum :: "(daily_stat \<Rightarrow> int) \<Rightarrow> daily_stat list \<Rightarrow> id \<Rightarrow> time \<Rightarrow> int" where
  "day_sum f stats mid d =
     sum_list (map f (filter (\<lambda>s. ds_monitorId s = mid \<and> utcDayStart (ds_day s) = d) stats))"

definition window_days :: "nat \<Rightarrow> time \<Rightarrow> time list" where
  "window_days n now = map (\<lambda>i. utcDayStart (now - int i * DAY)) (rev [0..<n])"

definition getHistory :: "string \<Rightarrow> nat \<Rightarrow> time \<Rightarrow> api \<Rightarrow> status_history option" where
  "getHistory slug windowDays now a =
     (case publicPageBySlug slug a of
        None \<Rightarrow> None
      | Some p \<Rightarrow>
          (let comps = filter (\<lambda>c. co_showUptime c \<and> co_monitorId c \<noteq> None) (components_of (sp_id p) a);
               mids = List.map_filter co_monitorId comps;
               stats = find_many (\<lambda>s. ds_monitorId s \<in> set mids
                         \<and> utcDayStart (now - int windowDays * DAY) \<le> ds_day s) (daily_stats a);
               up = (\<lambda>c. sum_list (map (day_sum ds_upChecks stats (the (co_monitorId c))) (window_days windowDays now)));
               tot = (\<lambda>c. sum_list (map (day_sum ds_totalChecks stats (the (co_monitorId c))) (window_days windowDays now)))
           in Some \<lparr>sh_windowDays = windowDays,
                    sh_overallUptimePct = percent (sum_list (map up comps)) (sum_list (map tot comps)),
                    sh_components = map (\<lambda>c. \<lparr>hc_id = co_id c, hc_name = co_name c, hc_uptimePct = percent (up c) (tot c),
                      hc_days = map (\<lambda>d. (d, percent (day_sum ds_upChecks stats (the (co_monitorId c)) d)
                                            (day_sum ds_totalChecks stats (the (co_monitorId c)) d)))
                                  (window_days windowDays now)\<rparr>) comps\<rparr>))"

section \<open>Subscriptions\<close>

datatype subscribe_result = Already_active string | Pending_confirmation string string  \<comment> \<open>token, address\<close>

definition confirm_url :: "page_deps \<Rightarrow> string \<Rightarrow> string \<Rightarrow> string" where
  "confirm_url deps slug tok = drop_slash (pd_webUrl deps) @ ''/status/'' @ slug @ ''/verify?token='' @ tok"

definition subscriber_key :: "id \<Rightarrow> string \<Rightarrow> subscriber \<Rightarrow> bool" where
  "subscriber_key pid email s \<longleftrightarrow> su_statusPageId s = pid \<and> su_email s = email"

definition subscribe ::
  "page_deps \<Rightarrow> string \<Rightarrow> string \<Rightarrow> time \<Rightarrow> api \<Rightarrow> (js_error + subscribe_result option) \<times> api" where
  "subscribe deps slug email now a =
     (case publicPageBySlug slug a of
        None \<Rightarrow> (Inr None, a)
      | Some page \<Rightarrow>
          (let normalized = to_lower (trim email);
               existing = find_first (subscriber_key (sp_id page) normalized) (subscribers a)
           in if map_option su_status existing = Some SS_ACTIVE then (Inr (Some (Already_active normalized)), a)
              else (let (vtok, a1) = gen_token a; (utok, a2) = gen_token a1;
                        (sid, a3) = (if existing = None then gen_id a2 else ('''', a2))
                    in if list_ex (\<lambda>s. \<not> subscriber_key (sp_id page) normalized s
                              \<and> (su_verificationToken s = Some vtok
                                 \<or> existing = None \<and> su_unsubscribeToken s = Some utok)) (subscribers a3)
                       then (Inl unique_violation, a2)
                       else (let a4 = a3\<lparr>subscribers :=
                                   (if existing = None
                                    then insert_row \<lparr>su_id = sid, su_statusPageId = sp_id page, su_email = normalized,
                                           su_status = SS_PENDING, su_verificationToken = Some vtok,
                                           su_unsubscribeToken = Some utok, su_verifiedAt = None,
                                           su_unsubscribedAt = None, su_createdAt = now\<rparr> (subscribers a3)
                                    else update_rows (subscriber_key (sp_id page) normalized)
                                           (\<lambda>s. s\<lparr>su_status := SS_PENDING, su_verificationToken := Some vtok,
                                                  su_unsubscribedAt := None\<rparr>) (subscribers a3))\<rparr>;
                                 a5 = (if pd_notifier deps
                                       then sendVerification (sp_name page) normalized
                                              (confirm_url deps (sp_slug page) vtok) a4 else a4)
                             in (Inr (Some (Pending_confirmation vtok normalized)), a5)))))"

definition on_live_page :: "string \<Rightarrow> api \<Rightarrow> subscriber \<Rightarrow> bool" where
  "on_live_page slug a s \<longleftrightarrow>
     list_ex (\<lambda>p. sp_id p = su_statusPageId s \<and> sp_slug p = slug \<and> sp_deletedAt p = None) (pages a)"

definition verifySubscriber :: "string \<Rightarrow> string \<Rightarrow> time \<Rightarrow> api \<Rightarrow> bool \<times> api" where
  "verifySubscriber slug tok now a =
     (case find_first (\<lambda>s. su_verificationToken s = Some tok \<and> on_live_page slug a s) (subscribers a) of
        None \<Rightarrow> (False, a)
      | Some sub \<Rightarrow>
          (let (utok, a1) = (case su_unsubscribeToken sub of Some u \<Rightarrow> (u, a) | None \<Rightarrow> gen_token a)
           in (True, a1\<lparr>subscribers := update_rows (\<lambda>s. su_id s = su_id sub)
                 (\<lambda>s. s\<lparr>su_status := SS_ACTIVE, su_verifiedAt := Some now, su_verificationToken := None,
                        su_unsubscribeToken := Some utok\<rparr>) (subscribers a1)\<rparr>)))"

definition unsubscribe :: "string \<Rightarrow> string \<Rightarrow> time \<Rightarrow> api \<Rightarrow> bool \<times> api" where
  "unsubscribe slug tok now a =
     (case find_first (\<lambda>s. su_unsubscribeToken s = Some tok \<and> on_live_page slug a s) (subscribers a) of
        None \<Rightarrow> (False, a)
      | Some sub \<Rightarrow>
          (True, a\<lparr>subscribers := update_rows (\<lambda>s. su_id s = su_id sub)
             (\<lambda>s. s\<lparr>su_status := SS_UNSUBSCRIBED, su_unsubscribedAt := Some now\<rparr>) (subscribers a)\<rparr>))"

record subscriber_view =
  sv_id :: id
  sv_email :: string
  sv_status :: subscriber_status
  sv_createdAt :: time
  sv_verifiedAt :: "time option"
  sv_unsubscribedAt :: "time option"

definition subscriberView :: "subscriber \<Rightarrow> subscriber_view" where
  "subscriberView s =
     \<lparr>sv_id = su_id s, sv_email = su_email s, sv_status = su_status s, sv_createdAt = su_createdAt s,
      sv_verifiedAt = su_verifiedAt s, sv_unsubscribedAt = su_unsubscribedAt s\<rparr>"

record subscriber_list =
  sl_page :: "subscriber_view page"
  sl_total :: nat
  sl_active :: nat
  sl_pending :: nat
  sl_unsubscribed :: nat

definition listSubscribers ::
  "codec_host \<Rightarrow> id \<Rightarrow> id \<Rightarrow> nat \<Rightarrow> string option \<Rightarrow> api \<Rightarrow> js_error + subscriber_list option" where
  "listSubscribers h organizationId pid limit cursor a =
     (if \<not> pageInOrg organizationId pid a then Inr None
      else map_sum (\<lambda>e. e)
        (\<lambda>p. let n = (\<lambda>st. length (filter (\<lambda>s. su_statusPageId s = pid \<and> su_status s = st) (subscribers a)))
             in Some \<lparr>sl_page = \<lparr>pg_items = map subscriberView (pg_items p), pg_nextCursor = pg_nextCursor p\<rparr>, sl_total = n SS_ACTIVE + n SS_PENDING + n SS_UNSUBSCRIBED, sl_active = n SS_ACTIVE,
                      sl_pending = n SS_PENDING, sl_unsubscribed = n SS_UNSUBSCRIBED\<rparr>)
        (list_page h su_id su_createdAt (\<lambda>s. su_statusPageId s = pid) limit (subscribers a) cursor))"

end
