(* ===== verification/StatusPageLife.thy ===== *)
theory StatusPageLife
  imports StatusPages
begin

text \<open>
  The life of a status page's subscribers. \<open>page_step\<close> runs the operations of
  \<^verbatim>\<open>status-page.service.ts\<close> for all pages in any order and keeps, beside the tables, the
  confirmation tokens issued to an address and the tokens presented to \<open>verifySubscriber\<close>. The
  operations that touch neither subscribers nor the mail queue (pages, components, reads) are one
  rule. The second half is about the components of a page: their order and the status they show.
\<close>

section \<open>Steps\<close>

record page_world =
  pw_api :: api
  pw_issued :: "(string \<times> string) set"  \<comment> \<open>token, address\<close>
  pw_presented :: "string set"

definition newly_issued :: "js_error + subscribe_result option \<Rightarrow> (string \<times> string) set" where
  "newly_issued r = (case r of Inr (Some (Pending_confirmation t e)) \<Rightarrow> {(t, e)} | _ \<Rightarrow> {})"

text \<open>What an operation that leaves the subscribers alone may do.\<close>

definition subscribers_kept :: "api \<Rightarrow> api \<Rightarrow> bool" where
  "subscribers_kept a a' \<longleftrightarrow>
     subscribers a' = subscribers a \<and> status_mails a' = status_mails a
     \<and> secrets a' = secrets a \<and> next_secret a \<le> next_secret a' \<and> supply_le (engine a) (engine a')"

inductive page_step :: "page_deps \<Rightarrow> page_world \<Rightarrow> page_world \<Rightarrow> bool" for deps where
  pst_subscribe: "subscribe deps slug email now (pw_api w) = (r, a') \<Longrightarrow>
    page_step deps w (w\<lparr>pw_api := a', pw_issued := pw_issued w \<union> newly_issued r\<rparr>)"
| pst_verify: "verifySubscriber slug tok now (pw_api w) = (ok, a') \<Longrightarrow>
    page_step deps w (w\<lparr>pw_api := a', pw_presented := insert tok (pw_presented w)\<rparr>)"
| pst_unsubscribe: "unsubscribe slug tok now (pw_api w) = (ok, a') \<Longrightarrow> page_step deps w (w\<lparr>pw_api := a'\<rparr>)"
| pst_open: "openStatusIncident deps org pid title body impact actor now (pw_api w) = (i, a') \<Longrightarrow>
    page_step deps w (w\<lparr>pw_api := a'\<rparr>)"
| pst_update: "addIncidentUpdate deps org pid incidentId st body actor now (pw_api w) = (i, a') \<Longrightarrow>
    page_step deps w (w\<lparr>pw_api := a'\<rparr>)"
| pst_other: "subscribers_kept (pw_api w) a' \<Longrightarrow> page_step deps w (w\<lparr>pw_api := a'\<rparr>)"

lemma subscribers_kept_refl [simp]: "subscribers_kept a a"
  by (simp add: subscribers_kept_def)

lemma audit_keeps [simp]: "subscribers_kept a (audit e a') \<longleftrightarrow> subscribers_kept a a'"
  by (simp add: subscribers_kept_def supply_le_def)

lemma tables_keep [simp]:
  "subscribers_kept a (a'\<lparr>pages := ps\<rparr>) \<longleftrightarrow> subscribers_kept a a'"
  "subscribers_kept a (a'\<lparr>components := cs\<rparr>) \<longleftrightarrow> subscribers_kept a a'"
  "subscribers_kept a (a'\<lparr>page_incidents := xs\<rparr>) \<longleftrightarrow> subscribers_kept a a'"
  "subscribers_kept a (a'\<lparr>page_updates := us\<rparr>) \<longleftrightarrow> subscribers_kept a a'"
  "subscribers_kept a a' \<Longrightarrow> subscribers_kept a (on_engine draw_id a')"
  by (simp_all add: subscribers_kept_def supply_le_def)

lemma seed_components_keep [simp]:
  "subscribers_kept a a' \<Longrightarrow> subscribers_kept a (seed_components pid i cs now a')"
  by (induction pid i cs now a' rule: seed_components.induct) (simp_all add: gen_id_def)

lemma page_ops_keep:
  "subscribers_kept a (snd (createPage org inp actor now a))"
  "subscribers_kept a (snd (updatePage org pid patch actor now a))"
  "subscribers_kept a (snd (removePage org pid actor now a))"
  by (simp_all add: createPage_def updatePage_def removePage_def gen_id_def Let_def
      split: option.splits sum.splits)

lemma component_ops_keep:
  "subscribers_kept a (snd (createComponent org pid name ci actor now a))"
  "subscribers_kept a (snd (updateComponent org pid cid ci actor now a))"
  "subscribers_kept a (snd (deleteComponent org pid cid actor a))"
  "subscribers_kept a (snd (reorderComponents org pid ids actor now a))"
  by (simp_all add: createComponent_def updateComponent_def deleteComponent_def reorderComponents_def
      gen_id_def Let_def split: option.splits)

section \<open>Double opt-in\<close>

text \<open>A token confirmed for an address: issued to it by \<open>subscribe\<close> and presented since.\<close>

definition confirmed :: "page_world \<Rightarrow> string \<Rightarrow> bool" where
  "confirmed w email \<longleftrightarrow> (\<exists>t. (t, email) \<in> pw_issued w \<and> t \<in> pw_presented w)"

definition subscriber_ok :: "page_world \<Rightarrow> subscriber \<Rightarrow> bool" where
  "subscriber_ok w s \<longleftrightarrow>
     (su_status s = SS_ACTIVE \<longrightarrow> confirmed w (su_email s))
     \<and> (\<forall>t. su_verificationToken s = Some t \<longrightarrow> (t, su_email s) \<in> pw_issued w)"

fun mail_ok :: "page_world \<Rightarrow> status_mail \<Rightarrow> bool" where
  "mail_ok w (Status_incident m) = confirmed w (im_to m)"
| "mail_ok w (Subscribe_confirm to' _ url) = (\<exists>t. (t, to') \<in> pw_issued w)"

definition tokens_drawn :: "page_world \<Rightarrow> bool" where
  "tokens_drawn w \<longleftrightarrow>
     (\<forall>x \<in> pw_issued w. \<exists>k < next_secret (pw_api w). fst x = secrets (pw_api w) k)
     \<and> inj_on fst (pw_issued w)"

definition rows_keyed :: "api \<Rightarrow> bool" where
  "rows_keyed a \<longleftrightarrow>
     distinct (map su_id (subscribers a)) \<and> fresh_ids (su_id ` set (subscribers a)) (engine a)"

lemma rows_keyed_same:
  assumes "rows_keyed a" "map su_id (subscribers a') = map su_id (subscribers a)" "supply_le (engine a) (engine a')"
  shows "rows_keyed a'"
  using assms fresh_ids_supply unfolding rows_keyed_def by (metis list.set_map)

definition opt_in_inv :: "page_world \<Rightarrow> bool" where
  "opt_in_inv w \<longleftrightarrow>
     inj (secrets (pw_api w)) \<and> tokens_drawn w \<and> rows_keyed (pw_api w)
     \<and> list_all (subscriber_ok w) (subscribers (pw_api w))
     \<and> list_all (mail_ok w \<circ> snd) (status_mails (pw_api w))"


lemma subscriber_ok_mono:
  "pw_issued w \<subseteq> pw_issued w' \<Longrightarrow> pw_presented w \<subseteq> pw_presented w' \<Longrightarrow> subscriber_ok w s \<Longrightarrow> subscriber_ok w' s"
  by (auto simp: subscriber_ok_def confirmed_def)

lemma mail_ok_mono:
  "pw_issued w \<subseteq> pw_issued w' \<Longrightarrow> pw_presented w \<subseteq> pw_presented w' \<Longrightarrow> mail_ok w m \<Longrightarrow> mail_ok w' m"
  by (cases m) (auto simp: confirmed_def)

lemma tokens_drawn_kept:
  assumes "tokens_drawn w" "secrets a' = secrets (pw_api w)" "next_secret (pw_api w) \<le> next_secret a'"
    and "pw_issued w' = pw_issued w" "pw_api w' = a'"
  shows "tokens_drawn w'"
proof -
  have "\<exists>k < next_secret a'. fst x = secrets a' k" if "x \<in> pw_issued w" for x
    using assms(1-3) that unfolding tokens_drawn_def by (metis order_less_le_trans)
  with assms(1,4,5) show ?thesis by (simp add: tokens_drawn_def)
qed

text \<open>A step keeps the invariant when its tokens are drawn and its rows and mails are in order.\<close>

lemma opt_in_inv_step:
  assumes "opt_in_inv w" "secrets (pw_api w') = secrets (pw_api w)" "tokens_drawn w'" "rows_keyed (pw_api w')"
    and sub: "pw_issued w \<subseteq> pw_issued w'" "pw_presented w \<subseteq> pw_presented w'"
    and rows: "\<And>s. s \<in> set (subscribers (pw_api w')) \<Longrightarrow> s \<in> set (subscribers (pw_api w)) \<or> subscriber_ok w' s"
    and mails: "\<And>j m. (j, m) \<in> set (status_mails (pw_api w')) \<Longrightarrow> (j, m) \<in> set (status_mails (pw_api w)) \<or> mail_ok w' m"
  shows "opt_in_inv w'"
proof -
  have "subscriber_ok w' s" if "s \<in> set (subscribers (pw_api w'))" for s
    using assms(1) rows [OF that] subscriber_ok_mono [OF sub] by (auto simp: opt_in_inv_def list_all_iff)
  moreover have "mail_ok w' m" if "(j, m) \<in> set (status_mails (pw_api w'))" for j m
    using assms(1) mails [OF that] mail_ok_mono [OF sub] by (fastforce simp: opt_in_inv_def list_all_iff)
  ultimately show ?thesis
    using assms(1-4) by (auto simp: opt_in_inv_def list_all_iff)
qed

lemma enqueueEmail_sel [simp]:
  "subscribers (enqueueEmail j m a) = subscribers a" "secrets (enqueueEmail j m a) = secrets a"
  "next_secret (enqueueEmail j m a) = next_secret a" "engine (enqueueEmail j m a) = engine a" "pages (enqueueEmail j m a) = pages a"
  by (simp_all add: enqueueEmail_def)

lemma enqueueEmail_mails: "set (status_mails (enqueueEmail j m a)) \<subseteq> insert (j, m) (set (status_mails a))"
  by (auto simp: enqueueEmail_def set_insert_row)

lemma fold_enqueue:
  "subscribers (fold (\<lambda>s. enqueueEmail (k s) (f s)) ss a) = subscribers a
   \<and> secrets (fold (\<lambda>s. enqueueEmail (k s) (f s)) ss a) = secrets a
   \<and> engine (fold (\<lambda>s. enqueueEmail (k s) (f s)) ss a) = engine a
   \<and> next_secret (fold (\<lambda>s. enqueueEmail (k s) (f s)) ss a) = next_secret a
   \<and> set (status_mails (fold (\<lambda>s. enqueueEmail (k s) (f s)) ss a))
       \<subseteq> set (status_mails a) \<union> (\<lambda>s. (k s, f s)) ` set ss"
proof (induction ss arbitrary: a)
  case (Cons s ss)
  from Cons [of "enqueueEmail (k s) (f s) a"] enqueueEmail_mails [of "k s" "f s" a] show ?case by auto
qed simp

lemma notifyIncident_sel [simp]:
  "subscribers (notifyIncident deps p iid uid title ph st body a) = subscribers a"
  "secrets (notifyIncident deps p iid uid title ph st body a) = secrets a"
  "next_secret (notifyIncident deps p iid uid title ph st body a) = next_secret a"
  "engine (notifyIncident deps p iid uid title ph st body a) = engine a"
  by (simp_all add: notifyIncident_def fold_enqueue)

text \<open>An incident is mailed to active subscribers of its page.\<close>

lemma notifyIncident_mails:
  assumes "(j, m) \<in> set (status_mails (notifyIncident deps p iid uid title ph st body a))"
  shows "(j, m) \<in> set (status_mails a)
    \<or> (\<exists>s \<in> set (subscribers a). su_status s = SS_ACTIVE \<and> su_statusPageId s = sp_id p
         \<and> m = mail_for deps p title ph st body s)"
proof -
  let ?ss = "find_many (\<lambda>s. su_statusPageId s = sp_id p \<and> su_status s = SS_ACTIVE \<and> su_unsubscribeToken s \<noteq> None)
                   (subscribers a)"
  let ?k = "\<lambda>sub. ''status-incident:'' @ phase_name ph @ '':'' @ iid @ '':'' @ uid @ '':'' @ su_id sub"
  have "set (status_mails (notifyIncident deps p iid uid title ph st body a))
      \<subseteq> set (status_mails a) \<union> (\<lambda>s. (?k s, mail_for deps p title ph st body s)) ` set ?ss"
    unfolding notifyIncident_def Let_def using fold_enqueue [of ?k "mail_for deps p title ph st body" ?ss a] by simp
  with assms show ?thesis by (auto simp: find_many_def)
qed

text \<open>An operation that tells the subscribers of an incident and changes none of them.\<close>

lemma opt_in_inv_notify:
  assumes "opt_in_inv w" "subscribers_kept (pw_api w) a" "a' = notifyIncident deps p iid uid title ph st body a \<or> a' = a"
  shows "opt_in_inv (w\<lparr>pw_api := a'\<rparr>)"
proof (rule opt_in_inv_step [OF assms(1)])
  show "rows_keyed (pw_api (w\<lparr>pw_api := a'\<rparr>))"
    by (rule rows_keyed_same [of "pw_api w"]) (use assms in \<open>auto simp: opt_in_inv_def subscribers_kept_def\<close>)
  show "tokens_drawn (w\<lparr>pw_api := a'\<rparr>)"
    by (rule tokens_drawn_kept [of w a']) (use assms in \<open>auto simp: opt_in_inv_def subscribers_kept_def\<close>)
next
  fix j m
  assume "(j, m) \<in> set (status_mails (pw_api (w\<lparr>pw_api := a'\<rparr>)))"
  then have "(j, m) \<in> set (status_mails a')" by simp
  with assms(3) have "(j, m) \<in> set (status_mails a)
      \<or> (\<exists>s \<in> set (subscribers a). su_status s = SS_ACTIVE \<and> m = mail_for deps p title ph st body s)"
    using notifyIncident_mails by blast
  then show "(j, m) \<in> set (status_mails (pw_api w)) \<or> mail_ok (w\<lparr>pw_api := a'\<rparr>) m"
    using assms(1,2) by (auto simp: subscribers_kept_def opt_in_inv_def list_all_iff subscriber_ok_def
        mail_for_def confirmed_def Let_def)
qed (use assms(2,3) in \<open>auto simp: subscribers_kept_def\<close>)

lemma opt_in_inv_kept: "opt_in_inv w \<Longrightarrow> subscribers_kept (pw_api w) a' \<Longrightarrow> opt_in_inv (w\<lparr>pw_api := a'\<rparr>)"
  by (rule opt_in_inv_notify) auto

lemma opt_in_inv_open:
  assumes "opt_in_inv w" "openStatusIncident deps org pid title body impact actor now (pw_api w) = (i, a')"
  shows "opt_in_inv (w\<lparr>pw_api := a'\<rparr>)"
proof (cases "find_page org pid (pw_api w)")
  case None
  with assms show ?thesis by (auto simp: openStatusIncident_def)
next
  case (Some p)
  show ?thesis
    using assms(2) Some
    by (auto simp: openStatusIncident_def gen_id_def Let_def split: if_splits
        intro!: opt_in_inv_notify [OF assms(1)])
qed

lemma opt_in_inv_update:
  assumes "opt_in_inv w" "addIncidentUpdate deps org pid iid st body actor now (pw_api w) = (i, a')"
  shows "opt_in_inv (w\<lparr>pw_api := a'\<rparr>)"
proof -
  let ?i = "find_first (\<lambda>i. pi_id i = iid \<and> pi_statusPageId i = pid) (page_incidents (pw_api w))"
  consider "?i = None" | "find_page org pid (pw_api w) = None" | x p where "?i = Some x" "find_page org pid (pw_api w) = Some p"
    by fastforce
  then show ?thesis
  proof cases
    case 3
    then show ?thesis
      using assms(2)
      by (auto simp: addIncidentUpdate_def gen_id_def Let_def split: if_splits
          intro!: opt_in_inv_notify [OF assms(1)])
  qed (use assms in \<open>auto simp: addIncidentUpdate_def split: option.splits\<close>)
qed


text \<open>A new token: never issued before, as the random source does not repeat.\<close>

lemma tokens_drawn_issue:
  assumes "opt_in_inv w" "a' = pw_api w'" "secrets a' = secrets (pw_api w)"
    and "next_secret (pw_api w) < next_secret a'"
    and "pw_issued w' = insert (secrets (pw_api w) (next_secret (pw_api w)), e) (pw_issued w)"
  shows "tokens_drawn w'"
proof -
  let ?n = "next_secret (pw_api w)" and ?s = "secrets (pw_api w)"
  have drawn: "tokens_drawn w" and i: "inj ?s" using assms(1) by (simp_all add: opt_in_inv_def)
  then have old: "\<exists>k < ?n. fst x = ?s k" if "x \<in> pw_issued w" for x
    using that by (simp add: tokens_drawn_def)
  have new: "?s ?n \<notin> fst ` pw_issued w"
  proof
    assume "?s ?n \<in> fst ` pw_issued w"
    with old obtain k where "k < ?n" "?s ?n = ?s k" by (metis imageE)
    with i show False by (simp add: inj_eq)
  qed
  have "\<exists>k < next_secret a'. fst x = ?s k" if "x \<in> pw_issued w" for x
    using old [OF that] assms(4) by (metis order_less_trans)
  with drawn new assms(2-5) show ?thesis by (auto simp: tokens_drawn_def inj_on_insert)
qed

lemma rows_keyed_issue:
  assumes "rows_keyed a" "map su_id (subscribers a') = map su_id (subscribers a) @ [new_id (engine a)]"
    and "engine a' = draw_id (engine a)"
  shows "rows_keyed a'"
proof -
  have ids: "su_id ` set (subscribers a') = insert (new_id (engine a)) (su_id ` set (subscribers a))"
    using arg_cong [OF assms(2), of set] by simp
  have f: "fresh_ids (su_id ` set (subscribers a)) (engine a)" using assms(1) by (simp add: rows_keyed_def)
  have "distinct (map su_id (subscribers a'))"
    using assms(1,2) fresh_ids_new [OF f] by (simp add: rows_keyed_def)
  then show ?thesis using fresh_ids_draw [OF f] by (simp add: rows_keyed_def ids assms(3))
qed

text \<open>A confirmation under way: the row of the address is pending, and only it has changed.\<close>

definition confirmation_sent :: "string \<Rightarrow> string \<Rightarrow> api \<Rightarrow> api \<Rightarrow> bool" where
  "confirmation_sent tok e a a' \<longleftrightarrow>
     tok = secrets a (next_secret a) \<and> secrets a' = secrets a \<and> next_secret a < next_secret a'
     \<and> (map su_id (subscribers a') = map su_id (subscribers a) \<and> engine a' = engine a
        \<or> map su_id (subscribers a') = map su_id (subscribers a) @ [new_id (engine a)] \<and> engine a' = draw_id (engine a))
     \<and> (\<forall>s \<in> set (subscribers a'). s \<in> set (subscribers a)
        \<or> su_status s = SS_PENDING \<and> su_email s = e \<and> su_verificationToken s = Some tok)
     \<and> (\<forall>x \<in> set (status_mails a'). x \<in> set (status_mails a) \<or> (\<exists>page url. snd x = Subscribe_confirm e page url))"

lemma confirmation_sent_mail:
  "confirmation_sent tok e a a' \<Longrightarrow> confirmation_sent tok e a (sendVerification page e url a')"
  by (auto simp: confirmation_sent_def sendVerification_def enqueueEmail_def table_simps)

lemma subscribe_effect:
  assumes "subscribe deps slug email now a = (r, a')"
  shows "subscribers_kept a a' \<and> newly_issued r = {}
    \<or> (\<exists>tok e. r = Inr (Some (Pending_confirmation tok e)) \<and> confirmation_sent tok e a a')"
proof (cases "publicPageBySlug slug a")
  case None
  with assms show ?thesis by (simp add: subscribe_def newly_issued_def) auto
next
  case (Some p)
  let ?e = "to_lower (trim email)" and ?v = "secrets a (next_secret a)" and ?u = "secrets a (Suc (next_secret a))"
  let ?ex = "find_first (subscriber_key (sp_id p) ?e) (subscribers a)"
  let ?taken = "list_ex (\<lambda>s. \<not> subscriber_key (sp_id p) ?e s \<and> (su_verificationToken s = Some ?v
      \<or> ?ex = None \<and> su_unsubscribeToken s = Some ?u)) (subscribers a)"
  note s = assms [unfolded subscribe_def Some Let_def gen_token_def gen_id_def, simplified]
  consider "map_option su_status ?ex = Some SS_ACTIVE" | "map_option su_status ?ex \<noteq> Some SS_ACTIVE" ?taken
    | "?ex = None" "\<not> ?taken" | x where "?ex = Some x" "map_option su_status ?ex \<noteq> Some SS_ACTIVE" "\<not> ?taken"
    by fastforce
  then show ?thesis
  proof cases
    case 1
    with s show ?thesis by (auto simp: newly_issued_def)
  next
    case 2
    with s show ?thesis by (cases ?ex) (auto simp: newly_issued_def subscribers_kept_def)
  next
    case 3
    let ?row = "\<lparr>su_id = new_id (engine a), su_statusPageId = sp_id p, su_email = ?e, su_status = SS_PENDING,
      su_verificationToken = Some ?v, su_unsubscribeToken = Some ?u, su_verifiedAt = None, su_unsubscribedAt = None,
      su_createdAt = now\<rparr>"
    let ?a = "on_engine draw_id (a\<lparr>next_secret := Suc (Suc (next_secret a))\<rparr>)"
    let ?b = "?a\<lparr>subscribers := insert_row ?row (subscribers a)\<rparr>"
    have "confirmation_sent ?v ?e a ?b" by (auto simp: confirmation_sent_def insert_row_def)
    moreover have "r = Inr (Some (Pending_confirmation ?v ?e))
        \<and> a' = (if pd_notifier deps then sendVerification (sp_name p) ?e (confirm_url deps (sp_slug p) ?v) ?b else ?b)"
      using s 3 by auto
    ultimately show ?thesis using confirmation_sent_mail by auto
  next
    case 4
    let ?f = "\<lambda>s. s\<lparr>su_status := SS_PENDING, su_verificationToken := Some ?v, su_unsubscribedAt := None\<rparr>"
    let ?b = "a\<lparr>next_secret := Suc (Suc (next_secret a)),
      subscribers := update_rows (subscriber_key (sp_id p) ?e) ?f (subscribers a)\<rparr>"
    have "confirmation_sent ?v ?e a ?b"
      by (auto simp: confirmation_sent_def map_update_rows set_update_rows subscriber_key_def)
    moreover have "r = Inr (Some (Pending_confirmation ?v ?e))
        \<and> a' = (if pd_notifier deps then sendVerification (sp_name p) ?e (confirm_url deps (sp_slug p) ?v) ?b else ?b)"
      using s 4 by auto
    ultimately show ?thesis using confirmation_sent_mail by auto
  qed
qed

lemma opt_in_inv_subscribe:
  assumes "opt_in_inv w" "subscribe deps slug email now (pw_api w) = (r, a')"
  shows "opt_in_inv (w\<lparr>pw_api := a', pw_issued := pw_issued w \<union> newly_issued r\<rparr>)"
  using subscribe_effect [OF assms(2)]
proof
  assume "subscribers_kept (pw_api w) a' \<and> newly_issued r = {}"
  with opt_in_inv_kept [OF assms(1)] show ?thesis by simp
next
  let ?a = "pw_api w" and ?w = "w\<lparr>pw_api := a', pw_issued := pw_issued w \<union> newly_issued r\<rparr>"
  assume "\<exists>tok e. r = Inr (Some (Pending_confirmation tok e)) \<and> confirmation_sent tok e ?a a'"
  then obtain tok e where r: "newly_issued r = {(tok, e)}" and c: "confirmation_sent tok e ?a a'"
    by (auto simp: newly_issued_def)
  show ?thesis
  proof (rule opt_in_inv_step [OF assms(1)])
    show "rows_keyed (pw_api ?w)"
      using assms(1) c rows_keyed_issue [of ?a a'] rows_keyed_same [of ?a a']
      by (auto simp: opt_in_inv_def confirmation_sent_def)
    show "tokens_drawn ?w"
      by (rule tokens_drawn_issue [OF assms(1), of a' _ e]) (use r c in \<open>auto simp: confirmation_sent_def\<close>)
  next
    fix s
    assume "s \<in> set (subscribers (pw_api ?w))"
    with r c show "s \<in> set (subscribers ?a) \<or> subscriber_ok ?w s"
      by (auto simp: subscriber_ok_def confirmation_sent_def)
  next
    fix j m
    assume "(j, m) \<in> set (status_mails (pw_api ?w))"
    with r c show "(j, m) \<in> set (status_mails ?a) \<or> mail_ok ?w m" by (fastforce simp: confirmation_sent_def)
  qed (use c in \<open>auto simp: confirmation_sent_def\<close>)
qed

lemma opt_in_inv_verify:
  assumes "opt_in_inv w" "verifySubscriber slug tok now (pw_api w) = (ok, a')"
  shows "opt_in_inv (w\<lparr>pw_api := a', pw_presented := insert tok (pw_presented w)\<rparr>)"
proof -
  let ?a = "pw_api w" and ?w = "w\<lparr>pw_api := a', pw_presented := insert tok (pw_presented w)\<rparr>"
  let ?f = "find_first (\<lambda>s. su_verificationToken s = Some tok \<and> on_live_page slug ?a s) (subscribers ?a)"
  have keep: "opt_in_inv ?w" if k: "map su_id (subscribers a') = map su_id (subscribers ?a)"
      "engine a' = engine ?a" "secrets a' = secrets ?a" "next_secret ?a \<le> next_secret a'" "status_mails a' = status_mails ?a"
    and "\<And>s. s \<in> set (subscribers a') \<Longrightarrow> s \<in> set (subscribers ?a) \<or> subscriber_ok ?w s"
  proof (rule opt_in_inv_step [OF assms(1)])
    show "rows_keyed (pw_api ?w)"
      by (rule rows_keyed_same [of ?a]) (use assms(1) k in \<open>auto simp: opt_in_inv_def\<close>)
    show "tokens_drawn ?w"
      by (rule tokens_drawn_kept [of w a']) (use assms(1) k in \<open>auto simp: opt_in_inv_def\<close>)
  qed (use that in auto)
  show ?thesis
  proof (cases ?f)
    case None
    with assms(2) show ?thesis by (intro keep) (auto simp: verifySubscriber_def)
  next
    case (Some sub)
    note sub = find_first_Some_iff [OF Some]
    have a': "secrets a' = secrets ?a" "engine a' = engine ?a" "status_mails a' = status_mails ?a"
        "next_secret ?a \<le> next_secret a'"
      and rows: "\<exists>u. subscribers a' = update_rows (\<lambda>s. su_id s = su_id sub)
        (\<lambda>s. s\<lparr>su_status := SS_ACTIVE, su_verifiedAt := Some now, su_verificationToken := None,
               su_unsubscribeToken := Some u\<rparr>) (subscribers ?a)"
      using assms(2) Some by (auto simp: verifySubscriber_def gen_token_def split: option.splits)
    then obtain u where u: "subscribers a' = update_rows (\<lambda>s. su_id s = su_id sub)
        (\<lambda>s. s\<lparr>su_status := SS_ACTIVE, su_verifiedAt := Some now, su_verificationToken := None,
               su_unsubscribeToken := Some u\<rparr>) (subscribers ?a)" by blast
    have same: "s = sub" if "s \<in> set (subscribers ?a)" "su_id s = su_id sub" for s
      using assms(1) that sub by (metis opt_in_inv_def rows_keyed_def distinct_map inj_onD)
    have "(tok, su_email sub) \<in> pw_issued w"
      using assms(1) sub by (auto simp: opt_in_inv_def list_all_iff subscriber_ok_def)
    then have c: "confirmed ?w (su_email sub)" by (auto simp: confirmed_def)
    show ?thesis
    proof (rule keep)
      fix s
      assume "s \<in> set (subscribers a')"
      then obtain s0 where s0: "s0 \<in> set (subscribers ?a)"
        "s = (if su_id s0 = su_id sub then s0\<lparr>su_status := SS_ACTIVE, su_verifiedAt := Some now,
            su_verificationToken := None, su_unsubscribeToken := Some u\<rparr> else s0)"
        by (auto simp: u set_update_rows)
      show "s \<in> set (subscribers ?a) \<or> subscriber_ok ?w s"
        using s0 same [of s0] c by (cases "su_id s0 = su_id sub") (simp_all add: subscriber_ok_def)
    qed (use a' in \<open>simp_all add: u map_update_rows\<close>)
  qed
qed

lemma opt_in_inv_unsubscribe:
  assumes "opt_in_inv w" "unsubscribe slug tok now (pw_api w) = (ok, a')"
  shows "opt_in_inv (w\<lparr>pw_api := a'\<rparr>)"
proof -
  let ?a = "pw_api w" and ?w = "w\<lparr>pw_api := a'\<rparr>"
  have a': "secrets a' = secrets ?a" "engine a' = engine ?a" "status_mails a' = status_mails ?a"
      "next_secret a' = next_secret ?a" "map su_id (subscribers a') = map su_id (subscribers ?a)"
    and rows: "\<And>s. s \<in> set (subscribers a') \<Longrightarrow> s \<in> set (subscribers ?a)
      \<or> su_status s = SS_UNSUBSCRIBED \<and> (\<exists>s0 \<in> set (subscribers ?a). su_email s = su_email s0
           \<and> su_verificationToken s = su_verificationToken s0)"
    using assms(2) by (fastforce simp: unsubscribe_def set_update_rows map_update_rows split: option.splits)+
  show ?thesis
  proof (rule opt_in_inv_step [OF assms(1)])
    show "rows_keyed (pw_api ?w)"
      by (rule rows_keyed_same [of ?a]) (use assms(1) a' in \<open>auto simp: opt_in_inv_def\<close>)
    show "tokens_drawn ?w"
      by (rule tokens_drawn_kept [of w a']) (use assms(1) a' in \<open>auto simp: opt_in_inv_def\<close>)
    fix s
    assume "s \<in> set (subscribers (pw_api ?w))"
    with rows [of s] assms(1) show "s \<in> set (subscribers ?a) \<or> subscriber_ok ?w s"
      by (auto simp: opt_in_inv_def list_all_iff subscriber_ok_def)
  qed (use a' in auto)
qed

inductive_cases page_stepE: "page_step deps w w'"

lemma page_steps_inv:
  assumes "(page_step deps)\<^sup>*\<^sup>* w w'" "opt_in_inv w"
  shows "opt_in_inv w'"
  using assms
proof (induction rule: rtranclp_induct)
  case (step y z)
  note inv = step.IH [OF step.prems]
  from step.hyps(2) show ?case
    by (elim page_stepE)
      (auto intro: opt_in_inv_subscribe [OF inv] opt_in_inv_verify [OF inv] opt_in_inv_unsubscribe [OF inv]
        opt_in_inv_open [OF inv] opt_in_inv_update [OF inv] opt_in_inv_kept [OF inv])
qed

text \<open>Whoever is told of an incident has confirmed an address no other token was issued to.\<close>

lemma mailed_confirmed:
  assumes "(page_step deps)\<^sup>*\<^sup>* w w'" "opt_in_inv w" "(job, Status_incident m) \<in> set (status_mails (pw_api w'))"
  shows "\<exists>t. (t, im_to m) \<in> pw_issued w' \<and> t \<in> pw_presented w' \<and> (\<forall>e. (t, e) \<in> pw_issued w' \<longrightarrow> e = im_to m)"
proof -
  note inv = page_steps_inv [OF assms(1,2)]
  with assms(3) have "confirmed w' (im_to m)" by (fastforce simp: opt_in_inv_def list_all_iff)
  then obtain t where t: "(t, im_to m) \<in> pw_issued w'" "t \<in> pw_presented w'" by (auto simp: confirmed_def)
  have "e = im_to m" if "(t, e) \<in> pw_issued w'" for e
  proof -
    have "inj_on fst (pw_issued w')" using inv by (simp add: opt_in_inv_def tokens_drawn_def)
    from inj_onD [OF this _ that t(1)] show ?thesis by simp
  qed
  with t show ?thesis by blast
qed


section \<open>What a page shows\<close>

text \<open>Statuses are ordered by their severity.\<close>

lemma STATUS_SEVERITY_inj: "STATUS_SEVERITY s = STATUS_SEVERITY t \<Longrightarrow> s = t"
  by (cases s; cases t) simp_all

instantiation component_status :: linorder
begin

definition less_eq_component_status :: "component_status \<Rightarrow> component_status \<Rightarrow> bool" where
  "less_eq_component_status s t \<longleftrightarrow> STATUS_SEVERITY s \<le> STATUS_SEVERITY t"

definition less_component_status :: "component_status \<Rightarrow> component_status \<Rightarrow> bool" where
  "less_component_status s t \<longleftrightarrow> STATUS_SEVERITY s < STATUS_SEVERITY t"

instance
  by standard
    (auto simp: less_eq_component_status_def less_component_status_def intro: STATUS_SEVERITY_inj)

end

text \<open>The overall status is the worst of the components' statuses, operational when there is none.\<close>

lemma worst_status_max: "worst_status ss = Max (insert OPERATIONAL (set ss))"
proof -
  have f: "(\<lambda>s worst. if STATUS_SEVERITY worst < STATUS_SEVERITY s then s else worst) = max"
    by (auto simp: fun_eq_iff max_def less_eq_component_status_def intro: STATUS_SEVERITY_inj)
  have "worst_status ss = fold max ss OPERATIONAL" by (simp only: worst_status_def f)
  also have "... = Max (set (OPERATIONAL # ss))" by (simp only: Max.set_eq_fold)
  finally show ?thesis by simp
qed

text \<open>A page is as bad as its worst component shown.\<close>

lemma public_page_worst:
  assumes "getPublicPage slug a = Some v" "c \<in> set (pp_components v)"
  shows "pc_status c \<le> pp_overallStatus v"
  using assms by (auto simp: getPublicPage_def toPublicPage_def worst_status_max Let_def)

text \<open>A private or deleted page is not public; an unlisted one is.\<close>

lemma getPublicPage_visible:
  assumes "getPublicPage slug a = Some v"
  shows "\<exists>p \<in> set (pages a). sp_slug p = slug \<and> sp_deletedAt p = None \<and> sp_visibility p \<noteq> V_PRIVATE \<and> v = toPublicPage a p"
  using assms by (auto simp: getPublicPage_def publicPageBySlug_def dest!: find_first_Some_iff)

section \<open>The order of the components\<close>

lemma update_rows_map: "update_rows P f t = map (\<lambda>r. if P r then f r else r) t"
  by (simp add: update_rows_def)

fun index_from :: "int \<Rightarrow> id list \<Rightarrow> id \<Rightarrow> int option" where
  "index_from i [] x = None"
| "index_from i (y # ys) x = (case index_from (i + 1) ys x of Some k \<Rightarrow> Some k | None \<Rightarrow> if y = x then Some i else None)"

text \<open>Each component gets the last index at which its id stands.\<close>

definition placed :: "int option \<Rightarrow> time \<Rightarrow> page_component \<Rightarrow> page_component" where
  "placed k now c = (case k of None \<Rightarrow> c | Some i \<Rightarrow> c\<lparr>co_position := i, co_updatedAt := now\<rparr>)"

lemma place_map: "place i ids now t = map (\<lambda>c. placed (index_from i ids (co_id c)) now c) t"
proof (induction i ids now t rule: place.induct)
  case (2 i cid ids now t)
  show ?case
    by (simp only: place.simps 2 [unfolded update_rows_map] update_rows_map map_map)
      (auto simp: placed_def split: option.split)
qed (simp add: placed_def)

lemma placed_sel [simp]:
  "co_id (placed k now c) = co_id c" "co_statusPageId (placed k now c) = co_statusPageId c"
  "co_createdAt (placed k now c) = co_createdAt c" "co_position (placed (Some i) now c) = i"
  by (simp_all add: placed_def split: option.split)

lemma index_from_None: "index_from i ids x = None \<longleftrightarrow> x \<notin> set ids"
proof (induction ids arbitrary: i)
  case (Cons y ys)
  from Cons [of "i + 1"] show ?case by (auto split: option.split)
qed simp

lemma index_from_nth: "distinct ids \<Longrightarrow> n < length ids \<Longrightarrow> index_from i ids (ids ! n) = Some (i + int n)"
proof (induction ids arbitrary: i n)
  case (Cons y ys)
  show ?case
  proof (cases n)
    case 0
    with Cons.prems show ?thesis using index_from_None [of "i + 1" ys y] by simp
  next
    case (Suc m)
    with Cons show ?thesis by simp
  qed
qed simp

lemma set_components_of: "set (components_of pid a) = {c \<in> set (components a). co_statusPageId c = pid}"
  by (auto simp: components_of_def find_many_def)

lemma sorted_components_of: "sorted (map co_position (components_of pid a))"
  by (simp add: components_of_def)

lemma distinct_components_of:
  "distinct (map co_id (components a)) \<Longrightarrow> distinct (map co_id (components_of pid a))"
  unfolding components_of_def find_many_def by (auto simp: distinct_map inj_on_def)

text \<open>A complete list of a page's components is the order they are shown in afterwards.\<close>

lemma reordered:
  assumes "distinct (map co_id (components a))" "pageInOrg org pid a"
    and "distinct ids" "set ids = co_id ` {c \<in> set (components a). co_statusPageId c = pid}"
    and "reorderComponents org pid ids actor now a = (r, a')"
  shows "\<exists>cs. r = Some cs \<and> map co_id cs = ids \<and> components_of pid a' = cs"
proof -
  let ?p = "\<lambda>c. placed (index_from 0 ids (co_id c)) now c"
  have f: "filter (\<lambda>i. i \<in> set (map co_id (find_many (\<lambda>c. co_statusPageId c = pid) (components a)))) ids = ids"
    using assms(4) by (auto simp: find_many_def intro!: filter_True)
  have r: "r = Some (components_of pid a')" and c: "components a' = map ?p (components a)"
    using assms(2,5) f by (auto simp: reorderComponents_def Let_def place_map components_of_def)
  let ?cs = "components_of pid a'"
  have d: "distinct (map co_id ?cs)"
    using assms(1) by (intro distinct_components_of) (simp add: c comp_def)
  have set_ids: "set (map co_id ?cs) = set ids"
  proof -
    have "set ?cs = ?p ` {c \<in> set (components a). co_statusPageId c = pid}"
      by (auto simp: set_components_of c)
    then show ?thesis by (simp add: assms(4) image_image)
  qed
  have pos: "0 \<le> co_position x \<and> nat (co_position x) < length ids \<and> ids ! nat (co_position x) = co_id x"
    if "x \<in> set ?cs" for x
  proof -
    obtain c0 where c0: "x = ?p c0" using \<open>x \<in> set ?cs\<close> by (auto simp: set_components_of c)
    have "co_id x \<in> set ids" using set_ids \<open>x \<in> set ?cs\<close> by auto
    then obtain n where n: "n < length ids" "ids ! n = co_id x" by (auto simp: in_set_conv_nth)
    with index_from_nth [OF assms(3) n(1), of 0] show ?thesis by (simp add: c0)
  qed
  have "map co_position ?cs = map int [0..<length ids]"
  proof (rule sorted_distinct_set_unique)
    show "distinct (map co_position ?cs)"
      using d pos by (auto simp: distinct_map inj_on_def) metis
    show "set (map co_position ?cs) = set (map int [0..<length ids])"
    proof
      show "set (map co_position ?cs) \<subseteq> set (map int [0..<length ids])"
      proof
        fix i
        assume "i \<in> set (map co_position ?cs)"
        then obtain x where "x \<in> set ?cs" "i = co_position x" by auto
        with pos [of x] have "i = int (nat i)" "nat i \<in> set [0..<length ids]" by auto
        then show "i \<in> set (map int [0..<length ids])" by (metis image_eqI list.set_map)
      qed
      have "int n \<in> co_position ` set ?cs" if "n < length ids" for n
      proof -
        have "ids ! n \<in> co_id ` set ?cs" using that set_ids by auto
        then obtain x where x: "x \<in> set ?cs" "co_id x = ids ! n" by auto
        with pos [OF x(1)] assms(3) that have "nat (co_position x) = n" by (auto simp: nth_eq_iff_index_eq)
        with x(1) pos [OF x(1)] show ?thesis by force
      qed
      then show "set (map int [0..<length ids]) \<subseteq> set (map co_position ?cs)" by auto
    qed
    show "sorted (map co_position ?cs)" by (rule sorted_components_of)
    show "sorted (map int [0..<length ids])" by (simp add: sorted_iff_nth_mono)
  qed (simp_all add: distinct_map)
  then have "map (\<lambda>i. ids ! nat i) (map co_position ?cs) = map (\<lambda>i. ids ! nat i) (map int [0..<length ids])"
    by (rule arg_cong)
  then have "map (\<lambda>x. ids ! nat (co_position x)) ?cs = ids" by (simp add: comp_def map_nth)
  moreover have "map co_id ?cs = map (\<lambda>x. ids ! nat (co_position x)) ?cs"
    by (rule map_cong [OF refl], rule pos [THEN conjunct2, THEN conjunct2, symmetric])
  ultimately have "map co_id ?cs = ids" by (rule trans [rotated])
  with r show ?thesis by simp
qed


text \<open>
  A component may name any monitor there is: the page then shows the health of a monitor of
  another organization.
\<close>

lemma component_created:
  assumes "createComponent org pid name input actor now a = (Inr (Some c), a')"
  shows "c \<in> set (components_of pid a')" "co_monitorId c = default_to None (ci_monitorId input)"
    and "monitors (engine a') = monitors (engine a)"
proof -
  let ?row = "new_component (new_id (engine a)) pid (default_to None (ci_monitorId input)) name
      (default_to None (ci_description input)) (default_to None (ci_groupName input))
      (default_to OPERATIONAL (ci_status input)) (default_to True (ci_showUptime input))
      (default_to (default_to (-1) (max_position pid a) + 1) (ci_position input)) now"
  have p: "pageInOrg org pid a"
    using assms by (cases "pageInOrg org pid a") (simp_all add: createComponent_def)
  have m: "monitor_exists (default_to None (ci_monitorId input)) a"
    using assms p by (cases "monitor_exists (default_to None (ci_monitorId input)) a") (simp_all add: createComponent_def)
  have e: "createComponent org pid name input actor now a
      = (Inr (Some ?row), audit (page_audit ''status_page.component_created'' org pid actor
           (component_meta (new_id (engine a)))) (on_engine draw_id a\<lparr>components := components a @ [?row]\<rparr>))"
    by (simp add: createComponent_def p m gen_id_def insert_row_def Let_def)
  have c: "c = ?row" using e assms by simp
  have "a' = audit (page_audit ''status_page.component_created'' org pid actor
           (component_meta (new_id (engine a)))) (on_engine draw_id a\<lparr>components := components a @ [?row]\<rparr>)"
    using e assms by simp
  then have "components a' = components a @ [?row]" "monitors (engine a') = monitors (engine a)" by simp_all
  with c show "c \<in> set (components_of pid a')" "co_monitorId c = default_to None (ci_monitorId input)"
    "monitors (engine a') = monitors (engine a)"
    by (simp_all add: set_components_of new_component_def)
qed

lemma component_accepted:
  assumes "pageInOrg org pid a" "m \<in> set (monitors (engine a))" "ci_monitorId input = Some (Some (m_id m))"
  shows "\<exists>c a'. createComponent org pid name input actor now a = (Inr (Some c), a')"
  using assms by (auto simp: createComponent_def monitor_exists_def list_ex_iff gen_id_def default_to_def Let_def)

lemma component_shows_monitor:
  assumes "distinct (map m_id (monitors (engine a)))" "m \<in> set (monitors (engine a))"
    and "co_monitorId c = Some (m_id m)" "HEALTH_TO_STATUS (m_health m) = Some st"
  shows "componentStatus a c = st"
proof -
  have "find_first (\<lambda>m'. Some (m_id m) = Some (m_id m')) (monitors (engine a)) = Some m"
    using assms(1,2) by (intro find_first_unique) (auto simp: distinct_map inj_onD)
  with assms(3,4) show ?thesis by (simp add: componentStatus_def default_to_def)
qed

end
