(* ===== verification/Billing.thy ===== *)
theory Billing
  imports MonitorService IncidentService
begin

text \<open>
  Billing, from \<^verbatim>\<open>packages/billing\<close> and the services
  \<^verbatim>\<open>billing.service.ts\<close> and \<^verbatim>\<open>billing-webhook.service.ts\<close>: the
  provider's webhook events and what they do to the subscription of an organization, the receiver
  route, and the customer's own actions. The Stripe client is the record \<open>stripe\<close>. An event
  is the JSON object Stripe sends. A transaction that throws leaves the state as it was. The
  \<open>payload\<close> column, read by nothing, is left out.
\<close>

section \<open>Events\<close>

record stripe_event =
  st_id :: string
  st_type :: string
  st_object :: "(string \<times> json) list"

definition HANDLED_STRIPE_EVENTS :: "string list" where
  "HANDLED_STRIPE_EVENTS =
     [''checkout.session.completed'', ''customer.subscription.created'', ''customer.subscription.updated'',
      ''customer.subscription.deleted'', ''invoice.payment_succeeded'', ''invoice.payment_failed'']"

definition isHandledStripeEvent :: "string \<Rightarrow> bool" where
  "isHandledStripeEvent t = (t \<in> set HANDLED_STRIPE_EVENTS)"

definition EVENT_TYPE_MAP :: "(string \<times> invoice_event_type) list" where
  "EVENT_TYPE_MAP =
     [(''checkout.session.completed'', CHECKOUT_COMPLETED),
      (''customer.subscription.created'', SUBSCRIPTION_CREATED),
      (''customer.subscription.updated'', SUBSCRIPTION_UPDATED),
      (''customer.subscription.deleted'', SUBSCRIPTION_DELETED),
      (''invoice.payment_succeeded'', PAYMENT_SUCCEEDED),
      (''invoice.payment_failed'', PAYMENT_FAILED)]"

fun event_type_name :: "invoice_event_type \<Rightarrow> string" where
  "event_type_name CHECKOUT_COMPLETED = ''CHECKOUT_COMPLETED''"
| "event_type_name SUBSCRIPTION_CREATED = ''SUBSCRIPTION_CREATED''"
| "event_type_name SUBSCRIPTION_UPDATED = ''SUBSCRIPTION_UPDATED''"
| "event_type_name SUBSCRIPTION_DELETED = ''SUBSCRIPTION_DELETED''"
| "event_type_name PAYMENT_SUCCEEDED = ''PAYMENT_SUCCEEDED''"
| "event_type_name PAYMENT_FAILED = ''PAYMENT_FAILED''"

definition mapStatus :: "string option \<Rightarrow> subscription_status" where
  "mapStatus s =
     (if s = Some ''trialing'' then TRIALING
      else if s = Some ''active'' then SUB_ACTIVE
      else if s = Some ''past_due'' \<or> s = Some ''paused'' then PAST_DUE
      else if s = Some ''canceled'' then CANCELED
      else if s = Some ''unpaid'' then UNPAID
      else INCOMPLETE)"

section \<open>Reading an object\<close>

definition str :: "json option \<Rightarrow> string option" where
  "str v = (case v of Some (JStr s) \<Rightarrow> if length s > 0 then Some s else None | _ \<Rightarrow> None)"

definition num :: "json option \<Rightarrow> numv option" where
  "num v = (case v of Some (JNum n) \<Rightarrow> Some n | _ \<Rightarrow> None)"

text \<open>\<open>new Date(n * 1000)\<close>, an invalid date being \<open>NaN\<close>.\<close>

definition date_of_ms :: "rat \<Rightarrow> numv" where
  "date_of_ms ms =
     (if \<bar>ms\<bar> \<le> 8640000000000000 then Fin (of_int (if ms < 0 then \<lceil>ms\<rceil> else \<lfloor>ms\<rfloor>)) else NaN)"

definition unixToDate :: "json option \<Rightarrow> numv option" where
  "unixToDate v =
     (case num v of None \<Rightarrow> None | Some (Fin n) \<Rightarrow> Some (date_of_ms (n * 1000)) | Some _ \<Rightarrow> Some NaN)"

text \<open>\<open>v?.k\<close> on a value that came out of JSON: an absent property is \<open>undefined\<close>.\<close>

definition json_prop :: "json option \<Rightarrow> string \<Rightarrow> json option" where
  "json_prop v k =
     (case v of
        Some (JObj kvs) \<Rightarrow> map_of kvs k
      | Some (JArr (x # _)) \<Rightarrow> if k = ''0'' then Some x else None
      | Some (JStr (c # _)) \<Rightarrow> if k = ''0'' then Some (JStr [c]) else None
      | _ \<Rightarrow> None)"

definition metaOrg :: "(string \<times> json) list \<Rightarrow> string option" where
  "metaOrg object =
     (case map_of object ''metadata'' of
        Some (JObj kvs) \<Rightarrow> str (map_of kvs ''organizationId'')
      | _ \<Rightarrow> None)"

record sub_item =
  it_priceId :: "string option"
  it_quantity :: "numv option"
  it_periodEnd :: "numv option"

definition firstItem :: "(string \<times> json) list \<Rightarrow> sub_item" where
  "firstItem object =
     (let first = json_prop (json_prop (map_of object ''items'') ''data'') ''0'';
          price = json_prop first ''price''
      in \<lparr>it_priceId = str (json_prop price ''id''), it_quantity = num (json_prop first ''quantity''),
          it_periodEnd = unixToDate (json_prop first ''current_period_end'')\<rparr>)"

text \<open>
  What the client takes for a column of type \<open>Int\<close> and of type \<open>DateTime\<close>: a whole number of 32
  bits, a valid date.
\<close>

definition int_column :: "numv option \<Rightarrow> js_error + int option" where
  "int_column v =
     (case v of
        None \<Rightarrow> Inr None
      | Some (Fin r) \<Rightarrow>
          if of_int \<lfloor>r\<rfloor> = r \<and> - (2 ^ 31) \<le> \<lfloor>r\<rfloor> \<and> \<lfloor>r\<rfloor> < 2 ^ 31 then Inr (Some \<lfloor>r\<rfloor>)
          else Inl (Err ''Invalid value for an Int column'')
      | Some _ \<Rightarrow> Inl (Err ''Invalid value for an Int column''))"

definition date_column :: "numv option \<Rightarrow> js_error + time option" where
  "date_column v =
     (case v of
        None \<Rightarrow> Inr None
      | Some (Fin r) \<Rightarrow> Inr (Some \<lfloor>r\<rfloor>)
      | Some _ \<Rightarrow> Inl (Err ''Invalid value for a DateTime column''))"

section \<open>Effects of an event\<close>

definition new_subscription :: "id \<Rightarrow> id \<Rightarrow> subscription_status \<Rightarrow> subscription_row" where
  "new_subscription sid organizationId status =
     \<lparr>sub_id = sid, sub_organizationId = organizationId, sub_planId = None, sub_plan = FREE, sub_status = status,
      sub_stripeCustomerId = None, sub_stripeSubscriptionId = None, sub_stripePriceId = None, sub_seats = 1,
      sub_monitorLimit = None, sub_trialEndsAt = None, sub_currentPeriodEnd = None,
      sub_cancelAtPeriodEnd = False, sub_canceledAt = None\<rparr>"

text \<open>The ids Stripe gives are unique over all subscriptions.\<close>

definition subscription_conflict :: "subscription_row \<Rightarrow> api \<Rightarrow> bool" where
  "subscription_conflict s a \<longleftrightarrow>
     list_ex (\<lambda>s'. sub_organizationId s' \<noteq> sub_organizationId s
        \<and> (sub_stripeCustomerId s \<noteq> None \<and> sub_stripeCustomerId s' = sub_stripeCustomerId s
           \<or> sub_stripeSubscriptionId s \<noteq> None \<and> sub_stripeSubscriptionId s' = sub_stripeSubscriptionId s))
       (subscriptions a)"

definition organization_exists :: "id \<Rightarrow> api \<Rightarrow> bool" where
  "organization_exists organizationId a = list_ex (\<lambda>o'. og_id o' = organizationId) (organizations a)"

definition upsert_subscription ::
  "id \<Rightarrow> subscription_status \<Rightarrow> (subscription_row \<Rightarrow> subscription_row) \<Rightarrow> api \<Rightarrow> js_error + api" where
  "upsert_subscription organizationId status f a =
     (case subscription_of organizationId a of
        Some s \<Rightarrow>
          if subscription_conflict (f s) a then Inl unique_violation
          else Inr (a\<lparr>subscriptions := update_rows (\<lambda>s. sub_organizationId s = organizationId) f (subscriptions a)\<rparr>)
      | None \<Rightarrow>
          (let (sid, a1) = gen_id a;
               s = f (new_subscription sid organizationId status)
           in if subscription_conflict s a then Inl unique_violation
              else if \<not> organization_exists organizationId a then Inl foreign_key_violation
              else Inr (a1\<lparr>subscriptions := insert_row s (subscriptions a1)\<rparr>)))"

record subscription_patch =
  cp_status :: subscription_status
  cp_cancelAtPeriodEnd :: bool
  cp_canceledAt :: "time option"
  cp_customerId :: "string option"
  cp_subId :: "string option"
  cp_priceId :: "string option"
  cp_plan :: "(id \<times> plan_tier) option"
  cp_seats :: "int option"
  cp_currentPeriodEnd :: "time option"

definition patch_subscription :: "subscription_patch \<Rightarrow> subscription_row \<Rightarrow> subscription_row" where
  "patch_subscription c s =
     s\<lparr>sub_status := cp_status c, sub_cancelAtPeriodEnd := cp_cancelAtPeriodEnd c, sub_canceledAt := cp_canceledAt c,
       sub_stripeCustomerId := first_some (cp_customerId c) (sub_stripeCustomerId s),
       sub_stripeSubscriptionId := first_some (cp_subId c) (sub_stripeSubscriptionId s),
       sub_stripePriceId := first_some (cp_priceId c) (sub_stripePriceId s),
       sub_planId := first_some (map_option fst (cp_plan c)) (sub_planId s),
       sub_plan := default_to (sub_plan s) (map_option snd (cp_plan c)),
       sub_seats := default_to (sub_seats s) (cp_seats c),
       sub_currentPeriodEnd := first_some (cp_currentPeriodEnd c) (sub_currentPeriodEnd s)\<rparr>"

definition applySubscription :: "id \<Rightarrow> (string \<times> json) list \<Rightarrow> api \<Rightarrow> js_error + api" where
  "applySubscription organizationId sub a =
     (let item = firstItem sub;
          plan = (case it_priceId item of None \<Rightarrow> None
                  | Some p \<Rightarrow> find_first (\<lambda>b. bp_stripePriceId b = Some p) (billing_plans a))
      in case (date_column (unixToDate (map_of sub ''canceled_at'')), int_column (it_quantity item),
               date_column (first_some (unixToDate (map_of sub ''current_period_end'')) (it_periodEnd item))) of
           (Inr canceledAt, Inr quantity, Inr currentPeriodEnd) \<Rightarrow>
             upsert_subscription organizationId TRIALING
               (patch_subscription
                  \<lparr>cp_status = mapStatus (str (map_of sub ''status'')),
                   cp_cancelAtPeriodEnd = (map_of sub ''cancel_at_period_end'' = Some (JBool True)),
                   cp_canceledAt = canceledAt, cp_customerId = str (map_of sub ''customer''),
                   cp_subId = str (map_of sub ''id''), cp_priceId = it_priceId item,
                   cp_plan = map_option (\<lambda>b. (bp_id b, bp_tier b)) plan, cp_seats = quantity,
                   cp_currentPeriodEnd = currentPeriodEnd\<rparr>) a
         | (Inl e, _, _) \<Rightarrow> Inl e
         | (_, Inl e, _) \<Rightarrow> Inl e
         | (_, _, Inl e) \<Rightarrow> Inl e)"

definition set_subscriptions :: "id \<Rightarrow> (subscription_row \<Rightarrow> subscription_row) \<Rightarrow> api \<Rightarrow> api" where
  "set_subscriptions organizationId f a =
     a\<lparr>subscriptions := update_rows (\<lambda>s. sub_organizationId s = organizationId) f (subscriptions a)\<rparr>"

definition applyCancellation :: "id \<Rightarrow> time \<Rightarrow> api \<Rightarrow> api" where
  "applyCancellation organizationId now a =
     set_subscriptions organizationId
       (\<lambda>s. s\<lparr>sub_status := CANCELED, sub_plan := FREE,
              sub_planId := map_option bp_id (find_first (\<lambda>b. bp_tier b = FREE) (billing_plans a)),
              sub_stripeSubscriptionId := None, sub_stripePriceId := None, sub_cancelAtPeriodEnd := False,
              sub_canceledAt := Some now\<rparr>) a"

definition linkCheckout :: "id \<Rightarrow> string option \<Rightarrow> string option \<Rightarrow> api \<Rightarrow> js_error + api" where
  "linkCheckout organizationId customerId subscriptionId a =
     upsert_subscription organizationId INCOMPLETE
       (\<lambda>s. s\<lparr>sub_stripeCustomerId := first_some customerId (sub_stripeCustomerId s),
              sub_stripeSubscriptionId := first_some subscriptionId (sub_stripeSubscriptionId s)\<rparr>) a"

definition applyEffect :: "stripe_event \<Rightarrow> id \<Rightarrow> time \<Rightarrow> api \<Rightarrow> js_error + api" where
  "applyEffect e organizationId now a =
     (let object = st_object e; t = st_type e
      in if t = ''checkout.session.completed''
         then linkCheckout organizationId (str (map_of object ''customer'')) (str (map_of object ''subscription'')) a
         else if t = ''customer.subscription.created'' \<or> t = ''customer.subscription.updated''
         then applySubscription organizationId object a
         else if t = ''customer.subscription.deleted'' then Inr (applyCancellation organizationId now a)
         else if t = ''invoice.payment_succeeded''
         then Inr (set_subscriptions organizationId (\<lambda>s. s\<lparr>sub_status := SUB_ACTIVE\<rparr>) a)
         else if t = ''invoice.payment_failed''
         then Inr (set_subscriptions organizationId (\<lambda>s. s\<lparr>sub_status := PAST_DUE\<rparr>) a)
         else Inr a)"

section \<open>The webhook\<close>

definition resolveOrgId :: "(string \<times> json) list \<Rightarrow> string option \<Rightarrow> api \<Rightarrow> id option" where
  "resolveOrgId object customerId a =
     (case metaOrg object of
        Some o' \<Rightarrow> Some o'
      | None \<Rightarrow>
          (case customerId of
             None \<Rightarrow> None
           | Some c \<Rightarrow> map_option sub_organizationId
               (find_first (\<lambda>s. sub_stripeCustomerId s = Some c) (subscriptions a))))"

definition isInvoice :: "stripe_event \<Rightarrow> bool" where
  "isInvoice e = starts_with (st_type e) ''invoice.''"

text \<open>What the columns of the event's row accept depends on the event alone.\<close>

definition event_columns :: "stripe_event \<Rightarrow> js_error + int option \<times> time option \<times> time option" where
  "event_columns e =
     (let object = st_object e; invoice = (\<lambda>v. if isInvoice e then v else None)
      in case (int_column (invoice (first_some (num (map_of object ''amount_paid'')) (num (map_of object ''amount_due'')))),
               date_column (invoice (unixToDate (map_of object ''period_start''))),
               date_column (invoice (unixToDate (map_of object ''period_end'')))) of
           (Inr x, Inr y, Inr z) \<Rightarrow> Inr (x, y, z)
         | (Inl err, _, _) \<Rightarrow> Inl err
         | (_, Inl err, _) \<Rightarrow> Inl err
         | (_, _, Inl err) \<Rightarrow> Inl err)"

definition event_row ::
  "stripe_event \<Rightarrow> id \<Rightarrow> id \<Rightarrow> id option \<Rightarrow> int option \<times> time option \<times> time option \<Rightarrow> time \<Rightarrow> invoice_event" where
  "event_row e eid organizationId subscriptionId columns now =
     (let object = st_object e; (amount, periodStart, periodEnd) = columns
      in \<lparr>ev_id = eid, ev_organizationId = organizationId, ev_subscriptionId = subscriptionId,
          ev_stripeEventId = st_id e, ev_type = the (map_of EVENT_TYPE_MAP (st_type e)),
          ev_stripeInvoiceId = (if isInvoice e then str (map_of object ''id'') else None),
          ev_amountCents = amount,
          ev_currency = (if isInvoice e then str (map_of object ''currency'') else None),
          ev_state = str (map_of object ''status''),
          ev_hostedInvoiceUrl = (if isInvoice e then str (map_of object ''hosted_invoice_url'') else None),
          ev_invoicePdfUrl = (if isInvoice e then str (map_of object ''invoice_pdf'') else None),
          ev_periodStart = periodStart, ev_periodEnd = periodEnd, ev_createdAt = now\<rparr>)"

text \<open>The insert of the event's row: its columns, its unique id, its organization.\<close>

definition recordEvent :: "stripe_event \<Rightarrow> id \<Rightarrow> time \<Rightarrow> api \<Rightarrow> js_error + api" where
  "recordEvent e organizationId now a =
     (case event_columns e of
        Inl err \<Rightarrow> Inl err
      | Inr columns \<Rightarrow>
          if list_ex (\<lambda>r. ev_stripeEventId r = st_id e) (invoice_events a) then Inl unique_violation
          else if \<not> organization_exists organizationId a then Inl foreign_key_violation
          else (let (eid, a1) = gen_id a
                in Inr (a1\<lparr>invoice_events := insert_row
                     (event_row e eid organizationId (map_option sub_id (subscription_of organizationId a)) columns now)
                     (invoice_events a1)\<rparr>)))"

lemma event_row_id [simp]: "ev_stripeEventId (event_row e eid org s c now) = st_id e"
  by (cases c) (simp add: event_row_def Let_def)

definition webhook_tx :: "stripe_event \<Rightarrow> time \<Rightarrow> api \<Rightarrow> js_error + (id \<times> api) option" where
  "webhook_tx e now a =
     (case resolveOrgId (st_object e) (str (map_of (st_object e) ''customer'')) a of
        None \<Rightarrow> Inr None
      | Some organizationId \<Rightarrow>
          (case recordEvent e organizationId now a of
             Inl err \<Rightarrow> Inl err
           | Inr a1 \<Rightarrow>
               (case applyEffect e organizationId now a1 of
                  Inl err \<Rightarrow> Inl err
                | Inr a2 \<Rightarrow> Inr (Some (organizationId, a2)))))"

datatype webhook_outcome = Applied | Duplicate | Ignored

definition webhook_audit :: "stripe_event \<Rightarrow> id \<Rightarrow> audit_event" where
  "webhook_audit e organizationId =
     \<lparr>au_organizationId = Some organizationId, au_actorId = None, au_actorType = A_system,
      au_action = ''billing.'' @ to_lower (event_type_name (the (map_of EVENT_TYPE_MAP (st_type e)))),
      au_resourceType = ''billing'', au_resourceId = Some (st_id e), au_ipAddress = None, au_userAgent = None,
      au_metadata = Some (JObj [(''stripeEventType'', JStr (st_type e))])\<rparr>"

definition handleEvent :: "stripe_event \<Rightarrow> time \<Rightarrow> api \<Rightarrow> (js_error + webhook_outcome) \<times> api" where
  "handleEvent e now a =
     (if \<not> isHandledStripeEvent (st_type e) then (Inr Ignored, a)
      else case webhook_tx e now a of
             Inl err \<Rightarrow> ((case err of NodeErr code _ \<Rightarrow> if code = ''P2002'' then Inr Duplicate else Inl err
                          | _ \<Rightarrow> Inl err), a)
           | Inr None \<Rightarrow> (Inr Ignored, a)
           | Inr (Some (organizationId, a')) \<Rightarrow> (Inr Applied, audit (webhook_audit e organizationId) a'))"

section \<open>The receiver\<close>

text \<open>The Stripe client and the secret its signatures are checked with.\<close>

record checkout_params =
  ck_customer :: string
  ck_price :: string
  ck_quantity :: int
  ck_successUrl :: string
  ck_cancelUrl :: string
  ck_organizationId :: id

datatype subscription_change =
    Swap_price string string "int option" string  \<comment> \<open>item, price, quantity, proration\<close>
  | Cancel_at_period_end

record stripe =
  sk_createCustomer :: "string \<Rightarrow> string \<Rightarrow> id \<Rightarrow> js_error + string"  \<comment> \<open>email, name, organization\<close>
  sk_createSession :: "checkout_params \<Rightarrow> js_error + string \<times> string option"  \<comment> \<open>id, url\<close>
  sk_createPortal :: "string \<Rightarrow> string \<Rightarrow> js_error + string"
  sk_retrieveItems :: "string \<Rightarrow> js_error + string list"
  sk_update :: "string \<Rightarrow> subscription_change \<Rightarrow> js_error + unit"
  sk_cancel :: "string \<Rightarrow> js_error + unit"
  sk_constructEvent :: "string \<Rightarrow> string \<Rightarrow> string \<Rightarrow> js_error + stripe_event"

record billing_provider =
  bv_stripe :: stripe
  bv_webhookSecret :: string

definition verifyWebhook :: "billing_provider \<Rightarrow> string \<Rightarrow> string \<Rightarrow> js_error + stripe_event" where
  "verifyWebhook p payload signature = sk_constructEvent (bv_stripe p) payload signature (bv_webhookSecret p)"

definition stripe_webhook ::
  "billing_provider option \<Rightarrow> string option \<Rightarrow> string \<Rightarrow> time \<Rightarrow> api \<Rightarrow> (nat \<times> webhook_outcome option) \<times> api" where
  "stripe_webhook provider signature body now a =
     (case provider of
        None \<Rightarrow> ((503, None), a)
      | Some p \<Rightarrow>
          (case signature of
             None \<Rightarrow> ((400, None), a)
           | Some sig \<Rightarrow>
               if sig = '''' then ((400, None), a)
               else (case verifyWebhook p body sig of
                       Inl _ \<Rightarrow> ((400, None), a)
                     | Inr e \<Rightarrow>
                         (case handleEvent e now a of
                            (Inr outcome, a') \<Rightarrow> ((200, Some outcome), a')
                          | (Inl _, a') \<Rightarrow> ((500, None), a')))))"

section \<open>The customer's actions\<close>

definition provider_changePlan :: "billing_provider \<Rightarrow> string \<Rightarrow> string \<Rightarrow> int option \<Rightarrow> js_error + unit" where
  "provider_changePlan p subscriptionId newPriceId quantity =
     (case sk_retrieveItems (bv_stripe p) subscriptionId of
        Inl e \<Rightarrow> Inl e
      | Inr items \<Rightarrow>
          (case items of
             [] \<Rightarrow> Inl (Err (''Subscription '' @ subscriptionId @ '' has no line items to update.''))
           | itemId # _ \<Rightarrow>
               if itemId = '''' then Inl (Err (''Subscription '' @ subscriptionId @ '' has no line items to update.''))
               else sk_update (bv_stripe p) subscriptionId
                      (Swap_price itemId newPriceId quantity ''create_prorations'')))"

definition provider_cancel :: "billing_provider \<Rightarrow> string \<Rightarrow> bool \<Rightarrow> js_error + unit" where
  "provider_cancel p subscriptionId atPeriodEnd =
     (if atPeriodEnd then sk_update (bv_stripe p) subscriptionId Cancel_at_period_end
      else sk_cancel (bv_stripe p) subscriptionId)"

record billing_actor = incident_actor +
  act_email :: "string option"

record billing_deps =
  bl_provider :: "billing_provider option"
  bl_webUrl :: string

definition billingUrl :: "billing_deps \<Rightarrow> string" where
  "billingUrl deps = drop_slash (bl_webUrl deps) @ ''/dashboard/billing''"

definition requireProvider :: "billing_deps \<Rightarrow> js_error + billing_provider" where
  "requireProvider deps =
     (case bl_provider deps of
        None \<Rightarrow> Inl (AppErr service_unavailable ''Billing is not configured on this server.'')
      | Some p \<Rightarrow> Inr p)"

fun tier_name :: "plan_tier \<Rightarrow> string" where
  "tier_name FREE = ''FREE''"
| "tier_name STARTER = ''STARTER''"
| "tier_name GROWTH = ''GROWTH''"
| "tier_name BUSINESS = ''BUSINESS''"
| "tier_name ENTERPRISE = ''ENTERPRISE''"

definition planForTier :: "plan_tier \<Rightarrow> api \<Rightarrow> js_error + billing_plan" where
  "planForTier tier a =
     (case find_first (\<lambda>b. bp_tier b = tier) (billing_plans a) of
        None \<Rightarrow> Inl (AppErr not_found (''Plan '' @ tier_name tier @ '' does not exist.''))
      | Some p \<Rightarrow> Inr p)"

text \<open>An empty string is falsy: an empty price, customer or subscription id counts as absent.\<close>

definition truthy_str :: "string option \<Rightarrow> string option" where
  "truthy_str v = (case v of Some s \<Rightarrow> if s = '''' then None else Some s | None \<Rightarrow> None)"

definition customer_of :: "id \<Rightarrow> api \<Rightarrow> string option" where
  "customer_of organizationId a =
     (case subscription_of organizationId a of None \<Rightarrow> None | Some s \<Rightarrow> truthy_str (sub_stripeCustomerId s))"

definition subscriptionId_of :: "id \<Rightarrow> api \<Rightarrow> string option" where
  "subscriptionId_of organizationId a =
     (case subscription_of organizationId a of None \<Rightarrow> None | Some s \<Rightarrow> truthy_str (sub_stripeSubscriptionId s))"

definition ensureCustomer :: "billing_deps \<Rightarrow> id \<Rightarrow> billing_actor \<Rightarrow> string \<Rightarrow> api \<Rightarrow> (js_error + string) \<times> api" where
  "ensureCustomer deps organizationId actor orgName a =
     (case customer_of organizationId a of
        Some c \<Rightarrow> (Inr c, a)
      | None \<Rightarrow>
          (case truthy_str (act_email actor) of
             None \<Rightarrow> (Inl (AppErr bad_request ''A billing email is required to start checkout.''), a)
           | Some email \<Rightarrow>
               (case requireProvider deps of
                  Inl e \<Rightarrow> (Inl e, a)
                | Inr p \<Rightarrow>
                    (case sk_createCustomer (bv_stripe p) email orgName organizationId of
                       Inl e \<Rightarrow> (Inl e, a)
                     | Inr customerId \<Rightarrow>
                         (case upsert_subscription organizationId INCOMPLETE
                                 (\<lambda>s. s\<lparr>sub_stripeCustomerId := Some customerId\<rparr>) a of
                            Inl e \<Rightarrow> (Inl e, a)
                          | Inr a' \<Rightarrow> (Inr customerId, a'))))))"

definition billing_audit :: "string \<Rightarrow> id \<Rightarrow> billing_actor \<Rightarrow> json option \<Rightarrow> audit_event" where
  "billing_audit action organizationId actor metadata =
     \<lparr>au_organizationId = Some organizationId, au_actorId = act_userId actor, au_actorType = act_actorType actor,
      au_action = action, au_resourceType = ''billing'', au_resourceId = Some organizationId,
      au_ipAddress = act_ipAddress actor, au_userAgent = act_userAgent actor, au_metadata = metadata\<rparr>"

definition startCheckout ::
  "billing_deps \<Rightarrow> id \<Rightarrow> plan_tier \<Rightarrow> int option \<Rightarrow> billing_actor \<Rightarrow> string \<Rightarrow> api \<Rightarrow> (js_error + string) \<times> api" where
  "startCheckout deps organizationId tier quantity actor orgName a =
     (case requireProvider deps of
        Inl e \<Rightarrow> (Inl e, a)
      | Inr p \<Rightarrow>
          (case planForTier tier a of
             Inl e \<Rightarrow> (Inl e, a)
           | Inr plan \<Rightarrow>
               (case truthy_str (bp_stripePriceId plan) of
                  None \<Rightarrow> (Inl (AppErr bad_request
                      (''The '' @ bp_name plan @ '' plan is not available for self-serve checkout.'')), a)
                | Some priceId \<Rightarrow>
                    (case ensureCustomer deps organizationId actor orgName a of
                       (Inl e, a1) \<Rightarrow> (Inl e, a1)
                     | (Inr customerId, a1) \<Rightarrow>
                         (case sk_createSession (bv_stripe p)
                                 \<lparr>ck_customer = customerId, ck_price = priceId, ck_quantity = default_to 1 quantity,
                                  ck_successUrl = billingUrl deps @ ''?checkout=success'',
                                  ck_cancelUrl = billingUrl deps @ ''?checkout=canceled'',
                                  ck_organizationId = organizationId\<rparr> of
                            Inl e \<Rightarrow> (Inl e, a1)
                          | Inr (_, url) \<Rightarrow>
                              (case truthy_str url of
                                 None \<Rightarrow> (Inl (AppErr service_unavailable ''Stripe did not return a checkout url.''), a1)
                               | Some u \<Rightarrow>
                                   (Inr u, audit (billing_audit ''billing.checkout_started'' organizationId actor
                                      (Some (JObj [(''tier'', JStr (tier_name tier))]))) a1)))))))"

definition openPortal :: "billing_deps \<Rightarrow> id \<Rightarrow> billing_actor \<Rightarrow> api \<Rightarrow> (js_error + string) \<times> api" where
  "openPortal deps organizationId actor a =
     (case requireProvider deps of
        Inl e \<Rightarrow> (Inl e, a)
      | Inr p \<Rightarrow>
          (case customer_of organizationId a of
             None \<Rightarrow> (Inl (AppErr conflict ''No billing account yet - start a subscription first.''), a)
           | Some c \<Rightarrow>
               (case sk_createPortal (bv_stripe p) c (billingUrl deps) of
                  Inl e \<Rightarrow> (Inl e, a)
                | Inr u \<Rightarrow> (Inr u, audit (billing_audit ''billing.portal_opened'' organizationId actor None) a))))"

definition changePlan ::
  "billing_deps \<Rightarrow> id \<Rightarrow> plan_tier \<Rightarrow> int option \<Rightarrow> billing_actor \<Rightarrow> api \<Rightarrow> (js_error + unit) \<times> api" where
  "changePlan deps organizationId tier quantity actor a =
     (case requireProvider deps of
        Inl e \<Rightarrow> (Inl e, a)
      | Inr p \<Rightarrow>
          (case planForTier tier a of
             Inl e \<Rightarrow> (Inl e, a)
           | Inr plan \<Rightarrow>
               (case truthy_str (bp_stripePriceId plan) of
                  None \<Rightarrow> (Inl (AppErr bad_request (''The '' @ bp_name plan @ '' plan cannot be switched to via the API.'')), a)
                | Some priceId \<Rightarrow>
                    (case subscriptionId_of organizationId a of
                       None \<Rightarrow> (Inl (AppErr conflict ''No active subscription to change - start checkout instead.''), a)
                     | Some sid \<Rightarrow>
                         (case provider_changePlan p sid priceId quantity of
                            Inl e \<Rightarrow> (Inl e, a)
                          | Inr _ \<Rightarrow> (Inr (), audit (billing_audit ''billing.plan_changed'' organizationId actor
                              (Some (JObj [(''tier'', JStr (tier_name tier))]))) a))))))"

definition cancelSubscription ::
  "billing_deps \<Rightarrow> id \<Rightarrow> bool \<Rightarrow> billing_actor \<Rightarrow> api \<Rightarrow> (js_error + unit) \<times> api" where
  "cancelSubscription deps organizationId atPeriodEnd actor a =
     (case requireProvider deps of
        Inl e \<Rightarrow> (Inl e, a)
      | Inr p \<Rightarrow>
          (case subscriptionId_of organizationId a of
             None \<Rightarrow> (Inl (AppErr conflict ''No active subscription to cancel.''), a)
           | Some sid \<Rightarrow>
               (case provider_cancel p sid atPeriodEnd of
                  Inl e \<Rightarrow> (Inl e, a)
                | Inr _ \<Rightarrow> (Inr (), audit (billing_audit ''billing.canceled'' organizationId actor
                    (Some (JObj [(''atPeriodEnd'', JBool atPeriodEnd)]))) a))))"

section \<open>Views\<close>

record plan_view =
  pv_tier :: plan_tier
  pv_name :: string
  pv_description :: "string option"
  pv_priceCents :: int
  pv_currency :: string
  pv_monitorLimit :: "int option"
  pv_seatLimit :: "int option"
  pv_statusPageLimit :: "int option"
  pv_smsEnabled :: bool
  pv_voiceEnabled :: bool
  pv_ssoEnabled :: bool
  pv_advancedAnalytics :: bool
  pv_purchasable :: bool

definition listPlans :: "api \<Rightarrow> plan_view list" where
  "listPlans a =
     map (\<lambda>p. \<lparr>pv_tier = bp_tier p, pv_name = bp_name p, pv_description = bp_description p,
               pv_priceCents = bp_priceCents p, pv_currency = bp_currency p, pv_monitorLimit = bp_monitorLimit p,
               pv_seatLimit = bp_seatLimit p, pv_statusPageLimit = bp_statusPageLimit p,
               pv_smsEnabled = bp_smsEnabled p, pv_voiceEnabled = bp_voiceEnabled p,
               pv_ssoEnabled = bp_ssoEnabled p, pv_advancedAnalytics = bp_advancedAnalytics p,
               pv_purchasable = (truthy_str (bp_stripePriceId p) \<noteq> None)\<rparr>)
       (sort_key bp_sortOrder (find_many bp_isPublic (billing_plans a)))"

record subscription_view =
  vs_plan :: plan_tier
  vs_status :: subscription_status
  vs_seats :: int
  vs_currentPeriodEnd :: "time option"
  vs_cancelAtPeriodEnd :: bool
  vs_canceledAt :: "time option"
  vs_hasStripeCustomer :: bool

definition billingSummary :: "id \<Rightarrow> time \<Rightarrow> api \<Rightarrow> subscription_view \<times> plan_summary" where
  "billingSummary organizationId now a =
     (let s = default_to (new_subscription '''' organizationId INCOMPLETE) (subscription_of organizationId a)
      in (\<lparr>vs_plan = sub_plan s, vs_status = sub_status s, vs_seats = sub_seats s,
           vs_currentPeriodEnd = sub_currentPeriodEnd s, vs_cancelAtPeriodEnd = sub_cancelAtPeriodEnd s,
           vs_canceledAt = sub_canceledAt s,
           vs_hasStripeCustomer = (truthy_str (sub_stripeCustomerId s) \<noteq> None)\<rparr>,
          getSummary organizationId now a))"

record invoice_view =
  vi_id :: id
  vi_type :: invoice_event_type
  vi_amountCents :: "int option"
  vi_currency :: "string option"
  vi_status :: "string option"
  vi_hostedInvoiceUrl :: "string option"
  vi_invoicePdfUrl :: "string option"
  vi_periodStart :: "time option"
  vi_periodEnd :: "time option"
  vi_createdAt :: time

definition invoiceView :: "invoice_event \<Rightarrow> invoice_view" where
  "invoiceView r =
     \<lparr>vi_id = ev_id r, vi_type = ev_type r, vi_amountCents = ev_amountCents r, vi_currency = ev_currency r,
      vi_status = ev_state r, vi_hostedInvoiceUrl = ev_hostedInvoiceUrl r, vi_invoicePdfUrl = ev_invoicePdfUrl r,
      vi_periodStart = ev_periodStart r, vi_periodEnd = ev_periodEnd r, vi_createdAt = ev_createdAt r\<rparr>"

definition listInvoices :: "id \<Rightarrow> nat \<Rightarrow> api \<Rightarrow> invoice_view list" where
  "listInvoices organizationId limit a =
     map invoiceView (take limit (sort_key (\<lambda>r. - ev_createdAt r)
       (find_many (\<lambda>r. ev_organizationId r = organizationId \<and> ev_type r \<in> {PAYMENT_SUCCEEDED, PAYMENT_FAILED})
          (invoice_events a))))"

section \<open>Each event once\<close>

lemma unique_violation_code: "unique_violation = NodeErr ''P2002'' ''Unique constraint failed''"
  by (simp add: unique_violation_def)

definition event_seen :: "stripe_event \<Rightarrow> api \<Rightarrow> bool" where
  "event_seen e a = list_ex (\<lambda>r. ev_stripeEventId r = st_id e) (invoice_events a)"

lemma recordEvent_seen:
  "event_seen e a \<Longrightarrow> event_columns e = Inr c \<Longrightarrow> recordEvent e org now a = Inl unique_violation"
  by (simp add: recordEvent_def event_seen_def)

lemma recordEvent_Inr:
  assumes "recordEvent e org now a = Inr a'"
  shows "\<not> event_seen e a" "\<exists>c. event_columns e = Inr c"
    and "\<exists>r. invoice_events a' = insert_row r (invoice_events a) \<and> ev_stripeEventId r = st_id e"
    and "subscriptions a' = subscriptions a"
  using assms by (auto simp: recordEvent_def event_seen_def gen_id_def Let_def split: sum.splits if_splits)

text \<open>An event already in the table changes nothing, whatever has happened since.\<close>

lemma handleEvent_seen:
  assumes "event_seen e a" "event_columns e = Inr c"
  shows "handleEvent e now a \<in> {(Inr Duplicate, a), (Inr Ignored, a)}"
proof -
  have "webhook_tx e now a \<in> {Inl unique_violation, Inr None}"
    using recordEvent_seen [OF assms] by (simp add: webhook_tx_def split: option.split)
  then show ?thesis by (auto simp: handleEvent_def unique_violation_code)
qed

lemma upsert_events: "upsert_subscription org st f a = Inr a' \<Longrightarrow> invoice_events a' = invoice_events a"
  by (auto simp: upsert_subscription_def gen_id_def Let_def split: option.splits if_splits)

lemma set_subscriptions_events [simp]: "invoice_events (set_subscriptions org f a) = invoice_events a"
  by (simp add: set_subscriptions_def)

lemma applyEffect_events: "applyEffect e org now a = Inr a' \<Longrightarrow> invoice_events a' = invoice_events a"
  by (auto simp: applyEffect_def linkCheckout_def applySubscription_def applyCancellation_def Let_def upsert_events
      split: if_splits sum.splits)

lemma webhook_tx_Some:
  assumes "webhook_tx e now a = Inr (Some (org, a'))"
  obtains a1 where "recordEvent e org now a = Inr a1" "applyEffect e org now a1 = Inr a'"
  using assms by (auto simp: webhook_tx_def split: option.splits sum.splits)

lemma handleEvent_Applied:
  assumes "handleEvent e now a = (Inr Applied, a')"
  obtains org a1 a2 where "recordEvent e org now a = Inr a1" "applyEffect e org now a1 = Inr a2"
    "a' = audit (webhook_audit e org) a2"
proof -
  obtain org a2 where tx: "webhook_tx e now a = Inr (Some (org, a2))" "a' = audit (webhook_audit e org) a2"
    using assms by (auto simp: handleEvent_def split: if_splits sum.splits option.splits js_error.splits)
  from webhook_tx_Some [OF tx(1)] obtain a1 where
    "recordEvent e org now a = Inr a1" "applyEffect e org now a1 = Inr a2" .
  with tx(2) that show thesis by blast
qed

lemma handleEvent_applied:
  assumes "handleEvent e now a = (Inr Applied, a')"
  shows "\<not> event_seen e a" "\<exists>c. event_columns e = Inr c"
    and "\<exists>r. invoice_events a' = insert_row r (invoice_events a) \<and> ev_stripeEventId r = st_id e"
proof -
  from handleEvent_Applied [OF assms] obtain org a1 a2 where
    s: "recordEvent e org now a = Inr a1" "applyEffect e org now a1 = Inr a2" "a' = audit (webhook_audit e org) a2" .
  show "\<not> event_seen e a" "\<exists>c. event_columns e = Inr c" by (fact recordEvent_Inr [OF s(1)])+
  show "\<exists>r. invoice_events a' = insert_row r (invoice_events a) \<and> ev_stripeEventId r = st_id e"
    using recordEvent_Inr(3) [OF s(1)] applyEffect_events [OF s(2)] s(3) by simp
qed

text \<open>Every other outcome leaves the state as it was.\<close>

lemma handleEvent_unapplied: "fst (handleEvent e now a) \<noteq> Inr Applied \<Longrightarrow> snd (handleEvent e now a) = a"
  by (auto simp: handleEvent_def split: sum.splits option.splits)

text \<open>The event log only grows, and holds an event once.\<close>

lemma handleEvent_log:
  "invoice_events (snd (handleEvent e now a)) = invoice_events a
   \<or> \<not> event_seen e a \<and> (\<exists>r. invoice_events (snd (handleEvent e now a)) = insert_row r (invoice_events a)
        \<and> ev_stripeEventId r = st_id e)"
proof (cases "fst (handleEvent e now a) = Inr Applied")
  case True
  then have "handleEvent e now a = (Inr Applied, snd (handleEvent e now a))" by (metis prod.collapse)
  from handleEvent_applied [OF this] show ?thesis by blast
next
  case False
  from handleEvent_unapplied [OF this] show ?thesis by simp
qed

text \<open>
  Everything else that happens to the tables: the customer's actions and other services, none of
  which touches the log.
\<close>

inductive billing_step :: "api \<Rightarrow> api \<Rightarrow> bool" where
  bs_event: "billing_step a (snd (handleEvent e now a))"
| bs_other: "invoice_events a' = invoice_events a \<Longrightarrow> billing_step a a'"

lemma billing_ops_log:
  "invoice_events (snd (ensureCustomer deps org actor nm a)) = invoice_events a"
  "invoice_events (snd (openPortal deps org actor a)) = invoice_events a"
  "invoice_events (snd (changePlan deps org tier q actor a)) = invoice_events a"
  "invoice_events (snd (cancelSubscription deps org ape actor a)) = invoice_events a"
  by (auto simp: ensureCustomer_def openPortal_def changePlan_def cancelSubscription_def upsert_events
      split: option.split sum.split)

lemma startCheckout_log: "invoice_events (snd (startCheckout deps org tier q actor nm a)) = invoice_events a"
  using billing_ops_log(1) [of deps org actor nm a]
  by (auto simp: startCheckout_def split: option.split sum.split prod.split)

lemma billing_steps_log:
  assumes "billing_step\<^sup>*\<^sup>* a a'"
  shows "set (invoice_events a) \<subseteq> set (invoice_events a')
    \<and> (distinct (map ev_stripeEventId (invoice_events a)) \<longrightarrow> distinct (map ev_stripeEventId (invoice_events a')))"
  using assms
proof (induction rule: rtranclp_induct)
  case (step y z)
  from step.hyps(2) show ?case
  proof cases
    case (bs_event e now)
    with step.IH handleEvent_log [of e now y] show ?thesis
      by (fastforce simp: insert_row_def event_seen_def list_ex_iff)
  qed (use step.IH in simp)
qed simp

lemma applied_for_good:
  assumes "handleEvent e now a = (Inr Applied, a1)" "billing_step\<^sup>*\<^sup>* a1 a2"
  shows "handleEvent e now' a2 \<in> {(Inr Duplicate, a2), (Inr Ignored, a2)}"
proof -
  note ap = handleEvent_applied [OF assms(1)]
  from ap(3) have "event_seen e a1" by (auto simp: event_seen_def list_ex_iff insert_row_def)
  with billing_steps_log [OF assms(2)] have "event_seen e a2" by (auto simp: event_seen_def list_ex_iff)
  with ap(2) handleEvent_seen show ?thesis by blast
qed

section \<open>What an event does\<close>

lemma webhook_org:
  assumes "webhook_tx e now a = Inr (Some (org, a'))"
  shows "resolveOrgId (st_object e) (str (map_of (st_object e) ''customer'')) a = Some org"
  using assms by (auto simp: webhook_tx_def split: option.splits sum.splits)

text \<open>A cancelled organization has the limits of the free plan, whatever the catalog holds.\<close>

lemma cancelled_limits:
  assumes "distinct (map bp_id (billing_plans a))"
  shows "el_tier (getEffectiveLimits org (applyCancellation org now a)) = FREE"
proof -
  let ?a = "applyCancellation org now a" and ?free = "find_first (\<lambda>b. bp_tier b = FREE) (billing_plans a)"
  have plans: "billing_plans ?a = billing_plans a" by (simp add: applyCancellation_def set_subscriptions_def)
  have cat: "case ?free of None \<Rightarrow> True | Some b \<Rightarrow> bp_tier b = FREE
      \<and> find_first (\<lambda>b'. bp_id b' = bp_id b) (billing_plans a) = Some b"
  proof (cases ?free)
    case (Some b)
    note b = find_first_Some_iff [OF Some]
    have "find_first (\<lambda>b'. bp_id b' = bp_id b) (billing_plans a) = Some b"
      using b assms by (intro find_first_unique) (auto simp: distinct_map inj_onD)
    with b Some show ?thesis by simp
  qed simp
  let ?f = "\<lambda>s. s\<lparr>sub_status := CANCELED, sub_plan := FREE, sub_planId := map_option bp_id ?free,
      sub_stripeSubscriptionId := None, sub_stripePriceId := None, sub_cancelAtPeriodEnd := False,
      sub_canceledAt := Some now\<rparr>"
  have "subscription_of org ?a = map_option ?f (subscription_of org a)"
    by (simp add: subscription_of_def applyCancellation_def set_subscriptions_def find_first_update_rows)
  then show ?thesis
    using cat by (cases "subscription_of org a"; cases ?free)
      (auto simp: getEffectiveLimits_def plans first_some_def FREE_FALLBACK_def Let_def)
qed

lemma deletion_downgrades:
  assumes "handleEvent e now a = (Inr Applied, a')" "st_type e = ''customer.subscription.deleted''"
    and "resolveOrgId (st_object e) (str (map_of (st_object e) ''customer'')) a = Some org"
    and "distinct (map bp_id (billing_plans a))"
  shows "el_tier (getEffectiveLimits org a') = FREE"
proof -
  obtain a2 where tx: "webhook_tx e now a = Inr (Some (org, a2))" "a' = audit (webhook_audit e org) a2"
    using assms(1,3) webhook_org
    by (fastforce simp: handleEvent_def split: if_splits sum.splits option.splits js_error.splits)
  from webhook_tx_Some [OF tx(1)] obtain a1 where
    s: "recordEvent e org now a = Inr a1" "applyEffect e org now a1 = Inr a2" .
  have "a2 = applyCancellation org now a1" using s(2) assms(2) by (simp add: applyEffect_def)
  moreover have "billing_plans a1 = billing_plans a"
    using s(1) by (auto simp: recordEvent_def gen_id_def Let_def split: sum.splits if_splits)
  moreover have "getEffectiveLimits org a' = getEffectiveLimits org a2"
    by (rule limits_cong) (simp_all add: tx(2))
  ultimately show ?thesis using cancelled_limits [of a1 org now] assms(4) by simp
qed

text \<open>
  A checkout that names the customer of another organization breaks the unique index of the
  subscription, not that of the log; it is answered as a duplicate all the same, and neither the
  event nor its effect is kept.
\<close>

lemma conflict_swallowed:
  assumes "st_type e = ''checkout.session.completed''" "metaOrg (st_object e) = Some org"
    and "str (map_of (st_object e) ''customer'') = Some c" "organization_exists org a"
    and "s \<in> set (subscriptions a)" "sub_organizationId s \<noteq> org" "sub_stripeCustomerId s = Some c"
  shows "handleEvent e now a = (Inr Duplicate, a)"
proof -
  have conf: "subscription_conflict t b" if "subscriptions b = subscriptions a"
      "sub_organizationId t = org" "sub_stripeCustomerId t = Some c" for t b
    using assms(5-7) that by (auto simp: subscription_conflict_def list_ex_iff)
  have eff: "applyEffect e org now b = Inl unique_violation" if b: "subscriptions b = subscriptions a" for b
  proof (cases "subscription_of org b")
    case None
    with conf [OF b] show ?thesis
      by (simp add: applyEffect_def assms(1,3) linkCheckout_def upsert_subscription_def new_subscription_def
          first_some_def gen_id_def)
  next
    case (Some x)
    from find_first_Some_iff [OF Some [unfolded subscription_of_def]] have "sub_organizationId x = org" by simp
    with Some conf [OF b] show ?thesis
      by (simp add: applyEffect_def assms(1,3) linkCheckout_def upsert_subscription_def first_some_def)
  qed
  have cols: "event_columns e = Inr (None, None, None)"
    by (simp add: event_columns_def isInvoice_def assms(1) starts_with_def int_column_def date_column_def)
  have "webhook_tx e now a = Inl unique_violation"
  proof (cases "recordEvent e org now a")
    case (Inl err)
    then have "err = unique_violation"
      using cols assms(4) by (auto simp: recordEvent_def Let_def gen_id_def split: if_splits)
    with Inl show ?thesis by (simp add: webhook_tx_def resolveOrgId_def assms(2))
  next
    case (Inr b)
    with eff [OF recordEvent_Inr(4)] show ?thesis by (simp add: webhook_tx_def resolveOrgId_def assms(2))
  qed
  moreover have "isHandledStripeEvent (st_type e)"
    by (simp add: assms(1) isHandledStripeEvent_def HANDLED_STRIPE_EVENTS_def)
  ultimately show ?thesis by (simp add: handleEvent_def unique_violation_code)
qed

end
