(* ===== verification/Spec2Isabelle.thy ===== *)
theory Spec2Isabelle
  imports Samples Transports Scheduler ApiSamples Domains StatusPageLife Billing
begin

text \<open>
  A verification library for the uptime monitoring service of this repository: the monitoring
  engine of \<^verbatim>\<open>packages/monitoring\<close>, the notification code of
  \<^verbatim>\<open>packages/notifications\<close>, and the services of \<^verbatim>\<open>apps/api\<close> that configure
  the engine and publish what it finds. This theory holds the properties that span components;
  the theories below it hold the model and its lemmas.

  \<^bold>\<open>How the program works.\<close> The scheduler keeps one repeatable job per monitor and
  region. A worker takes a job, probes the target through the network guard, validates what came
  back, retries, and hands the verdict to the result pipeline, which writes the check log, moves
  the monitor's state machine and opens or resolves an incident. An opened or resolved incident
  goes out over three ports: alert jobs for the bound channels, deliveries for the organization's
  integrations, and the escalation policy that pages the people on call. The API edits monitors,
  incidents, keys, seats, domains and status pages; a nightly rollup condenses the check log.

  \<^bold>\<open>The theories, in the order of their imports.\<close>
  \<^item> \<open>Prelude\<close>: strings, JSON, errors as values, tables as lists of rows with the
    queries the sources ask of the Prisma client, and the collection \<open>table_simps\<close>.
  \<^item> \<open>Schema\<close>, \<open>ApiSchema\<close>: the rows of
    \<^verbatim>\<open>packages/db/prisma/schema.prisma\<close> as records; \<open>db\<close> is the state the
    worker sees, \<open>api\<close> extends it with the tables only the API uses.
  \<^item> \<open>StateMachine\<close> (\<^verbatim>\<open>state-machine.ts\<close>), \<open>Assertions\<close> and
    \<open>Execute\<close> (\<^verbatim>\<open>assertions.ts\<close>, \<^verbatim>\<open>execute.ts\<close>): one check and
    the pure transition.
  \<^item> \<open>Ssrf\<close> (\<^verbatim>\<open>security/ssrf.ts\<close>), \<open>Notify\<close> (builders, signing and
    guarded posting of \<^verbatim>\<open>packages/notifications\<close>), \<open>Probes\<close>
    (\<^verbatim>\<open>probes/*.ts\<close>).
  \<^item> \<open>Alerting\<close>, \<open>Transports\<close>, \<open>Integrations\<close>, \<open>OnCall\<close>,
    \<open>Escalation\<close>: the three ports, their queues' processors and the rotation.
  \<^item> \<open>Pipeline\<close> and \<open>PipelineCases\<close> (\<^verbatim>\<open>pipeline.ts\<close>,
    \<^verbatim>\<open>processor.ts\<close>): \<open>processCheckResult\<close> and \<open>recordHeartbeat\<close> over the
    ports, and what they queue branch by branch.
  \<^item> \<open>Pagination\<close>, \<open>IncidentService\<close>: cursors, pages and the human side of
    incidents; \<open>engine_step\<close> interleaves people, checks and workers.
  \<^item> \<open>Scheduler\<close>: the reconciliation against the repeatable jobs of the queue.
  \<^item> \<open>Access\<close>, \<open>PlanLimits\<close>: roles, scopes, keys, the chain of guards in front
    of every route, plan limits and seats.
  \<^item> \<open>MonitorService\<close>, \<open>MonitorConfig\<close>, \<open>MonitorLife\<close>: the monitor
    service, what its validation guarantees to the engine, and \<open>life_step\<close>, the service and
    the engine interleaved.
  \<^item> \<open>Domains\<close>, \<open>Rollup\<close>, \<open>StatusPages\<close> and
    \<open>StatusPageLife\<close>, \<open>Billing\<close>: custom domains, daily statistics, status pages and
    the billing webhook.
  \<^item> \<open>Samples\<close>, \<open>ApiSamples\<close>: concrete states for the witnesses.

  \<^bold>\<open>Interfaces.\<close> \<open>fan_out\<close> and \<open>channel_fan_out\<close> state what a port
  promises the pipeline (it touches no monitor, incident or check row and draws identifiers
  monotonically); \<open>safe_ports\<close> bundles the ports the pipeline is given and proves its
  lemmas once, \<open>routing_ports\<close> extends it with what configuration needs;
  \<open>job_schedulers\<close> is the queue's repeatable-job interface, whose reconciliation is proved
  against its laws. Each is interpreted on the model of the worker's own ports, or, for the queue,
  on the association of keys and jobs it documents.

  \<^bold>\<open>Step relations.\<close> \<open>engine_step\<close>, \<open>life_step\<close>,
  \<open>seat_step\<close>, \<open>domain_step\<close>, \<open>page_step\<close> and \<open>billing_step\<close> run whole operations of all
  tenants in any order; the invariants are proved by induction over them. An operation is atomic:
  interleavings inside one handler are not modelled, except where the database's own atomic
  statement makes the point (the conditional update that opens an incident).

  \<^bold>\<open>Conventions.\<close> Times are integers of milliseconds. Strings are lists of characters;
  text outside Latin-1 in messages (dashes, emoji) is written with the nearest ASCII. Numbers that
  JavaScript keeps as floats are integers or rationals where the source only counts, compares and
  rounds. \<open>await\<close> is sequencing; a thrown error is the left value of a sum; a job that
  throws is retried by its queue as its options say. The audit sink and the queues always accept.
  Identifiers come from \<open>db_uuid\<close> and tokens from \<open>secrets\<close>, streams assumed
  injective where uniqueness matters. Columns no modelled operation reads (some
  \<open>updatedAt\<close> stamps, ids of append-only rows) are left out.

  \<^bold>\<open>Parameters.\<close> The regular expression engine, JSON text, the URL parser, sockets, TLS,
  fetch, HMAC, SHA-256, the resolver, time zones and the percentile aggregate are not under
  \<^verbatim>\<open>src\<close>: they are fields of \<open>js_host\<close>, \<open>notify_host\<close>, \<open>world\<close>,
  \<open>codec_host\<close> or arguments, and a lemma that relies on one names what it relies on.

  \<^bold>\<open>Bounds and fuel.\<close> The retry loop of a check runs at most the monitor's retries, the
  redirect loop the source's own limit of hops; both are structural on that number. The retries of
  a queue are its \<open>attempts\<close>. The escalation run is followed for as many jobs as the policy
  has steps and rounds, which is shown to reach the end. The backfill loop is a
  \<open>partial_function\<close>; that it returns is proved for a chunk of at least a day.

  \<^bold>\<open>Not modelled.\<close> The React application, telemetry, environment parsing and Express
  wiring (no logic of their own); the schemas of request bodies (declarations a library
  interprets), so operations take inputs as already parsed; Better Auth's sessions, accounts and
  invitations beyond the seat hooks; e-mail templates and the SES client; the RDAP probe. The
  manifest lists every part.
\<close>

text \<open>
  C1. In every state the engine reaches from one without incidents, through checks (also on stale
  snapshots), heartbeats, alert, escalation and integration jobs, acknowledgements, manual
  resolutions and comments in any order, a monitor has at most one unresolved incident.
\<close>

theorem one_active_incident:
  assumes "incidents w0 = []" and "inj (db_uuid w0)" and "reachable w0 w"
    and "i \<in> set (incidents w)" and "j \<in> set (incidents w)"
    and "i_status i \<noteq> RESOLVED" and "i_status j \<noteq> RESOLVED" and "i_monitorId i = i_monitorId j"
  shows "i = j"
proof -
  have "incident_inv w0" using assms(1,2) by (simp add: incident_inv_def fresh_ids_def)
  with reachable_inv [OF assms(3)] have "distinct (map i_monitorId (filter active (incidents w)))"
    by (simp add: incident_inv_def)
  with assms(4-8) show ?thesis by (auto simp: distinct_map inj_on_def active_def)
qed

lemma one_active_incident_witness:
  "incidents sample_down ! 0 = last (incidents sample_down)"
proof (rule one_active_incident [OF _ _ sample_down_reachable])
  show "incidents sample_db = []" "inj (db_uuid sample_db)"
    by (simp_all add: sample_db_def empty_db_def inj_sample_ids)
qed (simp_all add: sample_down_incidents down_incident_def)

text \<open>
  C2. Incidents are never deleted, renamed or moved to another monitor or organization, and their
  status only advances from OPEN over ACKNOWLEDGED to RESOLVED: once resolved, a row never changes
  again.
\<close>

theorem incident_lifecycle:
  assumes "incidents w0 = []" and "inj (db_uuid w0)" and "reachable w0 w" and "reachable w w'"
    and "k < length (incidents w)"
  shows "k < length (incidents w')
    \<and> i_id (incidents w' ! k) = i_id (incidents w ! k)
    \<and> i_monitorId (incidents w' ! k) = i_monitorId (incidents w ! k)
    \<and> i_organizationId (incidents w' ! k) = i_organizationId (incidents w ! k)
    \<and> (incidents w' ! k = incidents w ! k
        \<or> rank (i_status (incidents w ! k)) < rank (i_status (incidents w' ! k)))"
proof -
  have "incident_inv w0" using assms(1,2) by (simp add: incident_inv_def fresh_ids_def)
  then have "incident_inv w" using reachable_inv [OF assms(3)] by blast
  then have "evolves (incidents w) (incidents w')" using reachable_inv [OF assms(4)] by blast
  then obtain t news where t: "incidents w' = t @ news" "list_all2 advances (incidents w) t"
    by (auto simp: evolves_iff)
  then have "advances (incidents w ! k) (t ! k)" "k < length t"
    using assms(5) by (auto simp: list_all2_conv_all_nth)
  then show ?thesis using t(1) by (auto simp: advances_def nth_append)
qed

lemma incident_lifecycle_witness:
  "rank (i_status (incidents sample_down ! 0)) < rank (i_status (incidents sample_acked ! 0))
   \<and> i_id (incidents sample_acked ! 0) = i_id (incidents sample_down ! 0)"
proof -
  have e: "incidents sample_db = []" "inj (db_uuid sample_db)"
    by (simp_all add: sample_db_def empty_db_def inj_sample_ids)
  show ?thesis
    using incident_lifecycle [OF e sample_down_reachable sample_acked_reachable, of 0]
    by (simp add: sample_down_incidents sample_acked_incidents ack_row_def down_incident_def)
qed

definition machine_of :: "monitor_row \<Rightarrow> machine" where
  "machine_of m =
     \<lparr>mc_health = m_health m, mc_fails = m_consecutiveFailures m, mc_succs = m_consecutiveSuccesses m\<rparr>"

text \<open>
  C3. Processing the result of a check on a fresh snapshot advances the stored row exactly as the
  abstract state machine does: the health column and both counters of the row are one machine step
  from what they were, with the check's success and the maintenance flag as input.
\<close>

theorem pipeline_refines_machine:
  assumes "safe_ports opts" and "find_first (\<lambda>m. m_id m = i) (monitors w) = Some row"
    and "processCheckResult (toSnapshot row) out opts now w = (r, w')"
  shows "map_option machine_of (find_first (\<lambda>m. m_id m = i) (monitors w')) =
    Some (machine_step (m_failureThreshold row) (m_successThreshold row) (machine_of row)
            (isSuccessStatus (o_status out), isInMaintenance i now w))"
proof -
  from find_first_Some_iff [OF assms(2)] have row: "row \<in> set (monitors w)" "m_id row = i" by auto
  then have ex: "\<exists>x \<in> set (monitors w). m_id x = s_id (toSnapshot row)"
    by (auto simp: toSnapshot_def)
  define d where "d = decide (toSnapshot row) (o_status out) (isInMaintenance i now w)"
  have "monitors w' = update_rows (\<lambda>x. m_id x = i)
      (monitor_update (toSnapshot row) out d (po_isHeartbeatPing opts) now) (monitors w)"
    using safe_ports.processCheckResult_core [OF assms(1,3) ex] row by (simp add: d_def toSnapshot_def)
  then have "find_first (\<lambda>m. m_id m = i) (monitors w') =
      Some (monitor_update (toSnapshot row) out d (po_isHeartbeatPing opts) now row)"
    using assms(2) by (simp add: find_first_update_rows monitor_update_def)
  moreover have "d = transition (machine_input (m_failureThreshold row) (m_successThreshold row)
      (machine_of row) (isSuccessStatus (o_status out), isInMaintenance i now w))"
    by (simp add: d_def decide_def machine_input_def machine_of_def toSnapshot_def)
  ultimately show ?thesis
    by (simp add: machine_of_def machine_step_def monitor_update_def Let_def)
qed

lemma pipeline_refines_machine_witness:
  "map_option machine_of (find_first (\<lambda>m. m_id m = ''m1'') (monitors sample_down)) =
     Some (machine_step 1 1 (machine_of sample_monitor) (False, False))"
proof -
  have f: "find_first (\<lambda>m. m_id m = ''m1'') (monitors sample_db) = Some sample_monitor" by code_simp
  have m: "isSuccessStatus (o_status (outcome_of C_DOWN)) = False" "isInMaintenance ''m1'' 1000 sample_db = False"
    "m_failureThreshold sample_monitor = 1" "m_successThreshold sample_monitor = 1" by code_simp+
  show ?thesis
    using pipeline_refines_machine [OF sample_safe f, of "outcome_of C_DOWN" 1000] 
    unfolding sample_down_def m by (metis m prod.collapse)
qed

text \<open>
  C4. Thresholds count consecutive checks: a monitor that is up with no failure on record goes
  DOWN at the failureThreshold-th failing check in a row and not before, and from DOWN it is
  RECOVERING until the successThreshold-th passing check in a row makes it UP.
\<close>

theorem confirmed_outage:
  assumes "1 \<le> ft" and "1 \<le> st" and "0 < n" and "0 < k" and "int k \<le> st"
  shows "mc_health (machine_run ft st \<lparr>mc_health = H_UP, mc_fails = 0, mc_succs = s\<rparr> (fails n)) =
           (if ft \<le> int n then H_DOWN else H_UP)
    \<and> mc_health (machine_run ft st \<lparr>mc_health = H_DOWN, mc_fails = f, mc_succs = 0\<rparr> (succs k)) =
           (if int k = st then H_UP else H_RECOVERING)"
  using run_fails_from_up [of "\<lparr>mc_health = H_UP, mc_fails = 0, mc_succs = s\<rparr>" ft n st]
    run_succs_from_down [of "\<lparr>mc_health = H_DOWN, mc_fails = f, mc_succs = 0\<rparr>" st k ft] assms
  by (simp add: normalize_def)

lemma confirmed_outage_witness:
  "mc_health (machine_run 3 2 \<lparr>mc_health = H_UP, mc_fails = 0, mc_succs = 9\<rparr> (fails 3)) = H_DOWN
   \<and> mc_health (machine_run 3 2 \<lparr>mc_health = H_DOWN, mc_fails = 3, mc_succs = 0\<rparr> (succs 1)) = H_RECOVERING"
  using confirmed_outage [of 3 2 3 1 9 3] by simp

text \<open>
  C5. With private networks disallowed, every address the connect-time lookup hands to a socket
  was among the resolver's answers for that host and none of them is in a blocked range; one
  blocked answer is enough to refuse the host.
\<close>

theorem secure_lookup_safe:
  assumes "createSecureLookup dns False all host = Inr ans"
  shows "\<exists>as. dns host = Inr as \<and> set (answer_addresses ans) \<subseteq> set as \<and> answer_addresses ans \<noteq> []
            \<and> list_all (\<lambda>a. \<not> isBlockedIp a) as"
  using assms
  by (auto simp: createSecureLookup_def find_first_None_iff list_all_iff split: sum.splits option.splits if_splits)

lemma secure_lookup_safe_witness:
  "createSecureLookup (\<lambda>_. Inr [''93.184.216.34'']) False False ''acme.test'' = Inr (Address ''93.184.216.34'')
   \<and> \<not> isBlockedIp ''93.184.216.34''"
proof -
  have e: "createSecureLookup (\<lambda>_. Inr [''93.184.216.34'']) False False ''acme.test'' = Inr (Address ''93.184.216.34'')"
    by code_simp
  from secure_lookup_safe [OF e] show ?thesis using e by (auto simp: list_all_iff)
qed

text \<open>
  C6. The bitwise IPv4 classifier agrees with the reserved ranges read octet by octet: a dotted
  quad is blocked exactly when it is in 0/8, 10/8, 100.64/10, 127/8, 169.254/16, 172.16/12,
  192.0.0/24, 192.0.2/24, 192.168/16, 198.18/15, 198.51.100/24, 203.0.113/24 or at or above 224/4.
\<close>

theorem ipv4_ranges:
  assumes "a < 256" and "b < 256" and "c < 256" and "d < 256"
  shows "isBlockedIpv4 (dotted a b c d) \<longleftrightarrow>
     a = 0 \<or> a = 10 \<or> a = 127 \<or> 224 \<le> a
     \<or> a = 100 \<and> 64 \<le> b \<and> b < 128
     \<or> a = 169 \<and> b = 254
     \<or> a = 172 \<and> 16 \<le> b \<and> b < 32
     \<or> a = 192 \<and> (b = 168 \<or> b = 0 \<and> (c = 0 \<or> c = 2))
     \<or> a = 198 \<and> (b = 18 \<or> b = 19 \<or> b = 51 \<and> c = 100)
     \<or> a = 203 \<and> b = 0 \<and> c = 113"
  using isBlockedIpv4_reserved [OF assms] by (simp add: reserved_v4_def)

lemma ipv4_ranges_witness: "isBlockedIpv4 (dotted 169 254 169 254) \<and> \<not> isBlockedIpv4 (dotted 8 8 8 8)"
  using ipv4_ranges [of 169 254 169 254] ipv4_ranges [of 8 8 8 8] by simp

text \<open>
  C7. Writing an IPv4 address as an IPv4-mapped IPv6 literal does not change the verdict: the
  embedded address is recovered through the hextets and classified like the plain one.
\<close>

theorem mapped_ipv4_same_verdict:
  assumes "a < 256" and "b < 256" and "c < 256" and "d < 256"
  shows "parseIpv6 (''::ffff:'' @ dotted a b c d) = Some [0, 0, 0, 0, 0, 0xffff, a * 256 + b, c * 256 + d]
    \<and> (isBlockedIpv6 (''::ffff:'' @ dotted a b c d) \<longleftrightarrow> isBlockedIpv4 (dotted a b c d))"
  using parse_mapped [OF assms] isBlockedIpv6_mapped [OF assms] by blast

lemma mapped_ipv4_same_verdict_witness:
  "isBlockedIpv6 (''::ffff:'' @ dotted 127 0 0 1) = isBlockedIpv4 (dotted 127 0 0 1)"
  using mapped_ipv4_same_verdict [of 127 0 0 1] by simp

text \<open>
  C8. While the incident stays open and the policy stays in place, the chain of jobs that starts
  at step 0 of round 0 fires every step of the policy in order of position, repeatCount + 1 times
  over, and then ends: with n steps, (repeatCount + 1) * n jobs are enough.
\<close>

theorem escalation_runs_to_the_end:
  assumes "pageable job w p" and "0 \<le> ep_repeatCount p"
    and "ej_stepIndex job = 0" and "ej_round job = 0"
    and "Suc (nat (ep_repeatCount p)) * length (ep_steps p) \<le> n"
  shows "chase tz dispatchToChannels responders n job now w =
    Some (concat (replicate (Suc (nat (ep_repeatCount p))) (map es_position (ordered_steps p))))"
proof -
  have l: "length (ordered_steps p) = length (ep_steps p)" by (simp add: ordered_steps_def)
  moreover have "ep_steps p \<noteq> []" using assms(1) by (simp add: pageable_def)
  ultimately have "chase tz dispatchToChannels responders n job now w =
      Some (drop (ej_stepIndex job) (map es_position (ordered_steps p))
        @ concat (replicate (nat (ep_repeatCount p - ej_round job)) (map es_position (ordered_steps p))))"
    using assms by (intro channel_alerts.chase_complete) auto
  then show ?thesis using assms(3,4) by simp
qed

definition sample_policy :: escalation_policy where
  "sample_policy =
     \<lparr>ep_id = ''p1'', ep_organizationId = ''o1'', ep_name = ''Primary'', ep_description = None,
      ep_repeatCount = 1,
      ep_steps = [\<lparr>es_position = 2, es_delayMinutes = 10, es_targets = []\<rparr>,
                  \<lparr>es_position = 1, es_delayMinutes = 0,
                   es_targets = [\<lparr>et_type = TG_CHANNEL, et_userId = None, et_scheduleId = None,
                                  et_channelId = Some ''c1''\<rparr>]\<rparr>],
      ep_createdById = None, ep_updatedById = None, ep_deletedById = None, ep_deletedAt = None\<rparr>"

definition sample_job :: escalation_job where
  "sample_job =
     \<lparr>ej_incidentId = [], ej_organizationId = ''o1'', ej_monitorId = Some ''m1'', ej_policyId = ''p1'',
      ej_stepIndex = 0, ej_round = 0\<rparr>"

lemma escalation_runs_to_the_end_witness:
  "chase (\<lambda>_ _. 0) dispatchToChannels None 4 sample_job 2000 (sample_down\<lparr>policies := [sample_policy]\<rparr>) =
     Some [1, 2, 1, 2]"
proof -
  have o: "map es_position (ordered_steps sample_policy) = [1, 2]" by code_simp
  have p: "pageable sample_job (sample_down\<lparr>policies := [sample_policy]\<rparr>) sample_policy"
    by (simp add: pageable_def sample_down_incidents sample_job_def sample_policy_def down_incident_def
          find_first_def)
  show ?thesis
    using escalation_runs_to_the_end [OF p, of 4]
    by (simp add: o) (simp add: sample_policy_def sample_job_def)
qed

text \<open>
  C9. During a maintenance window nothing but the check log and the monitor row changes: whatever
  the outcome, processing it never fails, opens and resolves nothing, and puts nothing on the
  alert, escalation and integration queues, the timeline or the audit log; the monitor's health
  becomes MAINTENANCE.
\<close>

theorem maintenance_silent:
  assumes "isInMaintenance (s_id m) now w" and "row \<in> set (monitors w)" and "m_id row = s_id m"
  shows "\<exists>r crs ms. processCheckResult m out opts now w =
      (Inr r, w\<lparr>check_results := check_results w @ [crs], monitors := ms\<rparr>)
    \<and> pr_transition r = None \<and> pr_newHealth r = H_MAINTENANCE
    \<and> length ms = length (monitors w)
    \<and> (\<exists>row' \<in> set ms. m_id row' = s_id m \<and> m_health row' = H_MAINTENANCE)"
proof -
  let ?d = "decide m (o_status out) True"
  let ?f = "monitor_update m out ?d (po_isHeartbeatPing opts) now"
  have d: "tr_state ?d = S_MAINTENANCE" by (simp add: decide_def)
  have "?f row \<in> set (update_rows (\<lambda>x. m_id x = s_id m) ?f (monitors w))"
    using assms(2,3) by (auto simp: set_update_rows image_iff)
  moreover have "m_id (?f row) = s_id m" "m_health (?f row) = H_MAINTENANCE"
    using assms(3) d by (simp_all add: monitor_update_def)
  moreover have ex: "\<exists>x \<in> set (monitors w). m_id x = s_id m" using assms(2,3) by blast
  ultimately have "\<exists>row' \<in> set (update_rows (\<lambda>x. m_id x = s_id m) ?f (monitors w)).
      m_id row' = s_id m \<and> m_health row' = H_MAINTENANCE" by blast
  then show ?thesis
    unfolding processCheckResult_maintenance [OF assms(1) ex, of out opts] using d
    by (intro exI [of _ "result_of m out ?d True None False None 0"] exI conjI)
       (simp_all add: insert_row_def result_of_def length_update_rows)
qed

definition sample_window :: maintenance_window where
  "sample_window =
     \<lparr>w_id = ''w1'', w_organizationId = ''o1'', w_title = ''Upgrade'', w_description = None,
      w_startsAt = 500, w_endsAt = 5000, w_suppressAlerts = True, w_createdById = None,
      w_deletedAt = None, w_monitors = [''m1'']\<rparr>"

lemma maintenance_silent_witness:
  "incidents (snd (processCheckResult (toSnapshot sample_monitor) (outcome_of C_DOWN) sample_options 1000
     (sample_db\<lparr>windows := [sample_window]\<rparr>))) = []"
proof -
  have w: "isInMaintenance (s_id (toSnapshot sample_monitor)) 1000 (sample_db\<lparr>windows := [sample_window]\<rparr>)"
    by code_simp
  have r: "sample_monitor \<in> set (monitors (sample_db\<lparr>windows := [sample_window]\<rparr>))"
    by (simp add: sample_db_def)
  have i: "m_id sample_monitor = s_id (toSnapshot sample_monitor)" by (simp add: toSnapshot_def)
  from maintenance_silent [OF w r i, of "outcome_of C_DOWN" sample_options]
  show ?thesis by (auto simp: sample_db_def empty_db_def)
qed

text \<open>
  C10. The alert jobs a processed outcome adds are exactly accounted for: one job per enabled,
  undeleted channel bound to the monitor, in the order of its bindings, when the outcome confirms
  an outage that is not flapping or ends one; none in every other case, however many channels are
  bound. The count the pipeline reports is the number of jobs, and each job names the incident.
\<close>

theorem outage_alerts:
  assumes "processCheckResult m out (worker_options url t reg) now w = (Inr r, w')"
  shows "\<exists>js. alert_queue w' = alert_queue w @ js
    \<and> pr_alertsEnqueued r = int (length js)
    \<and> map aj_channelId js =
        (if pr_transition r = None \<or> pr_flapping r then []
         else map mc_channelId (filter (\<lambda>b. mc_monitorId b = s_id m \<and> live_channel w (mc_channelId b)) (bindings w)))
    \<and> (\<forall>j \<in> set js. Some (aj_incidentId j) = pr_incidentId r
         \<and> aj_kind j = (if pr_transition r = Some Recovered then Resolved else Opened))"
proof -
  from processCheckResult_jobs [OF assms] obtain js where js: "alert_queue w' = alert_queue w @ js"
    "map aj_channelId js = announced r (s_id m) w" "pr_alertsEnqueued r = int (length js)"
    "\<forall>j \<in> set js. aj_incidentId j = (case pr_incidentId r of Some i \<Rightarrow> i | None \<Rightarrow> '''')
       \<and> aj_kind j = announced_kind r" by (auto simp: jobs_for_def)
  have "js = [] \<or> pr_incidentId r \<noteq> None"
    using js(2) processCheckResult_incident [OF assms] by (auto simp: announced_def split: if_splits)
  with js show ?thesis
    by (intro exI [of _ js]) (auto simp: announced_def announced_kind_def bound_channels_def find_many_def)
qed

lemma outage_alerts_witness:
  "map aj_channelId (alert_queue sample_down) = [''c1'']"
proof -
  let ?p = "processCheckResult (toSnapshot sample_monitor) (outcome_of C_DOWN) sample_options 1000 sample_db"
  have "case fst ?p of Inr r \<Rightarrow> pr_transition r = Some Down \<and> \<not> pr_flapping r | Inl _ \<Rightarrow> False" by code_simp
  then obtain r where "fst ?p = Inr r" "pr_transition r = Some Down" "\<not> pr_flapping r"
    by (cases "fst ?p") auto
  then have r: "?p = (Inr r, sample_down)" "pr_transition r = Some Down" "\<not> pr_flapping r"
    by (simp_all add: sample_down_def prod_eq_iff)
  have b: "map mc_channelId (filter (\<lambda>b. mc_monitorId b = s_id (toSnapshot sample_monitor)
      \<and> live_channel sample_db (mc_channelId b)) (bindings sample_db)) = [''c1'']" "alert_queue sample_db = []"
    by code_simp+
  from outage_alerts [OF r(1)] r(2,3) b show ?thesis by auto
qed



text \<open>
  C12. The verdict on a reachable signal agrees with the declarative reading of the monitor's
  conditions: DOWN exactly when a hard condition fails (wrong status code, keyword missing or
  present against the setting, an expired certificate or domain nobody overrides, a failing
  assertion that is not latency or expiry), DEGRADED exactly when none fails but a soft one does,
  UP otherwise; an unreachable signal is never a success.
\<close>

theorem validation_verdict:
  "o_status (classifySignal h m s) =
     (if \<not> ps_reachable s then statusForUnreachable (ps_errorType s)
      else if hard_failure h m s then C_DOWN
      else if soft_failure h m s then C_DEGRADED
      else C_UP)
   \<and> (isSuccess (o_status (classifySignal h m s)) \<longleftrightarrow> ps_reachable s \<and> \<not> hard_failure h m s)"
  using classifySignal_success_iff [of h m s]
  by (cases "ps_reachable s") (simp_all add: classifySignal_reachable, simp add: classifySignal_def)

text \<open>
  C13. However often the queue retries an alert job, at most one notification is recorded on the
  timeline, and exactly when the job ends delivered; after that every later run of a job for the
  same delivery, over whatever transports, is skipped and changes nothing.
\<close>

theorem alert_at_most_once:
  assumes "alert_retries tr job now 0 ALERT_ATTEMPTS w = (r, w')"
    and "aj_deliveryId job' = aj_deliveryId job"
  shows "sent_events w' = sent_events w + (if r = Inr AlertDelivered then 1 else 0)
    \<and> (r = Inr AlertDelivered \<longrightarrow>
         alert_processor tr' job' now' later' w' = (Inr (AlertSkipped already_delivered), w'))"
  using alert_retries_events [OF assms(1)] alert_retries_delivered [of tr job now 0 ALERT_ATTEMPTS w w']
    assms alert_processor_after_delivery by blast

definition hook_down_then_up :: "nat \<Rightarrow> transports" where
  "hook_down_then_up k ty = (if k = 0 then Some (\<lambda>_ _. Inl (Err ''boom'')) else Some (\<lambda>_ _. Inr None))"

lemma alert_at_most_once_witness:
  "sent_events (snd (alert_retries hook_down_then_up (hd (alert_queue sample_down)) 2000 0 ALERT_ATTEMPTS sample_down))
     = sent_events sample_down + 1"
proof -
  have r: "fst (alert_retries hook_down_then_up (hd (alert_queue sample_down)) 2000 0 ALERT_ATTEMPTS sample_down)
      = Inr AlertDelivered" by code_simp
  from alert_at_most_once [OF prod.collapse [symmetric] refl, of hook_down_then_up "hd (alert_queue sample_down)"
      2000 sample_down] r show ?thesis by simp
qed

text \<open>
  C14. Fanning an event out is idempotent: the first call records as many deliveries as it queues
  jobs, and a second call with the same deduplication base, even with another event text, records
  nothing, queues nothing and reports zero.
\<close>

theorem integration_fan_out_once:
  assumes "fanOut org ev base event w = (r, w')"
  shows "\<exists>n. r = Inr n \<and> 0 \<le> n
    \<and> int (length (int_deliveries w')) = int (length (int_deliveries w)) + n
    \<and> int (length (integration_queue w')) = int (length (integration_queue w)) + n
    \<and> fanOut org ev' base event' w' = (Inr 0, w')"
proof -
  obtain n where f: "fan_targets org ev base event (targetsFor org w) w 0 = (n, w')" "r = Inr n"
    using assms by (auto simp: fanOut_def split: prod.splits)
  from fan_targets_keys [OF f(1)] f(2) fanOut_replayed [OF assms] show ?thesis by auto
qed

definition sample_slack :: integration where
  "sample_slack =
     \<lparr>in_id = ''s1'', in_organizationId = ''o1'', in_credential = WebhookUrl ''https://hooks.slack.test'',
      in_enabled = True, in_deletedAt = None\<rparr>"

lemma integration_fan_out_once_witness:
  "\<exists>w'. fanOut ''o1'' ''incident.opened'' ''incident:i:opened''
        (incident_event_for ''https://app.test'' 0 (incident_context (toSnapshot sample_monitor) ''i'' Opened))
        (sample_db\<lparr>integrations := (\<lambda>_. [sample_slack])\<rparr>) = (Inr 5, w')
    \<and> fanOut ''o1'' ''incident.opened'' ''incident:i:opened''
        (incident_event_for ''https://app.test'' 9 (incident_context (toSnapshot sample_monitor) ''i'' Opened))
        w' = (Inr 0, w')"
proof -
  let ?e = "\<lambda>t. incident_event_for ''https://app.test'' t (incident_context (toSnapshot sample_monitor) ''i'' Opened)"
  let ?w = "sample_db\<lparr>integrations := (\<lambda>_. [sample_slack])\<rparr>"
  obtain r w' where f: "fanOut ''o1'' ''incident.opened'' ''incident:i:opened'' (?e 0) ?w = (r, w')" by fastforce
  have "fst (fanOut ''o1'' ''incident.opened'' ''incident:i:opened'' (?e 0) ?w) = Inr 5" by code_simp
  with integration_fan_out_once [OF f, of "''incident.opened''" "?e 9"] f show ?thesis by auto
qed








text \<open>
  C17. A TCP check of a host name dials only public addresses, but a host that is an IP literal is
  dialled as it is, loopback and private ranges included: Node skips the guarded lookup for a
  literal and the probe does not check the host itself.
\<close>

theorem tcp_probe_literal:
  assumes "s_host m = Some host" and "host \<noteq> ''''" and "s_port m = Some port"
    and "wd_early wd = None" and "\<not> wd_allow wd"
  shows "(isIP host = 0 \<longrightarrow> (\<forall>a \<in> set (fst (tcpProbe wd m)). \<not> isBlockedIp a))
    \<and> (isIP host \<noteq> 0 \<longrightarrow> fst (tcpProbe wd m) = [host])"
  using assms dial_literal [of wd host port] dial_name [of host wd _ port]
  by (auto simp: tcpProbe_def tcpConnect_def truthy_property_def split: prod.splits)

lemma tcp_probe_literal_witness:
  "fst (tcpProbe sample_world ((toSnapshot sample_monitor)\<lparr>s_host := Some ''127.0.0.1'', s_port := Some 6379\<rparr>))
     = [''127.0.0.1''] \<and> isBlockedIp ''127.0.0.1''"
proof -
  let ?m = "(toSnapshot sample_monitor)\<lparr>s_host := Some ''127.0.0.1'', s_port := Some 6379\<rparr>"
  have "isIP ''127.0.0.1'' \<noteq> 0" "isBlockedIp ''127.0.0.1''" by code_simp+
  with tcp_probe_literal [of ?m "''127.0.0.1''" 6379 sample_world] show ?thesis
    by (simp add: sample_world_def)
qed

text \<open>
  C18. One reconciliation brings every served region's queue, whatever schedulers were left in it,
  to the state the database asks for: a scheduler of the application exists under a key exactly
  when some active, undeleted monitor that names the region has that key, and it fires at that
  monitor's interval.
\<close>

theorem scheduler_converges:
  assumes "job_schedulers ops view" and "distinct (map m_id (monitors w))"
    and "sync ops configured w queues = (Inr summary, queues')"
    and "(r, q') \<in> set queues'" and "starts_with k SCHEDULER_PREFIX"
  shows "view q' k = Some e \<longleftrightarrow>
    (\<exists>m \<in> set (monitors w). m_state m = ACTIVE \<and> m_deletedAt m = None
       \<and> r \<in> set (monitor_regions (case configured of None \<Rightarrow> DEFAULT_REGION | Some d \<Rightarrow> d) m)
       \<and> k = schedulerId (m_id m) r \<and> e = Some (max 1 (m_intervalSeconds m) * 1000))"
  using sync_view [OF assms] by (simp add: wants_def scheduled_def)

lemma scheduler_converges_witness:
  "\<exists>summary q'. sync memory_ops None sample_db [(NA_EAST, [(''monitor:gone:NA_EAST'', 1000,
        \<lparr>cj_monitorId = ''gone'', cj_organizationId = ''o1'', cj_region = NA_EAST\<rparr>)])]
      = (Inr summary, [(NA_EAST, q')])
    \<and> memory_view q' ''monitor:gone:NA_EAST'' = None
    \<and> memory_view q' (schedulerId ''m1'' NA_EAST) = Some (Some (m_intervalSeconds sample_monitor * 1000))"
proof -
  let ?s = "sync memory_ops None sample_db [(NA_EAST, [(''monitor:gone:NA_EAST'', 1000,
      \<lparr>cj_monitorId = ''gone'', cj_organizationId = ''o1'', cj_region = NA_EAST\<rparr>)])]"
  have "(case fst ?s of Inr _ \<Rightarrow> True | Inl _ \<Rightarrow> False)" "map fst (snd ?s) = [NA_EAST]" by code_simp+
  then obtain summary q' where s: "?s = (Inr summary, [(NA_EAST, q')])"
    by (cases ?s) (auto split: sum.splits)
  have d: "distinct (map m_id (monitors sample_db))" by (simp add: sample_db_def)
  have k: "starts_with ''monitor:gone:NA_EAST'' SCHEDULER_PREFIX" by code_simp
  note c = scheduler_converges [OF memory.job_schedulers_axioms d s, of NA_EAST q']
  have "memory_view q' ''monitor:gone:NA_EAST'' = None"
    using c [of "''monitor:gone:NA_EAST''"] k
    by (cases "memory_view q' ''monitor:gone:NA_EAST''")
       (auto simp: sample_db_def sample_monitor_def schedulerId_def SCHEDULER_PREFIX_def)
  moreover have "memory_view q' (schedulerId ''m1'' NA_EAST) = Some (Some (m_intervalSeconds sample_monitor * 1000))"
    using c [of "schedulerId ''m1'' NA_EAST"]
    by (simp add: sample_db_def sample_monitor_def monitor_regions_def DEFAULT_REGION_def)
  ultimately show ?thesis using s by blast
qed

text \<open>
  C19. The rotation is fair: without overrides, and while the time zone's offset does not change,
  every participant is the primary on-call within one turn of as many periods as there are
  participants.
\<close>

theorem on_call_fair:
  assumes "so_overrides s = []" and "p \<in> set (so_participants s)"
    and "\<And>k. k < length (so_participants s) \<Longrightarrow>
           tz (now + int k * (PERIOD_DAYS (so_rotationType s) * DAY_MS)) (so_timezone s) =
           tz now (so_timezone s)"
  shows "\<exists>k < length (so_participants s).
    oc_primaryUserId (resolveOnCall tz s (now + int k * (PERIOD_DAYS (so_rotationType s) * DAY_MS)))
      = Some (p_userId p)"
proof -
  let ?sorted = "sort_key p_position (so_participants s)"
  let ?s = "s\<lparr>so_participants := ?sorted\<rparr>"
  have "p \<in> set ?sorted" using assms(2) by simp
  then obtain j where j: "j < length ?sorted" "?sorted ! j = p" unfolding in_set_conv_nth by blast
  have "?sorted \<noteq> []" using assms(2) sorted_eq_Nil [of s] by auto
  with rotation_turn [of ?s tz now j] assms(3) j(1)
  obtain k where k: "k < length (so_participants s)"
    "rotationIndex tz ?s (now + int k * (PERIOD_DAYS (so_rotationType s) * DAY_MS)) = int j"
    by auto
  have "slot tz s (now + int k * (PERIOD_DAYS (so_rotationType s) * DAY_MS)) 0 = Some (p_userId p)"
    using j k(1) by (auto simp: slot_def Let_def k(2) sorted_eq_Nil)
  with k(1) show ?thesis
    by (intro exI [of _ k])
       (simp add: resolveOnCall_slots active_override_def find_first_def assms(1))
qed

definition sample_schedule :: schedule_for_resolve where
  "sample_schedule =
     \<lparr>so_timezone = ''UTC'', so_rotationType = WEEKLY, so_handoffMinute = 540,
      so_participants = [\<lparr>p_userId = ''u2'', p_position = 1\<rparr>, \<lparr>p_userId = ''u1'', p_position = 0\<rparr>],
      so_overrides = []\<rparr>"

lemma on_call_fair_witness:
  "\<exists>k < 2. oc_primaryUserId (resolveOnCall (\<lambda>_ _. 0) sample_schedule (int k * (7 * DAY_MS))) = Some ''u2''"
  using on_call_fair [of sample_schedule "\<lparr>p_userId = ''u2'', p_position = 1\<rparr>" "\<lambda>_ _. 0" 0]
  by (simp add: sample_schedule_def numeral_2_eq_2)

text \<open>
  C20. Once a person has acknowledged or resolved an incident, every escalation job of it that was
  already queued, at whatever step or round, sends nothing, queues nothing and writes nothing.
\<close>

theorem acknowledging_stops_paging:
  assumes "distinct (map i_id (incidents w))"
    and "acknowledge org (ej_incidentId job) actor now w = (Some detail, w')
       \<or> resolve org (ej_incidentId job) actor now w = (Some detail, w')"
  shows "escalation_processor tz alerts responders job later w' = (Inr Skip_stopped, w')"
proof -
  let ?f = "\<lambda>u. find_first (\<lambda>i. i_id i = ej_incidentId job) (incidents u)"
  obtain x where x: "find_incident org (ej_incidentId job) w = Some x"
    using assms(2) by (auto simp: acknowledge_def resolve_def split: option.splits)
  have "?f w = Some x"
    using x assms(1) by (rule find_incident_unscoped)
  then have "\<exists>y. ?f w' = Some y \<and> i_status y \<noteq> OPEN"
    using assms(2) x
    by (auto simp: acknowledge_def resolve_def Let_def find_first_update_rows ack_row_def resolve_row_def
          split: if_splits)
  then show ?thesis using escalation_halts by blast
qed

lemma acknowledging_stops_paging_witness:
  "escalation_processor (\<lambda>_ _. 0) (\<lambda>_ w. (Inr 0, w)) None
     \<lparr>ej_incidentId = [], ej_organizationId = ''o1'', ej_monitorId = Some ''m1'', ej_policyId = ''p1'',
      ej_stepIndex = 1, ej_round = 0\<rparr> 9000 sample_acked = (Inr Skip_stopped, sample_acked)"
proof -
  have "distinct (map i_id (incidents sample_down))" by (simp add: sample_down_incidents)
  moreover obtain detail where "acknowledge ''o1'' [] sample_actor 2000 sample_down = (Some detail, sample_acked)"
  proof -
    have "fst (acknowledge ''o1'' [] sample_actor 2000 sample_down) \<noteq> None" by code_simp
    then show thesis using that by (auto simp: sample_acked_def prod_eq_iff)
  qed
  ultimately show ?thesis by (intro acknowledging_stops_paging) auto
qed

text \<open>
  C21. A client that follows nextCursor sees every matching incident of its organization exactly
  once, newest first, also when incidents share a timestamp; the last page has no cursor.
\<close>

theorem incident_pages_complete:
  assumes "codec_ok h" and "1 \<le> iq_limit q" and "iq_cursor q = None"
    and "distinct (map i_id (incidents w))"
    and "\<forall>i \<in> set (incidents w). i_id i \<noteq> '''' \<and> valid_date (i_createdAt i)"
    and "length (filter (listed org q) (incidents w)) < n"
  shows "incident_pages h org q w n None =
    Some (Inr (map (toListItem w) (newest_first i_id i_createdAt (filter (listed org q) (incidents w)))))"
proof -
  have "distinct (map (row_key i_id i_createdAt) (filter (listed org q) (incidents w)))"
    using assms(4) by (auto simp: distinct_map row_key_def inj_on_def distinct_filter)
  from follow_from [OF assms(1,2) refl this assms(5), where p = 0 and raw = None and n = n] assms(6)
  show ?thesis by (simp add: incident_pages_follow)
qed

lemma incident_pages_complete_witness:
  "incident_pages sample_codec ''o1'' \<lparr>iq_status = None, iq_monitorId = None, iq_limit = 1, iq_cursor = None\<rparr>
     (sample_down\<lparr>incidents := map (\<lambda>i. i\<lparr>i_id := ''i1''\<rparr>) (incidents sample_down)\<rparr>) 2 None
   = Some (Inr (map (toListItem sample_down) (map (\<lambda>i. i\<lparr>i_id := ''i1''\<rparr>) (incidents sample_down))))"
proof -
  let ?q = "\<lparr>iq_status = None, iq_monitorId = None, iq_limit = 1, iq_cursor = None\<rparr>"
  let ?w = "sample_down\<lparr>incidents := map (\<lambda>i. i\<lparr>i_id := ''i1''\<rparr>) (incidents sample_down)\<rparr>"
  have l: "toListItem ?w = toListItem sample_down" by (simp add: toListItem_def fun_eq_iff)
  have i: "incidents ?w = [(down_incident [] (toSnapshot sample_monitor) (outcome_of C_DOWN) 1000)\<lparr>i_id := ''i1''\<rparr>]"
    by (simp add: sample_down_incidents)
  have f: "filter (listed ''o1'' ?q) (incidents ?w) = incidents ?w"
    unfolding i by (simp add: listed_def down_incident_def toSnapshot_def sample_monitor_def)
  have v: "\<forall>x \<in> set (incidents ?w). i_id x \<noteq> '''' \<and> valid_date (i_createdAt x)"
    unfolding i by (simp add: down_incident_def valid_date_def)
  have d: "distinct (map i_id (incidents ?w))" "length (filter (listed ''o1'' ?q) (incidents ?w)) < 2"
    unfolding f i by simp_all
  have n: "newest_first i_id i_createdAt (incidents ?w) = incidents ?w" unfolding i by (simp add: newest_first_def)
  from incident_pages_complete [OF sample_codec_ok _ _ d(1) v d(2)] show ?thesis unfolding f n l by simp
qed

text \<open>
  C22. A cursor the API hands out is accepted back as it was: decoding an encoded cursor, through
  JSON and base64url, gives the same id and timestamp, and the request parser takes it.
\<close>

theorem cursor_roundtrip:
  assumes "codec_ok h" and "cu_id c \<noteq> ''''" and "cu_createdAt c \<noteq> ''''"
  shows "decodeCursor h (encodeCursor h c) = Some c
    \<and> parseCursor h (Some (encodeCursor h c)) = Inr (Some c)"
  using decode_encode [OF assms] encodeCursor_nonempty [OF assms(1), of c]
  by (simp add: parseCursor_def)

lemma cursor_roundtrip_witness:
  "decodeCursor sample_codec (encodeCursor sample_codec \<lparr>cu_id = ''i1'', cu_createdAt = ''+1''\<rparr>)
     = Some \<lparr>cu_id = ''i1'', cu_createdAt = ''+1''\<rparr>"
  using cursor_roundtrip [OF sample_codec_ok, of "\<lparr>cu_id = ''i1'', cu_createdAt = ''+1''\<rparr>"] by simp

text \<open>
  C23. Alert channels are tenant-isolated: what any transport of the worker does for a channel is
  determined by the integration rows of the channel's own organization; rows of other
  organizations, even with the id the channel's configuration names, make no difference.
\<close>

theorem transports_isolated:
  assumes "own_integrations (ac_organizationId ch) w = own_integrations (ac_organizationId ch) w'"
  shows "map_option (\<lambda>t. t ch p) (worker_transports h mid send url w ty) =
         map_option (\<lambda>t. t ch p) (worker_transports h mid send url w' ty)"
  using assms by (rule transports_own)

lemma transports_isolated_witness:
  "\<forall>p mid send url. map_option (\<lambda>t. t (sample_channel\<lparr>ac_organizationId := ''o2''\<rparr>) p)
     (worker_transports sample_host mid send url (sample_db\<lparr>integrations := (\<lambda>_. [sample_slack])\<rparr>) SLACK)
   = map_option (\<lambda>t. t (sample_channel\<lparr>ac_organizationId := ''o2''\<rparr>) p)
     (worker_transports sample_host mid send url (sample_db\<lparr>integrations := (\<lambda>_. [])\<rparr>) SLACK)"
  by (intro allI, rule transports_isolated) (simp add: own_integrations_def sample_slack_def fun_eq_iff)

text \<open>
  C24. The body of a checked page is kept up to exactly one million bytes: however the server
  splits what it sends into chunks, the bytes kept are the first 1,000,000 of the stream.
\<close>

theorem body_bounded:
  "collect_chunks chunks 0 = take 1000000 (concat chunks)
   \<and> length (collect_chunks chunks 0) \<le> 1000000"
  using collect_chunks_take [of 0 chunks] by (simp add: MAX_BODY_BYTES_def)

text \<open>
  C25. The maintenance check does not look at a window's deletion mark: a window deleted by its
  owner keeps silencing its monitors until its end, so an outage in that time opens no incident
  and queues no alert.
\<close>

theorem deleted_window_silences:
  assumes "x \<in> set (windows w)" and "w_deletedAt x = Some t" and "w_suppressAlerts x"
    and "w_startsAt x \<le> now" and "now \<le> w_endsAt x" and "s_id m \<in> set (w_monitors x)"
    and "row \<in> set (monitors w)" and "m_id row = s_id m"
  shows "incidents (snd (processCheckResult m out opts now w)) = incidents w
    \<and> alert_queue (snd (processCheckResult m out opts now w)) = alert_queue w"
proof -
  have "isInMaintenance (s_id m) now w"
    using assms(1,3,4,5,6) by (auto simp: isInMaintenance_def find_first_None_iff)
  moreover have "\<exists>y \<in> set (monitors w). m_id y = s_id m" using assms(7,8) by blast
  ultimately show ?thesis by (simp add: processCheckResult_maintenance)
qed

lemma deleted_window_silences_witness:
  "incidents (snd (processCheckResult (toSnapshot sample_monitor) (outcome_of C_DOWN) sample_options 1000
     (sample_db\<lparr>windows := [sample_window\<lparr>w_deletedAt := Some 600\<rparr>]\<rparr>))) = []"
proof -
  let ?x = "sample_window\<lparr>w_deletedAt := Some 600\<rparr>"
  have "incidents (sample_db\<lparr>windows := [?x]\<rparr>) = []" by (simp add: sample_db_def empty_db_def)
  with deleted_window_silences [of ?x "sample_db\<lparr>windows := [?x]\<rparr>" 600 1000 "toSnapshot sample_monitor" sample_monitor]
  show ?thesis by (simp add: sample_window_def sample_db_def toSnapshot_def sample_monitor_def)
qed

text \<open>
  C26. No request passes the chain in front of an organization's routes unless it is the session
  of a current member of that very organization whose recognized role grants every requested
  action, or it presents a key of that organization that is neither revoked, deleted nor expired
  and whose scopes cover every requested action.
\<close>

theorem access_guard:
  assumes "guard hash stamped resource actions req now a = (Inr ctx, a')"
  shows "acts_as hash req now a (ctx_principal ctx) \<and> principal_allows (ctx_principal ctx) resource actions
    \<and> ctx_organizationId ctx = req_organizationId req"
  using guard_acts_as [OF assms] .

lemma access_guard_witness:
  "\<exists>ctx a'. guard id True ''monitor'' [''create''] (session_request ''dave'' ''o1'') 5 sample_api = (Inr ctx, a')
     \<and> acts_as id (session_request ''dave'' ''o1'') 5 sample_api (ctx_principal ctx)
     \<and> hasPermission ''developer'' ''monitor'' [''create'']"
proof -
  let ?g = "guard id True ''monitor'' [''create''] (session_request ''dave'' ''o1'') 5 sample_api"
  have ok: "case fst ?g of Inr ctx \<Rightarrow> True | Inl _ \<Rightarrow> False"
    and p: "hasPermission ''developer'' ''monitor'' [''create'']" by code_simp+
  from ok obtain ctx where "?g = (Inr ctx, snd ?g)" by (cases ?g) (auto split: sum.splits)
  with access_guard [OF this] p show ?thesis by blast
qed

definition outsider :: "(string \<Rightarrow> string) \<Rightarrow> bool \<Rightarrow> request \<Rightarrow> time \<Rightarrow> api \<Rightarrow> bool" where
  "outsider hash stamped req now a \<longleftrightarrow>
     req_organizationId req \<noteq> ''''
     \<and> (case extractApiKey req of
          None \<Rightarrow> (case req_session req of None \<Rightarrow> False
            | Some user \<Rightarrow> list_all (\<lambda>m. mb_userId m = user \<longrightarrow> mb_organizationId m \<noteq> req_organizationId req) (members a))
        | Some token \<Rightarrow> (case fst (verify_key hash stamped token now a) of None \<Rightarrow> False
            | Some v \<Rightarrow> vk_organizationId v \<noteq> req_organizationId req))"

text \<open>
  C27. A signed-in user who is no member of the organization a request names, and a caller whose
  valid key belongs to another organization, get the same 404 body whatever they ask for and
  whether or not that organization exists: membership is never leaked through a 403.
\<close>

theorem outsiders_learn_nothing:
  assumes "outsider hash stamped req now a"
  shows "\<exists>e a'. guard hash stamped resource actions req now a = (Inl e, a')
    \<and> members a' = members a \<and> organizations a' = organizations a
    \<and> errorHandler False (thrown_of e) rid =
        Some (404, \<lparr>eb_code = not_found, eb_message = ''Organization not found.'', eb_requestId = rid, eb_details = None\<rparr>)"
proof -
  have r: "errorHandler False (thrown_of org_not_found) rid =
      Some (404, \<lparr>eb_code = not_found, eb_message = ''Organization not found.'', eb_requestId = rid, eb_details = None\<rparr>)"
    by (simp add: errorHandler_def org_not_found_def toAppError_def AppError_def)
  show ?thesis
  proof (cases "extractApiKey req")
    case None
    with assms obtain user where "req_session req = Some user" "req_organizationId req \<noteq> ''''"
      "\<And>m. m \<in> set (members a) \<Longrightarrow> mb_userId m = user \<Longrightarrow> mb_organizationId m \<noteq> req_organizationId req"
      by (auto simp: outsider_def list_all_iff split: option.splits)
    with guard_outsider [OF None] r show ?thesis by blast
  next
    case (Some token)
    obtain v a' where v: "verify_key hash stamped token now a = (v, a')" by fastforce
    with assms Some obtain k where "v = Some k" "vk_organizationId k \<noteq> req_organizationId req"
      "req_organizationId req \<noteq> ''''" by (auto simp: outsider_def split: option.splits)
    with guard_foreign_key [OF Some] v r show ?thesis
      by (metis snd_conv verify_key_organizations)
  qed
qed

lemma outsiders_learn_nothing_witness:
  "\<exists>e a'. guard id True ''monitor'' [''read''] (session_request ''dave'' ''o2'') 5 sample_api = (Inl e, a')
     \<and> fst (the (errorHandler False (thrown_of e) ''r'')) = 404
     \<and> fst (guard id True ''monitor'' [''read''] (session_request ''dave'' ''o9'') 5 sample_api) = Inl e"
proof -
  have o': "outsider id True (session_request ''dave'' ''o2'') 5 sample_api"
    and e: "case fst (guard id True ''monitor'' [''read''] (session_request ''dave'' ''o2'') 5 sample_api) of
        Inr _ \<Rightarrow> False | Inl e \<Rightarrow>
        (case fst (guard id True ''monitor'' [''read''] (session_request ''dave'' ''o9'') 5 sample_api) of
           Inr _ \<Rightarrow> False | Inl e' \<Rightarrow> e = e')"
    by code_simp+
  from outsiders_learn_nothing [OF o', of "''monitor''" "[''read'']" "''r''"] e show ?thesis
    by (auto split: sum.splits)
qed






text \<open>
  C30. Whatever sequence of creating, updating, deleting, pausing and resuming monitors, replacing
  their alert channels and processing check results runs, every monitor that is not deleted keeps
  a complete target for its type, every channel bound to a monitor belongs to the monitor's
  organization, and identifiers stay unique and fresh.
\<close>

theorem monitor_config_invariant:
  assumes "life_step\<^sup>*\<^sup>* a a'" and "config_inv (engine a)"
  shows "config_inv (engine a')"
  using assms by (induction rule: rtranclp_induct) (blast intro: life_step_inv)+

definition http_input :: monitor_input where
  "http_input = no_input\<lparr>mi_url := Some ''https://b.test'', mi_channelIds := Some [''c1'']\<rparr>"

lemma monitor_config_invariant_witness:
  "\<exists>a'. life_step\<^sup>*\<^sup>* sample_api a' \<and> config_inv (engine a') \<and> length (monitors (engine a')) = 2
     \<and> length (bindings (engine a')) = 2"
proof -
  let ?c = "createMonitor ''o1'' ''b'' T_HTTP http_input sample_user 7 sample_api"
  have s: "life_step\<^sup>*\<^sup>* sample_api (snd ?c)" by (rule r_into_rtranclp, rule ls_create [OF prod.collapse [symmetric]])
  have "length (monitors (engine (snd ?c))) = 2 \<and> length (bindings (engine (snd ?c))) = 2" by code_simp
  with s monitor_config_invariant [OF s sample_config_inv] show ?thesis by blast
qed



text \<open>
  C32. An alert never leaves the tenant: in every state that configuration and checks reach, each
  job the dispatcher queues for a monitor names a channel of the monitor's own organization,
  although the dispatcher itself never compares the two.
\<close>

theorem alerts_stay_in_tenant:
  assumes "life_step\<^sup>*\<^sup>* a a'" and "config_inv (engine a)"
    and "dispatch c (engine a') = (r, w')" and "j \<in> set (new_jobs (engine a') w')"
    and "m \<in> set (monitors (engine a'))" and "m_id m = ax_monitorId c"
    and "ch \<in> set (channels (engine a'))" and "ac_id ch = aj_channelId j"
  shows "ac_organizationId ch = m_organizationId m"
proof -
  have "tenant_bindings (engine a')" using life_steps_inv [OF assms(1,2)] by (simp add: config_inv_def)
  from dispatched_in_tenant [OF this assms(3,5,6,4,7,8)] show ?thesis .
qed

lemma alerts_stay_in_tenant_witness:
  "new_jobs (engine sample_api) (snd (dispatch (alert_ctx (toSnapshot sample_monitor) ''i'' Opened) (engine sample_api))) \<noteq> []
     \<and> ac_organizationId sample_channel = m_organizationId sample_monitor"
proof -
  let ?c = "alert_ctx (toSnapshot sample_monitor) ''i'' Opened"
  let ?js = "new_jobs (engine sample_api) (snd (dispatch ?c (engine sample_api)))"
  have js: "map aj_channelId ?js = [''c1'']" by code_simp
  then obtain j where j: "j \<in> set ?js" "aj_channelId j = ''c1''" by (cases ?js) auto
  have m: "sample_monitor \<in> set (monitors (engine sample_api))" "m_id sample_monitor = ax_monitorId ?c"
    "sample_channel \<in> set (channels (engine sample_api))" "ac_id sample_channel = aj_channelId j"
    using j by (simp_all add: sample_api_def empty_api_def sample_db_def alert_ctx_def toSnapshot_def
        sample_monitor_def sample_channel_def)
  from alerts_stay_in_tenant [OF rtranclp.rtrancl_refl sample_config_inv prod.collapse [symmetric] j(1) m] js
  show ?thesis by auto
qed




text \<open>
  C34. However organizations create, verify and delete custom domains against whatever their
  resolvers answer, a host name is only ever served for the organization of the one undeleted row
  of its normal form, and only after a TXT record under that name's challenge prefix carried that
  row's secret token; the page served belongs to the same organization.
\<close>

theorem domain_ownership:
  assumes "(domain_step deps)\<^sup>*\<^sup>* ({}, a) (seen, a')" and "custom_domains a = []" and "inj (db_uuid (engine a))"
    and "resolveDomain host a' = Some r"
  shows "normalizeDomain host = Some (rd_domain r) \<and> normalizeDomain (rd_domain r) = Some (rd_domain r)
    \<and> (\<exists>d \<in> set (custom_domains a'). cd_domain d = rd_domain r \<and> cd_organizationId d = rd_organizationId r
         \<and> cd_deletedAt d = None
         \<and> (challengeHostname (rd_domain r) (dd_challengePrefix deps), cd_verificationToken d) \<in> seen)
    \<and> (\<exists>p \<in> set (pages a'). sp_id p = rd_statusPageId r \<and> sp_organizationId p = rd_organizationId r)
    \<and> distinct (map cd_domain (custom_domains a'))"
proof -
  have "domains_inv deps {} a" using assms(2,3) by (simp add: domains_inv_def fresh_ids_def)
  with domain_steps_inv [OF assms(1)] have i: "domains_inv deps seen a'" by simp
  from resolved_owner [OF i assms(4)] normalizeDomain_Some(2) i show ?thesis
    by (auto simp: domains_inv_def)
qed

definition challenge_zone :: "string \<Rightarrow> js_error + string list list" where
  "challenge_zone name =
     (if name = ''_uptimeflow-challenge.status.acme.com'' then Inr [[''s'']] else Inl (NodeErr ''ENOTFOUND'' ''''))"

definition domains_start :: api where
  "domains_start = sample_api\<lparr>pages := [sample_page ''acme'' ''o1'' V_PUBLIC]\<rparr>"

definition domains_added :: api where
  "domains_added = snd (createDomain (server_domains ''edge'') ''o1'' ''acme'' ''Status.Acme.com'' domain_actor 5 domains_start)"

definition domains_verified :: api where
  "domains_verified = snd (verifyDomain (server_domains ''edge'') challenge_zone ''o1'' (new_id (engine domains_start)) 6 domains_added)"

lemma domain_ownership_witness:
  "\<exists>r. resolveDomain ''https://STATUS.acme.com:443/x'' domains_verified = Some r \<and> rd_organizationId r = ''o1''
     \<and> resolveDomain ''status.acme.com'' domains_added = None
     \<and> normalizeDomain ''https://STATUS.acme.com:443/x'' = Some (rd_domain r)"
proof -
  let ?d = "server_domains ''edge''"
  have "(domain_step ?d)\<^sup>*\<^sup>* ({}, domains_start) ({}, domains_added)"
    unfolding domains_added_def by (rule r_into_rtranclp, rule ds_create [OF prod.collapse [symmetric]])
  also have "domain_step ?d ({}, domains_added) ({} \<union> txt_answers challenge_zone, domains_verified)"
    unfolding domains_verified_def by (rule ds_verify [OF prod.collapse [symmetric]])
  finally have s: "(domain_step ?d)\<^sup>*\<^sup>* ({}, domains_start) ({} \<union> txt_answers challenge_zone, domains_verified)" .
  have "map_option rd_organizationId (resolveDomain ''https://STATUS.acme.com:443/x'' domains_verified) = Some ''o1''"
    and n: "resolveDomain ''status.acme.com'' domains_added = None" by code_simp+
  then obtain r where r: "resolveDomain ''https://STATUS.acme.com:443/x'' domains_verified = Some r"
    "rd_organizationId r = ''o1''" by auto
  have "custom_domains domains_start = []" "inj (db_uuid (engine domains_start))"
    by (simp_all add: domains_start_def sample_api_def empty_api_def sample_db_def empty_db_def inj_sample_ids)
  from domain_ownership [OF s this r(1)] r n show ?thesis by blast
qed

text \<open>
  C35. The backfill of the daily statistics ends for every step of at least one day, and for whole
  days it leaves exactly the table that one rollup over the entire range leaves, reports exactly
  as many rows, and running it a second time changes no entry: neither the width of the chunks nor
  an interrupted run can be seen in the result.
\<close>

theorem backfill_terminates:
  assumes "1 \<le> chunkDays" and "1 \<le> chunkDays'" and "DAY dvd since" and "DAY dvd until" and "since < until"
    and "one_owner (engine a)"
  shows "\<exists>n rows a' n' a''. backfill_loop pc chunkDays until since 0 0 a = Some (Inr (n, rows), a')
    \<and> fst (rollupWindow pc since until a) = Inr rows
    \<and> (\<forall>k. stat_at a' k = stat_at (snd (rollupWindow pc since until a)) k)
    \<and> backfill_loop pc chunkDays' until since 0 0 a' = Some (Inr (n', rows), a'')
    \<and> (\<forall>k. stat_at a'' k = stat_at a' k)"
proof -
  let ?w = "engine a"
  note once = backfill_loop_whole [OF assms(1,4,6) refl assms(3), of pc 0 0]
  then obtain n a' where a': "backfill_loop pc chunkDays until since 0 0 a = Some (Inr (n, groups_in ?w since until), a')"
    "engine a' = ?w" "\<forall>k. stat_at a' k = rolled pc ?w since until k (stat_at a k)" by auto
  from backfill_loop_whole [OF assms(2,4,6) a'(2) assms(3), of pc 0 0] obtain n' a'' where
    a'': "backfill_loop pc chunkDays' until since 0 0 a' = Some (Inr (n', groups_in ?w since until), a'')"
    "\<forall>k. stat_at a'' k = rolled pc ?w since until k (stat_at a' k)" by auto
  have "stat_at a'' k = stat_at a' k" for k
    unfolding a''(2) [rule_format, of k] a'(3) [rule_format, of k] by (rule rolled_again)
  moreover have "fst (rollupWindow pc since until a) = Inr (groups_in ?w since until)"
    using rollupWindow_table(1) [OF assms(6,3,4), of pc] assms(5) by simp
  moreover have "stat_at a' k = stat_at (snd (rollupWindow pc since until a)) k" for k
    unfolding a'(3) [rule_format, of k] rollupWindow_table(3) [OF assms(6,3,4)] ..
  ultimately show ?thesis using a'(1) a''(1) by blast
qed

definition sample_check :: "check_status \<Rightarrow> int \<Rightarrow> time \<Rightarrow> check_result" where
  "sample_check st ms t =
     \<lparr>cr_organizationId = ''o1'', cr_monitorId = ''m1'', cr_region = NA_EAST, cr_status = st, cr_statusCode = None,
      cr_responseMs = Some ms, cr_errorType = None, cr_errorMessage = None, cr_checkedAt = t\<rparr>"

definition sample_checked :: api where
  "sample_checked = on_engine (\<lambda>w. w\<lparr>check_results :=
     [sample_check C_UP 10 5, sample_check C_DOWN 30 9, sample_check C_UP 20 (DAY + 1), sample_check C_UP 20 (2 * DAY)]\<rparr>) sample_api"

definition greatest :: percentile where
  "greatest _ xs = last xs"

lemma backfill_terminates_witness:
  "\<exists>n a'. backfill_loop greatest 1 (3 * DAY) 0 0 0 sample_checked = Some (Inr (n, 3), a')
     \<and> map_option ds_downtimeSec (stat_at a' (''m1'', NA_EAST, 0)) = Some 60"
proof -
  have c: "fst (rollupWindow greatest 0 (3 * DAY) sample_checked) = Inr 3"
    "map_option ds_downtimeSec (stat_at (snd (rollupWindow greatest 0 (3 * DAY) sample_checked)) (''m1'', NA_EAST, 0)) = Some 60"
    by code_simp+
  have "one_owner (engine sample_checked)"
    by (simp add: one_owner_def sample_checked_def sample_check_def)
  from backfill_terminates [of 1 7 0 "3 * DAY" sample_checked greatest, OF _ _ _ _ _ this] c DAY_pos show ?thesis
    by auto
qed

text \<open>
  C36. However status pages are edited, subscribed to, verified, unsubscribed from and given
  incidents, an incident is only ever mailed to an address whose owner has proved to read it: some
  confirmation token was issued to that address, to no other, and was presented to the
  verification endpoint since. The random source must not repeat a token.
\<close>

theorem double_opt_in:
  assumes "(page_step deps)\<^sup>*\<^sup>* \<lparr>pw_api = a, pw_issued = {}, pw_presented = {}\<rparr> w"
    and "subscribers a = []" and "status_mails a = []" and "inj (secrets a)" and "inj (db_uuid (engine a))"
    and "(job, Status_incident m) \<in> set (status_mails (pw_api w))"
  shows "\<exists>t. (t, im_to m) \<in> pw_issued w \<and> t \<in> pw_presented w \<and> (\<forall>e. (t, e) \<in> pw_issued w \<longrightarrow> e = im_to m)"
proof (rule mailed_confirmed [OF assms(1) _ assms(6)])
  show "opt_in_inv \<lparr>pw_api = a, pw_issued = {}, pw_presented = {}\<rparr>"
    using assms(2-5) by (simp add: opt_in_inv_def tokens_drawn_def rows_keyed_def fresh_ids_def)
qed

definition page_deps_sample :: page_deps where
  "page_deps_sample = \<lparr>pd_webUrl = ''https://u.io/'', pd_notifier = True, pd_iso = (\<lambda>_. ''t'')\<rparr>"

definition pages_start :: page_world where
  "pages_start = \<lparr>pw_api = sample_api\<lparr>pages := [sample_page ''acme'' ''o1'' V_PUBLIC]\<rparr>, pw_issued = {}, pw_presented = {}\<rparr>"

definition pages_subscribed :: "(js_error + subscribe_result option) \<times> api" where
  "pages_subscribed = subscribe page_deps_sample ''acme'' '' Ann@x.io'' 1 (pw_api pages_start)"

definition pages_verified :: "bool \<times> api" where
  "pages_verified = verifySubscriber ''acme'' ''s'' 2 (snd pages_subscribed)"

definition pages_opened :: "public_incident option \<times> api" where
  "pages_opened = openStatusIncident page_deps_sample ''o1'' ''acme'' ''Down'' ''We look'' None domain_actor 3 (snd pages_verified)"

lemma double_opt_in_witness:
  "\<exists>job m (w :: page_world). (job, Status_incident m) \<in> set (status_mails (pw_api w)) \<and> im_to m = ''ann@x.io''
     \<and> (\<exists>t. (t, ''ann@x.io'') \<in> pw_issued w \<and> t \<in> pw_presented w)"
proof -
  let ?d = page_deps_sample
  define w1 where "w1 = pages_start\<lparr>pw_api := snd pages_subscribed,
      pw_issued := pw_issued pages_start \<union> newly_issued (fst pages_subscribed)\<rparr>"
  define w2 where "w2 = w1\<lparr>pw_api := snd pages_verified, pw_presented := insert ''s'' (pw_presented w1)\<rparr>"
  define w3 where "w3 = w2\<lparr>pw_api := snd pages_opened\<rparr>"
  have "page_step ?d pages_start w1"
    unfolding w1_def
    by (rule pst_subscribe [of _ "''acme''" "'' Ann@x.io''" 1]) (simp add: pages_subscribed_def)
  moreover have "page_step ?d w1 w2"
    unfolding w2_def
    by (rule pst_verify [of "''acme''" _ 2 _ "fst pages_verified"]) (simp add: w1_def pages_verified_def)
  moreover have "page_step ?d w2 w3"
    unfolding w3_def
    by (rule pst_open [of _ "''o1''" "''acme''" "''Down''" "''We look''" None domain_actor 3 _ "fst pages_opened"])
      (simp add: w2_def pages_opened_def)
  ultimately have s: "(page_step ?d)\<^sup>*\<^sup>*
      \<lparr>pw_api = pw_api pages_start, pw_issued = {}, pw_presented = {}\<rparr> w3"
    by (simp add: pages_start_def)
  have i: "subscribers (pw_api pages_start) = []" "status_mails (pw_api pages_start) = []"
      "inj (secrets (pw_api pages_start))" "inj (db_uuid (engine (pw_api pages_start)))"
    using inj_sample_ids
    by (simp_all add: pages_start_def sample_api_def empty_api_def sample_db_def empty_db_def inj_def sample_secrets_def)
  have "list_ex (\<lambda>jx. case snd jx of Status_incident m \<Rightarrow> im_to m = ''ann@x.io'' | _ \<Rightarrow> False)
      (status_mails (snd pages_opened))" by code_simp
  then obtain jx where jx: "jx \<in> set (status_mails (snd pages_opened))"
    "case snd jx of Status_incident m \<Rightarrow> im_to m = ''ann@x.io'' | _ \<Rightarrow> False" unfolding list_ex_iff by (rule bexE)
  then obtain m where "snd jx = Status_incident m" and e: "im_to m = ''ann@x.io''" by (cases "snd jx") simp_all
  then have m: "(fst jx, Status_incident m) \<in> set (status_mails (pw_api w3))"
    using jx(1) by (cases jx) (simp add: w3_def)
  from double_opt_in [OF s i m] obtain t where t: "(t, ''ann@x.io'') \<in> pw_issued w3" "t \<in> pw_presented w3"
    unfolding e by (elim exE conjE)
  show ?thesis by (rule exI [of _ "fst jx"], rule exI [of _ m], rule exI [of _ w3]) (intro conjI m e exI [of _ t] t)
qed

text \<open>
  C37. A member who may edit a status page can put a component on it that names any monitor of the
  installation, also one of another organization: the operation is accepted, and the page then
  shows that monitor's health. Nothing compares the monitor's organization with the page's.
\<close>

theorem foreign_monitor_published:
  assumes "pageInOrg org pid a" and "m \<in> set (monitors (engine a))" and "distinct (map m_id (monitors (engine a)))"
    and "m_organizationId m \<noteq> org" and "HEALTH_TO_STATUS (m_health m) = Some st"
    and "ci_monitorId input = Some (Some (m_id m))"
  shows "\<exists>c a'. createComponent org pid name input actor now a = (Inr (Some c), a')
    \<and> c \<in> set (components_of pid a') \<and> componentStatus a' c = st"
proof -
  from component_accepted [OF assms(1,2,6)] obtain c a' where
    c: "createComponent org pid name input actor now a = (Inr (Some c), a')" by blast
  note made = component_created [OF c]
  have "componentStatus a' c = st"
    using component_shows_monitor [of a' m c st] made assms(2,3,5,6) by (simp add: default_to_def)
  with c made(1) show ?thesis by blast
qed

definition monitor_component :: "id \<Rightarrow> component_input" where
  "monitor_component i =
     \<lparr>ci_monitorId = Some (Some i), ci_name = None, ci_description = None, ci_groupName = None, ci_status = None,
      ci_showUptime = None, ci_position = None\<rparr>"

definition foreign_page :: api where
  "foreign_page = sample_api\<lparr>pages := [sample_page ''spy'' ''o2'' V_PUBLIC],
     engine := sample_db\<lparr>monitors := [sample_monitor\<lparr>m_health := H_DOWN\<rparr>]\<rparr>\<rparr>"

lemma foreign_monitor_published_witness:
  "\<exists>c a'. createComponent ''o2'' ''spy'' ''x'' (monitor_component ''m1'') domain_actor 5 foreign_page = (Inr (Some c), a')
     \<and> c \<in> set (components_of ''spy'' a') \<and> componentStatus a' c = MAJOR_OUTAGE"
proof (rule foreign_monitor_published)
  show "pageInOrg ''o2'' ''spy'' foreign_page" by code_simp
  show "sample_monitor\<lparr>m_health := H_DOWN\<rparr> \<in> set (monitors (engine foreign_page))" by (simp add: foreign_page_def)
qed (simp_all add: foreign_page_def sample_monitor_def monitor_component_def)

text \<open>
  C38. Payment events are applied exactly once: after an event has been applied, delivering it
  again at any later time, whatever other events and actions came between, leaves the whole state
  as it is and is acknowledged; and no event stands twice in the log.
\<close>

theorem webhook_applies_once:
  assumes "handleEvent e now a = (Inr Applied, a1)" and "billing_step\<^sup>*\<^sup>* a1 a2"
    and "distinct (map ev_stripeEventId (invoice_events a))"
  shows "snd (handleEvent e now' a2) = a2 \<and> fst (handleEvent e now' a2) \<in> {Inr Duplicate, Inr Ignored}
    \<and> (\<exists>r \<in> set (invoice_events a2). ev_stripeEventId r = st_id e)
    \<and> distinct (map ev_stripeEventId (invoice_events a2))"
proof -
  note ap = handleEvent_applied [OF assms(1)]
  have "distinct (map ev_stripeEventId (invoice_events a1))"
    using ap(1,3) assms(3) by (fastforce simp: event_seen_def list_ex_iff insert_row_def)
  moreover have "\<exists>r \<in> set (invoice_events a1). ev_stripeEventId r = st_id e"
    using ap(3) by (auto simp: insert_row_def)
  ultimately show ?thesis
    using billing_steps_log [OF assms(2)] applied_for_good [OF assms(1,2), of now'] by auto
qed

definition billing_start :: api where
  "billing_start = sample_api"

definition cancel_event :: "string \<Rightarrow> stripe_event" where
  "cancel_event i =
     \<lparr>st_id = i, st_type = ''customer.subscription.deleted'', st_object = [(''customer'', JStr ''cus_1'')]\<rparr>"

definition renewal_event :: stripe_event where
  "renewal_event =
     \<lparr>st_id = ''evt_2'', st_type = ''customer.subscription.updated'',
      st_object = [(''customer'', JStr ''cus_1''), (''id'', JStr ''sub_9''), (''status'', JStr ''active''),
        (''items'', JObj [(''data'', JArr [JObj [(''price'', JObj [(''id'', JStr ''price_1'')]), (''quantity'', jint 3)]])])]\<rparr>"

definition after_cancel :: api where
  "after_cancel = snd (handleEvent (cancel_event ''evt_1'') 5 billing_start)"

definition after_renewal :: api where
  "after_renewal = snd (handleEvent renewal_event 6 after_cancel)"

lemma webhook_applies_once_witness:
  "snd (handleEvent (cancel_event ''evt_1'') 7 after_renewal) = after_renewal
   \<and> map sub_plan (subscriptions after_cancel) = [FREE] \<and> map sub_plan (subscriptions after_renewal) = [STARTER]"
proof -
  have "fst (handleEvent (cancel_event ''evt_1'') 5 billing_start) = Inr Applied" by code_simp
  then have ap: "handleEvent (cancel_event ''evt_1'') 5 billing_start = (Inr Applied, after_cancel)"
    by (simp add: after_cancel_def prod_eq_iff)
  have "billing_step\<^sup>*\<^sup>* after_cancel after_renewal"
    unfolding after_renewal_def by (rule r_into_rtranclp, rule bs_event)
  note st = webhook_applies_once [OF ap this]
  have "distinct (map ev_stripeEventId (invoice_events billing_start))" by code_simp
  from st [OF this, of 7] have "snd (handleEvent (cancel_event ''evt_1'') 7 after_renewal) = after_renewal" by (elim conjE)
  moreover have "map sub_plan (subscriptions after_cancel) = [FREE]" "map sub_plan (subscriptions after_renewal) = [STARTER]"
    by code_simp+
  ultimately show ?thesis by (intro conjI)
qed



text \<open>
  C40. Any unique violation inside the transaction counts as a replay, not only that of the event
  log: a checkout event for a customer id another organization holds is answered as a duplicate
  although it was never seen, and neither the event nor its effect is kept.
\<close>

theorem conflicting_event_lost:
  assumes "st_type e = ''checkout.session.completed''" and "metaOrg (st_object e) = Some org"
    and "str (map_of (st_object e) ''customer'') = Some c" and "organization_exists org a"
    and "s \<in> set (subscriptions a)" and "sub_organizationId s \<noteq> org" and "sub_stripeCustomerId s = Some c"
  shows "handleEvent e now a = (Inr Duplicate, a)"
  using assms by (rule conflict_swallowed)

definition foreign_checkout :: stripe_event where
  "foreign_checkout =
     \<lparr>st_id = ''evt_9'', st_type = ''checkout.session.completed'',
      st_object = [(''customer'', JStr ''cus_1''), (''metadata'', JObj [(''organizationId'', JStr ''o2'')])]\<rparr>"

lemma conflicting_event_lost_witness:
  "invoice_events billing_start = [] \<and> fst (handleEvent foreign_checkout 5 billing_start) = Inr Duplicate"
proof
  show "invoice_events billing_start = []" by code_simp
  have "handleEvent foreign_checkout 5 billing_start = (Inr Duplicate, billing_start)"
  proof (rule conflicting_event_lost)
    show "organization_exists ''o2'' billing_start" by code_simp
    show "sample_subscription \<in> set (subscriptions billing_start)" by (simp add: billing_start_def sample_api_def)
    show "metaOrg (st_object foreign_checkout) = Some ''o2''" by code_simp
    show "str (map_of (st_object foreign_checkout) ''customer'') = Some ''cus_1''" by code_simp
  qed (simp_all add: foreign_checkout_def sample_subscription_def)
  then show "fst (handleEvent foreign_checkout 5 billing_start) = Inr Duplicate" by simp
qed

end
